(* ===== verification/Helios_Prelude.thy ===== *)
theory Helios_Prelude
  imports Main "HOL-Library.Word" "HOL-Library.Monad_Syntax"
begin

text \<open>
  Shared vocabulary of the development: the machine integers and byte strings of the Rust
  code, the result of a fallible function (a value, an error, or a panic), the result of a
  fallible method that mutates its receiver, and the generic lemmas about them.
\<close>

type_synonym u8 = "8 word"
type_synonym u16 = "16 word"
type_synonym u32 = "32 word"
type_synonym u64 = "64 word"
type_synonym u256 = "256 word"
type_synonym bytes = "u8 list"

named_theorems outcome_simps
  \<open>rewrite rules for the equations between results of fallible functions\<close>
named_theorems invariants
  \<open>an operation keeps an invariant of its component\<close>

subsection \<open>Results: a value, an error, a panic\<close>

text \<open>
  Rust's \<open>Result<T, E>\<close> is \<open>Ok\<close> or \<open>Err\<close>. A panic (\<open>unwrap\<close> of a missing value, an index out
  of range, a negative \<open>Duration\<close>) unwinds past every \<open>is_ok\<close> test, so it is a third value.
\<close>

datatype ('e, 'a) outcome = Ok 'a | Err 'e | Panic

fun and_then :: "('e, 'a) outcome \<Rightarrow> ('a \<Rightarrow> ('e, 'b) outcome) \<Rightarrow> ('e, 'b) outcome" where
  "and_then (Ok x) f = f x"
| "and_then (Err e) f = Err e"
| "and_then Panic f = Panic"

fun map_err :: "('e \<Rightarrow> 'f) \<Rightarrow> ('e, 'a) outcome \<Rightarrow> ('f, 'a) outcome" where
  "map_err g (Ok x) = Ok x"
| "map_err g (Err e) = Err (g e)"
| "map_err g Panic = Panic"

fun unwrap :: "'a option \<Rightarrow> ('e, 'a) outcome" where
  "unwrap None = Panic"
| "unwrap (Some x) = Ok x"

definition map_ok :: "('a \<Rightarrow> 'b) \<Rightarrow> ('e, 'a) outcome \<Rightarrow> ('e, 'b) outcome" where
  "map_ok f m = and_then m (\<lambda>x. Ok (f x))"

text \<open>\<open>unwrap\<close> and \<open>expect\<close> of a \<open>Result\<close>: an error is a panic.\<close>

fun unwrap_ok :: "('e, 'a) outcome \<Rightarrow> ('f, 'a) outcome" where
  "unwrap_ok (Ok x) = Ok x"
| "unwrap_ok (Err e) = Panic"
| "unwrap_ok Panic = Panic"

fun ok_or :: "'e \<Rightarrow> 'a option \<Rightarrow> ('e, 'a) outcome" where
  "ok_or e None = Err e"
| "ok_or e (Some x) = Ok x"

fun is_ok :: "('e, 'a) outcome \<Rightarrow> bool" where
  "is_ok (Ok x) = True"
| "is_ok (Err e) = False"
| "is_ok Panic = False"

fun is_panic :: "('e, 'a) outcome \<Rightarrow> bool" where
  "is_panic Panic = True"
| "is_panic _ = False"

text \<open>Reading \<open>xs[i]\<close>: out of range is a panic.\<close>

definition index :: "'a list \<Rightarrow> nat \<Rightarrow> ('e, 'a) outcome" where
  "index xs i = (if i < length xs then Ok (xs ! i) else Panic)"

text \<open>\<open>iter().map(f).collect::<Result<Vec<_>, _>>()\<close>: stops at the first failure.\<close>

fun traverse :: "('a \<Rightarrow> ('e, 'b) outcome) \<Rightarrow> 'a list \<Rightarrow> ('e, 'b list) outcome" where
  "traverse f [] = Ok []"
| "traverse f (x # xs) = and_then (f x) (\<lambda>y. and_then (traverse f xs) (\<lambda>ys. Ok (y # ys)))"

lemma and_then_Ok_iff [outcome_simps]:
  "and_then m f = Ok y \<longleftrightarrow> (\<exists>x. m = Ok x \<and> f x = Ok y)"
  by (cases m) auto

lemma and_then_Err_iff [outcome_simps]:
  "and_then m f = Err e \<longleftrightarrow> m = Err e \<or> (\<exists>x. m = Ok x \<and> f x = Err e)"
  by (cases m) auto

lemma and_then_Panic_iff [outcome_simps]:
  "and_then m f = Panic \<longleftrightarrow> m = Panic \<or> (\<exists>x. m = Ok x \<and> f x = Panic)"
  by (cases m) auto

lemma and_then_Ok_right [simp]: "and_then m Ok = m"
  by (cases m) auto

lemma and_then_assoc [simp]:
  "and_then (and_then m f) g = and_then m (\<lambda>x. and_then (f x) g)"
  by (cases m) auto

lemma map_err_iffs [outcome_simps]:
  "map_err g m = Ok x \<longleftrightarrow> m = Ok x"
  "map_err g m = Err f \<longleftrightarrow> (\<exists>e. m = Err e \<and> f = g e)"
  "map_err g m = Panic \<longleftrightarrow> m = Panic"
  by (cases m; auto)+

lemma unwrap_iffs [outcome_simps]:
  "unwrap m = Ok x \<longleftrightarrow> m = Some x" "unwrap m = Err e \<longleftrightarrow> False" "unwrap m = Panic \<longleftrightarrow> m = None"
  by (cases m; auto)+

lemma unwrap_ok_iffs [outcome_simps]:
  "unwrap_ok m = Ok x \<longleftrightarrow> m = Ok x" "unwrap_ok m = Err f \<longleftrightarrow> False"
  "unwrap_ok m = Panic \<longleftrightarrow> \<not> is_ok m"
  by (cases m; auto)+

lemma ok_or_iffs [outcome_simps]:
  "ok_or e m = Ok x \<longleftrightarrow> m = Some x" "ok_or e m = Err f \<longleftrightarrow> m = None \<and> f = e"
  "ok_or e m = Panic \<longleftrightarrow> False"
  by (cases m; auto)+

lemma index_iffs [outcome_simps]:
  "index xs i = Ok x \<longleftrightarrow> i < length xs \<and> x = xs ! i"
  "index xs i = Err e \<longleftrightarrow> False"
  "index xs i = Panic \<longleftrightarrow> length xs \<le> i"
  by (auto simp: index_def)

lemma index_in_range [simp]: "i < length xs \<Longrightarrow> index xs i = Ok (xs ! i)"
  by (simp add: index_def)

lemma is_ok_iff: "is_ok m \<longleftrightarrow> (\<exists>x. m = Ok x)"
  by (cases m) auto

lemma traverse_Ok_iff:
  "traverse f xs = Ok ys \<longleftrightarrow> list_all2 (\<lambda>x y. f x = Ok y) xs ys"
proof (induction xs arbitrary: ys)
  case Nil
  then show ?case by auto
next
  case (Cons x xs)
  then show ?case by (cases ys) (auto simp: outcome_simps)
qed

lemma traverse_not_Panic:
  "(\<And>x. x \<in> set xs \<Longrightarrow> f x \<noteq> Panic) \<Longrightarrow> traverse f xs \<noteq> Panic"
  by (induction xs) (auto simp: outcome_simps)

subsection \<open>Methods that mutate their receiver\<close>

text \<open>
  A method \<open>&mut self -> Result<T>\<close> returns its result and leaves the receiver as it was at the
  point where it returned; \<open>then_op\<close> is the sequencing of two such calls with \<open>?\<close>.
\<close>

type_synonym ('s, 'e, 'a) ret = "('e, 'a) outcome \<times> 's"

fun then_op :: "('s, 'e, 'a) ret \<Rightarrow> ('a \<Rightarrow> 's \<Rightarrow> ('s, 'e, 'b) ret) \<Rightarrow> ('s, 'e, 'b) ret" where
  "then_op (Ok x, s) f = f x s"
| "then_op (Err e, s) f = (Err e, s)"
| "then_op (Panic, s) f = (Panic, s)"

lemma then_op_Ok_iff [outcome_simps]:
  "then_op m f = (Ok y, t) \<longleftrightarrow> (\<exists>x s. m = (Ok x, s) \<and> f x s = (Ok y, t))"
  by (cases "(m, f)" rule: then_op.cases) auto

lemma then_op_Err_iff [outcome_simps]:
  "then_op m f = (Err e, t) \<longleftrightarrow> m = (Err e, t) \<or> (\<exists>x s. m = (Ok x, s) \<and> f x s = (Err e, t))"
  by (cases "(m, f)" rule: then_op.cases) auto

lemma then_op_invariant:
  assumes "P (snd m)" "\<And>x s. m = (Ok x, s) \<Longrightarrow> P s \<Longrightarrow> P (snd (f x s))"
  shows "P (snd (then_op m f))"
  using assms by (cases "(m, f)" rule: then_op.cases) auto

lemma then_op_not_Panic:
  assumes "fst m \<noteq> Panic" "\<And>x s. m = (Ok x, s) \<Longrightarrow> fst (f x s) \<noteq> Panic"
  shows "fst (then_op m f) \<noteq> Panic"
  using assms by (cases "(m, f)" rule: then_op.cases) auto

subsection \<open>Unsigned words as naturals\<close>

text \<open>
  Integer arithmetic is that of the release profile of the crate: it wraps. These rules carry
  comparisons and divisions of \<open>u64\<close> values over to the naturals they stand for.
\<close>

lemmas word_as_nat = word_le_nat_alt word_less_nat_alt

lemma unat_div_numeral [simp]:
  "unat (x div numeral k :: u64) = unat x div unat (numeral k :: u64)"
  by (rule unat_div)

lemma unat_u64_bound: "unat (x :: u64) < 18446744073709551616"
  using unsigned_less [of x] by simp

lemma unat_u64_of_nat: "n < 18446744073709551616 \<Longrightarrow> unat (of_nat n :: u64) = n"
  by (simp add: unat_of_nat take_bit_nat_eq_self)

lemma unat_add_u64:
  "unat x + unat y < 18446744073709551616 \<Longrightarrow> unat (x + y :: u64) = unat x + unat y"
  by (simp add: unat_word_ariths)

lemma unat_mult_u64:
  "unat x * unat y < 18446744073709551616 \<Longrightarrow> unat (x * y :: u64) = unat x * unat y"
  by (simp add: unat_word_ariths)

lemma unat_sub_u64: "y \<le> x \<Longrightarrow> unat (x - y :: u64) = unat x - unat y"
  by (rule unat_sub)

lemma unat_sub_wrap_u64:
  assumes "x < y"
  shows "unat (x - y :: u64) = 18446744073709551616 + unat x - unat y"
proof -
  have lt: "uint x < uint y" using assms by (simp add: word_less_def)
  have y: "uint y < 18446744073709551616" using uint_bounded [of y] by simp
  have "uint (x - y) = (uint x - uint y) mod 18446744073709551616"
    by (simp add: uint_word_ariths)
  also have "\<dots> = (uint x - uint y + 18446744073709551616) mod 18446744073709551616"
    by (rule mod_add_self2 [symmetric])
  also have "\<dots> = uint x - uint y + 18446744073709551616"
    using lt y uint_ge_0 [of x] by (intro mod_pos_pos_trivial) linarith+
  finally have "int (unat (x - y)) = int (unat x) - int (unat y) + 18446744073709551616" by simp
  then show ?thesis by linarith
qed

end
