(* ===== verification/BTree_Map.thy ===== *)
theory BTree_Map
  imports Helios_Prelude
begin

text \<open>
  The standard library's \<open>BTreeMap\<close>, which the node uses for its payload caches: an
  association list kept sorted by key. The locale \<open>ordered_map\<close> is the contract the callers
  rely on; it is interpreted on the sorted list at the end.
\<close>

type_synonym ('k, 'v) btree = "('k \<times> 'v) list"

definition bt_new :: "('k, 'v) btree" where
  "bt_new = []"

fun bt_insert :: "'k::linorder \<Rightarrow> 'v \<Rightarrow> ('k, 'v) btree \<Rightarrow> ('k, 'v) btree" where
  "bt_insert k v [] = [(k, v)]"
| "bt_insert k v ((k', v') # m) =
     (if k < k' then (k, v) # (k', v') # m
      else if k = k' then (k, v) # m
      else (k', v') # bt_insert k v m)"

definition bt_get :: "('k, 'v) btree \<Rightarrow> 'k \<Rightarrow> 'v option" where
  "bt_get m k = map_of m k"

definition bt_len :: "('k, 'v) btree \<Rightarrow> nat" where
  "bt_len m = length m"

definition bt_first_key_value :: "('k, 'v) btree \<Rightarrow> ('k \<times> 'v) option" where
  "bt_first_key_value m = (case m of [] \<Rightarrow> None | e # _ \<Rightarrow> Some e)"

definition bt_last_key_value :: "('k, 'v) btree \<Rightarrow> ('k \<times> 'v) option" where
  "bt_last_key_value m = (if m = [] then None else Some (last m))"

text \<open>\<open>pop_first\<close> also returns the entry it removes; the code drops it.\<close>

definition bt_pop_first :: "('k, 'v) btree \<Rightarrow> ('k, 'v) btree" where
  "bt_pop_first m = tl m"

definition bt_inv :: "('k::linorder, 'v) btree \<Rightarrow> bool" where
  "bt_inv m \<longleftrightarrow> sorted_wrt (<) (map fst m)"

subsection \<open>The contract of an ordered map\<close>

locale ordered_map =
  fixes new :: "'m"
    and insert :: "'k::linorder \<Rightarrow> 'v \<Rightarrow> 'm \<Rightarrow> 'm"
    and get :: "'m \<Rightarrow> 'k \<Rightarrow> 'v option"
    and len :: "'m \<Rightarrow> nat"
    and first_key_value :: "'m \<Rightarrow> ('k \<times> 'v) option"
    and last_key_value :: "'m \<Rightarrow> ('k \<times> 'v) option"
    and pop_first :: "'m \<Rightarrow> 'm"
    and inv :: "'m \<Rightarrow> bool"
  assumes inv_new: "inv new"
    and get_new: "get new k = None"
    and inv_insert: "inv m \<Longrightarrow> inv (insert k v m)"
    and get_insert: "inv m \<Longrightarrow> get (insert k v m) k' = (if k' = k then Some v else get m k')"
    and inv_pop_first: "inv m \<Longrightarrow> inv (pop_first m)"
    and get_pop_first: "inv m \<Longrightarrow> first_key_value m = Some (k, v) \<Longrightarrow>
          get (pop_first m) k' = (if k' = k then None else get m k')"
    and finite_keys: "finite (dom (get m))"
    and len_card: "inv m \<Longrightarrow> len m = card (dom (get m))"
    and first_None: "inv m \<Longrightarrow> first_key_value m = None \<longleftrightarrow> dom (get m) = {}"
    and last_None: "inv m \<Longrightarrow> last_key_value m = None \<longleftrightarrow> dom (get m) = {}"
    and first_Some: "inv m \<Longrightarrow> first_key_value m = Some (k, v) \<Longrightarrow>
          get m k = Some v \<and> (\<forall>k' \<in> dom (get m). k \<le> k')"
    and last_Some: "inv m \<Longrightarrow> last_key_value m = Some (k, v) \<Longrightarrow>
          get m k = Some v \<and> (\<forall>k' \<in> dom (get m). k' \<le> k)"
begin

lemma last_eqI:
  assumes "inv m" "get m k = Some v" "\<And>k'. k' \<in> dom (get m) \<Longrightarrow> k' \<le> k"
  shows "last_key_value m = Some (k, v)"
proof (cases "last_key_value m")
  case None
  with assms(1,2) last_None [of m] show ?thesis by auto
next
  case (Some e)
  obtain k2 v2 where e: "e = (k2, v2)" by (cases e)
  with Some assms(1) have "get m k2 = Some v2" "\<forall>k' \<in> dom (get m). k' \<le> k2"
    using last_Some [of m k2 v2] by auto
  with assms have "k2 = k" by (metis domI order_antisym)
  with \<open>get m k2 = Some v2\<close> assms(2) Some e show ?thesis by simp
qed

lemma last_insert_max:
  assumes "inv m" "\<And>k'. k' \<in> dom (get m) \<Longrightarrow> k' \<le> k"
  shows "last_key_value (insert k v m) = Some (k, v)"
proof (intro last_eqI inv_insert assms(1))
  fix k' assume "k' \<in> dom (get (insert k v m))"
  then have "k' = k \<or> k' \<in> dom (get m)"
    using assms(1) by (auto simp: get_insert split: if_splits)
  with assms(2) show "k' \<le> k" by blast
qed (use assms(1) in \<open>simp add: get_insert\<close>)

lemma insert_keeps_last_bound:
  assumes "inv m" "k0 \<in> dom (get m)"
  shows "k0 \<in> dom (get (insert k v m))"
  using assms by (auto simp: get_insert)

lemma pop_first_keeps_last:
  assumes inv: "inv m" and len: "1 < len m"
  shows "last_key_value (pop_first m) = last_key_value m"
proof -
  from len inv have ne: "dom (get m) \<noteq> {}" by (auto simp: len_card)
  then obtain k1 v1 where first: "first_key_value m = Some (k1, v1)"
    using first_None [OF inv] by (cases "first_key_value m") auto
  from ne obtain k2 v2 where last: "last_key_value m = Some (k2, v2)"
    using last_None [OF inv] by (cases "last_key_value m") auto
  note f = first_Some [OF inv first] and l = last_Some [OF inv last]
  have "k1 \<noteq> k2"
  proof
    assume "k1 = k2"
    with f l have "dom (get m) = {k1}" by (auto intro: order_antisym)
    with len inv show False by (simp add: len_card)
  qed
  then have "last_key_value (pop_first m) = Some (k2, v2)"
    using l by (intro last_eqI inv_pop_first inv)
      (auto simp: get_pop_first [OF inv first] split: if_splits)
  with last show ?thesis by simp
qed

lemma len_pop_first:
  assumes "inv m" "0 < len m"
  shows "len (pop_first m) = len m - 1"
proof -
  from assms have "dom (get m) \<noteq> {}" by (auto simp: len_card)
  then obtain k v where first: "first_key_value m = Some (k, v)"
    using first_None [OF assms(1)] by (cases "first_key_value m") auto
  then have "dom (get (pop_first m)) = dom (get m) - {k}" "k \<in> dom (get m)"
    using first_Some [OF assms(1) first]
    by (auto simp: get_pop_first [OF assms(1) first] split: if_splits)
  with assms show ?thesis by (simp add: len_card inv_pop_first finite_keys)
qed

end

subsection \<open>The sorted list satisfies it\<close>

lemma bt_inv_Cons: "bt_inv ((k, v) # m) \<longleftrightarrow> (\<forall>k' \<in> fst ` set m. k < k') \<and> bt_inv m"
  by (auto simp: bt_inv_def)

lemma fst_set_bt_insert: "fst ` set (bt_insert k v m) = insert k (fst ` set m)"
  by (induction k v m rule: bt_insert.induct) auto

lemma bt_inv_insert [invariants]: "bt_inv m \<Longrightarrow> bt_inv (bt_insert k v m)"
proof (induction k v m rule: bt_insert.induct)
  case (2 k v k' v' m)
  then show ?case
    by (cases k k' rule: linorder_cases) (fastforce simp: bt_inv_Cons fst_set_bt_insert)+
qed (simp add: bt_inv_def)

lemma bt_get_insert:
  "bt_inv m \<Longrightarrow> bt_get (bt_insert k v m) k' = (if k' = k then Some v else bt_get m k')"
  by (induction k v m rule: bt_insert.induct) (auto simp: bt_get_def bt_inv_Cons)

lemma bt_distinct_keys: "bt_inv m \<Longrightarrow> distinct (map fst m)"
  by (simp add: bt_inv_def strict_sorted_iff)

lemma bt_keys: "dom (bt_get m) = fst ` set m"
  by (simp add: bt_get_def [abs_def] dom_map_of_conv_image_fst)

lemma bt_last_is_max:
  assumes "bt_inv m" "m \<noteq> []" "k \<in> fst ` set m"
  shows "k \<le> fst (last m)"
  using assms by (induction m) (auto simp: bt_inv_def dest: last_in_set less_imp_le)

interpretation bt: ordered_map bt_new bt_insert bt_get bt_len bt_first_key_value
  bt_last_key_value bt_pop_first bt_inv
proof (unfold_locales, goal_cases)
  case (3 m k v)
  then show ?case by (rule bt_inv_insert)
next
  case (4 m k v k')
  then show ?case by (rule bt_get_insert)
next
  case (5 m)
  then show ?case by (cases m) (auto simp: bt_pop_first_def bt_inv_def)
next
  case (6 m k v k')
  then show ?case
    by (cases m) (auto simp: bt_pop_first_def bt_first_key_value_def bt_inv_Cons bt_get_def
        map_of_eq_None_iff)
next
  case (8 m)
  then show ?case
    using distinct_card [of "map fst m"] bt_distinct_keys [of m] by (simp add: bt_len_def bt_keys)
next
  case (11 m k v)
  then show ?case by (cases m) (auto simp: bt_first_key_value_def bt_keys bt_get_def bt_inv_Cons)
next
  case (12 m k v)
  then have l: "m \<noteq> []" "last m = (k, v)"
    by (auto simp: bt_last_key_value_def split: if_splits)
  then have "map_of m k = Some v"
    using 12(1) bt_distinct_keys [of m] by (metis last_in_set map_of_is_SomeI)
  with l 12(1) bt_last_is_max [of m] show ?case by (auto simp: bt_keys bt_get_def)
qed (auto simp: bt_new_def bt_inv_def bt_get_def bt_first_key_value_def bt_last_key_value_def
    bt_keys finite_dom_map_of split: list.splits)

subsection \<open>Eviction: \<open>while m.len() > n { m.pop_first(); }\<close>\<close>

function bt_truncate :: "nat \<Rightarrow> ('k, 'v) btree \<Rightarrow> ('k, 'v) btree" where
  "bt_truncate n m = (if n < bt_len m then bt_truncate n (bt_pop_first m) else m)"
  by pat_completeness auto
termination
  by (relation "measure (\<lambda>(n, m). bt_len m)") (auto simp: bt_len_def bt_pop_first_def)

declare bt_truncate.simps [simp del]

lemma bt_truncate_eq: "bt_truncate n m = drop (length m - n) m"
proof (induction n m rule: bt_truncate.induct)
  case (1 n m)
  show ?case
  proof (cases "n < length m")
    case True
    with "1.IH" have "bt_truncate n (tl m) = drop (length m - 1 - n) (tl m)"
      by (simp add: bt_len_def bt_pop_first_def)
    moreover from True have "length m - n = Suc (length m - 1 - n)" by simp
    ultimately show ?thesis
      using True by (simp add: bt_truncate.simps [of n m] bt_len_def bt_pop_first_def drop_Suc)
  qed (simp add: bt_truncate.simps [of n m] bt_len_def)
qed

lemma bt_len_truncate: "bt_len (bt_truncate n m) = min n (bt_len m)"
  by (simp add: bt_truncate_eq bt_len_def)

lemma bt_inv_truncate [invariants]: "bt_inv m \<Longrightarrow> bt_inv (bt_truncate n m)"
  unfolding bt_truncate_eq bt_inv_def drop_map [symmetric] by (rule sorted_wrt_drop)

lemma bt_truncate_last:
  assumes "bt_inv m" "0 < n"
  shows "bt_last_key_value (bt_truncate n m) = bt_last_key_value m"
  using assms
proof (induction n m rule: bt_truncate.induct)
  case (1 n m)
  show ?case
  proof (cases "n < bt_len m")
    case True
    with 1 have "1 < bt_len m" by linarith
    with 1 True show ?thesis
      by (simp add: bt_truncate.simps [of n m] bt.pop_first_keeps_last bt.inv_pop_first)
  qed (simp add: bt_truncate.simps [of n m])
qed

lemma bt_truncate_get:
  "bt_get (bt_truncate n m) k = Some v \<Longrightarrow> bt_inv m \<Longrightarrow> bt_get m k = Some v"
proof -
  assume get: "bt_get (bt_truncate n m) k = Some v" and inv: "bt_inv m"
  then have "(k, v) \<in> set m"
    unfolding bt_truncate_eq bt_get_def by (metis in_set_dropD map_of_SomeD)
  with bt_distinct_keys [OF inv] show ?thesis by (simp add: bt_get_def)
qed

text \<open>Exactly the newest entries stay: those that fewer than \<open>n\<close> keys are greater than.\<close>

lemma set_drop_sorted:
  assumes "sorted_wrt (<) (ks :: 'k::linorder list)" "d \<le> length ks"
  shows "k \<in> set (drop d ks) \<longleftrightarrow> k \<in> set ks \<and> card {k' \<in> set ks. k < k'} < length ks - d"
proof (cases "k \<in> set ks")
  case True
  then obtain i where i: "i < length ks" "k = ks ! i" by (auto simp: in_set_conv_nth)
  have dist: "distinct ks" using assms(1) by (simp add: strict_sorted_iff)
  have less: "ks ! a < ks ! b \<longleftrightarrow> a < b" if "a < length ks" "b < length ks" for a b
    using assms(1) that sorted_wrt_nth_less [OF assms(1)]
    by (metis linorder_neqE_nat order.asym order.irrefl)
  have "{k' \<in> set ks. k < k'} = (!) ks ` {Suc i ..< length ks}"
    using i by (auto simp: in_set_conv_nth less Suc_le_eq)
  moreover have "inj_on ((!) ks) {Suc i ..< length ks}"
    using dist by (auto simp: inj_on_def nth_eq_iff_index_eq)
  ultimately have "card {k' \<in> set ks. k < k'} = length ks - Suc i" by (simp add: card_image)
  moreover have "k \<in> set (drop d ks) \<longleftrightarrow> d \<le> i"
  proof
    assume "k \<in> set (drop d ks)"
    then obtain j where "j < length ks - d" "ks ! (d + j) = ks ! i" using i by (auto simp: in_set_conv_nth)
    with dist i show "d \<le> i" by (auto simp: nth_eq_iff_index_eq)
  next
    assume "d \<le> i"
    with i show "k \<in> set (drop d ks)"
      by (auto simp: in_set_conv_nth intro!: exI [of _ "i - d"])
  qed
  ultimately show ?thesis using True i assms(2) by auto
qed (auto dest: in_set_dropD)

lemma bt_truncate_newest:
  assumes "bt_inv m"
  shows "k \<in> dom (bt_get (bt_truncate n m)) \<longleftrightarrow>
    k \<in> dom (bt_get m) \<and> card {k' \<in> dom (bt_get m). k < k'} < n"
proof -
  define ks where "ks = map fst m"
  have keys: "fst ` set m = set ks" "fst ` set (drop d m) = set (drop d ks)" "length m = length ks" for d
    by (simp_all add: ks_def drop_map)
  have "card {k' \<in> set ks. k < k'} < length ks" if "k \<in> set ks"
  proof -
    have "{k' \<in> set ks. k < k'} \<subset> set ks" using that by auto
    then have "card {k' \<in> set ks. k < k'} < card (set ks)" by (intro psubset_card_mono) auto
    also have "\<dots> \<le> length ks" by (rule card_length)
    finally show ?thesis .
  qed
  moreover have "sorted_wrt (<) ks" using assms by (simp add: bt_inv_def ks_def)
  note set_drop_sorted [OF this, of "length ks - n" k]
  ultimately show ?thesis
    unfolding bt_keys bt_truncate_eq keys by auto
qed

end
