(* ===== verification/Common_Types.thy ===== *)
theory Common_Types
  imports BTree_Map
begin

text \<open>
  The crate \<open>common\<close>: block tags with their two textual forms (\<open>common/src/types.rs\<close>), the
  helpers of \<open>common/src/utils.rs\<close>, and the error types of all crates, which the results of
  the client carry around as one dynamic report. Radix parsing and printing of the standard
  library is written out; the \<open>hex\<close> crate is a parameter.
\<close>

type_synonym address = bytes
type_synonym h256 = bytes

text \<open>A double is kept as its bit pattern; its arithmetic is a parameter where it is used.\<close>

type_synonym f64 = "64 word"

subsection \<open>Block tags\<close>

datatype block_tag = Latest | Finalized | Number u64

subsection \<open>Error types\<close>

datatype consensus_error =
    InsufficientParticipation
  | InvalidTimestamp
  | InvalidPeriod
  | NotRelevant
  | InvalidFinalityProof
  | InvalidNextSyncCommitteeProof
  | InvalidCurrentSyncCommitteeProof
  | InvalidSignature
  | InvalidHeaderHash string string
  | PayloadNotFound u64
  | CheckpointTooOld
  | IncorrectConsensusRpcNetwork

datatype execution_error =
    InvalidAccountProof address
  | InvalidStorageProof address h256
  | CodeHashMismatch address string string
  | ReceiptRootMismatch string
  | MissingTransaction string
  | NoReceiptForTransaction string
  | MissingLog string u256
  | TooManyLogsToProve nat nat
  | IncorrectExecutionRpcNetwork
  | InvalidBaseGaseFee u256 u256 u64
  | InvalidGasUsedRatio f64 f64 u64
  | BlockNotFound u64
  | EmptyExecutionPayload
  | InvalidBlockRange u64 u64

text \<open>The exit reasons of the EVM crate that the code tells apart.\<close>

datatype revm_return = RevmReturn | RevmStop | RevmRevert | RevmOther nat

text \<open>
  The errors of the EVM and of the node wrap reports, and a report (\<open>eyre::Report\<close>) wraps any
  of the error types, an error of a library, or a plain message. The report is the parameter of
  the first two types, and the report type closes the recursion.
\<close>

datatype 'report evm_error =
    Revert "bytes option"
  | Generic string
  | Revm revm_return
  | EvmRpcError 'report

datatype 'report node_error =
    ExecutionEvmError "'report evm_error"
  | ExecutionNodeError 'report
  | OutOfSync u64
  | ConsensusPayloadError 'report
  | ExecutionPayloadError 'report
  | ConsensusClientCreationError 'report
  | ExecutionClientCreationError 'report
  | ConsensusAdvanceError 'report
  | ConsensusSyncError 'report
  | NodeBlockNotFoundError block_tag

datatype report =
    ConsensusReport consensus_error
  | ExecutionReport execution_error
  | EvmReport "report evm_error"
  | NodeReport "report node_error"
  | BlockNotFoundError block_tag
  | SlotNotFoundError h256
  | RpcError string string
  | MerkleizationError
  | TryFromSliceError
  | FromHexError
  | Message string

subsection \<open>Printing and parsing of \<open>u64\<close> (standard library)\<close>

definition digit_char :: "nat \<Rightarrow> char" where
  "digit_char d = (if d < 10 then char_of (48 + d) else char_of (87 + d))"

definition to_digit :: "nat \<Rightarrow> char \<Rightarrow> nat option" where
  "to_digit r c =
     (let n = of_char c :: nat;
          d = (if 48 \<le> n \<and> n \<le> 57 then n - 48
               else if 97 \<le> n \<and> n \<le> 122 then n - 87
               else if 65 \<le> n \<and> n \<le> 90 then n - 55 else r)
      in if d < r then Some d else None)"

fun show_radix :: "nat \<Rightarrow> nat \<Rightarrow> string" where
  "show_radix r n =
     (if n < r \<or> r < 2 then [digit_char n] else show_radix r (n div r) @ [digit_char (n mod r)])"

declare show_radix.simps [simp del]

fun parse_digits :: "nat \<Rightarrow> nat \<Rightarrow> string \<Rightarrow> nat option" where
  "parse_digits r acc [] = Some acc"
| "parse_digits r acc (c # cs) =
     (case to_digit r c of None \<Rightarrow> None | Some d \<Rightarrow> parse_digits r (acc * r + d) cs)"

text \<open>
  \<open>u64::from_str_radix\<close>: an optional plus sign, at least one digit, and a value that fits;
  \<open>str::parse::<u64>\<close> is the decimal case.
\<close>

definition u64_from_str_radix :: "nat \<Rightarrow> string \<Rightarrow> u64 option" where
  "u64_from_str_radix r s =
     (let digits = (if s \<noteq> [] \<and> hd s = CHR ''+'' then tl s else s)
      in if digits = [] then None
         else case parse_digits r 0 digits of
             None \<Rightarrow> None
           | Some n \<Rightarrow> if n < 18446744073709551616 then Some (of_nat n) else None)"

definition u64_to_string :: "u64 \<Rightarrow> string" where
  "u64_to_string n = show_radix 10 (unat n)"

definition strip_prefix :: "string \<Rightarrow> string \<Rightarrow> string option" where
  "strip_prefix p s = (if take (length p) s = p then Some (drop (length p) s) else None)"

subsection \<open>\<open>common/src/utils.rs\<close>\<close>

definition hex_str_to_bytes :: "(string \<Rightarrow> bytes option) \<Rightarrow> string \<Rightarrow> (report, bytes) outcome" where
  "hex_str_to_bytes hex_decode s =
     (let stripped = (case strip_prefix ''0x'' s of Some t \<Rightarrow> t | None \<Rightarrow> s)
      in ok_or FromHexError (hex_decode stripped))"

text \<open>A node of a Merkle tree is its 32 bytes; the conversion fails on any other length.\<close>

definition bytes32_to_node :: "bytes \<Rightarrow> (report, bytes) outcome" where
  "bytes32_to_node b = (if length b = 32 then Ok b else Err TryFromSliceError)"

definition address_to_hex_string :: "(bytes \<Rightarrow> string) \<Rightarrow> address \<Rightarrow> string" where
  "address_to_hex_string hex_encode a = ''0x'' @ hex_encode a"

definition u64_to_hex_string :: "u64 \<Rightarrow> string" where
  "u64_to_hex_string val = ''0x'' @ show_radix 16 (unat val)"

subsection \<open>\<open>common/src/types.rs\<close>\<close>

fun block_tag_fmt :: "block_tag \<Rightarrow> string" where
  "block_tag_fmt Latest = ''latest''"
| "block_tag_fmt Finalized = ''finalized''"
| "block_tag_fmt (Number num) = u64_to_string num"

definition block_tag_deserialize :: "string \<Rightarrow> (string, block_tag) outcome" where
  "block_tag_deserialize block =
     (let parse_error = ''could not parse block tag'' in
      if block = ''latest'' then Ok Latest
      else if block = ''finalized'' then Ok Finalized
      else case strip_prefix ''0x'' block of
          Some hex_block \<Rightarrow>
            and_then (ok_or parse_error (u64_from_str_radix 16 hex_block)) (\<lambda>num. Ok (Number num))
        | None \<Rightarrow>
            and_then (ok_or parse_error (u64_from_str_radix 10 block)) (\<lambda>num. Ok (Number num)))"

subsection \<open>Lemmas\<close>

lemma to_digit_digit_char:
  assumes "d < r" "r \<le> 16"
  shows "to_digit r (digit_char d) = Some d"
proof (cases "d < 10")
  case True
  then have "of_char (digit_char d) = 48 + d" by (simp add: digit_char_def)
  with True assms show ?thesis by (simp add: to_digit_def Let_def)
next
  case False
  with assms have "of_char (digit_char d) = 87 + d" by (simp add: digit_char_def)
  with False assms show ?thesis by (simp add: to_digit_def Let_def)
qed

lemma parse_digits_append:
  "parse_digits r acc (s @ t) = Option.bind (parse_digits r acc s) (\<lambda>a. parse_digits r a t)"
  by (induction s arbitrary: acc) (auto split: option.split)

lemma parse_show_radix:
  assumes "2 \<le> r" "r \<le> 16"
  shows "parse_digits r 0 (show_radix r n) = Some n"
  using assms
proof (induction r n rule: show_radix.induct)
  case (1 r n)
  show ?case
  proof (cases "n < r")
    case True
    with "1.prems" show ?thesis by (simp add: show_radix.simps [of r n] to_digit_digit_char)
  next
    case False
    with 1 have "parse_digits r 0 (show_radix r (n div r)) = Some (n div r)" by simp
    moreover have "to_digit r (digit_char (n mod r)) = Some (n mod r)"
      using "1.prems" by (intro to_digit_digit_char) auto
    ultimately show ?thesis
      using False "1.prems" by (simp add: show_radix.simps [of r n] parse_digits_append)
  qed
qed

lemma show_radix_not_Nil [simp]: "show_radix r n \<noteq> []"
  by (subst show_radix.simps) auto

lemma show_radix_digits:
  assumes "2 \<le> r" "r \<le> 16" "c \<in> set (show_radix r n)"
  shows "\<exists>d < r. c = digit_char d"
  using assms
proof (induction r n rule: show_radix.induct)
  case (1 r n)
  show ?case
  proof (cases "n < r")
    case True
    with "1.prems" show ?thesis by (auto simp: show_radix.simps [of r n])
  next
    case False
    with "1.prems" have "c \<in> set (show_radix r (n div r)) \<or> c = digit_char (n mod r)"
      by (auto simp: show_radix.simps [of r n])
    moreover have "n mod r < r" "\<not> (n < r \<or> r < 2)" using "1.prems" False by auto
    ultimately show ?thesis using "1.IH" "1.prems"(1,2) by blast
  qed
qed

lemma digit_char_not_special:
  assumes "d < 16"
  shows "digit_char d \<noteq> CHR ''+'' \<and> digit_char d \<noteq> CHR ''x'' \<and> digit_char d \<noteq> CHR ''l''
    \<and> digit_char d \<noteq> CHR ''i''"
proof -
  have "of_char (digit_char d) = (if d < 10 then 48 + d else 87 + d)"
    using assms by (simp add: digit_char_def)
  then have "of_char (digit_char d) \<notin> {43, 120, 108, 105 :: nat}"
    using assms by (auto split: if_splits)
  then show ?thesis by auto
qed

lemma show_radix_no_special:
  assumes "2 \<le> r" "r \<le> 16"
  shows "CHR ''+'' \<notin> set (show_radix r n)" "CHR ''x'' \<notin> set (show_radix r n)"
    "CHR ''l'' \<notin> set (show_radix r n)" "CHR ''i'' \<notin> set (show_radix r n)"
  using assms show_radix_digits [OF assms] digit_char_not_special
  by (metis order_less_le_trans)+

lemma u64_from_str_radix_show:
  assumes "2 \<le> r" "r \<le> 16"
  shows "u64_from_str_radix r (show_radix r (unat n)) = Some n"
proof -
  have "hd (show_radix r (unat n)) \<noteq> CHR ''+''"
    using show_radix_no_special(1) [OF assms] by (metis list.set_sel(1) show_radix_not_Nil)
  then show ?thesis
    using assms unat_u64_bound [of n] by (simp add: u64_from_str_radix_def parse_show_radix)
qed

lemma strip_prefix_append [simp]: "strip_prefix p (p @ s) = Some s"
  by (simp add: strip_prefix_def)

lemma strip_prefix_0x_decimal: "strip_prefix ''0x'' (u64_to_string n) = None"
proof (rule ccontr)
  assume "strip_prefix ''0x'' (u64_to_string n) \<noteq> None"
  then have "take 2 (u64_to_string n) = ''0x''" by (auto simp: strip_prefix_def numeral_2_eq_2 split: if_splits)
  then have "CHR ''x'' \<in> set (take 2 (u64_to_string n))" by simp
  then have "CHR ''x'' \<in> set (u64_to_string n)" by (rule in_set_takeD)
  then show False by (simp add: u64_to_string_def show_radix_no_special)
qed

lemma block_tag_deserialize_decimal: "block_tag_deserialize (u64_to_string n) = Ok (Number n)"
proof -
  have "u64_to_string n \<noteq> ''latest'' \<and> u64_to_string n \<noteq> ''finalized''"
    using show_radix_no_special(3,4) [of 10 "unat n"] by (auto simp: u64_to_string_def)
  moreover have "u64_from_str_radix 10 (u64_to_string n) = Some n"
    by (simp add: u64_to_string_def u64_from_str_radix_show)
  ultimately show ?thesis
    by (simp add: block_tag_deserialize_def Let_def strip_prefix_0x_decimal)
qed

lemma block_tag_deserialize_hex: "block_tag_deserialize (u64_to_hex_string n) = Ok (Number n)"
  using strip_prefix_append [of "''0x''" "show_radix 16 (unat n)"]
  by (simp add: block_tag_deserialize_def Let_def u64_to_hex_string_def u64_from_str_radix_show)

end
