(* ===== verification/Config_Model.thy ===== *)
theory Config_Model
  imports Common_Types
begin

text \<open>
  The crate \<open>config\<close> without the checkpoint services: chain and fork parameters
  (\<open>config/src/types.rs\<close>), the two built-in networks (\<open>networks.rs\<close>), the configuration record
  and its fork schedule (\<open>config.rs\<close>, \<open>base.rs\<close>), and the command line layer (\<open>cli.rs\<close> and
  \<open>cli/src/main.rs\<close>). The hex decoder and the layered configuration reader are parameters.
\<close>

subsection \<open>Data\<close>

datatype ip_addr = V4 u8 u8 u8 u8 | V6 bytes

definition LOCALHOST :: ip_addr where
  "LOCALHOST = V4 127 0 0 1"

record chain_config =
  chain_id :: u64
  genesis_time :: u64
  genesis_root :: bytes

record fork =
  fork_epoch :: u64
  fork_bytes :: bytes

record forks =
  genesis :: fork
  altair :: fork
  bellatrix :: fork
  capella :: fork

record base_config =
  bc_rpc_bind_ip :: ip_addr
  bc_rpc_port :: u16
  bc_consensus_rpc :: "string option"
  bc_default_checkpoint :: bytes
  bc_chain :: chain_config
  bc_forks :: forks
  bc_max_checkpoint_age :: u64

record config =
  consensus_rpc :: string
  execution_rpc :: string
  rpc_bind_ip :: "ip_addr option"
  rpc_port :: "u16 option"
  default_checkpoint :: bytes
  checkpoint :: "bytes option"
  data_dir :: "string option"
  chain :: chain_config
  forks :: forks
  max_checkpoint_age :: u64
  fallback :: "string option"
  load_external_fallback :: bool
  strict_checkpoint_age :: bool

definition chain_config_default :: chain_config where
  "chain_config_default = \<lparr>chain_id = 0, genesis_time = 0, genesis_root = []\<rparr>"

definition fork_default :: fork where
  "fork_default = \<lparr>fork_epoch = 0, fork_bytes = []\<rparr>"

definition forks_default :: forks where
  "forks_default = \<lparr>genesis = fork_default, altair = fork_default, bellatrix = fork_default,
     capella = fork_default\<rparr>"

definition base_config_default :: base_config where
  "base_config_default = \<lparr>bc_rpc_bind_ip = LOCALHOST, bc_rpc_port = 0, bc_consensus_rpc = None,
     bc_default_checkpoint = [], bc_chain = chain_config_default, bc_forks = forks_default,
     bc_max_checkpoint_age = 0\<rparr>"

definition config_default :: config where
  "config_default = \<lparr>consensus_rpc = [], execution_rpc = [], rpc_bind_ip = None, rpc_port = None,
     default_checkpoint = [], checkpoint = None, data_dir = None, chain = chain_config_default,
     forks = forks_default, max_checkpoint_age = 0, fallback = None,
     load_external_fallback = False, strict_checkpoint_age = False\<rparr>"

subsection \<open>Networks\<close>

datatype network = MAINNET | GOERLI

text \<open>The derived order of the enumeration: the order of its variants.\<close>

instantiation network :: linorder
begin

fun less_eq_network :: "network \<Rightarrow> network \<Rightarrow> bool" where
  "less_eq_network GOERLI MAINNET = False"
| "less_eq_network _ _ = True"

definition less_network :: "network \<Rightarrow> network \<Rightarrow> bool" where
  "less_network m n = (m \<le> n \<and> m \<noteq> n)"

instance
proof
  fix x y z :: network
  show "(x < y) = (x \<le> y \<and> \<not> y \<le> x)" by (cases x; cases y) (auto simp: less_network_def)
  show "x \<le> x" by (cases x) auto
  show "x \<le> y \<Longrightarrow> y \<le> z \<Longrightarrow> x \<le> z" by (cases x; cases y; cases z) auto
  show "x \<le> y \<Longrightarrow> y \<le> x \<Longrightarrow> x = y" by (cases x; cases y) auto
  show "x \<le> y \<or> y \<le> x" by (cases x; cases y) auto
qed

end

definition hex_const :: "(string \<Rightarrow> bytes option) \<Rightarrow> string \<Rightarrow> (report, bytes) outcome" where
  "hex_const hex_decode s =
     (case hex_str_to_bytes hex_decode s of Ok b \<Rightarrow> Ok b | _ \<Rightarrow> Panic)"

text \<open>\<open>config/src/utils.rs\<close>: how byte strings are read from and written to a configuration.\<close>

definition config_bytes_deserialize :: "(string \<Rightarrow> bytes option) \<Rightarrow> string \<Rightarrow> (report, bytes) outcome" where
  "config_bytes_deserialize hex_decode s = hex_const hex_decode s"

definition config_bytes_serialize :: "(bytes \<Rightarrow> string) \<Rightarrow> bytes \<Rightarrow> string" where
  "config_bytes_serialize hex_encode b = hex_encode b"

definition config_bytes_opt_deserialize ::
    "(string \<Rightarrow> bytes option) \<Rightarrow> string option \<Rightarrow> (report, bytes option) outcome" where
  "config_bytes_opt_deserialize hex_decode s =
     (case s of
        Some s \<Rightarrow> and_then (hex_const hex_decode s) (\<lambda>b. Ok (Some b))
      | None \<Rightarrow> Ok None)"

definition mainnet :: "(string \<Rightarrow> bytes option) \<Rightarrow> (report, base_config) outcome" where
  "mainnet hex_decode =
     and_then (hex_const hex_decode
       ''0x766647f3c4e1fc91c0db9a9374032ae038778411fbff222974e11f2e3ce7dadf'') (\<lambda>ckpt.
     and_then (hex_const hex_decode
       ''0x4b363db94e286120d76eb905340fdd4e54bfe9f06bf33ff6cf5ad27f511bfe95'') (\<lambda>root.
     and_then (hex_const hex_decode ''0x00000000'') (\<lambda>v0.
     and_then (hex_const hex_decode ''0x01000000'') (\<lambda>v1.
     and_then (hex_const hex_decode ''0x02000000'') (\<lambda>v2.
     and_then (hex_const hex_decode ''0x03000000'') (\<lambda>v3.
     Ok (base_config_default
       \<lparr>bc_default_checkpoint := ckpt,
        bc_rpc_port := 8545,
        bc_consensus_rpc := Some ''https://www.lightclientdata.org'',
        bc_chain := \<lparr>chain_id = 1, genesis_time = 1606824023, genesis_root = root\<rparr>,
        bc_forks :=
          \<lparr>genesis = \<lparr>fork_epoch = 0, fork_bytes = v0\<rparr>,
           altair = \<lparr>fork_epoch = 74240, fork_bytes = v1\<rparr>,
           bellatrix = \<lparr>fork_epoch = 144896, fork_bytes = v2\<rparr>,
           capella = \<lparr>fork_epoch = 194048, fork_bytes = v3\<rparr>\<rparr>,
        bc_max_checkpoint_age := 1209600\<rparr>)))))))"

definition goerli :: "(string \<Rightarrow> bytes option) \<Rightarrow> (report, base_config) outcome" where
  "goerli hex_decode =
     and_then (hex_const hex_decode
       ''0xd4344682866dbede543395ecf5adf9443a27f423a4b00f270458e7932686ced1'') (\<lambda>ckpt.
     and_then (hex_const hex_decode
       ''0x043db0d9a83813551ee2f33450d23797757d430911a9320530ad8a0eabc43efb'') (\<lambda>root.
     and_then (hex_const hex_decode ''0x00001020'') (\<lambda>v0.
     and_then (hex_const hex_decode ''0x01001020'') (\<lambda>v1.
     and_then (hex_const hex_decode ''0x02001020'') (\<lambda>v2.
     and_then (hex_const hex_decode ''0x03001020'') (\<lambda>v3.
     Ok (base_config_default
       \<lparr>bc_default_checkpoint := ckpt,
        bc_rpc_port := 8545,
        bc_consensus_rpc := None,
        bc_chain := \<lparr>chain_id = 5, genesis_time = 1616508000, genesis_root = root\<rparr>,
        bc_forks :=
          \<lparr>genesis = \<lparr>fork_epoch = 0, fork_bytes = v0\<rparr>,
           altair = \<lparr>fork_epoch = 36660, fork_bytes = v1\<rparr>,
           bellatrix = \<lparr>fork_epoch = 112260, fork_bytes = v2\<rparr>,
           capella = \<lparr>fork_epoch = 162304, fork_bytes = v3\<rparr>\<rparr>,
        bc_max_checkpoint_age := 1209600\<rparr>)))))))"

fun network_to_base_config ::
    "(string \<Rightarrow> bytes option) \<Rightarrow> network \<Rightarrow> (report, base_config) outcome" where
  "network_to_base_config hex_decode MAINNET = mainnet hex_decode"
| "network_to_base_config hex_decode GOERLI = goerli hex_decode"

subsection \<open>\<open>Config\<close>\<close>

definition fork_version :: "config \<Rightarrow> u64 \<Rightarrow> bytes" where
  "fork_version c slot =
     (let epoch = slot div 32 in
      if fork_epoch (capella (forks c)) \<le> epoch then fork_bytes (capella (forks c))
      else if fork_epoch (bellatrix (forks c)) \<le> epoch then fork_bytes (bellatrix (forks c))
      else if fork_epoch (altair (forks c)) \<le> epoch then fork_bytes (altair (forks c))
      else fork_bytes (genesis (forks c)))"

definition to_base_config :: "config \<Rightarrow> base_config" where
  "to_base_config c =
     \<lparr>bc_rpc_bind_ip = (case rpc_bind_ip c of Some ip \<Rightarrow> ip | None \<Rightarrow> LOCALHOST),
      bc_rpc_port = (case rpc_port c of Some p \<Rightarrow> p | None \<Rightarrow> 8545),
      bc_consensus_rpc = Some (consensus_rpc c),
      bc_default_checkpoint = default_checkpoint c,
      bc_chain = chain c,
      bc_forks = forks c,
      bc_max_checkpoint_age = max_checkpoint_age c\<rparr>"

subsection \<open>The command line layer\<close>

record cli_config =
  cc_execution_rpc :: "string option"
  cc_consensus_rpc :: "string option"
  cc_checkpoint :: "bytes option"
  cc_rpc_bind_ip :: "ip_addr option"
  cc_rpc_port :: "u16 option"
  cc_data_dir :: string
  cc_fallback :: "string option"
  cc_load_external_fallback :: bool
  cc_strict_checkpoint_age :: bool

datatype cfg_value = VString string | VNum u16 | VBool bool

text \<open>\<open>if let Some(v) = ... { user_dict.insert(key, v) }\<close>\<close>

definition insert_if_some ::
    "string \<Rightarrow> ('a \<Rightarrow> cfg_value) \<Rightarrow> 'a option \<Rightarrow> (string \<rightharpoonup> cfg_value) \<Rightarrow> (string \<rightharpoonup> cfg_value)" where
  "insert_if_some key f v d = (case v of None \<Rightarrow> d | Some x \<Rightarrow> d(key \<mapsto> f x))"

definition as_provider ::
    "(bytes \<Rightarrow> string) \<Rightarrow> (ip_addr \<Rightarrow> string) \<Rightarrow> cli_config \<Rightarrow> (string \<rightharpoonup> cfg_value)" where
  "as_provider hex_encode ip_to_string cli =
     (let d = Map.empty;
          d = insert_if_some ''execution_rpc'' VString (cc_execution_rpc cli) d;
          d = insert_if_some ''consensus_rpc'' VString (cc_consensus_rpc cli) d;
          d = insert_if_some ''checkpoint'' (\<lambda>c. VString (hex_encode c)) (cc_checkpoint cli) d;
          d = insert_if_some ''rpc_bind_ip'' (\<lambda>ip. VString (ip_to_string ip)) (cc_rpc_bind_ip cli) d;
          d = insert_if_some ''rpc_port'' VNum (cc_rpc_port cli) d;
          d = d(''data_dir'' \<mapsto> VString (cc_data_dir cli));
          d = insert_if_some ''fallback'' VString (cc_fallback cli) d;
          d = d(''load_external_fallback'' \<mapsto> VBool (cc_load_external_fallback cli));
          d = d(''strict_checkpoint_age'' \<mapsto> VBool (cc_strict_checkpoint_age cli))
      in d)"

text \<open>
  \<open>Config::from_file\<close>: the layered reader (the \<open>figment\<close> crate) is a function of the three
  providers in the order they are merged; on an error the program prints it and exits, which
  is the outcome \<open>Err\<close> here.
\<close>

definition from_file ::
    "(string \<Rightarrow> bytes option) \<Rightarrow> (bytes \<Rightarrow> string) \<Rightarrow> (ip_addr \<Rightarrow> string) \<Rightarrow>
     (base_config \<Rightarrow> string \<Rightarrow> (string \<rightharpoonup> cfg_value) \<Rightarrow> string \<Rightarrow> (report, config) outcome) \<Rightarrow>
     string \<Rightarrow> string \<Rightarrow> cli_config \<Rightarrow> (report, config) outcome" where
  "from_file hex_decode hex_encode ip_to_string extract config_path network cli =
     and_then (if network = ''mainnet'' then mainnet hex_decode
               else if network = ''goerli'' then goerli hex_decode
               else Ok base_config_default) (\<lambda>base.
     extract base config_path (as_provider hex_encode ip_to_string cli) network)"

record cli =
  cli_network :: string
  cli_rpc_bind_ip :: "ip_addr option"
  cli_rpc_port :: "u16 option"
  cli_checkpoint :: "string option"
  cli_execution_rpc :: "string option"
  cli_consensus_rpc :: "string option"
  cli_data_dir :: "string option"
  cli_fallback :: "string option"
  cli_load_external_fallback :: bool
  cli_strict_checkpoint_age :: bool

text \<open>The home directory is an argument; paths join with a slash.\<close>

definition get_data_dir :: "string option \<Rightarrow> cli \<Rightarrow> (report, string) outcome" where
  "get_data_dir home_dir c =
     (case cli_data_dir c of
        Some dir \<Rightarrow> Ok dir
      | None \<Rightarrow> and_then (unwrap home_dir) (\<lambda>home.
          Ok (home @ ''/'' @ ''.helios/data/'' @ cli_network c)))"

definition as_cli_config ::
    "(string \<Rightarrow> bytes option) \<Rightarrow> string option \<Rightarrow> cli \<Rightarrow> (report, cli_config) outcome" where
  "as_cli_config hex_decode home_dir c =
     and_then (case cli_checkpoint c of
                 None \<Rightarrow> Ok None
               | Some s \<Rightarrow> and_then (hex_const hex_decode s) (\<lambda>b. Ok (Some b))) (\<lambda>ckpt.
     and_then (get_data_dir home_dir c) (\<lambda>dir.
     Ok \<lparr>cc_execution_rpc = cli_execution_rpc c,
         cc_consensus_rpc = cli_consensus_rpc c,
         cc_checkpoint = ckpt,
         cc_rpc_bind_ip = cli_rpc_bind_ip c,
         cc_rpc_port = cli_rpc_port c,
         cc_data_dir = dir,
         cc_fallback = cli_fallback c,
         cc_load_external_fallback = cli_load_external_fallback c,
         cc_strict_checkpoint_age = cli_strict_checkpoint_age c\<rparr>))"

text \<open>\<open>main\<close>: read the command line, then the configuration file in the home directory.\<close>

definition get_config ::
    "(string \<Rightarrow> bytes option) \<Rightarrow> (bytes \<Rightarrow> string) \<Rightarrow> (ip_addr \<Rightarrow> string) \<Rightarrow>
     (base_config \<Rightarrow> string \<Rightarrow> (string \<rightharpoonup> cfg_value) \<Rightarrow> string \<Rightarrow> (report, config) outcome) \<Rightarrow>
     string option \<Rightarrow> cli \<Rightarrow> (report, config) outcome" where
  "get_config hex_decode hex_encode ip_to_string extract home_dir c =
     and_then (unwrap home_dir) (\<lambda>home.
     and_then (as_cli_config hex_decode home_dir c) (\<lambda>cc.
     from_file hex_decode hex_encode ip_to_string extract (home @ ''/'' @ ''.helios/helios.toml'')
       (cli_network c) cc))"

subsection \<open>Lemmas\<close>

text \<open>A fork schedule in order: each fork activates no earlier than the one before it.\<close>

definition forks_ordered :: "forks \<Rightarrow> bool" where
  "forks_ordered f \<longleftrightarrow> fork_epoch (genesis f) = 0
     \<and> fork_epoch (altair f) \<le> fork_epoch (bellatrix f)
     \<and> fork_epoch (bellatrix f) \<le> fork_epoch (capella f)"

text \<open>The specification of the schedule: the last fork of the list that has activated.\<close>

definition active_fork :: "forks \<Rightarrow> u64 \<Rightarrow> fork" where
  "active_fork f epoch =
     last (genesis f # filter (\<lambda>k. fork_epoch k \<le> epoch) [altair f, bellatrix f, capella f])"

lemma fork_version_active_fork: "fork_version c slot = fork_bytes (active_fork (forks c) (slot div 32))"
  by (simp add: fork_version_def active_fork_def Let_def)

lemma networks_forks_ordered:
  "network_to_base_config hex_decode n = Ok b \<Longrightarrow> forks_ordered (bc_forks b)"
  by (cases n) (auto simp: mainnet_def goerli_def forks_ordered_def outcome_simps)

lemma networks_constants:
  "network_to_base_config hex_decode n = Ok b \<Longrightarrow>
     bc_max_checkpoint_age b = 1209600 \<and> bc_rpc_port b = 8545 \<and> bc_rpc_bind_ip b = LOCALHOST
     \<and> chain_id (bc_chain b) = (case n of MAINNET \<Rightarrow> 1 | GOERLI \<Rightarrow> 5)"
  by (cases n) (auto simp: mainnet_def goerli_def base_config_default_def outcome_simps)

lemma to_base_config_keeps:
  "bc_chain (to_base_config c) = chain c" "bc_forks (to_base_config c) = forks c"
  "bc_max_checkpoint_age (to_base_config c) = max_checkpoint_age c"
  "bc_default_checkpoint (to_base_config c) = default_checkpoint c"
  by (simp_all add: to_base_config_def)

end
