(* ===== verification/Beacon_Types.thy ===== *)
theory Beacon_Types
  imports Config_Model
begin

text \<open>
  The containers of \<open>consensus/src/types.rs\<close>: beacon blocks and their bodies in the two fork
  variants, execution payloads, the light client's headers, committees and updates, and the
  deserialisers of their fields. A fixed-size SSZ vector of bytes is a byte string, a bit
  vector a list of booleans, an SSZ list a list.
\<close>

subsection \<open>Operations\<close>

record eth1_data =
  deposit_root :: bytes
  deposit_count :: u64
  eth1_block_hash :: bytes

record beacon_block_header =
  bbh_slot :: u64
  bbh_proposer_index :: u64
  bbh_parent_root :: bytes
  bbh_state_root :: bytes
  bbh_body_root :: bytes

record signed_beacon_block_header =
  sbbh_message :: beacon_block_header
  sbbh_signature :: bytes

record proposer_slashing =
  signed_header_1 :: signed_beacon_block_header
  signed_header_2 :: signed_beacon_block_header

record beacon_checkpoint =
  ckpt_epoch :: u64
  ckpt_root :: bytes

record attestation_data =
  ad_slot :: u64
  ad_index :: u64
  beacon_block_root :: bytes
  ad_source :: beacon_checkpoint
  ad_target :: beacon_checkpoint

record indexed_attestation =
  attesting_indices :: "u64 list"
  ia_data :: attestation_data
  ia_signature :: bytes

record attester_slashing =
  attestation_1 :: indexed_attestation
  attestation_2 :: indexed_attestation

record attestation =
  aggregation_bits :: "bool list"
  att_data :: attestation_data
  att_signature :: bytes

record voluntary_exit =
  ve_epoch :: u64
  ve_validator_index :: u64

record signed_voluntary_exit =
  sve_message :: voluntary_exit
  sve_signature :: bytes

record deposit_data =
  dd_pubkey :: bytes
  withdrawal_credentials :: bytes
  dd_amount :: u64
  dd_signature :: bytes

record deposit =
  dep_proof :: "bytes list"
  dep_data :: deposit_data

record bls_to_execution_change =
  bls_validator_index :: u64
  from_bls_pubkey :: bytes
  to_execution_address :: address

record signed_bls_to_execution_change =
  sbls_message :: bls_to_execution_change
  sbls_signature :: bytes

record withdrawal =
  wd_index :: u64
  wd_validator_index :: u64
  wd_address :: address
  wd_amount :: u64

subsection \<open>Execution payloads\<close>

record execution_payload_bellatrix =
  ep_parent_hash :: bytes
  ep_fee_recipient :: address
  ep_state_root :: bytes
  ep_receipts_root :: bytes
  ep_logs_bloom :: bytes
  ep_prev_randao :: bytes
  ep_block_number :: u64
  ep_gas_limit :: u64
  ep_gas_used :: u64
  ep_timestamp :: u64
  ep_extra_data :: bytes
  ep_base_fee_per_gas :: u256
  ep_block_hash :: bytes
  ep_transactions :: "bytes list"

record execution_payload_capella = execution_payload_bellatrix +
  ep_withdrawals :: "withdrawal list"

datatype execution_payload =
    PayloadBellatrix execution_payload_bellatrix
  | PayloadCapella execution_payload_capella

text \<open>The getters generated for the fields that both variants have.\<close>

fun payload_base :: "execution_payload \<Rightarrow> execution_payload_bellatrix" where
  "payload_base (PayloadBellatrix p) = p"
| "payload_base (PayloadCapella p) = execution_payload_bellatrix.truncate p"

definition parent_hash :: "execution_payload \<Rightarrow> bytes" where
  "parent_hash p = ep_parent_hash (payload_base p)"

definition fee_recipient :: "execution_payload \<Rightarrow> address" where
  "fee_recipient p = ep_fee_recipient (payload_base p)"

definition payload_state_root :: "execution_payload \<Rightarrow> bytes" where
  "payload_state_root p = ep_state_root (payload_base p)"

definition receipts_root :: "execution_payload \<Rightarrow> bytes" where
  "receipts_root p = ep_receipts_root (payload_base p)"

definition logs_bloom :: "execution_payload \<Rightarrow> bytes" where
  "logs_bloom p = ep_logs_bloom (payload_base p)"

definition prev_randao :: "execution_payload \<Rightarrow> bytes" where
  "prev_randao p = ep_prev_randao (payload_base p)"

definition block_number :: "execution_payload \<Rightarrow> u64" where
  "block_number p = ep_block_number (payload_base p)"

definition gas_limit :: "execution_payload \<Rightarrow> u64" where
  "gas_limit p = ep_gas_limit (payload_base p)"

definition gas_used :: "execution_payload \<Rightarrow> u64" where
  "gas_used p = ep_gas_used (payload_base p)"

definition timestamp :: "execution_payload \<Rightarrow> u64" where
  "timestamp p = ep_timestamp (payload_base p)"

definition extra_data :: "execution_payload \<Rightarrow> bytes" where
  "extra_data p = ep_extra_data (payload_base p)"

definition base_fee_per_gas :: "execution_payload \<Rightarrow> u256" where
  "base_fee_per_gas p = ep_base_fee_per_gas (payload_base p)"

definition block_hash :: "execution_payload \<Rightarrow> bytes" where
  "block_hash p = ep_block_hash (payload_base p)"

definition transactions :: "execution_payload \<Rightarrow> bytes list" where
  "transactions p = ep_transactions (payload_base p)"

definition payload_bellatrix_default :: execution_payload_bellatrix where
  "payload_bellatrix_default = \<lparr>ep_parent_hash = replicate 32 0, ep_fee_recipient = replicate 20 0,
     ep_state_root = replicate 32 0, ep_receipts_root = replicate 32 0,
     ep_logs_bloom = replicate 256 0, ep_prev_randao = replicate 32 0, ep_block_number = 0,
     ep_gas_limit = 0, ep_gas_used = 0, ep_timestamp = 0, ep_extra_data = [],
     ep_base_fee_per_gas = 0, ep_block_hash = replicate 32 0, ep_transactions = []\<rparr>"

definition payload_default :: execution_payload where
  "payload_default = PayloadBellatrix payload_bellatrix_default"

subsection \<open>Light client containers\<close>

record header =
  slot :: u64
  proposer_index :: u64
  parent_root :: bytes
  state_root :: bytes
  body_root :: bytes

definition header_default :: header where
  "header_default = \<lparr>slot = 0, proposer_index = 0, parent_root = replicate 32 0,
     state_root = replicate 32 0, body_root = replicate 32 0\<rparr>"

record sync_committee =
  pubkeys :: "bytes list"
  aggregate_pubkey :: bytes

definition sync_committee_default :: sync_committee where
  "sync_committee_default =
     \<lparr>pubkeys = replicate 512 (replicate 48 0), aggregate_pubkey = replicate 48 0\<rparr>"

record sync_aggregate =
  sync_committee_bits :: "bool list"
  sync_committee_signature :: bytes

record bootstrap =
  bs_header :: header
  bs_current_sync_committee :: sync_committee
  bs_current_sync_committee_branch :: "bytes list"

record update =
  up_attested_header :: header
  up_next_sync_committee :: sync_committee
  up_next_sync_committee_branch :: "bytes list"
  up_finalized_header :: header
  up_finality_branch :: "bytes list"
  up_sync_aggregate :: sync_aggregate
  up_signature_slot :: u64

record finality_update =
  fu_attested_header :: header
  fu_finalized_header :: header
  fu_finality_branch :: "bytes list"
  fu_sync_aggregate :: sync_aggregate
  fu_signature_slot :: u64

record optimistic_update =
  ou_attested_header :: header
  ou_sync_aggregate :: sync_aggregate
  ou_signature_slot :: u64

record generic_update =
  attested_header :: header
  sync_aggregate :: sync_aggregate
  signature_slot :: u64
  next_sync_committee :: "sync_committee option"
  next_sync_committee_branch :: "bytes list option"
  finalized_header :: "header option"
  finality_branch :: "bytes list option"

definition generic_from_update :: "update \<Rightarrow> generic_update" where
  "generic_from_update u = \<lparr>attested_header = up_attested_header u,
     sync_aggregate = up_sync_aggregate u,
     signature_slot = up_signature_slot u,
     next_sync_committee = Some (up_next_sync_committee u),
     next_sync_committee_branch = Some (up_next_sync_committee_branch u),
     finalized_header = Some (up_finalized_header u),
     finality_branch = Some (up_finality_branch u)\<rparr>"

definition generic_from_finality_update :: "finality_update \<Rightarrow> generic_update" where
  "generic_from_finality_update u = \<lparr>attested_header = fu_attested_header u,
     sync_aggregate = fu_sync_aggregate u,
     signature_slot = fu_signature_slot u,
     next_sync_committee = None,
     next_sync_committee_branch = None,
     finalized_header = Some (fu_finalized_header u),
     finality_branch = Some (fu_finality_branch u)\<rparr>"

definition generic_from_optimistic_update :: "optimistic_update \<Rightarrow> generic_update" where
  "generic_from_optimistic_update u = \<lparr>attested_header = ou_attested_header u,
     sync_aggregate = ou_sync_aggregate u,
     signature_slot = ou_signature_slot u,
     next_sync_committee = None,
     next_sync_committee_branch = None,
     finalized_header = None,
     finality_branch = None\<rparr>"

subsection \<open>Beacon blocks\<close>

record beacon_block_body_bellatrix =
  randao_reveal :: bytes
  body_eth1_data :: eth1_data
  graffiti :: bytes
  proposer_slashings :: "proposer_slashing list"
  attester_slashings :: "attester_slashing list"
  attestations :: "attestation list"
  deposits :: "deposit list"
  voluntary_exits :: "signed_voluntary_exit list"
  body_sync_aggregate :: sync_aggregate
  body_execution_payload :: execution_payload

record beacon_block_body_capella = beacon_block_body_bellatrix +
  bls_to_execution_changes :: "signed_bls_to_execution_change list"

datatype beacon_block_body =
    BodyBellatrix beacon_block_body_bellatrix
  | BodyCapella beacon_block_body_capella

fun execution_payload_of :: "beacon_block_body \<Rightarrow> execution_payload" where
  "execution_payload_of (BodyBellatrix b) = body_execution_payload b"
| "execution_payload_of (BodyCapella b) = body_execution_payload b"

record beacon_block =
  bb_slot :: u64
  bb_proposer_index :: u64
  bb_parent_root :: bytes
  bb_state_root :: bytes
  body :: beacon_block_body

text \<open>
  The library roots of the two variants are parameters; the enumerations delegate to them.
\<close>

fun payload_hash_tree_root ::
    "(execution_payload_bellatrix \<Rightarrow> bytes option) \<Rightarrow> (execution_payload_capella \<Rightarrow> bytes option) \<Rightarrow>
     execution_payload \<Rightarrow> bytes option" where
  "payload_hash_tree_root rb rc (PayloadBellatrix p) = rb p"
| "payload_hash_tree_root rb rc (PayloadCapella p) = rc p"

fun body_hash_tree_root ::
    "(beacon_block_body_bellatrix \<Rightarrow> bytes option) \<Rightarrow> (beacon_block_body_capella \<Rightarrow> bytes option) \<Rightarrow>
     beacon_block_body \<Rightarrow> bytes option" where
  "body_hash_tree_root rb rc (BodyBellatrix b) = rb b"
| "body_hash_tree_root rb rc (BodyCapella b) = rc b"

text \<open>
  The remaining SSZ methods of the two enums. Both are of variable size; serialisation appends to
  a buffer and returns the number of bytes, through the derived serialiser of the variant;
  deserialisation is not implemented and panics.
\<close>

definition payload_is_variable_size :: bool where
  "payload_is_variable_size = True"

definition payload_size_hint :: nat where
  "payload_size_hint = 0"

fun payload_serialize ::
    "(execution_payload_bellatrix \<Rightarrow> bytes \<Rightarrow> (bytes, report, nat) ret) \<Rightarrow>
     (execution_payload_capella \<Rightarrow> bytes \<Rightarrow> (bytes, report, nat) ret) \<Rightarrow>
     execution_payload \<Rightarrow> bytes \<Rightarrow> (bytes, report, nat) ret" where
  "payload_serialize sb sc (PayloadBellatrix p) buffer = sb p buffer"
| "payload_serialize sb sc (PayloadCapella p) buffer = sc p buffer"

definition payload_deserialize :: "bytes \<Rightarrow> (report, execution_payload) outcome" where
  "payload_deserialize encoding = Panic"

definition body_is_variable_size :: bool where
  "body_is_variable_size = True"

definition body_size_hint :: nat where
  "body_size_hint = 0"

fun body_serialize ::
    "(beacon_block_body_bellatrix \<Rightarrow> bytes \<Rightarrow> (bytes, report, nat) ret) \<Rightarrow>
     (beacon_block_body_capella \<Rightarrow> bytes \<Rightarrow> (bytes, report, nat) ret) \<Rightarrow>
     beacon_block_body \<Rightarrow> bytes \<Rightarrow> (bytes, report, nat) ret" where
  "body_serialize sb sc (BodyBellatrix b) buffer = sb b buffer"
| "body_serialize sb sc (BodyCapella b) buffer = sc b buffer"

definition body_deserialize :: "bytes \<Rightarrow> (report, beacon_block_body) outcome" where
  "body_deserialize encoding = Panic"

definition body_default :: beacon_block_body where
  "body_default = BodyBellatrix \<lparr>randao_reveal = replicate 96 0,
     body_eth1_data = \<lparr>deposit_root = replicate 32 0, deposit_count = 0, eth1_block_hash = replicate 32 0\<rparr>,
     graffiti = replicate 32 0, proposer_slashings = [], attester_slashings = [], attestations = [],
     deposits = [], voluntary_exits = [],
     body_sync_aggregate = \<lparr>sync_committee_bits = replicate 512 False, sync_committee_signature = replicate 96 0\<rparr>,
     body_execution_payload = payload_default\<rparr>"

subsection \<open>Deserialisers of the fields\<close>

text \<open>
  The argument is the string (or list of strings) of the JSON value. Hex decoding, the decimal
  parser of \<open>U256\<close> and the conversions of \<open>ssz_rs\<close> to a vector of \<open>n\<close> elements or a list of at
  most \<open>n\<close> elements are parameters (\<open>None\<close>: \<open>from_iter\<close> panics, \<open>try_into\<close> fails); the elements
  are bytes, byte strings or numbers.
\<close>

record codec =
  cd_hex_decode :: "string \<Rightarrow> bytes option"
  cd_vector_from_iter :: "nat \<Rightarrow> bytes \<Rightarrow> bytes option"
  cd_vector_try_from :: "nat \<Rightarrow> bytes \<Rightarrow> bytes option"
  cd_list_from_iter :: "nat \<Rightarrow> bytes \<Rightarrow> bytes option"
  cd_list_try_from :: "nat \<Rightarrow> bytes \<Rightarrow> bytes option"
  cd_vectors_from_iter :: "nat \<Rightarrow> bytes list \<Rightarrow> bytes list option"
  cd_lists_from_iter :: "nat \<Rightarrow> bytes list \<Rightarrow> bytes list option"
  cd_numbers_from_iter :: "nat \<Rightarrow> u64 list \<Rightarrow> u64 list option"
  cd_from_dec_str :: "string \<Rightarrow> u256 option"

definition hex_vector :: "codec \<Rightarrow> nat \<Rightarrow> string \<Rightarrow> (report, bytes) outcome" where
  "hex_vector C n s =
     and_then (hex_str_to_bytes (cd_hex_decode C) s) (\<lambda>b. unwrap (cd_vector_from_iter C n b))"

definition pubkey_deserialize :: "codec \<Rightarrow> string \<Rightarrow> (report, bytes) outcome" where
  "pubkey_deserialize C key = hex_vector C 48 key"

text \<open>
  Collecting results into a vector builds the vector from the elements before the first error, and
  returns the error after that.
\<close>

definition collect_vectors ::
    "codec \<Rightarrow> nat \<Rightarrow> (report, bytes) outcome list \<Rightarrow> (report, bytes list) outcome" where
  "collect_vectors C n rs =
     (case (traverse id (takeWhile is_ok rs) :: (report, bytes list) outcome, dropWhile is_ok rs) of
        (Ok vs, []) \<Rightarrow> unwrap (cd_vectors_from_iter C n vs)
      | (Ok vs, Err e # _) \<Rightarrow> and_then (unwrap (cd_vectors_from_iter C n vs)) (\<lambda>_. Err e)
      | _ \<Rightarrow> Panic)"

definition pubkeys_deserialize :: "codec \<Rightarrow> string list \<Rightarrow> (report, bytes list) outcome" where
  "pubkeys_deserialize C keys = collect_vectors C 512 (map (hex_vector C 48) keys)"

definition bytes_vector_deserialize :: "codec \<Rightarrow> string list \<Rightarrow> (report, bytes list) outcome" where
  "bytes_vector_deserialize C elems = collect_vectors C 33 (map (hex_vector C 32) elems)"

definition signature_deserialize :: "codec \<Rightarrow> string \<Rightarrow> (report, bytes) outcome" where
  "signature_deserialize C sig = hex_vector C 96 sig"

definition branch_deserialize :: "codec \<Rightarrow> string list \<Rightarrow> (report, bytes list) outcome" where
  "branch_deserialize C branch = traverse (hex_vector C 32) branch"

definition u64_deserialize :: "string \<Rightarrow> (report, u64) outcome" where
  "u64_deserialize val = unwrap (u64_from_str_radix 10 val)"

text \<open>The copy through little-endian bytes does not change the number.\<close>

definition u256_deserialize :: "codec \<Rightarrow> string \<Rightarrow> (report, u256) outcome" where
  "u256_deserialize C val = ok_or (Message ''invalid decimal number'') (cd_from_dec_str C val)"

text \<open>These strip a mandatory \<open>0x\<close>, and unwrap every step.\<close>

definition hex_fixed :: "codec \<Rightarrow> nat \<Rightarrow> string \<Rightarrow> (report, bytes) outcome" where
  "hex_fixed C n s =
     and_then (unwrap (strip_prefix ''0x'' s)) (\<lambda>t.
     and_then (unwrap (cd_hex_decode C t)) (\<lambda>b. unwrap (cd_vector_try_from C n b)))"

definition bytes32_deserialize :: "codec \<Rightarrow> string \<Rightarrow> (report, bytes) outcome" where
  "bytes32_deserialize C s = hex_fixed C 32 s"

definition logs_bloom_deserialize :: "codec \<Rightarrow> string \<Rightarrow> (report, bytes) outcome" where
  "logs_bloom_deserialize C s = hex_fixed C 256 s"

definition address_deserialize :: "codec \<Rightarrow> string \<Rightarrow> (report, bytes) outcome" where
  "address_deserialize C s = hex_fixed C 20 s"

definition extra_data_deserialize :: "codec \<Rightarrow> string \<Rightarrow> (report, bytes) outcome" where
  "extra_data_deserialize C s =
     and_then (unwrap (strip_prefix ''0x'' s)) (\<lambda>t.
     and_then (unwrap (cd_hex_decode C t)) (\<lambda>b. unwrap (cd_list_try_from C 32 b)))"

definition transactions_deserialize :: "codec \<Rightarrow> string list \<Rightarrow> (report, bytes list) outcome" where
  "transactions_deserialize C txs =
     and_then (traverse (\<lambda>tx.
       and_then (hex_const (cd_hex_decode C) tx) (\<lambda>b.
       unwrap (cd_list_from_iter C 1073741824 b))) txs) (\<lambda>ts.
     unwrap (cd_lists_from_iter C 1048576 ts))"

definition attesting_indices_deserialize :: "codec \<Rightarrow> string list \<Rightarrow> (report, u64 list) outcome" where
  "attesting_indices_deserialize C is =
     and_then (traverse (\<lambda>i. unwrap (u64_from_str_radix 10 i)) is) (\<lambda>ns.
     unwrap (cd_numbers_from_iter C 2048 ns))"

text \<open>A light client header comes bare or wrapped in an object with a field \<open>beacon\<close>.\<close>

datatype light_client_header = Unwrapped header | Wrapped header

fun header_deserialize :: "light_client_header \<Rightarrow> header" where
  "header_deserialize (Unwrapped h) = h"
| "header_deserialize (Wrapped h) = h"

subsection \<open>Lemmas\<close>

text \<open>What the verification relies on: branch and header of a part come together.\<close>

definition paired :: "generic_update \<Rightarrow> bool" where
  "paired u \<longleftrightarrow> (finality_branch u = None \<longleftrightarrow> finalized_header u = None)
     \<and> (next_sync_committee_branch u = None \<longleftrightarrow> next_sync_committee u = None)"

lemma paired_conversions [simp, intro]:
  "paired (generic_from_update u)"
  "paired (generic_from_finality_update f)"
  "paired (generic_from_optimistic_update g)"
  by (simp_all add: paired_def generic_from_update_def generic_from_finality_update_def
      generic_from_optimistic_update_def)

text \<open>Without the prefix, or without hex digits behind it, the conversions that unwrap panic.\<close>

lemma hex_fixed_malformed:
  "(\<And>t. strip_prefix ''0x'' s = Some t \<Longrightarrow> cd_hex_decode C t = None) \<Longrightarrow> hex_fixed C n s = Panic"
  by (cases "strip_prefix ''0x'' s") (simp_all add: hex_fixed_def)

lemma hex_fixed_never_Err: "hex_fixed C n s \<noteq> Err e"
  by (simp add: hex_fixed_def outcome_simps)

lemma u64_deserialize_string: "u64_deserialize (u64_to_string n) = Ok n"
  by (simp add: u64_deserialize_def u64_to_string_def u64_from_str_radix_show)

lemma u64_deserialize_never_Err: "u64_deserialize s \<noteq> Err e"
  by (simp add: u64_deserialize_def outcome_simps)

end
