(* ===== verification/Consensus_Utils.thy ===== *)
theory Consensus_Utils
  imports Beacon_Types
begin

text \<open>
  \<open>consensus/src/utils.rs\<close> and the free functions at the end of \<open>consensus/src/consensus.rs\<close>:
  sync committee periods, Merkle branches against a header's state root, signing domains,
  participation bits and the keys they select. SSZ hashing (\<open>ssz_rs\<close>), BLS signatures
  (\<open>milagro_bls\<close>), hex coding and \<open>chrono\<close> durations are the fields of a library record.
\<close>

record ('pk, 'sg) consensus_lib =
  htr_header :: "header \<Rightarrow> bytes option"
  htr_sync_committee :: "sync_committee \<Rightarrow> bytes option"
  htr_beacon_block :: "beacon_block \<Rightarrow> bytes option"
  htr_signing_data :: "bytes \<Rightarrow> bytes \<Rightarrow> bytes option"
  htr_fork_data :: "bytes \<Rightarrow> bytes \<Rightarrow> bytes option"
  is_valid_merkle_branch :: "bytes \<Rightarrow> bytes list \<Rightarrow> nat \<Rightarrow> nat \<Rightarrow> bytes \<Rightarrow> bool"
  vector_try_from :: "nat \<Rightarrow> bytes \<Rightarrow> bytes option"
  vector_from_iter :: "nat \<Rightarrow> bytes \<Rightarrow> bytes option"
  node_to_string :: "bytes \<Rightarrow> string"
  hex_encode :: "bytes \<Rightarrow> string"
  hex_decode :: "string \<Rightarrow> bytes option"
  public_key_from_bytes_unchecked :: "bytes \<Rightarrow> 'pk option"
  aggregate_signature_from_bytes :: "bytes \<Rightarrow> 'sg option"
  fast_aggregate_verify :: "'sg \<Rightarrow> bytes \<Rightarrow> 'pk list \<Rightarrow> bool"
  chrono_from_std :: "u64 \<Rightarrow> int option"

subsection \<open>\<open>consensus/src/utils.rs\<close>\<close>

definition calc_sync_period :: "u64 \<Rightarrow> u64" where
  "calc_sync_period sl = (let epoch = sl div 32 in epoch div 256)"

definition is_aggregate_valid :: "('pk, 'sg) consensus_lib \<Rightarrow> bytes \<Rightarrow> bytes \<Rightarrow> 'pk list \<Rightarrow> bool" where
  "is_aggregate_valid L sig_bytes msg pks =
     (case aggregate_signature_from_bytes L sig_bytes of
        Some sig \<Rightarrow> fast_aggregate_verify L sig msg pks
      | None \<Rightarrow> False)"

definition branch_to_nodes :: "bytes list \<Rightarrow> (report, bytes list) outcome" where
  "branch_to_nodes branch = traverse bytes32_to_node branch"

text \<open>
  \<open>leaf_root\<close> is the result of \<open>leaf_object.hash_tree_root()\<close>; an error anywhere in the closure
  makes the proof invalid.
\<close>

definition is_proof_valid ::
    "('pk, 'sg) consensus_lib \<Rightarrow> header \<Rightarrow> bytes option \<Rightarrow> bytes list \<Rightarrow> nat \<Rightarrow> nat \<Rightarrow> bool" where
  "is_proof_valid L attested leaf_root branch depth idx =
     (let res =
        and_then (ok_or MerkleizationError leaf_root) (\<lambda>leaf_hash.
        and_then (bytes32_to_node (state_root attested)) (\<lambda>root.
        and_then (branch_to_nodes branch) (\<lambda>nodes.
        Ok (is_valid_merkle_branch L leaf_hash nodes depth idx root))))
      in case res of Ok is_valid \<Rightarrow> is_valid | _ \<Rightarrow> False)"

definition compute_signing_root ::
    "('pk, 'sg) consensus_lib \<Rightarrow> bytes \<Rightarrow> bytes \<Rightarrow> (report, bytes) outcome" where
  "compute_signing_root L object_root domain =
     ok_or MerkleizationError (htr_signing_data L object_root domain)"

definition compute_fork_data_root ::
    "('pk, 'sg) consensus_lib \<Rightarrow> bytes \<Rightarrow> bytes \<Rightarrow> (report, bytes) outcome" where
  "compute_fork_data_root L current_version genesis_validator_root =
     ok_or MerkleizationError (htr_fork_data L current_version genesis_validator_root)"

definition compute_domain ::
    "('pk, 'sg) consensus_lib \<Rightarrow> bytes \<Rightarrow> bytes \<Rightarrow> bytes \<Rightarrow> (report, bytes) outcome" where
  "compute_domain L domain_type version root =
     and_then (compute_fork_data_root L version root) (\<lambda>fork_data_root.
     if length fork_data_root < 28 then Panic
     else (let d = domain_type @ take 28 fork_data_root
           in unwrap (vector_try_from L 32 d)))"

subsection \<open>Participation\<close>

fun participating_keys_loop ::
    "('pk, 'sg) consensus_lib \<Rightarrow> sync_committee \<Rightarrow> nat \<Rightarrow> bool list \<Rightarrow> 'pk list \<Rightarrow>
     (report, 'pk list) outcome" where
  "participating_keys_loop L committee i [] pks = Ok pks"
| "participating_keys_loop L committee i (b # bits) pks =
     (if b then
        and_then (index (pubkeys committee) i) (\<lambda>pk.
        and_then (unwrap (public_key_from_bytes_unchecked L pk)) (\<lambda>pk.
        participating_keys_loop L committee (Suc i) bits (pks @ [pk])))
      else participating_keys_loop L committee (Suc i) bits pks)"

definition get_participating_keys ::
    "('pk, 'sg) consensus_lib \<Rightarrow> sync_committee \<Rightarrow> bool list \<Rightarrow> (report, 'pk list) outcome" where
  "get_participating_keys L committee bitfield = participating_keys_loop L committee 0 bitfield []"

definition get_bits :: "bool list \<Rightarrow> u64" where
  "get_bits bitfield = foldl (\<lambda>count b. if b then count + 1 else count) 0 bitfield"

subsection \<open>Proofs against an attested header\<close>

definition is_finality_proof_valid ::
    "('pk, 'sg) consensus_lib \<Rightarrow> header \<Rightarrow> header \<Rightarrow> bytes list \<Rightarrow> bool" where
  "is_finality_proof_valid L attested finality_header branch =
     is_proof_valid L attested (htr_header L finality_header) branch 6 41"

definition is_next_committee_proof_valid ::
    "('pk, 'sg) consensus_lib \<Rightarrow> header \<Rightarrow> sync_committee \<Rightarrow> bytes list \<Rightarrow> bool" where
  "is_next_committee_proof_valid L attested next_committee branch =
     is_proof_valid L attested (htr_sync_committee L next_committee) branch 5 23"

definition is_current_committee_proof_valid ::
    "('pk, 'sg) consensus_lib \<Rightarrow> header \<Rightarrow> sync_committee \<Rightarrow> bytes list \<Rightarrow> bool" where
  "is_current_committee_proof_valid L attested current_committee branch =
     is_proof_valid L attested (htr_sync_committee L current_committee) branch 5 22"

subsection \<open>Lemmas\<close>

lemma unat_calc_sync_period: "unat (calc_sync_period s) = unat s div 8192"
  by (simp add: calc_sync_period_def Let_def div_mult2_eq [symmetric])

lemma calc_sync_period_mono: "s \<le> t \<Longrightarrow> calc_sync_period s \<le> calc_sync_period t"
  by (simp add: word_le_nat_alt unat_calc_sync_period div_le_mono)

lemma calc_sync_period_Suc_neq: "calc_sync_period s + 1 \<noteq> calc_sync_period s"
  by simp

lemma unat_calc_sync_period_Suc: "unat (calc_sync_period s + 1) = unat s div 8192 + 1"
  using unat_u64_bound [of s] by (subst unat_add_u64) (auto simp: unat_calc_sync_period)

lemma get_bits_of_nat: "get_bits bits = of_nat (length (filter id bits))"
proof -
  have "foldl (\<lambda>count b. if b then count + 1 else count) n bits = n + of_nat (length (filter id bits))"
    for n :: u64
    by (induction bits arbitrary: n) (auto simp: algebra_simps)
  then show ?thesis by (simp add: get_bits_def)
qed

lemma get_bits_count:
  assumes "length bits < 18446744073709551616"
  shows "unat (get_bits bits) = length (filter id bits)"
  using assms by (simp add: get_bits_of_nat unat_u64_of_nat le_less_trans [OF length_filter_le])

lemma get_bits_le_512:
  assumes "length bits = 512"
  shows "unat (get_bits bits) \<le> 512"
  using get_bits_count [of bits] assms length_filter_le [of id bits] by simp

text \<open>The keys the bits select, in order of position.\<close>

definition selected :: "'a list \<Rightarrow> bool list \<Rightarrow> 'a list" where
  "selected xs bits = map fst (filter snd (zip xs bits))"

lemma participating_keys_loop_eq:
  assumes "length bits + i = length (pubkeys c)"
  shows "participating_keys_loop L c i bits pks =
     and_then (traverse (\<lambda>k. unwrap (public_key_from_bytes_unchecked L k))
                 (selected (drop i (pubkeys c)) bits))
       (\<lambda>ks. Ok (pks @ ks))"
  using assms
proof (induction bits arbitrary: i pks)
  case Nil
  then show ?case by (simp add: selected_def)
next
  case (Cons b bits)
  then have "i < length (pubkeys c)" by simp
  then have "drop i (pubkeys c) = pubkeys c ! i # drop (Suc i) (pubkeys c)"
    by (simp add: Cons_nth_drop_Suc)
  with Cons \<open>i < length (pubkeys c)\<close> show ?case
    by (cases "public_key_from_bytes_unchecked L (pubkeys c ! i)") (simp_all add: selected_def)
qed

lemma get_participating_keys_eq:
  assumes "length bits = length (pubkeys c)"
  shows "get_participating_keys L c bits =
     traverse (\<lambda>k. unwrap (public_key_from_bytes_unchecked L k)) (selected (pubkeys c) bits)"
  using participating_keys_loop_eq [of bits 0 c L "[]"] assms
  by (simp add: get_participating_keys_def)

lemma length_selected:
  assumes "length bits = length xs"
  shows "length (selected xs bits) = length (filter id bits)"
  using assms by (induction xs bits rule: list_induct2') (auto simp: selected_def)

lemma branch_to_nodes_eq:
  "branch_to_nodes branch =
     (if list_all (\<lambda>b. length b = 32) branch then Ok branch else Err TryFromSliceError)"
  unfolding branch_to_nodes_def by (induction branch) (auto simp: bytes32_to_node_def)

lemma is_proof_valid_iff:
  "is_proof_valid L h leaf_root branch depth idx \<longleftrightarrow>
     (\<exists>leaf. leaf_root = Some leaf \<and> length (state_root h) = 32 \<and> list_all (\<lambda>b. length b = 32) branch
       \<and> is_valid_merkle_branch L leaf branch depth idx (state_root h))"
  by (cases leaf_root) (simp_all add: is_proof_valid_def bytes32_to_node_def branch_to_nodes_eq)

end
