(* ===== verification/Light_Client.thy ===== *)
theory Light_Client
  imports Consensus_Utils
begin

text \<open>
  The light client store of \<open>consensus/src/consensus.rs\<close>: verification of an update against
  the store, application of a verified update, and the slot clock. Time is the number of whole
  seconds since the Unix epoch; genesis and slot times are whole seconds, so comparisons and
  slot divisions do not see the fraction. Verification and application read the clock, which
  is an argument. What the logging calls print is left out; what they compute can panic and
  is kept, with the assignments that were made before the panic.
\<close>

record light_client_store =
  st_finalized_header :: header
  st_current_sync_committee :: sync_committee
  st_next_sync_committee :: "sync_committee option"
  st_optimistic_header :: header
  previous_max_active_participants :: u64
  current_max_active_participants :: u64

definition light_client_store_default :: light_client_store where
  "light_client_store_default = \<lparr>st_finalized_header = header_default,
     st_current_sync_committee = sync_committee_default, st_next_sync_committee = None,
     st_optimistic_header = header_default, previous_max_active_participants = 0,
     current_max_active_participants = 0\<rparr>"

text \<open>The RPC connection of the client is an argument of the operations that use it.\<close>

record consensus_client =
  store :: light_client_store
  initial_checkpoint :: bytes
  last_checkpoint :: "bytes option"
  client_config :: config

definition consensus_client_new :: "bytes \<Rightarrow> config \<Rightarrow> consensus_client" where
  "consensus_client_new checkpoint_block_root cfg =
     \<lparr>store = light_client_store_default, initial_checkpoint = checkpoint_block_root,
      last_checkpoint = None, client_config = cfg\<rparr>"

definition get_header :: "consensus_client \<Rightarrow> header" where
  "get_header c = st_optimistic_header (store c)"

definition get_finalized_header :: "consensus_client \<Rightarrow> header" where
  "get_finalized_header c = st_finalized_header (store c)"

subsection \<open>The slot clock\<close>

definition expected_current_slot :: "config \<Rightarrow> u64 \<Rightarrow> ('e, u64) outcome" where
  "expected_current_slot cfg now =
     (if now < genesis_time (chain cfg) then Panic
      else Ok ((now - genesis_time (chain cfg)) div 12))"

definition slot_timestamp :: "config \<Rightarrow> u64 \<Rightarrow> u64" where
  "slot_timestamp cfg s = s * 12 + genesis_time (chain cfg)"

definition age :: "('pk, 'sg) consensus_lib \<Rightarrow> config \<Rightarrow> u64 \<Rightarrow> u64 \<Rightarrow> ('e, int) outcome" where
  "age L cfg now s =
     (let expected_time = slot_timestamp cfg s in
      if now < expected_time then Panic else unwrap (chrono_from_std L (now - expected_time)))"

definition duration_until_next_update :: "config \<Rightarrow> u64 \<Rightarrow> ('e, int) outcome" where
  "duration_until_next_update cfg now =
     and_then (expected_current_slot cfg now) (\<lambda>current_slot.
     let next_slot = current_slot + 1;
         next_slot_timestamp = slot_timestamp cfg next_slot;
         time_to_next_slot = next_slot_timestamp - now;
         next_update = time_to_next_slot + 4
     in Ok (sint next_update))"

definition is_valid_checkpoint :: "config \<Rightarrow> u64 \<Rightarrow> u64 \<Rightarrow> ('e, bool) outcome" where
  "is_valid_checkpoint cfg now blockhash_slot =
     and_then (expected_current_slot cfg now) (\<lambda>current_slot.
     let current_slot_timestamp = slot_timestamp cfg current_slot;
         blockhash_slot_timestamp = slot_timestamp cfg blockhash_slot;
         slot_age = current_slot_timestamp - blockhash_slot_timestamp
     in Ok (slot_age < max_checkpoint_age cfg))"

subsection \<open>Signatures\<close>

definition compute_committee_sign_root ::
    "('pk, 'sg) consensus_lib \<Rightarrow> config \<Rightarrow> bytes \<Rightarrow> u64 \<Rightarrow> (report, bytes) outcome" where
  "compute_committee_sign_root L cfg hdr s =
     and_then (unwrap (vector_try_from L 32 (genesis_root (chain cfg)))) (\<lambda>groot.
     and_then (ok_or FromHexError (hex_decode L ''07000000'')) (\<lambda>domain_type.
     and_then (unwrap (vector_from_iter L 4 (fork_version cfg s))) (\<lambda>version.
     and_then (compute_domain L domain_type version groot) (\<lambda>domain.
     compute_signing_root L hdr domain))))"

definition verify_sync_committee_signture ::
    "('pk, 'sg) consensus_lib \<Rightarrow> config \<Rightarrow> 'pk list \<Rightarrow> header \<Rightarrow> bytes \<Rightarrow> u64 \<Rightarrow> (report, bool) outcome" where
  "verify_sync_committee_signture L cfg pks attested signature sig_slot =
     (let res =
        and_then (ok_or MerkleizationError (htr_header L attested)) (\<lambda>root.
        and_then (unwrap (vector_from_iter L 32 root)) (\<lambda>header_root.
        and_then (compute_committee_sign_root L cfg header_root sig_slot) (\<lambda>signing_root.
        Ok (is_aggregate_valid L signature signing_root pks))))
      in case res of Ok is_valid \<Rightarrow> Ok is_valid | Err e \<Rightarrow> Ok False | Panic \<Rightarrow> Panic)"

subsection \<open>Verification of an update\<close>

definition verify_generic_update ::
    "('pk, 'sg) consensus_lib \<Rightarrow> u64 \<Rightarrow> consensus_client \<Rightarrow> generic_update \<Rightarrow> (report, unit) outcome" where
  "verify_generic_update L now c u =
     (let s = store c;
          bits = get_bits (sync_committee_bits (sync_aggregate u)) in
      if bits = 0 then Err (ConsensusReport InsufficientParticipation)
      else
      let update_finalized_slot =
            slot (case finalized_header u of Some h \<Rightarrow> h | None \<Rightarrow> header_default) in
      and_then (expected_current_slot (client_config c) now) (\<lambda>current_slot.
      let valid_time = signature_slot u \<le> current_slot
            \<and> slot (attested_header u) < signature_slot u
            \<and> update_finalized_slot \<le> slot (attested_header u) in
      if \<not> valid_time then Err (ConsensusReport InvalidTimestamp)
      else
      let store_period = calc_sync_period (slot (st_finalized_header s));
          update_sig_period = calc_sync_period (signature_slot u);
          valid_period =
            (if st_next_sync_committee s \<noteq> None
             then update_sig_period = store_period \<or> update_sig_period = store_period + 1
             else update_sig_period = store_period) in
      if \<not> valid_period then Err (ConsensusReport InvalidPeriod)
      else
      let update_attested_period = calc_sync_period (slot (attested_header u));
          update_has_next_committee = st_next_sync_committee s = None
            \<and> next_sync_committee u \<noteq> None
            \<and> update_attested_period = store_period in
      if slot (attested_header u) \<le> slot (st_finalized_header s) \<and> \<not> update_has_next_committee
      then Err (ConsensusReport NotRelevant)
      else if (case (finalized_header u, finality_branch u) of
                 (Some h, Some branch) \<Rightarrow> \<not> is_finality_proof_valid L (attested_header u) h branch
               | _ \<Rightarrow> False)
      then Err (ConsensusReport InvalidFinalityProof)
      else if (case (next_sync_committee u, next_sync_committee_branch u) of
                 (Some com, Some branch) \<Rightarrow>
                   \<not> is_next_committee_proof_valid L (attested_header u) com branch
               | _ \<Rightarrow> False)
      then Err (ConsensusReport InvalidNextSyncCommitteeProof)
      else
      and_then (if update_sig_period = store_period then Ok (st_current_sync_committee s)
                else unwrap (st_next_sync_committee s)) (\<lambda>committee.
      and_then (get_participating_keys L committee (sync_committee_bits (sync_aggregate u))) (\<lambda>pks.
      and_then (verify_sync_committee_signture L (client_config c) pks (attested_header u)
                  (sync_committee_signature (sync_aggregate u)) (signature_slot u)) (\<lambda>is_valid_sig.
      if \<not> is_valid_sig then Err (ConsensusReport InvalidSignature) else Ok ())))))"

definition verify_update ::
    "('pk, 'sg) consensus_lib \<Rightarrow> u64 \<Rightarrow> consensus_client \<Rightarrow> update \<Rightarrow> (report, unit) outcome" where
  "verify_update L now c u = verify_generic_update L now c (generic_from_update u)"

definition verify_finality_update ::
    "('pk, 'sg) consensus_lib \<Rightarrow> u64 \<Rightarrow> consensus_client \<Rightarrow> finality_update \<Rightarrow> (report, unit) outcome" where
  "verify_finality_update L now c u = verify_generic_update L now c (generic_from_finality_update u)"

definition verify_optimistic_update ::
    "('pk, 'sg) consensus_lib \<Rightarrow> u64 \<Rightarrow> consensus_client \<Rightarrow> optimistic_update \<Rightarrow> (report, unit) outcome" where
  "verify_optimistic_update L now c u =
     verify_generic_update L now c (generic_from_optimistic_update u)"

subsection \<open>Application of an update\<close>

definition safety_threshold :: "light_client_store \<Rightarrow> u64" where
  "safety_threshold s =
     max (current_max_active_participants s) (previous_max_active_participants s) div 2"

definition has_finality_update :: "generic_update \<Rightarrow> bool" where
  "has_finality_update u \<longleftrightarrow> finalized_header u \<noteq> None \<and> finality_branch u \<noteq> None"

definition has_sync_update :: "generic_update \<Rightarrow> bool" where
  "has_sync_update u \<longleftrightarrow> next_sync_committee u \<noteq> None \<and> next_sync_committee_branch u \<noteq> None"

definition committee_bits :: "generic_update \<Rightarrow> u64" where
  "committee_bits u = get_bits (sync_committee_bits (sync_aggregate u))"

definition update_finalized_slot :: "generic_update \<Rightarrow> u64" where
  "update_finalized_slot u = (case finalized_header u of Some h \<Rightarrow> slot h | None \<Rightarrow> 0)"

text \<open>The two logging calls: they compute the age of the header they print.\<close>

definition log_finality_update ::
    "('pk, 'sg) consensus_lib \<Rightarrow> config \<Rightarrow> u64 \<Rightarrow> light_client_store \<Rightarrow> ('e, unit) outcome" where
  "log_finality_update L cfg now s =
     and_then (age L cfg now (slot (st_finalized_header s))) (\<lambda>_. Ok ())"

definition log_optimistic_update ::
    "('pk, 'sg) consensus_lib \<Rightarrow> config \<Rightarrow> u64 \<Rightarrow> light_client_store \<Rightarrow> ('e, unit) outcome" where
  "log_optimistic_update L cfg now s =
     and_then (age L cfg now (slot (st_optimistic_header s))) (\<lambda>_. Ok ())"

definition count_participants :: "generic_update \<Rightarrow> light_client_store \<Rightarrow> light_client_store" where
  "count_participants u s = s\<lparr>current_max_active_participants :=
     max (current_max_active_participants s) (committee_bits u)\<rparr>"

definition should_update_optimistic :: "generic_update \<Rightarrow> light_client_store \<Rightarrow> bool" where
  "should_update_optimistic u s \<longleftrightarrow> safety_threshold s < committee_bits u
     \<and> slot (st_optimistic_header s) < slot (attested_header u)"

definition should_apply_update :: "generic_update \<Rightarrow> light_client_store \<Rightarrow> bool" where
  "should_apply_update u s \<longleftrightarrow>
     (let update_attested_period = calc_sync_period (slot (attested_header u));
          update_finalized_period = calc_sync_period (update_finalized_slot u);
          update_has_finalized_next_committee = st_next_sync_committee s = None
            \<and> has_sync_update u \<and> has_finality_update u
            \<and> update_finalized_period = update_attested_period;
          has_majority = 512 * 2 \<le> committee_bits u * 3;
          update_is_newer = slot (st_finalized_header s) < update_finalized_slot u;
          good_update = update_is_newer \<or> update_has_finalized_next_committee
      in has_majority \<and> good_update)"

definition rotate_committees :: "generic_update \<Rightarrow> light_client_store \<Rightarrow> light_client_store" where
  "rotate_committees u s =
     (let store_period = calc_sync_period (slot (st_finalized_header s)) in
      case st_next_sync_committee s of
        None \<Rightarrow> s\<lparr>st_next_sync_committee := next_sync_committee u\<rparr>
      | Some nxt \<Rightarrow>
          if calc_sync_period (update_finalized_slot u) = store_period + 1
          then s\<lparr>st_current_sync_committee := nxt,
                 st_next_sync_committee := next_sync_committee u,
                 previous_max_active_participants := current_max_active_participants s,
                 current_max_active_participants := 0\<rparr>
          else s)"

definition finalize ::
    "('pk, 'sg) consensus_lib \<Rightarrow> u64 \<Rightarrow> generic_update \<Rightarrow> consensus_client \<Rightarrow>
     (consensus_client, report, unit) ret" where
  "finalize L now u c =
     (if slot (st_finalized_header (store c)) < update_finalized_slot u then
        then_op (unwrap (finalized_header u), c) (\<lambda>fin c.
        let s1 = (store c)\<lparr>st_finalized_header := fin\<rparr> in
        then_op (log_finality_update L (client_config c) now s1, c\<lparr>store := s1\<rparr>) (\<lambda>_ c.
        let ckpt = (if slot fin mod 32 = 0
                    then (case htr_header L fin of Some root \<Rightarrow> Some root | None \<Rightarrow> last_checkpoint c)
                    else last_checkpoint c);
            s2 = (if slot (st_optimistic_header s1) < slot fin
                  then s1\<lparr>st_optimistic_header := fin\<rparr> else s1)
        in (Ok (), c\<lparr>store := s2, last_checkpoint := ckpt\<rparr>)))
      else (Ok (), c))"

text \<open>
  Application returns nothing, but a logging call can panic between two of its assignments: the
  client is then as they left it.
\<close>

definition apply_generic_update ::
    "('pk, 'sg) consensus_lib \<Rightarrow> u64 \<Rightarrow> generic_update \<Rightarrow> consensus_client \<Rightarrow>
     (consensus_client, report, unit) ret" where
  "apply_generic_update L now u c =
     (let s1 = count_participants u (store c) in
      then_op
        (if should_update_optimistic u s1 then
           let s2 = s1\<lparr>st_optimistic_header := attested_header u\<rparr> in
           (log_optimistic_update L (client_config c) now s2, c\<lparr>store := s2\<rparr>)
         else (Ok (), c\<lparr>store := s1\<rparr>)) (\<lambda>_ c.
      if should_apply_update u (store c)
      then finalize L now u (c\<lparr>store := rotate_committees u (store c)\<rparr>)
      else (Ok (), c)))"

definition apply_update ::
    "('pk, 'sg) consensus_lib \<Rightarrow> u64 \<Rightarrow> update \<Rightarrow> consensus_client \<Rightarrow> (consensus_client, report, unit) ret" where
  "apply_update L now u c = apply_generic_update L now (generic_from_update u) c"

definition apply_finality_update ::
    "('pk, 'sg) consensus_lib \<Rightarrow> u64 \<Rightarrow> finality_update \<Rightarrow> consensus_client \<Rightarrow> (consensus_client, report, unit) ret" where
  "apply_finality_update L now u c = apply_generic_update L now (generic_from_finality_update u) c"

definition apply_optimistic_update ::
    "('pk, 'sg) consensus_lib \<Rightarrow> u64 \<Rightarrow> optimistic_update \<Rightarrow> consensus_client \<Rightarrow> (consensus_client, report, unit) ret" where
  "apply_optimistic_update L now u c =
     apply_generic_update L now (generic_from_optimistic_update u) c"

end
