(* ===== verification/Light_Client_Lemmas.thy ===== *)
theory Light_Client_Lemmas
  imports Light_Client
begin

text \<open>
  Lemmas about the light client store: what verification checks, as a predicate on naturals;
  application as a pure function of the store (the clock only decides whether it panics, which
  leaves one of two half-updated stores); and
  the library of facts about the order of slots, the committees and the participation counts.
\<close>

subsection \<open>Verification, declaratively\<close>

definition sync_period :: "u64 \<Rightarrow> nat" where
  "sync_period s = unat s div 8192"

text \<open>The keys of a committee selected by the bits sign the header for the signature slot.\<close>

definition committee_signed ::
    "('pk, 'sg) consensus_lib \<Rightarrow> config \<Rightarrow> sync_committee \<Rightarrow> generic_update \<Rightarrow> bool" where
  "committee_signed L cfg com u \<longleftrightarrow>
     (\<exists>pks root hdr signing.
        get_participating_keys L com (sync_committee_bits (sync_aggregate u)) = Ok pks
      \<and> htr_header L (attested_header u) = Some root
      \<and> vector_from_iter L 32 root = Some hdr
      \<and> compute_committee_sign_root L cfg hdr (signature_slot u) = Ok signing
      \<and> is_aggregate_valid L (sync_committee_signature (sync_aggregate u)) signing pks)"

definition valid_update ::
    "('pk, 'sg) consensus_lib \<Rightarrow> u64 \<Rightarrow> consensus_client \<Rightarrow> generic_update \<Rightarrow> bool" where
  "valid_update L now c u \<longleftrightarrow>
     (let s = store c;
          store_period = sync_period (slot (st_finalized_header s));
          sig_period = sync_period (signature_slot u);
          attested_slot = unat (slot (attested_header u)) in
      True \<in> set (sync_committee_bits (sync_aggregate u))
      \<and> unat (genesis_time (chain (client_config c))) + 12 * unat (signature_slot u) \<le> unat now
      \<and> attested_slot < unat (signature_slot u)
      \<and> (\<forall>h. finalized_header u = Some h \<longrightarrow> unat (slot h) \<le> attested_slot)
      \<and> (sig_period = store_period
          \<or> sig_period = store_period + 1 \<and> st_next_sync_committee s \<noteq> None)
      \<and> (unat (slot (st_finalized_header s)) < attested_slot
          \<or> st_next_sync_committee s = None \<and> next_sync_committee u \<noteq> None
             \<and> sync_period (slot (attested_header u)) = store_period)
      \<and> (\<forall>h br. finalized_header u = Some h \<longrightarrow> finality_branch u = Some br \<longrightarrow>
            is_finality_proof_valid L (attested_header u) h br)
      \<and> (\<forall>com br. next_sync_committee u = Some com \<longrightarrow> next_sync_committee_branch u = Some br \<longrightarrow>
            is_next_committee_proof_valid L (attested_header u) com br)
      \<and> (\<exists>com. (if sig_period = store_period then com = st_current_sync_committee s
                 else st_next_sync_committee s = Some com)
              \<and> committee_signed L (client_config c) com u))"

lemma calc_sync_period_eq_iff: "calc_sync_period s = calc_sync_period t \<longleftrightarrow> sync_period s = sync_period t"
  unfolding sync_period_def unat_calc_sync_period [symmetric] by (rule word_unat_eq_iff)

lemma calc_sync_period_Suc_iff:
  "calc_sync_period s = calc_sync_period t + 1 \<longleftrightarrow> sync_period s = sync_period t + 1"
  by (simp add: word_unat_eq_iff unat_calc_sync_period unat_calc_sync_period_Suc sync_period_def)

lemma sync_period_mono: "s \<le> t \<Longrightarrow> sync_period s \<le> sync_period t"
  by (simp add: sync_period_def word_le_nat_alt div_le_mono)

lemma get_bits_zero_iff:
  assumes "length bits < 18446744073709551616"
  shows "get_bits bits = 0 \<longleftrightarrow> True \<notin> set bits"
proof -
  have "get_bits bits = 0 \<longleftrightarrow> unat (get_bits bits) = 0" by (simp add: unat_eq_0)
  also have "\<dots> \<longleftrightarrow> True \<notin> set bits"
    using assms by (auto simp: get_bits_count filter_empty_conv)
  finally show ?thesis .
qed

lemma expected_current_slot_Ok_iff:
  "expected_current_slot cfg now = Ok cur \<longleftrightarrow>
     genesis_time (chain cfg) \<le> now \<and> cur = (now - genesis_time (chain cfg)) div 12"
  by (auto simp: expected_current_slot_def)

lemma slot_le_current_iff:
  assumes "g \<le> (now :: u64)"
  shows "s \<le> (now - g) div 12 \<longleftrightarrow> unat g + 12 * unat s \<le> unat now"
proof -
  have "s \<le> (now - g) div 12 \<longleftrightarrow> unat s \<le> (unat now - unat g) div 12"
    using assms by (simp add: word_le_nat_alt unat_sub)
  also have "\<dots> \<longleftrightarrow> 12 * unat s \<le> unat now - unat g" by auto
  also have "\<dots> \<longleftrightarrow> unat g + 12 * unat s \<le> unat now"
    using assms by (auto simp: word_le_nat_alt)
  finally show ?thesis .
qed

lemma verify_signature_Ok_True_iff:
  "verify_sync_committee_signture L cfg pks h sig s = Ok True \<longleftrightarrow>
     (\<exists>root hdr signing. htr_header L h = Some root \<and> vector_from_iter L 32 root = Some hdr
        \<and> compute_committee_sign_root L cfg hdr s = Ok signing \<and> is_aggregate_valid L sig signing pks)"
  by (auto simp: verify_sync_committee_signture_def Let_def outcome_simps split: outcome.splits)

lemma if_Err_Ok_iff: "(if b then Err e else m) = Ok x \<longleftrightarrow> \<not> b \<and> m = Ok x"
  by simp

lemma ex_Ok_True: "(\<exists>b. m = Ok b \<and> b) \<longleftrightarrow> m = Ok True"
  by (metis (full_types))

lemma both_given:
  "(case (a, b) of (Some x, Some y) \<Rightarrow> \<not> P x y | _ \<Rightarrow> False) \<longleftrightarrow>
     \<not> (\<forall>x y. a = Some x \<longrightarrow> b = Some y \<longrightarrow> P x y)"
  by (cases a; cases b) auto

text \<open>The checks of one update, as conditions on the words the code compares.\<close>

lemma verify_generic_update_Ok_iff:
  "verify_generic_update L now c u = Ok () \<longleftrightarrow>
     (let s = store c; sp = calc_sync_period (slot (st_finalized_header s));
          sg = calc_sync_period (signature_slot u) in
      get_bits (sync_committee_bits (sync_aggregate u)) \<noteq> 0
      \<and> (\<exists>cur. (expected_current_slot (client_config c) now :: (report, u64) outcome) = Ok cur
            \<and> signature_slot u \<le> cur)
      \<and> slot (attested_header u) < signature_slot u
      \<and> slot (case finalized_header u of Some h \<Rightarrow> h | None \<Rightarrow> header_default)
            \<le> slot (attested_header u)
      \<and> (sg = sp \<or> sg = sp + 1 \<and> st_next_sync_committee s \<noteq> None)
      \<and> (slot (st_finalized_header s) < slot (attested_header u)
          \<or> st_next_sync_committee s = None \<and> next_sync_committee u \<noteq> None
             \<and> calc_sync_period (slot (attested_header u)) = sp)
      \<and> (\<forall>h br. finalized_header u = Some h \<longrightarrow> finality_branch u = Some br \<longrightarrow>
            is_finality_proof_valid L (attested_header u) h br)
      \<and> (\<forall>com br. next_sync_committee u = Some com \<longrightarrow> next_sync_committee_branch u = Some br \<longrightarrow>
            is_next_committee_proof_valid L (attested_header u) com br)
      \<and> (\<exists>com pks. (if sg = sp then com = st_current_sync_committee s
                     else st_next_sync_committee s = Some com)
            \<and> get_participating_keys L com (sync_committee_bits (sync_aggregate u)) = Ok pks
            \<and> verify_sync_committee_signture L (client_config c) pks (attested_header u)
                  (sync_committee_signature (sync_aggregate u)) (signature_slot u) = Ok True))"
  unfolding verify_generic_update_def Let_def if_Err_Ok_iff and_then_Ok_iff both_given not_not
  by (simp add: expected_current_slot_Ok_iff outcome_simps not_le ex_Ok_True)

lemma committee_signed_iff:
  "committee_signed L cfg com u \<longleftrightarrow>
     (\<exists>pks. get_participating_keys L com (sync_committee_bits (sync_aggregate u)) = Ok pks
        \<and> verify_sync_committee_signture L cfg pks (attested_header u)
              (sync_committee_signature (sync_aggregate u)) (signature_slot u) = Ok True)"
  by (auto simp: committee_signed_def verify_signature_Ok_True_iff)

lemma verify_generic_update_valid:
  assumes "length (sync_committee_bits (sync_aggregate u)) = 512"
  shows "verify_generic_update L now c u = Ok () \<longleftrightarrow> valid_update L now c u"
proof -
  let ?g = "genesis_time (chain (client_config c))"
  have time: "(\<exists>cur. (expected_current_slot (client_config c) now :: (report, u64) outcome) = Ok cur
            \<and> signature_slot u \<le> cur)
      \<longleftrightarrow> unat ?g + 12 * unat (signature_slot u) \<le> unat now"
    using slot_le_current_iff [of ?g now "signature_slot u"]
    by (auto simp: expected_current_slot_Ok_iff word_le_nat_alt)
  have fin: "slot (case finalized_header u of Some h \<Rightarrow> h | None \<Rightarrow> header_default)
        \<le> slot (attested_header u)
      \<longleftrightarrow> (\<forall>h. finalized_header u = Some h \<longrightarrow> unat (slot h) \<le> unat (slot (attested_header u)))"
    by (auto simp: header_default_def word_le_nat_alt split: option.split)
  have bits: "get_bits (sync_committee_bits (sync_aggregate u)) \<noteq> 0
      \<longleftrightarrow> True \<in> set (sync_committee_bits (sync_aggregate u))"
    using assms by (simp add: get_bits_zero_iff)
  show ?thesis
    unfolding verify_generic_update_Ok_iff Let_def time fin bits
    by (simp only: valid_update_def Let_def
        calc_sync_period_eq_iff calc_sync_period_Suc_iff word_less_nat_alt committee_signed_iff
        ex_simps conj_assoc)
qed

subsection \<open>Application as a function of the store\<close>

definition optimistic_step :: "generic_update \<Rightarrow> light_client_store \<Rightarrow> light_client_store" where
  "optimistic_step u s =
     (if should_update_optimistic u s then s\<lparr>st_optimistic_header := attested_header u\<rparr> else s)"

definition finalize_step :: "generic_update \<Rightarrow> light_client_store \<Rightarrow> light_client_store" where
  "finalize_step u s =
     (case finalized_header u of
        Some fin \<Rightarrow>
          if slot (st_finalized_header s) < slot fin then
            s\<lparr>st_finalized_header := fin,
              st_optimistic_header :=
                (if slot (st_optimistic_header s) < slot fin then fin else st_optimistic_header s)\<rparr>
          else s
      | None \<Rightarrow> s)"

definition next_store :: "generic_update \<Rightarrow> light_client_store \<Rightarrow> light_client_store" where
  "next_store u s =
     (let s2 = optimistic_step u (count_participants u s) in
      if should_apply_update u s2 then finalize_step u (rotate_committees u s2) else s2)"

lemma age_not_Err: "age L cfg now s \<noteq> Err e"
  by (auto simp: age_def Let_def outcome_simps)

lemma log_cases: "(log_optimistic_update L cfg now s :: ('e, unit) outcome) \<in> {Ok (), Panic}"
  by (cases "age L cfg now (slot (st_optimistic_header s)) :: ('e, int) outcome")
    (auto simp: log_optimistic_update_def age_not_Err)

lemma update_finalized_slot_pos: "s < update_finalized_slot u \<Longrightarrow> finalized_header u \<noteq> None"
  by (auto simp: update_finalized_slot_def split: option.splits)

text \<open>Which fields each step leaves alone.\<close>

lemma step_frames [simp]:
  "st_finalized_header (count_participants u s) = st_finalized_header s"
  "st_optimistic_header (count_participants u s) = st_optimistic_header s"
  "st_current_sync_committee (count_participants u s) = st_current_sync_committee s"
  "st_next_sync_committee (count_participants u s) = st_next_sync_committee s"
  "previous_max_active_participants (count_participants u s) = previous_max_active_participants s"
  "st_finalized_header (optimistic_step u s) = st_finalized_header s"
  "st_current_sync_committee (optimistic_step u s) = st_current_sync_committee s"
  "st_next_sync_committee (optimistic_step u s) = st_next_sync_committee s"
  "current_max_active_participants (optimistic_step u s) = current_max_active_participants s"
  "previous_max_active_participants (optimistic_step u s) = previous_max_active_participants s"
  "st_finalized_header (rotate_committees u s) = st_finalized_header s"
  "st_optimistic_header (rotate_committees u s) = st_optimistic_header s"
  "st_current_sync_committee (finalize_step u s) = st_current_sync_committee s"
  "st_next_sync_committee (finalize_step u s) = st_next_sync_committee s"
  "current_max_active_participants (finalize_step u s) = current_max_active_participants s"
  "previous_max_active_participants (finalize_step u s) = previous_max_active_participants s"
  by (auto simp: count_participants_def optimistic_step_def rotate_committees_def finalize_step_def
      Let_def split: option.split)

text \<open>What a panic leaves: it comes from one of the two logging calls.\<close>

definition panic_stores :: "generic_update \<Rightarrow> light_client_store \<Rightarrow> light_client_store set" where
  "panic_stores u s =
     (let s2 = optimistic_step u (count_participants u s) in
      {s2} \<union> {(rotate_committees u s2)\<lparr>st_finalized_header := fin\<rparr> | fin. should_apply_update u s2 \<and>
         finalized_header u = Some fin \<and> slot (st_finalized_header s) < slot fin})"

lemma finalize_store:
  assumes "finalize L now u c = (r, c')"
  shows "client_config c' = client_config c" "initial_checkpoint c' = initial_checkpoint c" "r = Ok () \<or> r = Panic"
    "r = Ok () \<Longrightarrow> store c' = finalize_step u (store c)"
    "r = Panic \<Longrightarrow> last_checkpoint c' = last_checkpoint c \<and>
       (\<exists>fin. finalized_header u = Some fin \<and> slot (st_finalized_header (store c)) < slot fin \<and>
          store c' = (store c)\<lparr>st_finalized_header := fin\<rparr>)"
  using assms
  by (cases "finalized_header u"; cases "age L (client_config c) now (slot (the (finalized_header u))) :: (report, int) outcome";
      auto simp: finalize_def finalize_step_def update_finalized_slot_def log_finality_update_def Let_def
        age_not_Err split: if_splits option.splits; fail)+

lemma apply_generic_update_store:
  assumes "apply_generic_update L now u c = (r, c')"
  shows "client_config c' = client_config c" "initial_checkpoint c' = initial_checkpoint c" "r = Ok () \<or> r = Panic"
    "r = Ok () \<Longrightarrow> store c' = next_store u (store c)"
    "r = Panic \<Longrightarrow> last_checkpoint c' = last_checkpoint c \<and> store c' \<in> panic_stores u (store c)"
proof -
  let ?s1 = "count_participants u (store c)"
  let ?s2 = "optimistic_step u ?s1"
  obtain q d where fin: "finalize L now u (c\<lparr>store := rotate_committees u ?s2\<rparr>) = (q, d)" by fastforce
  note f = finalize_store [OF fin, simplified]
  have "\<exists>l. (l = Ok () \<or> l = Panic) \<and> apply_generic_update L now u c = then_op (l, c\<lparr>store := ?s2\<rparr>)
      (\<lambda>_ c. if should_apply_update u (store c)
        then finalize L now u (c\<lparr>store := rotate_committees u (store c)\<rparr>) else (Ok (), c))"
    using log_cases [of L "client_config c" now "?s1\<lparr>st_optimistic_header := attested_header u\<rparr>"]
    by (auto simp: apply_generic_update_def Let_def optimistic_step_def)
  then consider (panic) "(r, c') = (Panic, c\<lparr>store := ?s2\<rparr>)"
    | (kept) "\<not> should_apply_update u ?s2" "(r, c') = (Ok (), c\<lparr>store := ?s2\<rparr>)"
    | (applied) "should_apply_update u ?s2" "(r, c') = (q, d)"
    using assms fin by (auto split: if_splits)
  then show "client_config c' = client_config c" "initial_checkpoint c' = initial_checkpoint c"
    "r = Ok () \<or> r = Panic" "r = Ok () \<Longrightarrow> store c' = next_store u (store c)"
    "r = Panic \<Longrightarrow> last_checkpoint c' = last_checkpoint c \<and> store c' \<in> panic_stores u (store c)"
    using f by (cases; auto simp: next_store_def panic_stores_def Let_def; fail)+
qed

subsection \<open>Order of the headers, bounds of the counts\<close>

text \<open>The two headers only move forward, and the optimistic one is never behind.\<close>

definition headers_ordered :: "light_client_store \<Rightarrow> bool" where
  "headers_ordered s \<longleftrightarrow> slot (st_finalized_header s) \<le> slot (st_optimistic_header s)"

definition participation_bounded :: "light_client_store \<Rightarrow> bool" where
  "participation_bounded s \<longleftrightarrow> current_max_active_participants s \<le> 512
     \<and> previous_max_active_participants s \<le> 512"

lemma optimistic_step_forward:
  "slot (st_optimistic_header s) \<le> slot (st_optimistic_header (optimistic_step u s))"
  by (auto simp: optimistic_step_def should_update_optimistic_def)

lemma finalize_step_forward:
  "slot (st_finalized_header s) \<le> slot (st_finalized_header (finalize_step u s))"
  "slot (st_optimistic_header s) \<le> slot (st_optimistic_header (finalize_step u s))"
  by (auto simp: finalize_step_def split: option.split)

lemma next_store_forward:
  "slot (st_finalized_header s) \<le> slot (st_finalized_header (next_store u s))"
  "slot (st_optimistic_header s) \<le> slot (st_optimistic_header (next_store u s))"
proof -
  let ?s2 = "optimistic_step u (count_participants u s)"
  have opt: "slot (st_optimistic_header s) \<le> slot (st_optimistic_header ?s2)"
    using optimistic_step_forward [of "count_participants u s" u] by simp
  note fwd = finalize_step_forward [of "rotate_committees u ?s2" u]
  show "slot (st_finalized_header s) \<le> slot (st_finalized_header (next_store u s))"
    using fwd(1) by (simp add: next_store_def Let_def)
  show "slot (st_optimistic_header s) \<le> slot (st_optimistic_header (next_store u s))"
    using fwd(2) opt by (auto simp: next_store_def Let_def)
qed

lemma panic_stores_forward:
  assumes "t \<in> panic_stores u s"
  shows "slot (st_finalized_header s) \<le> slot (st_finalized_header t)"
    "slot (st_optimistic_header s) \<le> slot (st_optimistic_header t)"
  using assms optimistic_step_forward [of "count_participants u s" u]
  by (auto simp: panic_stores_def Let_def)

lemma headers_ordered_next_store [invariants]:
  assumes "headers_ordered s"
  shows "headers_ordered (next_store u s)"
proof -
  let ?s2 = "optimistic_step u (count_participants u s)"
  have "headers_ordered ?s2"
    using assms optimistic_step_forward [of "count_participants u s" u]
    by (auto simp: headers_ordered_def)
  moreover have "headers_ordered s' \<Longrightarrow> headers_ordered (finalize_step u s')" for s'
    by (auto simp: headers_ordered_def finalize_step_def split: option.split)
  moreover have "headers_ordered (rotate_committees u s') = headers_ordered s'" for s'
    by (simp add: headers_ordered_def)
  ultimately show ?thesis by (simp add: next_store_def Let_def)
qed

lemma committee_bits_le_512:
  "length (sync_committee_bits (sync_aggregate u)) = 512 \<Longrightarrow> committee_bits u \<le> 512"
  using get_bits_le_512 by (simp add: committee_bits_def word_le_nat_alt)

lemma participation_bounded_steps:
  assumes "participation_bounded s" "length (sync_committee_bits (sync_aggregate u)) = 512"
  shows "participation_bounded (optimistic_step u (count_participants u s))"
    and "participation_bounded (rotate_committees u (optimistic_step u (count_participants u s)))"
proof -
  let ?s2 = "optimistic_step u (count_participants u s)"
  show s2: "participation_bounded ?s2"
    using assms committee_bits_le_512 [OF assms(2)]
    by (simp add: participation_bounded_def count_participants_def)
  then show "participation_bounded (rotate_committees u ?s2)"
    by (auto simp: participation_bounded_def rotate_committees_def Let_def split: option.split)
qed

lemma participation_bounded_next_store [invariants]:
  assumes "participation_bounded s" "length (sync_committee_bits (sync_aggregate u)) = 512"
  shows "participation_bounded (next_store u s)" "t \<in> panic_stores u s \<Longrightarrow> participation_bounded t"
  using participation_bounded_steps [OF assms]
  by (auto simp: next_store_def panic_stores_def participation_bounded_def Let_def)

end
