(* ===== verification/Consensus_Client.thy ===== *)
theory Consensus_Client
  imports Light_Client_Lemmas
begin

text \<open>
  The methods of \<open>ConsensusClient\<close> that talk to the consensus RPC (\<open>consensus/src/consensus.rs\<close>,
  \<open>rpc/mod.rs\<close>): bootstrap, sync, advance and the fetching of execution payloads. The server is
  not trusted: it is a record of arbitrary answers. \<open>get_block\<close> also takes the number of the
  call within one operation, since a server may answer the same request differently; every
  other request is made once per operation. \<open>clk k\<close> is the \<open>k\<close>-th reading of the clock. A
  method that mutates the client returns the client as the method left it, also on an error or a
  panic.
\<close>

definition MAX_REQUEST_LIGHT_CLIENT_UPDATES :: u8 where
  "MAX_REQUEST_LIGHT_CLIENT_UPDATES = 128"

record consensus_rpc_server =
  rpc_get_bootstrap :: "bytes \<Rightarrow> (report, bootstrap) outcome"
  rpc_get_updates :: "u64 \<Rightarrow> u8 \<Rightarrow> (report, update list) outcome"
  rpc_get_finality_update :: "(report, finality_update) outcome"
  rpc_get_optimistic_update :: "(report, optimistic_update) outcome"
  rpc_get_block :: "nat \<Rightarrow> u64 \<Rightarrow> (report, beacon_block) outcome"
  rpc_consensus_chain_id :: "(report, u64) outcome"

definition check_consensus_rpc ::
    "consensus_rpc_server \<Rightarrow> consensus_client \<Rightarrow> (report, unit) outcome" where
  "check_consensus_rpc R c =
     and_then (rpc_consensus_chain_id R) (\<lambda>id.
     if id \<noteq> chain_id (chain (client_config c))
     then Err (ConsensusReport IncorrectConsensusRpcNetwork) else Ok ())"

subsection \<open>Execution payloads\<close>

definition get_execution_payload ::
    "('pk, 'sg) consensus_lib \<Rightarrow> consensus_rpc_server \<Rightarrow> nat \<Rightarrow> consensus_client \<Rightarrow> u64 option \<Rightarrow>
     (report, execution_payload) outcome" where
  "get_execution_payload L R k c slot_opt =
     (let sl = (case slot_opt of Some s \<Rightarrow> s | None \<Rightarrow> slot (st_optimistic_header (store c))) in
      and_then (rpc_get_block R k sl) (\<lambda>block.
      and_then (ok_or MerkleizationError (htr_beacon_block L block)) (\<lambda>blk_hash.
      let latest_slot = slot (st_optimistic_header (store c));
          finalized_slot = slot (st_finalized_header (store c)) in
      and_then
        (if sl = latest_slot then ok_or MerkleizationError (htr_header L (st_optimistic_header (store c)))
         else if sl = finalized_slot
         then ok_or MerkleizationError (htr_header L (st_finalized_header (store c)))
         else Err (ConsensusReport (PayloadNotFound sl))) (\<lambda>verified_block_hash.
      if verified_block_hash \<noteq> blk_hash
      then Err (ConsensusReport
             (InvalidHeaderHash (node_to_string L blk_hash) (node_to_string L verified_block_hash)))
      else Ok (execution_payload_of (body block))))))"

definition slot_range :: "u64 \<Rightarrow> u64 \<Rightarrow> u64 list" where
  "slot_range a b = map of_nat [unat a ..< unat b]"

fun link_payloads ::
    "bytes \<Rightarrow> ('e, beacon_block) outcome list \<Rightarrow> execution_payload list \<Rightarrow> execution_payload list" where
  "link_payloads prev_parent_hash [] payloads = payloads"
| "link_payloads prev_parent_hash (Ok block # rest) payloads =
     (let payload = execution_payload_of (body block) in
      if block_hash payload \<noteq> prev_parent_hash then payloads
      else link_payloads (parent_hash payload) rest (payloads @ [payload]))"
| "link_payloads prev_parent_hash (_ # rest) payloads =
     link_payloads prev_parent_hash rest payloads"

definition get_payloads ::
    "consensus_rpc_server \<Rightarrow> nat \<Rightarrow> u64 \<Rightarrow> u64 \<Rightarrow> (report, execution_payload list) outcome" where
  "get_payloads R k start_slot end_slot =
     and_then (rpc_get_block R k end_slot) (\<lambda>end_block.
     let prev_parent_hash = parent_hash (execution_payload_of (body end_block));
         results = map (rpc_get_block R (Suc k)) (rev (slot_range start_slot end_slot)) in
     if list_ex is_panic results then Panic
     else Ok (link_payloads prev_parent_hash results []))"

subsection \<open>Bootstrap\<close>

definition bootstrap_client ::
    "('pk, 'sg) consensus_lib \<Rightarrow> consensus_rpc_server \<Rightarrow> u64 \<Rightarrow> consensus_client \<Rightarrow>
     (consensus_client, report, unit) ret" where
  "bootstrap_client L R now c =
     then_op (map_err (\<lambda>_. Message ''could not fetch bootstrap'')
               (rpc_get_bootstrap R (initial_checkpoint c)), c) (\<lambda>bs c.
     then_op (is_valid_checkpoint (client_config c) now (slot (bs_header bs)), c) (\<lambda>is_valid c.
     if \<not> is_valid \<and> strict_checkpoint_age (client_config c)
     then (Err (ConsensusReport CheckpointTooOld), c)
     else
     let committee_valid = is_current_committee_proof_valid L (bs_header bs)
           (bs_current_sync_committee bs) (bs_current_sync_committee_branch bs) in
     then_op (ok_or MerkleizationError (htr_header L (bs_header bs)), c) (\<lambda>root c.
     let header_hash = node_to_string L root;
         expected_hash = ''0x'' @ hex_encode L (initial_checkpoint c);
         header_valid = (header_hash = expected_hash) in
     if \<not> header_valid then (Err (ConsensusReport (InvalidHeaderHash expected_hash header_hash)), c)
     else if \<not> committee_valid then (Err (ConsensusReport InvalidCurrentSyncCommitteeProof), c)
     else (Ok (), c\<lparr>store :=
             \<lparr>st_finalized_header = bs_header bs,
              st_current_sync_committee = bs_current_sync_committee bs,
              st_next_sync_committee = None,
              st_optimistic_header = bs_header bs,
              previous_max_active_participants = 0,
              current_max_active_participants = 0\<rparr>\<rparr>))))"

subsection \<open>Sync and advance\<close>

text \<open>The pair of calls that every accepted update goes through.\<close>

definition accept ::
    "('pk, 'sg) consensus_lib \<Rightarrow> (nat \<Rightarrow> u64) \<Rightarrow> nat \<Rightarrow> generic_update \<Rightarrow> consensus_client \<Rightarrow>
     (consensus_client, report, unit) ret" where
  "accept L clk k g c =
     then_op (verify_generic_update L (clk k) c g, c) (\<lambda>_ c.
     apply_generic_update L (clk (Suc k)) g c)"

fun accept_updates ::
    "('pk, 'sg) consensus_lib \<Rightarrow> (nat \<Rightarrow> u64) \<Rightarrow> nat \<Rightarrow> update list \<Rightarrow> consensus_client \<Rightarrow>
     (consensus_client, report, unit) ret" where
  "accept_updates L clk k [] c = (Ok (), c)"
| "accept_updates L clk k (u # us) c =
     then_op (verify_update L (clk k) c u, c) (\<lambda>_ c.
     then_op (apply_update L (clk (Suc k)) u c) (\<lambda>_ c.
     accept_updates L clk (k + 2) us c))"

definition accept_finality_and_optimistic ::
    "('pk, 'sg) consensus_lib \<Rightarrow> consensus_rpc_server \<Rightarrow> (nat \<Rightarrow> u64) \<Rightarrow> nat \<Rightarrow> consensus_client \<Rightarrow>
     (consensus_client, report, unit) ret" where
  "accept_finality_and_optimistic L R clk k c =
     then_op (rpc_get_finality_update R, c) (\<lambda>fu c.
     then_op (verify_finality_update L (clk k) c fu, c) (\<lambda>_ c.
     then_op (apply_finality_update L (clk (k + 1)) fu c) (\<lambda>_ c.
     then_op (rpc_get_optimistic_update R, c) (\<lambda>ou c.
     then_op (verify_optimistic_update L (clk (k + 2)) c ou, c) (\<lambda>_ c.
     apply_optimistic_update L (clk (k + 3)) ou c)))))"

definition sync ::
    "('pk, 'sg) consensus_lib \<Rightarrow> consensus_rpc_server \<Rightarrow> (nat \<Rightarrow> u64) \<Rightarrow> consensus_client \<Rightarrow>
     (consensus_client, report, unit) ret" where
  "sync L R clk c =
     then_op (bootstrap_client L R (clk 0) c) (\<lambda>_ c.
     let current_period = calc_sync_period (slot (st_finalized_header (store c))) in
     then_op (rpc_get_updates R current_period MAX_REQUEST_LIGHT_CLIENT_UPDATES, c) (\<lambda>updates c.
     then_op (accept_updates L clk 1 updates c) (\<lambda>_ c.
     accept_finality_and_optimistic L R clk (1 + 2 * length updates) c)))"

definition advance ::
    "('pk, 'sg) consensus_lib \<Rightarrow> consensus_rpc_server \<Rightarrow> (nat \<Rightarrow> u64) \<Rightarrow> consensus_client \<Rightarrow>
     (consensus_client, report, unit) ret" where
  "advance L R clk c =
     then_op (accept_finality_and_optimistic L R clk 0 c) (\<lambda>_ c.
     if st_next_sync_committee (store c) = None then
       let current_period = calc_sync_period (slot (st_finalized_header (store c))) in
       then_op (rpc_get_updates R current_period 1, c) (\<lambda>updates c.
       case updates of
         [u] \<Rightarrow> (case verify_update L (clk 4) c u of
                  Ok _ \<Rightarrow> apply_update L (clk 5) u c
                | Err _ \<Rightarrow> (Ok (), c)
                | Panic \<Rightarrow> (Panic, c))
       | _ \<Rightarrow> (Ok (), c))
     else (Ok (), c))"

subsection \<open>Everything goes through \<open>accept\<close>\<close>

lemma then_op_assoc [simp]:
  "then_op (then_op m f) g = then_op m (\<lambda>x s. then_op (f x s) g)"
  by (cases "(m, f)" rule: then_op.cases) auto

lemma accept_updates_Cons:
  "accept_updates L clk k (u # us) c =
     then_op (accept L clk k (generic_from_update u) c) (\<lambda>_ c. accept_updates L clk (k + 2) us c)"
  by (simp add: accept_def verify_update_def apply_update_def)

lemma accept_finality_and_optimistic_eq:
  "accept_finality_and_optimistic L R clk k c =
     then_op (rpc_get_finality_update R, c) (\<lambda>fu c.
     then_op (accept L clk k (generic_from_finality_update fu) c) (\<lambda>_ c.
     then_op (rpc_get_optimistic_update R, c) (\<lambda>ou c.
     accept L clk (k + 2) (generic_from_optimistic_update ou) c)))"
  by (simp add: accept_finality_and_optimistic_def accept_def verify_finality_update_def
      apply_finality_update_def verify_optimistic_update_def apply_optimistic_update_def
      numeral_3_eq_3)

lemma accept_cases:
  obtains (accepted) r c' where "verify_generic_update L (clk k) c g = Ok ()"
      "apply_generic_update L (clk (Suc k)) g c = (r, c')" "accept L clk k g c = (r, c')"
  | (refused) "snd (accept L clk k g c) = c" "fst (accept L clk k g c) \<noteq> Ok ()"
  by (cases "verify_generic_update L (clk k) c g";
      cases "apply_generic_update L (clk (Suc k)) g c") (auto simp: accept_def)

subsection \<open>Hash-linked payloads\<close>

text \<open>
  A list of payloads, each of which has the hash that the one before it names as its parent;
  the first has the hash \<open>h\<close>.
\<close>

fun hash_chain :: "bytes \<Rightarrow> execution_payload list \<Rightarrow> bool" where
  "hash_chain h [] \<longleftrightarrow> True"
| "hash_chain h (p # ps) \<longleftrightarrow> block_hash p = h \<and> hash_chain (parent_hash p) ps"

lemma link_payloads_eq:
  "\<exists>ps. link_payloads h results acc = acc @ ps \<and> hash_chain h ps \<and> length ps \<le> length results \<and>
     (\<forall>p \<in> set ps. \<exists>block. Ok block \<in> set results \<and> p = execution_payload_of (body block))"
proof (induction h results acc rule: link_payloads.induct)
  case (2 h block rest acc)
  let ?p = "execution_payload_of (body block)"
  show ?case
  proof (cases "block_hash ?p = h")
    case True
    with "2.IH" [OF refl] obtain ps where
      "link_payloads (parent_hash ?p) rest (acc @ [?p]) = (acc @ [?p]) @ ps" "hash_chain (parent_hash ?p) ps"
      "length ps \<le> length rest"
      "\<forall>p \<in> set ps. \<exists>block. Ok block \<in> set rest \<and> p = execution_payload_of (body block)" by auto
    with True show ?thesis by (intro exI [of _ "?p # ps"]) auto
  qed (simp add: Let_def)
qed fastforce+

lemma get_payloads_chain:
  assumes "get_payloads R k a b = Ok ps"
  shows "\<exists>end_block. rpc_get_block R k b = Ok end_block \<and>
    hash_chain (parent_hash (execution_payload_of (body end_block))) ps \<and> length ps \<le> unat b - unat a"
proof -
  from assms obtain end_block where e: "rpc_get_block R k b = Ok end_block"
    "ps = link_payloads (parent_hash (execution_payload_of (body end_block)))
       (map (rpc_get_block R (Suc k)) (rev (slot_range a b))) []"
    by (auto simp: get_payloads_def outcome_simps Let_def split: if_splits)
  moreover have "length (slot_range a b) = unat b - unat a" by (simp add: slot_range_def)
  ultimately show ?thesis
    using link_payloads_eq [of "parent_hash (execution_payload_of (body end_block))"
        "map (rpc_get_block R (Suc k)) (rev (slot_range a b))" "[]"] by auto
qed

text \<open>
  The contract of a property of the client: a preorder on clients that one accepted update
  respects, from clients that satisfy an invariant it keeps. The runs of updates, and
  \<open>advance\<close>, then respect it too, whatever they return. A panic leaves the client
  half-way through an update: \<open>surviving\<close> says whether the property also holds of that. (The release
  build aborts there; a build that unwinds goes on with what the update left.)
\<close>

locale client_contract =
  fixes surviving :: bool
    and inv :: "'l \<Rightarrow> consensus_client \<Rightarrow> bool"
    and le :: "'l \<Rightarrow> consensus_client \<Rightarrow> consensus_client \<Rightarrow> bool"
    and ok :: "generic_update \<Rightarrow> bool"
    and lib :: "'l \<Rightarrow> ('pk, 'sg) consensus_lib"
  assumes le_refl: "le p c c"
    and le_trans: "le p c c' \<Longrightarrow> le p c' c'' \<Longrightarrow> le p c c''"
    and step_inv: "inv p c \<Longrightarrow> ok g \<Longrightarrow> paired g \<Longrightarrow>
          verify_generic_update (lib p) now c g = Ok () \<Longrightarrow>
          apply_generic_update (lib p) now' g c = (r, c') \<Longrightarrow> r = Ok () \<or> surviving \<Longrightarrow> inv p c'"
    and step_le: "inv p c \<Longrightarrow> ok g \<Longrightarrow> paired g \<Longrightarrow>
          verify_generic_update (lib p) now c g = Ok () \<Longrightarrow>
          apply_generic_update (lib p) now' g c = (r, c') \<Longrightarrow> r = Ok () \<or> surviving \<Longrightarrow> le p c c'"
begin

definition good :: "'l \<Rightarrow> consensus_client \<Rightarrow> consensus_client \<Rightarrow> bool" where
  "good p c c' \<longleftrightarrow> inv p c' \<and> le p c c'"

text \<open>What a method leaves, unless it panicked and the property does not survive that.\<close>

definition leaves :: "'l \<Rightarrow> consensus_client \<Rightarrow> (consensus_client, report, 'x) ret \<Rightarrow> bool" where
  "leaves p c m \<longleftrightarrow> (is_panic (fst m) \<longrightarrow> surviving) \<longrightarrow> good p c (snd m)"

definition server_ok :: "consensus_rpc_server \<Rightarrow> bool" where
  "server_ok R \<longleftrightarrow> (\<forall>p n us. rpc_get_updates R p n = Ok us \<longrightarrow> (\<forall>u \<in> set us. ok (generic_from_update u)))
     \<and> (\<forall>u. rpc_get_finality_update R = Ok u \<longrightarrow> ok (generic_from_finality_update u))
     \<and> (\<forall>u. rpc_get_optimistic_update R = Ok u \<longrightarrow> ok (generic_from_optimistic_update u))"

lemma good_refl: "inv p c \<Longrightarrow> good p c c"
  by (simp add: good_def le_refl)

lemma leaves_here: "good p c0 c \<Longrightarrow> leaves p c0 (m, c)"
  by (simp add: leaves_def)

lemma leaves_then_op:
  assumes "leaves p c0 m" "\<And>x s. m = (Ok x, s) \<Longrightarrow> good p c0 s \<Longrightarrow> leaves p c0 (f x s)"
  shows "leaves p c0 (then_op m f)"
  using assms by (cases "(m, f)" rule: then_op.cases) (auto simp: leaves_def)

lemma leaves_accept:
  assumes "good p c0 c" "ok g" "paired g"
  shows "leaves p c0 (accept (lib p) clk k g c)"
proof (cases rule: accept_cases [of "lib p" clk k c g])
  case (accepted r c')
  have "good p c0 c'" if "r = Ok () \<or> surviving"
    using assms step_inv [OF _ assms(2,3) accepted(1,2) that] step_le [OF _ assms(2,3) accepted(1,2) that]
    by (auto simp: good_def intro: le_trans)
  moreover have "r = Ok () \<or> r = Panic" using apply_generic_update_store(3) [OF accepted(2)] .
  ultimately show ?thesis using accepted by (auto simp: leaves_def)
next
  case refused
  with assms(1) show ?thesis by (simp add: leaves_def)
qed

lemma leaves_accept_updates:
  "good p c0 c \<Longrightarrow> \<forall>u \<in> set us. ok (generic_from_update u) \<Longrightarrow>
     leaves p c0 (accept_updates (lib p) clk k us c)"
proof (induction us arbitrary: k c)
  case (Cons u us)
  have "leaves p c0 (accept (lib p) clk k (generic_from_update u) c)"
    using Cons.prems by (intro leaves_accept) auto
  then show ?case
    unfolding accept_updates_Cons by (rule leaves_then_op) (use Cons in auto)
qed (simp add: leaves_here)

lemma leaves_finality_and_optimistic:
  assumes "good p c0 c" "server_ok R"
  shows "leaves p c0 (accept_finality_and_optimistic (lib p) R clk k c)"
  unfolding accept_finality_and_optimistic_eq
  using assms by (intro leaves_then_op leaves_here leaves_accept) (auto simp: server_ok_def)

text \<open>The last part of \<open>advance\<close>: the update that brings the next committee.\<close>

lemma leaves_next_committee:
  assumes "good p c0 c" "server_ok R"
  shows "leaves p c0 (if st_next_sync_committee (store c) = None then
       let current_period = calc_sync_period (slot (st_finalized_header (store c))) in
       then_op (rpc_get_updates R current_period 1, c) (\<lambda>updates c.
       case updates of
         [u] \<Rightarrow> (case verify_update (lib p) (clk 4) c u of
                  Ok _ \<Rightarrow> apply_update (lib p) (clk 5) u c
                | Err _ \<Rightarrow> (Ok (), c)
                | Panic \<Rightarrow> (Panic, c))
       | _ \<Rightarrow> (Ok (), c))
     else (Ok (), c))"
proof -
  have last_step: "leaves p c0 (case verify_update (lib p) (clk 4) c u of
             Ok _ \<Rightarrow> apply_update (lib p) (clk 5) u c
           | Err _ \<Rightarrow> (Ok (), c) | Panic \<Rightarrow> (Panic, c))"
    if "ok (generic_from_update u)" for u
  proof -
    have "leaves p c0 (accept (lib p) (\<lambda>i. if i = 0 then clk 4 else clk 5) 0 (generic_from_update u) c)"
      using that assms(1) by (intro leaves_accept) auto
    with assms(1) show ?thesis
      by (cases "verify_update (lib p) (clk 4) c u")
        (simp_all add: accept_def verify_update_def apply_update_def leaves_here)
  qed
  with assms show ?thesis
    by (auto simp: Let_def server_ok_def intro!: leaves_then_op leaves_here split: list.split)
qed

lemma advance_leaves:
  assumes "inv p c" "server_ok R"
  shows "leaves p c (advance (lib p) R clk c)"
  unfolding advance_def
  using assms by (intro leaves_then_op leaves_finality_and_optimistic leaves_next_committee good_refl)

lemma advance_good:
  assumes "inv p c" "server_ok R" "fst (advance (lib p) R clk c) = Panic \<Longrightarrow> surviving"
  shows "good p c (snd (advance (lib p) R clk c))"
  using advance_leaves [OF assms(1,2), of clk] assms(3) unfolding leaves_def
  by (cases "fst (advance (lib p) R clk c)") simp_all

text \<open>Where the finality update is accepted, the rest starts from the client that it gives.\<close>

lemma advance_after_finality:
  assumes "rpc_get_finality_update R = Ok fu"
    and "accept (lib p) clk 0 (generic_from_finality_update fu) c = (Ok (), c1)"
    and "good p c0 c1" "server_ok R"
  shows "leaves p c0 (advance (lib p) R clk c)"
proof -
  have "leaves p c0 (accept_finality_and_optimistic (lib p) R clk 0 c)"
    using assms(3,4)
    by (auto simp: accept_finality_and_optimistic_eq assms(1,2) server_ok_def
        intro!: leaves_then_op leaves_accept leaves_here)
  then show ?thesis
    unfolding advance_def using assms(4) by (intro leaves_then_op leaves_next_committee)
qed

lemma sync_good:
  assumes "\<And>c'. bootstrap_client (lib p) R (clk 0) c = (Ok (), c') \<Longrightarrow> inv p c'"
    and "server_ok R" "sync (lib p) R clk c = (Ok (), c'')"
  shows "inv p c''"
proof -
  obtain c1 where boot: "bootstrap_client (lib p) R (clk 0) c = (Ok (), c1)"
    using assms(3) by (auto simp: sync_def outcome_simps)
  then have c1: "good p c1 c1" by (simp add: assms(1) good_refl)
  let ?rest = "then_op (rpc_get_updates R (calc_sync_period (slot (st_finalized_header (store c1))))
       MAX_REQUEST_LIGHT_CLIENT_UPDATES, c1) (\<lambda>updates c.
     then_op (accept_updates (lib p) clk 1 updates c) (\<lambda>_ c.
     accept_finality_and_optimistic (lib p) R clk (1 + 2 * length updates) c))"
  have "leaves p c1 ?rest"
    using c1 assms(2)
    by (intro leaves_then_op leaves_here leaves_accept_updates leaves_finality_and_optimistic)
      (auto simp: server_ok_def)
  moreover from assms(3) boot have "?rest = (Ok (), c'')" by (simp add: sync_def Let_def)
  ultimately show ?thesis by (simp add: leaves_def good_def)
qed

end

end
