(* ===== verification/Light_Client_Trust.thy ===== *)
theory Light_Client_Trust
  imports Consensus_Client
begin

text \<open>
  What the light client promises: everything in its store is linked to the trusted checkpoint
  by Merkle proofs and by signatures of committees that were themselves linked to it. The
  chain of trust is an inductive definition over the primitive checks, independent of the
  store; the reachable clients are those that a bootstrap and accepted updates produce; and
  the theorem is that the store of a reachable client is inside the chain of trust.
\<close>

subsection \<open>The chain of trust\<close>

text \<open>The header that the user's checkpoint names.\<close>

definition is_anchor :: "('pk, 'sg) consensus_lib \<Rightarrow> bytes \<Rightarrow> header \<Rightarrow> bool" where
  "is_anchor L ckpt h \<longleftrightarrow>
     (\<exists>root. htr_header L h = Some root \<and> node_to_string L root = ''0x'' @ hex_encode L ckpt)"

text \<open>
  \<open>trusted_committee com p\<close>: \<open>com\<close> is the committee of period \<open>p\<close>. \<open>signed_header h n\<close>: \<open>n\<close>
  members of the committee of the signature's period signed \<open>h\<close>. A committee becomes trusted
  when a header signed by at least two thirds proves it to be the next one.
\<close>

inductive trusted_committee :: "('pk, 'sg) consensus_lib \<Rightarrow> config \<Rightarrow> bytes \<Rightarrow> sync_committee \<Rightarrow> nat \<Rightarrow> bool"
  and signed_header :: "('pk, 'sg) consensus_lib \<Rightarrow> config \<Rightarrow> bytes \<Rightarrow> header \<Rightarrow> u64 \<Rightarrow> bool"
  for L :: "('pk, 'sg) consensus_lib" and cfg :: config and ckpt :: bytes
where
  anchor_committee:
    "is_anchor L ckpt h \<Longrightarrow> is_current_committee_proof_valid L h com br \<Longrightarrow>
     trusted_committee L cfg ckpt com (sync_period (slot h))"
| signed:
    "trusted_committee L cfg ckpt com (sync_period (signature_slot u)) \<Longrightarrow>
     committee_signed L cfg com u \<Longrightarrow> slot (attested_header u) < signature_slot u \<Longrightarrow>
     signed_header L cfg ckpt (attested_header u) (committee_bits u)"
| proved_committee:
    "signed_header L cfg ckpt h n \<Longrightarrow> 512 * 2 \<le> n * 3 \<Longrightarrow>
     is_next_committee_proof_valid L h com br \<Longrightarrow>
     trusted_committee L cfg ckpt com (sync_period (slot h) + 1)"

definition finalized_by_chain :: "('pk, 'sg) consensus_lib \<Rightarrow> config \<Rightarrow> bytes \<Rightarrow> header \<Rightarrow> bool" where
  "finalized_by_chain L cfg ckpt h \<longleftrightarrow> is_anchor L ckpt h
     \<or> (\<exists>a n br. signed_header L cfg ckpt a n \<and> 512 * 2 \<le> n * 3 \<and> is_finality_proof_valid L a h br)"

definition store_trusted :: "('pk, 'sg) consensus_lib \<Rightarrow> config \<Rightarrow> bytes \<Rightarrow> light_client_store \<Rightarrow> bool" where
  "store_trusted L cfg ckpt s \<longleftrightarrow>
     finalized_by_chain L cfg ckpt (st_finalized_header s)
     \<and> (finalized_by_chain L cfg ckpt (st_optimistic_header s)
        \<or> (\<exists>n. n \<noteq> 0 \<and> signed_header L cfg ckpt (st_optimistic_header s) n))
     \<and> trusted_committee L cfg ckpt (st_current_sync_committee s)
          (sync_period (slot (st_finalized_header s)))
     \<and> (\<forall>com. st_next_sync_committee s = Some com \<longrightarrow>
          trusted_committee L cfg ckpt com (sync_period (slot (st_finalized_header s)) + 1))"

subsection \<open>One accepted update\<close>

text \<open>What a valid update gives, on the words of the store.\<close>

lemma verified_update_facts:
  assumes ver: "verify_generic_update L now c u = Ok ()" and paired: "paired u"
    and tr: "store_trusted L (client_config c) ckpt (store c)"
  shows "signed_header L (client_config c) ckpt (attested_header u) (committee_bits u)"
    and "committee_bits u \<noteq> 0"
    and "\<And>h. finalized_header u = Some h \<Longrightarrow>
           slot h \<le> slot (attested_header u) \<and> (\<exists>br. is_finality_proof_valid L (attested_header u) h br)"
    and "\<And>com. next_sync_committee u = Some com \<Longrightarrow>
           \<exists>br. is_next_committee_proof_valid L (attested_header u) com br"
    and "sync_period (slot (attested_header u)) \<le> sync_period (slot (st_finalized_header (store c))) + 1"
    and "st_next_sync_committee (store c) = None \<Longrightarrow>
           sync_period (slot (attested_header u)) = sync_period (slot (st_finalized_header (store c)))"
proof -
  let ?s = "store c"
  note facts = ver [unfolded verify_generic_update_Ok_iff Let_def calc_sync_period_eq_iff
      calc_sync_period_Suc_iff]
  show "committee_bits u \<noteq> 0" using facts by (simp add: committee_bits_def)
  have att: "slot (attested_header u) < signature_slot u" using facts by simp
  obtain com where com: "if sync_period (signature_slot u) = sync_period (slot (st_finalized_header ?s))
        then com = st_current_sync_committee ?s else st_next_sync_committee ?s = Some com"
      and sig: "committee_signed L (client_config c) com u"
    using facts unfolding committee_signed_iff by blast
  have per: "sync_period (signature_slot u) = sync_period (slot (st_finalized_header ?s))
      \<or> sync_period (signature_slot u) = sync_period (slot (st_finalized_header ?s)) + 1
        \<and> st_next_sync_committee ?s \<noteq> None"
    using facts by blast
  with com tr have "trusted_committee L (client_config c) ckpt com (sync_period (signature_slot u))"
    by (auto simp: store_trusted_def split: if_splits)
  with sig att
  show "signed_header L (client_config c) ckpt (attested_header u) (committee_bits u)"
    by (intro trusted_committee_signed_header.signed)
  show "slot h \<le> slot (attested_header u) \<and> (\<exists>br. is_finality_proof_valid L (attested_header u) h br)"
    if "finalized_header u = Some h" for h
    using facts that paired by (auto simp: paired_def)
  show "\<exists>br. is_next_committee_proof_valid L (attested_header u) com br"
    if "next_sync_committee u = Some com" for com
    using facts that paired by (auto simp: paired_def)
  have le: "sync_period (slot (attested_header u)) \<le> sync_period (signature_slot u)"
    using att by (intro sync_period_mono) simp
  with per show "sync_period (slot (attested_header u)) \<le> sync_period (slot (st_finalized_header ?s)) + 1"
    by auto
  show "sync_period (slot (attested_header u)) = sync_period (slot (st_finalized_header ?s))"
    if none: "st_next_sync_committee ?s = None"
  proof -
    from none per le have "sync_period (slot (attested_header u)) \<le> sync_period (slot (st_finalized_header ?s))"
      by auto
    moreover have "slot (st_finalized_header ?s) < slot (attested_header u)
        \<or> sync_period (slot (attested_header u)) = sync_period (slot (st_finalized_header ?s))"
      using facts by blast
    then have "sync_period (slot (st_finalized_header ?s)) \<le> sync_period (slot (attested_header u))"
      by (auto intro: sync_period_mono)
    ultimately show ?thesis by simp
  qed
qed

lemma should_apply_majority: "should_apply_update u s \<Longrightarrow> 512 * 2 \<le> committee_bits u * 3"
  by (simp add: should_apply_update_def Let_def)

lemma store_trusted_optimistic_step:
  assumes "store_trusted L cfg ckpt s" "signed_header L cfg ckpt (attested_header u) n" "n \<noteq> 0"
  shows "store_trusted L cfg ckpt (optimistic_step u (count_participants u s))"
  using assms
  by (auto simp: store_trusted_def optimistic_step_def count_participants_def)

lemma store_trusted_optimistic:
  assumes "store_trusted L cfg ckpt t" "store_trusted L cfg ckpt s"
  shows "store_trusted L cfg ckpt (t\<lparr>st_optimistic_header := st_optimistic_header s\<rparr>)"
  using assms by (simp add: store_trusted_def)

lemma finalize_step_period:
  "sync_period (slot (st_finalized_header (finalize_step u s))) =
     max (sync_period (slot (st_finalized_header s))) (sync_period (update_finalized_slot u))"
  using sync_period_mono [of "slot (st_finalized_header s)" "update_finalized_slot u"]
    sync_period_mono [of "update_finalized_slot u" "slot (st_finalized_header s)"]
  by (auto simp: finalize_step_def update_finalized_slot_def max_def not_less sync_period_def
      split: option.split)

text \<open>
  The committees after rotation belong to the period of the header finalised next: this is
  where the periods of the signature, of the attested and of the finalised header meet.
\<close>

lemma store_trusted_apply_step:
  assumes tr: "store_trusted L cfg ckpt s"
    and signed: "signed_header L cfg ckpt (attested_header u) n" and maj: "512 * 2 \<le> n * 3"
    and fin: "\<And>h. finalized_header u = Some h \<Longrightarrow>
           slot h \<le> slot (attested_header u) \<and> (\<exists>br. is_finality_proof_valid L (attested_header u) h br)"
    and nxt: "\<And>com. next_sync_committee u = Some com \<Longrightarrow>
           \<exists>br. is_next_committee_proof_valid L (attested_header u) com br"
    and per: "sync_period (slot (attested_header u)) \<le> sync_period (slot (st_finalized_header s)) + 1"
    and per_none: "st_next_sync_committee s = None \<Longrightarrow>
           sync_period (slot (attested_header u)) = sync_period (slot (st_finalized_header s))"
  shows "store_trusted L cfg ckpt (finalize_step u (rotate_committees u s))"
proof -
  let ?p = "sync_period (slot (st_finalized_header s))"
  let ?f = "sync_period (update_finalized_slot u)"
  have committee: "trusted_committee L cfg ckpt com (sync_period (slot (attested_header u)) + 1)"
    if "next_sync_committee u = Some com" for com
    using nxt [OF that] signed maj by (blast intro: trusted_committee_signed_header.proved_committee)
  have header: "finalized_by_chain L cfg ckpt h" if "finalized_header u = Some h" for h
    using fin [OF that] signed maj by (auto simp: finalized_by_chain_def)
  have f_le: "?f \<le> sync_period (slot (attested_header u))"
    using fin by (auto simp: update_finalized_slot_def sync_period_def word_le_nat_alt
        intro: div_le_mono split: option.split)
  let ?r = "rotate_committees u s"
  let ?t = "finalize_step u ?r"
  have fin_period: "sync_period (slot (st_finalized_header ?t)) = max ?p ?f"
    by (simp add: finalize_step_period)
  have heads: "finalized_by_chain L cfg ckpt (st_finalized_header ?t)"
    "finalized_by_chain L cfg ckpt (st_optimistic_header ?t)
        \<or> (\<exists>n. n \<noteq> 0 \<and> signed_header L cfg ckpt (st_optimistic_header ?t) n)"
    using tr header by (auto simp: store_trusted_def finalize_step_def split: option.splits)
  show ?thesis
  proof (cases "st_next_sync_committee s")
    case None
    then have "?f \<le> ?p" using f_le per_none by simp
    with None tr heads committee per_none fin_period show ?thesis
      by (auto simp: store_trusted_def rotate_committees_def)
  next
    case (Some com)
    show ?thesis
    proof (cases "?f = ?p + 1")
      case True
      with f_le per have "sync_period (slot (attested_header u)) = ?p + 1" by simp
      with True Some tr heads committee fin_period show ?thesis
        by (auto simp: store_trusted_def rotate_committees_def Let_def calc_sync_period_Suc_iff)
    next
      case False
      with f_le per have "?f \<le> ?p" by simp
      with False Some tr heads fin_period show ?thesis
        by (auto simp: store_trusted_def rotate_committees_def Let_def calc_sync_period_Suc_iff)
    qed
  qed
qed

text \<open>Accepting an update keeps the store trusted, also where application panics half-way.\<close>

lemma store_trusted_accept [invariants]:
  assumes "store_trusted L (client_config c) ckpt (store c)" "paired u"
    and "verify_generic_update L now c u = Ok ()" "apply_generic_update L now' u c = (r, c')"
  shows "store_trusted L (client_config c') ckpt (store c')"
proof -
  note f = verified_update_facts [OF assms(3,2,1)]
  let ?s2 = "optimistic_step u (count_participants u (store c))"
  have s2: "store_trusted L (client_config c) ckpt ?s2"
    using f(1,2) assms(1) by (intro store_trusted_optimistic_step)
  have applied: "store_trusted L (client_config c) ckpt (finalize_step u (rotate_committees u ?s2))"
    if "should_apply_update u ?s2"
    using s2 f(1) should_apply_majority [OF that] f(3-6)
    by (intro store_trusted_apply_step) auto
  with s2 have next_trusted: "store_trusted L (client_config c) ckpt (next_store u (store c))"
    by (simp add: next_store_def Let_def)
  have "store_trusted L (client_config c) ckpt t" if "t \<in> panic_stores u (store c)" for t
  proof (cases "t = ?s2")
    case False
    with that obtain fin where fin: "should_apply_update u ?s2" "finalized_header u = Some fin"
      "slot (st_finalized_header (store c)) < slot fin"
      "t = (rotate_committees u ?s2)\<lparr>st_finalized_header := fin\<rparr>"
      by (auto simp: panic_stores_def Let_def)
    then have "t = (finalize_step u (rotate_committees u ?s2))\<lparr>st_optimistic_header := st_optimistic_header ?s2\<rparr>"
      by (simp add: finalize_step_def)
    then show ?thesis using store_trusted_optimistic [OF applied [OF fin(1)] s2] by simp
  qed (simp add: s2)
  with next_trusted apply_generic_update_store [OF assms(4)] show ?thesis by auto
qed

subsection \<open>Bootstrap\<close>

lemma bootstrap_client_Ok:
  assumes "bootstrap_client L R now c = (Ok (), c')"
  obtains bs root where "rpc_get_bootstrap R (initial_checkpoint c) = Ok bs"
    "htr_header L (bs_header bs) = Some root"
    "node_to_string L root = ''0x'' @ hex_encode L (initial_checkpoint c)"
    "is_current_committee_proof_valid L (bs_header bs) (bs_current_sync_committee bs)
        (bs_current_sync_committee_branch bs)"
    "c' = c\<lparr>store :=
       \<lparr>st_finalized_header = bs_header bs, st_current_sync_committee = bs_current_sync_committee bs,
        st_next_sync_committee = None, st_optimistic_header = bs_header bs,
        previous_max_active_participants = 0, current_max_active_participants = 0\<rparr>\<rparr>"
  using assms
  by (auto simp: bootstrap_client_def Let_def outcome_simps split: if_splits)

lemma bootstrap_client_trusted:
  assumes "bootstrap_client L R now c = (Ok (), c')"
  shows "store_trusted L (client_config c') (initial_checkpoint c') (store c')"
  using assms
proof (cases rule: bootstrap_client_Ok)
  case (1 bs root)
  then have "is_anchor L (initial_checkpoint c) (bs_header bs)" by (auto simp: is_anchor_def)
  with 1 show ?thesis
    by (auto simp: store_trusted_def finalized_by_chain_def
        intro: trusted_committee_signed_header.anchor_committee)
qed

subsection \<open>Reachable clients\<close>

inductive reachable :: "('pk, 'sg) consensus_lib \<Rightarrow> consensus_client \<Rightarrow> bool"
  for L :: "('pk, 'sg) consensus_lib"
where
  booted: "bootstrap_client L R now c = (Ok (), c') \<Longrightarrow> reachable L c'"
| accepted: "reachable L c \<Longrightarrow> paired g \<Longrightarrow> verify_generic_update L now c g = Ok () \<Longrightarrow>
     apply_generic_update L now' g c = (r, c') \<Longrightarrow> reachable L c'"

inductive_cases reachable_elim: "reachable L c"

lemma reachable_trusted:
  "reachable L c \<Longrightarrow> store_trusted L (client_config c) (initial_checkpoint c) (store c)"
proof (induction rule: reachable.induct)
  case (booted R now c c')
  then show ?case by (rule bootstrap_client_trusted)
next
  case (accepted c g now now' r c')
  then show ?case
    using store_trusted_accept [of L c "initial_checkpoint c" g now now' r c']
      apply_generic_update_store(2) [of L now' g c r c'] by simp
qed

subsection \<open>The contracts\<close>

text \<open>A later client: same configuration and checkpoint, and headers that only moved forward.\<close>

definition later :: "consensus_client \<Rightarrow> consensus_client \<Rightarrow> bool" where
  "later c c' \<longleftrightarrow> client_config c' = client_config c \<and> initial_checkpoint c' = initial_checkpoint c
     \<and> slot (st_finalized_header (store c)) \<le> slot (st_finalized_header (store c'))
     \<and> slot (st_optimistic_header (store c)) \<le> slot (st_optimistic_header (store c'))"

lemma later_refl: "later c c"
  by (simp add: later_def)

lemma later_trans: "later c c' \<Longrightarrow> later c' c'' \<Longrightarrow> later c c''"
  by (auto simp: later_def)

lemma later_apply:
  assumes "apply_generic_update L now u c = (r, c')"
  shows "later c c'"
  using apply_generic_update_store [OF assms]
  by (auto simp: later_def next_store_forward panic_stores_forward)

interpretation trust: client_contract True reachable "\<lambda>_. later" "\<lambda>_. True" "\<lambda>L. L"
  by unfold_locales (blast intro: later_refl later_trans later_apply reachable.accepted)+

text \<open>
  The optimistic header is not behind the finalised one, except where a panic came between the
  assignments to the two.
\<close>

interpretation ordered: client_contract False "\<lambda>_ c. headers_ordered (store c)" "\<lambda>_. later" "\<lambda>_. True" "\<lambda>L. L"
proof unfold_locales
  fix p :: "('a, 'b) consensus_lib" and c c' g now' r
  show "headers_ordered (store c')" if "headers_ordered (store c)"
    "apply_generic_update p now' g c = (r, c')" "r = Ok () \<or> False"
    using that apply_generic_update_store(4) [OF that(2)] headers_ordered_next_store by auto
qed (blast intro: later_refl later_trans later_apply)+

lemma sync_headers_ordered:
  assumes "sync L R clk c = (Ok (), c')"
  shows "headers_ordered (store c')"
proof (rule ordered.sync_good [OF _ _ assms])
  show "headers_ordered (store c1)" if "bootstrap_client L R (clk 0) c = (Ok (), c1)" for c1
    using that by (cases rule: bootstrap_client_Ok) (simp add: headers_ordered_def)
qed (simp add: ordered.server_ok_def)

lemma advance_headers_ordered:
  assumes "advance L R clk c = (r, c')" "headers_ordered (store c)" "r \<noteq> Panic"
  shows "headers_ordered (store c')"
  using ordered.advance_good [OF assms(2), of R L clk] assms(1,3)
  by (simp add: ordered.server_ok_def ordered.good_def)

text \<open>Participation counts stay within the size of a committee.\<close>

definition bits_512 :: "generic_update \<Rightarrow> bool" where
  "bits_512 u \<longleftrightarrow> length (sync_committee_bits (sync_aggregate u)) = 512"

interpretation participation: client_contract True
  "\<lambda>_ c. participation_bounded (store c)" "\<lambda>_. later" bits_512 "\<lambda>L. L"
proof unfold_locales
  fix p :: "('a, 'b) consensus_lib" and c c' g now' r
  show "participation_bounded (store c')"
    if "participation_bounded (store c)" "bits_512 g" "apply_generic_update p now' g c = (r, c')"
    using participation_bounded_next_store [OF that(1), of g] that(2) apply_generic_update_store [OF that(3)]
    by (auto simp: bits_512_def)
qed (blast intro: later_refl later_trans later_apply)+

text \<open>The checkpoint and the configuration that a run started from are those of its result.\<close>

definition started_from ::
    "('pk, 'sg) consensus_lib \<times> bytes \<times> config \<Rightarrow> consensus_client \<Rightarrow> bool" where
  "started_from p c \<longleftrightarrow> reachable (fst p) c \<and> initial_checkpoint c = fst (snd p) \<and>
     client_config c = snd (snd p)"

interpretation anchored: client_contract True started_from "\<lambda>_. later" "\<lambda>_. True" fst
proof unfold_locales
  fix p :: "('a, 'b) consensus_lib \<times> bytes \<times> config" and c c' g now now' r
  show "started_from p c'" if "started_from p c" "paired g"
    "verify_generic_update (fst p) now c g = Ok ()" "apply_generic_update (fst p) now' g c = (r, c')"
    using that later_apply [OF that(4)] by (auto simp: started_from_def later_def intro: reachable.accepted)
qed (blast intro: later_refl later_trans later_apply)+

lemma bootstrap_started_from:
  assumes "bootstrap_client L R now c = (Ok (), c')"
  shows "started_from (L, initial_checkpoint c, client_config c) c'"
proof -
  have "initial_checkpoint c' = initial_checkpoint c" "client_config c' = client_config c"
    using assms by (auto elim!: bootstrap_client_Ok)
  with reachable.booted [OF assms] show ?thesis by (simp add: started_from_def)
qed

lemma sync_started_from:
  assumes "sync L R clk c = (Ok (), c')"
  shows "started_from (L, initial_checkpoint c, client_config c) c'"
  using anchored.sync_good [of "(L, initial_checkpoint c, client_config c)" R clk c c'] assms
  by (auto simp: anchored.server_ok_def intro: bootstrap_started_from)

subsection \<open>The vote for the optimistic header\<close>

text \<open>
  A header that was accepted as the optimistic one: a client of this run verified an update that
  attests it, and the update's signers are more than half of the greatest participation that the
  client had counted in the current and the previous period.
\<close>

definition voted_header ::
    "('pk, 'sg) consensus_lib \<times> bytes \<times> config \<Rightarrow> header \<Rightarrow> bool" where
  "voted_header p h \<longleftrightarrow>
     (\<exists>c now u. started_from p c \<and> verify_generic_update (fst p) now c u = Ok () \<and> attested_header u = h \<and>
        unat (max (current_max_active_participants (store c)) (previous_max_active_participants (store c)))
          < 2 * unat (committee_bits u))"

definition optimistic_earned ::
    "('pk, 'sg) consensus_lib \<times> bytes \<times> config \<Rightarrow> consensus_client \<Rightarrow> bool" where
  "optimistic_earned p c \<longleftrightarrow> started_from p c \<and>
     (finalized_by_chain (fst p) (snd (snd p)) (fst (snd p)) (st_optimistic_header (store c)) \<or>
      voted_header p (st_optimistic_header (store c)))"

lemma should_update_optimistic_participants:
  assumes "should_update_optimistic u (count_participants u s)"
  shows "unat (max (current_max_active_participants s) (previous_max_active_participants s))
    < 2 * unat (committee_bits u)"
proof -
  let ?m = "max (max (current_max_active_participants s) (committee_bits u)) (previous_max_active_participants s)"
  have "unat (?m div 2) < unat (committee_bits u)"
    using assms
    by (simp add: should_update_optimistic_def safety_threshold_def count_participants_def word_less_nat_alt)
  then have "unat ?m < 2 * unat (committee_bits u)" by (simp add: unat_div_distrib)
  moreover have "max (current_max_active_participants s) (previous_max_active_participants s) \<le> ?m"
    using linear by (auto simp: le_max_iff_disj)
  then have "unat (max (current_max_active_participants s) (previous_max_active_participants s)) \<le> unat ?m"
    by (simp only: word_le_nat_alt)
  ultimately show ?thesis by linarith
qed

text \<open>Where application leaves the optimistic header: unchanged, voted, or the finalised one.\<close>

lemma optimistic_cases:
  assumes "t = next_store u s \<or> t \<in> panic_stores u s"
  shows "st_optimistic_header t = st_optimistic_header s \<or> st_optimistic_header t = st_finalized_header t \<or>
    st_optimistic_header t = attested_header u \<and> should_update_optimistic u (count_participants u s)"
proof -
  let ?s2 = "optimistic_step u (count_participants u s)"
  have s2: "st_optimistic_header ?s2 = st_optimistic_header s \<or>
      st_optimistic_header ?s2 = attested_header u \<and> should_update_optimistic u (count_participants u s)"
    by (simp add: optimistic_step_def count_participants_def)
  have "st_optimistic_header (rotate_committees u ?s2) = st_optimistic_header ?s2"
    by (simp add: rotate_committees_def Let_def split: option.split)
  with s2 assms show ?thesis
    by (auto simp: next_store_def panic_stores_def Let_def finalize_step_def split: if_splits option.splits)
qed

interpretation earned: client_contract True optimistic_earned "\<lambda>_. later" "\<lambda>_. True" fst
proof unfold_locales
  fix p :: "('a, 'b) consensus_lib \<times> bytes \<times> config" and c c' g now now' r
  assume inv: "optimistic_earned p c" and paired: "paired g"
    and ver: "verify_generic_update (fst p) now c g = Ok ()"
    and app: "apply_generic_update (fst p) now' g c = (r, c')"
  have started: "started_from p c" using inv by (simp add: optimistic_earned_def)
  from anchored.step_inv [OF this _ paired ver app] have started': "started_from p c'" by simp
  then have "finalized_by_chain (fst p) (snd (snd p)) (fst (snd p)) (st_finalized_header (store c'))"
    using reachable_trusted by (fastforce simp: started_from_def store_trusted_def)
  moreover have "voted_header p (attested_header g)" if "should_update_optimistic g (count_participants g (store c))"
    using started ver should_update_optimistic_participants [OF that] unfolding voted_header_def by blast
  moreover have "store c' = next_store g (store c) \<or> store c' \<in> panic_stores g (store c)"
    using apply_generic_update_store(3-5) [OF app] by auto
  note optimistic_cases [OF this]
  ultimately show "optimistic_earned p c'" using started' inv unfolding optimistic_earned_def by auto
qed (blast intro: later_refl later_trans later_apply)+

lemma sync_optimistic_earned:
  assumes "sync L R clk c = (Ok (), c')"
  shows "optimistic_earned (L, initial_checkpoint c, client_config c) c'"
proof (rule earned.sync_good [where c = c])
  fix c1
  assume boot: "bootstrap_client (fst (L, initial_checkpoint c, client_config c)) R (clk 0) c = (Ok (), c1)"
  then have "started_from (L, initial_checkpoint c, client_config c) c1"
    using bootstrap_started_from by fastforce
  moreover have "st_optimistic_header (store c1) = st_finalized_header (store c1)"
    using boot by (cases rule: bootstrap_client_Ok) simp
  moreover have "finalized_by_chain L (client_config c) (initial_checkpoint c) (st_finalized_header (store c1))"
    using calculation(1) reachable_trusted by (fastforce simp: started_from_def store_trusted_def)
  ultimately show "optimistic_earned (L, initial_checkpoint c, client_config c) c1"
    by (simp add: optimistic_earned_def)
qed (simp_all add: earned.server_ok_def assms)

end
