(* ===== verification/Mpt_Proof.thy ===== *)
theory Mpt_Proof
  imports Common_Types
begin

unbundle bit_operations_syntax

text \<open>
  \<open>execution/src/proof.rs\<close>: the verifier of Merkle-Patricia proofs and the encodings it
  compares with. Keccak, the RLP codec and the hex decoder are parameters; an RLP stream is
  the list of items appended to it (\<open>RlpRawList\<close>: \<open>append_list\<close> of items with these encodings). Lengths and offsets (\<open>usize\<close>) are naturals; the lemmas
  show that no subtraction goes below zero.
\<close>

datatype rlp_item =
    RlpEmptyData
  | RlpBytes bytes
  | RlpU64 u64
  | RlpU256 u256
  | RlpH256 h256
  | RlpRawList "bytes list"

record rlp_lib =
  keccak256 :: "bytes \<Rightarrow> bytes"
  rlp_decode_list :: "bytes \<Rightarrow> bytes list option"
  rlp_stream_list :: "rlp_item list \<Rightarrow> bytes"
  rlp_hex_decode :: "string \<Rightarrow> bytes option"

record storage_proof =
  sp_key :: h256
  sp_proof :: "bytes list"
  sp_value :: u256

record eip1186_proof_response =
  pr_address :: address
  pr_balance :: u256
  pr_code_hash :: h256
  pr_nonce :: u64
  pr_storage_hash :: h256
  pr_account_proof :: "bytes list"
  pr_storage_proof :: "storage_proof list"

subsection \<open>Nibbles\<close>

definition get_nibble :: "bytes \<Rightarrow> nat \<Rightarrow> ('e, u8) outcome" where
  "get_nibble path offset =
     and_then (index path (offset div 2)) (\<lambda>byte.
     Ok (if offset mod 2 = 0 then drop_bit 4 byte else byte AND 0xF))"

definition skip_length :: "bytes \<Rightarrow> ('e, nat) outcome" where
  "skip_length node =
     (if node = [] then Ok 0
      else and_then (get_nibble node 0) (\<lambda>nibble.
        Ok (if nibble = 0 then 2
            else if nibble = 1 then 1
            else if nibble = 2 then 2
            else if nibble = 3 then 1
            else 0)))"

fun paths_match_loop :: "bytes \<Rightarrow> nat \<Rightarrow> bytes \<Rightarrow> nat \<Rightarrow> nat list \<Rightarrow> ('e, bool) outcome" where
  "paths_match_loop p1 s1 p2 s2 [] = Ok True"
| "paths_match_loop p1 s1 p2 s2 (offset # offsets) =
     and_then (get_nibble p1 (s1 + offset)) (\<lambda>n1.
     and_then (get_nibble p2 (s2 + offset)) (\<lambda>n2.
     if n1 \<noteq> n2 then Ok False else paths_match_loop p1 s1 p2 s2 offsets))"

definition paths_match :: "bytes \<Rightarrow> nat \<Rightarrow> bytes \<Rightarrow> nat \<Rightarrow> ('e, bool) outcome" where
  "paths_match p1 s1 p2 s2 =
     (let len1 = length p1 * 2 - s1;
          len2 = length p2 * 2 - s2 in
      if len1 \<noteq> len2 then Ok False
      else paths_match_loop p1 s1 p2 s2 [0 ..< len1])"

fun shared_prefix_loop ::
    "bytes \<Rightarrow> nat \<Rightarrow> bytes \<Rightarrow> nat \<Rightarrow> nat list \<Rightarrow> nat \<Rightarrow> ('e, nat) outcome" where
  "shared_prefix_loop path path_offset node_path skip [] prefix_len = Ok prefix_len"
| "shared_prefix_loop path path_offset node_path skip (i # is) prefix_len =
     and_then (get_nibble path (i + path_offset)) (\<lambda>path_nibble.
     and_then (get_nibble node_path (i + skip)) (\<lambda>node_path_nibble.
     if path_nibble = node_path_nibble
     then shared_prefix_loop path path_offset node_path skip is (prefix_len + 1)
     else Ok prefix_len))"

definition shared_prefix_length :: "bytes \<Rightarrow> nat \<Rightarrow> bytes \<Rightarrow> ('e, nat) outcome" where
  "shared_prefix_length path path_offset node_path =
     and_then (skip_length node_path) (\<lambda>skip.
     let len = min (length node_path * 2 - skip) (length path * 2 - path_offset)
     in shared_prefix_loop path path_offset node_path skip [0 ..< len] 0)"

fun rest_path_loop :: "bytes \<Rightarrow> nat list \<Rightarrow> string \<Rightarrow> ('e, string) outcome" where
  "rest_path_loop p [] ret = Ok ret"
| "rest_path_loop p (i # is) ret =
     and_then (get_nibble p i) (\<lambda>n. rest_path_loop p is (ret @ show_radix 16 (unat n)))"

definition get_rest_path :: "bytes \<Rightarrow> nat \<Rightarrow> ('e, string) outcome" where
  "get_rest_path p s = rest_path_loop p [s ..< length p * 2] []"

subsection \<open>Values\<close>

definition is_empty_value :: "rlp_lib \<Rightarrow> bytes \<Rightarrow> ('e, bool) outcome" where
  "is_empty_value L value =
     and_then (unwrap (rlp_hex_decode L
       ''56e81f171bcc55a6ff8345e692c0f86e5b48e01b996cadc001622fb5e363b421'')) (\<lambda>empty_storage_hash.
     and_then (unwrap (rlp_hex_decode L
       ''c5d2460186f7233c927e7db2dcc703c0e500b653ca82273b7bfad8045d85a470'')) (\<lambda>empty_code_hash.
     let empty_account = rlp_stream_list L
           [RlpEmptyData, RlpEmptyData, RlpBytes empty_storage_hash, RlpBytes empty_code_hash];
         is_empty_slot = (value = [0x80]);
         is_empty_account = (value = empty_account)
     in Ok (is_empty_slot \<or> is_empty_account)))"

definition encode_account :: "rlp_lib \<Rightarrow> eip1186_proof_response \<Rightarrow> bytes" where
  "encode_account L proof = rlp_stream_list L
     [RlpU64 (pr_nonce proof), RlpU256 (pr_balance proof), RlpH256 (pr_storage_hash proof),
      RlpH256 (pr_code_hash proof)]"

subsection \<open>The verifier\<close>

text \<open>
  The loop over the nodes of the proof: \<open>rest = []\<close> is the test \<open>i == proof.len() - 1\<close>. The
  second operand of \<open>&&\<close> is evaluated only where the first is true.
\<close>

fun verify_proof_loop ::
    "rlp_lib \<Rightarrow> bytes \<Rightarrow> bytes \<Rightarrow> bytes list \<Rightarrow> bytes \<Rightarrow> nat \<Rightarrow> ('e, bool) outcome" where
  "verify_proof_loop L path value [] expected_hash path_offset = Ok False"
| "verify_proof_loop L path value (node # rest) expected_hash path_offset =
     (if expected_hash \<noteq> keccak256 L node then Ok False
      else and_then (unwrap (rlp_decode_list L node)) (\<lambda>node_list.
        if length node_list = 17 then
          (if rest = [] then
             and_then (get_nibble path path_offset) (\<lambda>nibble.
             and_then (index node_list (unat nibble)) (\<lambda>child.
             and_then (if child = [] then is_empty_value L value else Ok False) (\<lambda>excluded.
             if excluded then Ok True
             else verify_proof_loop L path value rest expected_hash path_offset)))
           else
             and_then (get_nibble path path_offset) (\<lambda>nibble.
             and_then (index node_list (unat nibble)) (\<lambda>child.
             verify_proof_loop L path value rest child (path_offset + 1))))
        else if length node_list = 2 then
          (if rest = [] then
             and_then (skip_length (node_list ! 0)) (\<lambda>skip.
             and_then (paths_match (node_list ! 0) skip path path_offset) (\<lambda>matches.
             and_then (if \<not> matches then is_empty_value L value else Ok False) (\<lambda>excluded.
             if excluded then Ok True
             else if node_list ! 1 = value
             then and_then (skip_length (node_list ! 0)) (\<lambda>skip.
                  paths_match (node_list ! 0) skip path path_offset)
             else verify_proof_loop L path value rest expected_hash path_offset)))
           else
             and_then (shared_prefix_length path path_offset (node_list ! 0)) (\<lambda>prefix_length.
             and_then (skip_length (node_list ! 0)) (\<lambda>skip.
             if prefix_length < length (node_list ! 0) * 2 - skip then Ok False
             else verify_proof_loop L path value rest (node_list ! 1) (path_offset + prefix_length))))
        else Ok False))"

definition verify_proof :: "rlp_lib \<Rightarrow> bytes list \<Rightarrow> bytes \<Rightarrow> bytes \<Rightarrow> bytes \<Rightarrow> ('e, bool) outcome" where
  "verify_proof L proof root path value = verify_proof_loop L path value proof root 0"

subsection \<open>Byte offsets and nibble lists\<close>

text \<open>The nibbles of a byte string, high half first.\<close>

definition nibbles :: "bytes \<Rightarrow> u8 list" where
  "nibbles b = concat (map (\<lambda>x. [drop_bit 4 x, x AND 0xF]) b)"

lemma nibbles_simps [simp]:
  "nibbles [] = []" "nibbles (x # b) = drop_bit 4 x # (x AND 0xF) # nibbles b"
  "nibbles (b @ c) = nibbles b @ nibbles c"
  by (simp_all add: nibbles_def)

lemma length_nibbles [simp]: "length (nibbles b) = length b * 2"
  by (induction b) auto

lemma nth_nibbles:
  "i < length b * 2 \<Longrightarrow>
     nibbles b ! i = (if i mod 2 = 0 then drop_bit 4 (b ! (i div 2)) else (b ! (i div 2)) AND 0xF)"
proof (induction b arbitrary: i)
  case (Cons x b)
  consider "i = 0" | "i = 1" | j where "i = j + 2" by (metis Suc_eq_plus1 add_2_eq_Suc' not0_implies_Suc One_nat_def)
  then show ?case using Cons by cases auto
qed simp

lemma get_nibble_eq:
  "get_nibble b i = (if i < length b * 2 then Ok (nibbles b ! i) else Panic)"
proof -
  have "i div 2 < length b \<longleftrightarrow> i < length b * 2" by auto
  then show ?thesis by (auto simp: get_nibble_def index_def nth_nibbles)
qed

lemma nibble_less_16: "n \<in> set (nibbles b) \<Longrightarrow> unat n < 16"
proof -
  have "unat (drop_bit 4 (x :: u8)) < 16" for x
  proof -
    have "unat x < 2 ^ 8" using unsigned_less [of x, where 'a = nat] by simp
    then have "unat x div 16 < 16" by simp
    then show ?thesis by (simp add: unat_drop_bit_eq drop_bit_eq_div unat_div)
  qed
  moreover have "unat ((x :: u8) AND 0xF) < 16" for x
  proof -
    have "unat (x AND 0xF) \<le> unat (0xF :: u8)"
      by (rule word_and_le1 [THEN word_le_nat_alt [THEN iffD1]])
    then show ?thesis by simp
  qed
  ultimately show "n \<in> set (nibbles b) \<Longrightarrow> unat n < 16" by (auto simp: nibbles_def)
qed

text \<open>The number of nibbles that the flag of a compact path takes.\<close>

definition flag_length :: "bytes \<Rightarrow> nat" where
  "flag_length p =
     (case nibbles p of
        [] \<Rightarrow> 0
      | n # _ \<Rightarrow> if n \<in> {0, 2} then 2 else if n \<in> {1, 3} then 1 else 0)"

lemma skip_length_eq: "skip_length p = Ok (flag_length p)"
  by (cases p) (auto simp: skip_length_def flag_length_def get_nibble_eq)

lemma flag_length_le: "flag_length p \<le> length p * 2"
  by (cases p) (auto simp: flag_length_def)

lemma paths_match_loop_eq:
  assumes "list_all (\<lambda>i. s1 + i < length p1 * 2 \<and> s2 + i < length p2 * 2) is"
  shows "paths_match_loop p1 s1 p2 s2 is =
     Ok (list_all (\<lambda>i. nibbles p1 ! (s1 + i) = nibbles p2 ! (s2 + i)) is)"
  using assms by (induction "is") (auto simp: get_nibble_eq)

lemma paths_match_eq:
  assumes "s1 \<le> length p1 * 2" "s2 \<le> length p2 * 2"
  shows "paths_match p1 s1 p2 s2 = Ok (drop s1 (nibbles p1) = drop s2 (nibbles p2))"
proof (cases "length p1 * 2 - s1 = length p2 * 2 - s2")
  case True
  let ?n = "length p1 * 2 - s1"
  have "paths_match p1 s1 p2 s2 =
      Ok (list_all (\<lambda>i. nibbles p1 ! (s1 + i) = nibbles p2 ! (s2 + i)) [0 ..< ?n])"
    using True by (simp add: paths_match_def Let_def) (rule paths_match_loop_eq, auto simp: list_all_iff)
  moreover have "list_all (\<lambda>i. nibbles p1 ! (s1 + i) = nibbles p2 ! (s2 + i)) [0 ..< ?n]
      \<longleftrightarrow> drop s1 (nibbles p1) = drop s2 (nibbles p2)"
    using True assms by (auto simp: list_all_iff list_eq_iff_nth_eq)
  ultimately show ?thesis by simp
next
  case False
  then have "drop s1 (nibbles p1) \<noteq> drop s2 (nibbles p2)"
    by (auto dest: arg_cong [where f = length])
  with False show ?thesis by (simp add: paths_match_def Let_def)
qed

fun common_prefix_length :: "'a list \<Rightarrow> 'a list \<Rightarrow> nat" where
  "common_prefix_length (x # xs) (y # ys) = (if x = y then Suc (common_prefix_length xs ys) else 0)"
| "common_prefix_length _ _ = 0"

lemma common_prefix_length_eq_length_iff:
  "common_prefix_length xs ys = length ys \<longleftrightarrow> take (length ys) xs = ys"
  by (induction xs ys rule: common_prefix_length.induct) auto

lemma common_prefix_length_le: "common_prefix_length xs ys \<le> length ys"
  "common_prefix_length xs ys \<le> length xs"
  by (induction xs ys rule: common_prefix_length.induct) auto

lemma common_prefix_take:
  "take (common_prefix_length xs ys) xs = take (common_prefix_length xs ys) ys"
  by (induction xs ys rule: common_prefix_length.induct) auto

lemma common_prefix_longest:
  "take j xs = take j ys \<Longrightarrow> j \<le> length xs \<Longrightarrow> j \<le> length ys \<Longrightarrow> j \<le> common_prefix_length xs ys"
proof (induction xs ys arbitrary: j rule: common_prefix_length.induct)
  case (1 x xs y ys)
  then show ?case by (cases j) auto
qed auto

lemma shared_prefix_loop_eq:
  assumes "i + n = min (length np * 2 - skip) (length path * 2 - po)"
  shows "(shared_prefix_loop path po np skip [i ..< i + n] k :: ('e, nat) outcome) =
     Ok (k + common_prefix_length (drop (po + i) (nibbles path)) (drop (skip + i) (nibbles np)))"
  using assms
proof (induction n arbitrary: i k)
  case 0
  then have "drop (po + i) (nibbles path) = [] \<or> drop (skip + i) (nibbles np) = []"
    by (auto simp: min_def split: if_splits)
  then show ?case by (elim disjE) (simp_all add: neq_Nil_conv)
next
  case (Suc n)
  then have "i + po < length path * 2" "i + skip < length np * 2" by auto
  then have "drop (po + i) (nibbles path) = nibbles path ! (po + i) # drop (po + Suc i) (nibbles path)"
    "drop (skip + i) (nibbles np) = nibbles np ! (skip + i) # drop (skip + Suc i) (nibbles np)"
    by (simp_all add: Cons_nth_drop_Suc add.commute)
  moreover have "[i ..< i + Suc n] = i # [Suc i ..< Suc i + n]" by (simp add: upt_conv_Cons)
  moreover have "(shared_prefix_loop path po np skip [Suc i ..< Suc i + n] (k + 1) :: ('e, nat) outcome) =
      Ok (k + 1 + common_prefix_length (drop (po + Suc i) (nibbles path)) (drop (skip + Suc i) (nibbles np)))"
    by (rule Suc.IH) (use Suc.prems in simp)
  moreover have "(get_nibble path (i + po) :: ('e, u8) outcome) = Ok (nibbles path ! (po + i))"
    "(get_nibble np (i + skip) :: ('e, u8) outcome) = Ok (nibbles np ! (skip + i))"
    using \<open>i + po < length path * 2\<close> \<open>i + skip < length np * 2\<close> by (simp_all add: get_nibble_eq add.commute)
  ultimately show ?case by (simp del: upt_Suc add_Suc add_Suc_right One_nat_def)
qed

lemma shared_prefix_length_eq:
  "shared_prefix_length path po np =
     Ok (common_prefix_length (drop po (nibbles path)) (drop (flag_length np) (nibbles np)))"
  using shared_prefix_loop_eq [of 0 "min (length np * 2 - flag_length np) (length path * 2 - po)" np
      "flag_length np" path po 0]
  by (simp add: shared_prefix_length_def skip_length_eq Let_def)

end
