(* ===== verification/Execution_Types.thy ===== *)
theory Execution_Types
  imports Beacon_Types Mpt_Proof
begin

text \<open>
  The data of the execution crate: \<open>execution/src/types.rs\<close> with its serialisers, the types of
  the \<open>ethers\<close> crate that the code takes apart (the fields it reads are record fields, the rest
  of such a value is one opaque field), the interface \<open>ExecutionRpc\<close>, and the external
  functions the crate calls. A fixed-size byte vector converts to a hash of the same size
  without loss, so these conversions are the identity.
\<close>

record account =
  ac_balance :: u256
  ac_nonce :: u64
  ac_code_hash :: h256
  ac_code :: bytes
  ac_storage_hash :: h256
  ac_slots :: "h256 \<rightharpoonup> u256"

definition account_default :: account where
  "account_default = \<lparr>ac_balance = 0, ac_nonce = 0, ac_code_hash = replicate 32 0, ac_code = [],
     ac_storage_hash = replicate 32 0, ac_slots = Map.empty\<rparr>"

record transaction =
  tx_hash :: h256
  tx_block_number :: "u64 option"
  tx_fields :: bytes

record log =
  log_transaction_hash :: "h256 option"
  log_index :: "u256 option"
  log_fields :: bytes

record transaction_receipt =
  rc_transaction_hash :: h256
  rc_block_number :: "u64 option"
  rc_status :: "u64 option"
  rc_cumulative_gas_used :: u256
  rc_logs_bloom :: bytes
  rc_logs :: "log list"
  rc_transaction_type :: "u64 option"
  rc_fields :: bytes

record filter_opts =
  ft_from_block :: "u64 option"
  ft_to_block :: "u64 option"
  ft_block_hash :: "h256 option"
  ft_fields :: bytes

record fee_history =
  fh_oldest_block :: u256
  fh_base_fee_per_gas :: "u256 list"
  fh_gas_used_ratio :: "f64 list"
  fh_reward :: "u256 list list"

record access_list_item =
  al_address :: address
  al_storage_keys :: "h256 list"

datatype transaction_list = Hashes "h256 list" | Full "transaction list"

record execution_block =
  eb_number :: u64
  eb_base_fee_per_gas :: u256
  eb_difficulty :: u256
  eb_extra_data :: bytes
  eb_gas_limit :: u64
  eb_gas_used :: u64
  eb_hash :: h256
  eb_logs_bloom :: bytes
  eb_miner :: address
  eb_mix_hash :: h256
  eb_nonce :: string
  eb_parent_hash :: h256
  eb_receipts_root :: h256
  eb_sha3_uncles :: h256
  eb_size :: u64
  eb_state_root :: h256
  eb_timestamp :: u64
  eb_total_difficulty :: u64
  eb_transactions :: transaction_list
  eb_transactions_root :: h256
  eb_uncles :: "h256 list"

record call_opts =
  co_from :: "address option"
  co_to :: "address option"
  co_gas :: "u256 option"
  co_gas_price :: "u256 option"
  co_value :: "u256 option"
  co_data :: "bytes option"

subsection \<open>Serialisers\<close>

text \<open>A missing \<open>0x\<close> and a failing decoder both give the empty string of bytes.\<close>

definition bytes_deserialize :: "(string \<Rightarrow> bytes option) \<Rightarrow> string option \<Rightarrow> bytes option" where
  "bytes_deserialize hex_decode s =
     (case s of
        Some s \<Rightarrow>
          let t = (case strip_prefix ''0x'' s of Some t \<Rightarrow> t | None \<Rightarrow> '''')
          in Some (case hex_decode t of Some b \<Rightarrow> b | None \<Rightarrow> [])
      | None \<Rightarrow> None)"

definition serialize_bytes :: "(bytes \<Rightarrow> string) \<Rightarrow> bytes \<Rightarrow> string" where
  "serialize_bytes hex_encode b = ''0x'' @ hex_encode b"

definition serialize_u64_string :: "u64 \<Rightarrow> string" where
  "serialize_u64_string x = u64_to_hex_string x"

fun serialize_transactions :: "(h256 \<Rightarrow> 'j) \<Rightarrow> (transaction \<Rightarrow> 'j) \<Rightarrow> transaction_list \<Rightarrow> 'j list" where
  "serialize_transactions ser_hash ser_tx (Hashes hashes) = map ser_hash hashes"
| "serialize_transactions ser_hash ser_tx (Full txs) = map ser_tx txs"

text \<open>The external functions: hashing, encodings, tries, and floating-point arithmetic.\<close>

record execution_lib =
  xl_rlp :: rlp_lib
  xl_keccak_empty :: h256
  xl_encode_u256 :: "u256 \<Rightarrow> bytes"
  xl_tx_rlp :: "transaction \<Rightarrow> bytes"
  xl_log_rlp :: "log \<Rightarrow> bytes"
  xl_ordered_trie_root :: "bytes list \<Rightarrow> h256"
  xl_encode_hex :: "h256 \<Rightarrow> string"
  xl_h256_to_string :: "h256 \<Rightarrow> string"
  xl_h256_from_str :: "string \<Rightarrow> h256 option"
  fl_of_u64 :: "u64 \<Rightarrow> f64"
  fl_to_u64 :: "f64 \<Rightarrow> u64"
  fl_times :: "f64 \<Rightarrow> f64 \<Rightarrow> f64"
  fl_divide :: "f64 \<Rightarrow> f64 \<Rightarrow> f64"
  fl_round :: "f64 \<Rightarrow> f64"
  fl_equal :: "f64 \<Rightarrow> f64 \<Rightarrow> bool"
  fl_powi :: "nat \<Rightarrow> nat \<Rightarrow> f64"
  fl_1_10 :: f64

definition keccak :: "execution_lib \<Rightarrow> bytes \<Rightarrow> h256" where
  "keccak X b = keccak256 (xl_rlp X) b"

text \<open>
  The trait \<open>ExecutionRpc\<close>. An untrusted server may answer the same request differently each
  time, so a method called several times within one operation also takes a name for the call:
  the position in the lists of requests that the operation makes.
\<close>

type_synonym call_id = "nat list"

record execution_rpc =
  er_get_proof :: "call_id \<Rightarrow> address \<Rightarrow> h256 list \<Rightarrow> u64 \<Rightarrow> (report, eip1186_proof_response) outcome"
  er_create_access_list :: "call_opts \<Rightarrow> u64 \<Rightarrow> (report, access_list_item list) outcome"
  er_get_code :: "call_id \<Rightarrow> address \<Rightarrow> u64 \<Rightarrow> (report, bytes) outcome"
  er_send_raw_transaction :: "bytes \<Rightarrow> (report, h256) outcome"
  er_get_transaction_receipt :: "call_id \<Rightarrow> h256 \<Rightarrow> (report, transaction_receipt option) outcome"
  er_get_transaction :: "call_id \<Rightarrow> h256 \<Rightarrow> (report, transaction option) outcome"
  er_get_logs :: "filter_opts \<Rightarrow> (report, log list) outcome"
  er_chain_id :: "(report, u64) outcome"
  er_get_fee_history :: "u64 \<Rightarrow> u64 \<Rightarrow> f64 list \<Rightarrow> (report, fee_history) outcome"

text \<open>
  \<open>join_all\<close> runs every future before the results are collected: a panic of any of them wins
  over an error of an earlier one.
\<close>

definition join_all :: "('e, 'a) outcome list \<Rightarrow> ('e, 'a list) outcome" where
  "join_all ms = (if Panic \<in> set ms then Panic else traverse (\<lambda>m. m) ms)"

lemma traverse_Ok_nth:
  "traverse f xs = Ok ys \<longleftrightarrow> length ys = length xs \<and> (\<forall>i < length xs. f (xs ! i) = Ok (ys ! i))"
  by (auto simp: traverse_Ok_iff list_all2_conv_all_nth)

lemma join_all_Ok_iff [outcome_simps]:
  "join_all ms = Ok ys \<longleftrightarrow> ms = map Ok ys"
proof
  assume "join_all ms = Ok ys"
  then show "ms = map Ok ys"
    by (auto simp: join_all_def traverse_Ok_nth split: if_splits intro: nth_equalityI)
next
  assume "ms = map Ok ys"
  then show "join_all ms = Ok ys" by (auto simp: join_all_def traverse_Ok_nth)
qed

lemma join_all_map_Ok [simp]: "join_all (map Ok ys) = Ok ys"
  by (simp add: join_all_Ok_iff)

lemma bytes_deserialize_serialize:
  assumes "hex_decode (hex_encode b) = Some b"
  shows "bytes_deserialize hex_decode (Some (serialize_bytes hex_encode b)) = Some b"
  using assms by (simp add: bytes_deserialize_def serialize_bytes_def strip_prefix_def)

end
