(* ===== verification/Mpt_Trie.thy ===== *)
theory Mpt_Trie
  imports Mpt_Proof
begin

text \<open>
  The tries that the proofs of \<open>execution/src/proof.rs\<close> are about, as a specification: a trie
  over nibble paths, the byte encoding of its nodes (the two-item leaves and extensions with a
  hex-prefix path, the 17-item branches, every child referenced by its hash), its lookup, and
  the proof an honest server returns. \<open>verify_proof\<close> is then related to the lookup: it is
  complete for the honest proof, and sound for any list of nodes where keccak has no second
  preimage of a node of the trie.
\<close>

datatype trie =
    Leaf "u8 list" bytes
  | Ext "u8 list" trie
  | Branch "trie option list"

fun pair_nibbles :: "u8 list \<Rightarrow> bytes" where
  "pair_nibbles (a # b # ns) = (push_bit 4 a OR b) # pair_nibbles ns"
| "pair_nibbles _ = []"

text \<open>The hex-prefix encoding: a flag nibble (2 for a leaf, plus 1 for an odd length).\<close>

definition compact :: "bool \<Rightarrow> u8 list \<Rightarrow> bytes" where
  "compact leaf ns =
     (let flag = (if leaf then 2 else 0) in
      if even (length ns) then pair_nibbles (flag # 0 # ns) else pair_nibbles ((flag + 1) # ns))"

fun node_items :: "rlp_lib \<Rightarrow> trie \<Rightarrow> bytes list" where
  "node_items L (Leaf p v) = [compact True p, v]"
| "node_items L (Ext p c) =
     [compact False p, keccak256 L (rlp_stream_list L (map RlpBytes (node_items L c)))]"
| "node_items L (Branch cs) =
     map (\<lambda>c. case c of None \<Rightarrow> []
                | Some t \<Rightarrow> keccak256 L (rlp_stream_list L (map RlpBytes (node_items L t)))) cs @ [[]]"

definition encode_node :: "rlp_lib \<Rightarrow> trie \<Rightarrow> bytes" where
  "encode_node L t = rlp_stream_list L (map RlpBytes (node_items L t))"

definition trie_root :: "rlp_lib \<Rightarrow> trie \<Rightarrow> bytes" where
  "trie_root L t = keccak256 L (encode_node L t)"

lemma node_items_root [simp]:
  "node_items L (Ext p c) = [compact False p, trie_root L c]"
  "node_items L (Branch cs) =
     map (\<lambda>c. case c of None \<Rightarrow> [] | Some t \<Rightarrow> trie_root L t) cs @ [[]]"
  by (simp_all add: trie_root_def encode_node_def cong: option.case_cong)

declare node_items.simps(2,3) [simp del]

text \<open>The trie holds keys of \<open>d\<close> nibbles.\<close>

fun trie_ok :: "nat \<Rightarrow> trie \<Rightarrow> bool" where
  "trie_ok d (Leaf p v) \<longleftrightarrow> length p = d \<and> list_all (\<lambda>n. n < 16) p"
| "trie_ok d (Ext p c) \<longleftrightarrow> p \<noteq> [] \<and> length p < d \<and> list_all (\<lambda>n. n < 16) p \<and> trie_ok (d - length p) c"
| "trie_ok d (Branch cs) \<longleftrightarrow> 0 < d \<and> length cs = 16 \<and>
     list_all (\<lambda>c. case c of None \<Rightarrow> True | Some t \<Rightarrow> trie_ok (d - 1) t) cs"

fun lookup :: "trie \<Rightarrow> u8 list \<Rightarrow> bytes option" where
  "lookup (Leaf p v) k = (if k = p then Some v else None)"
| "lookup (Ext p c) k = (if take (length p) k = p then lookup c (drop (length p) k) else None)"
| "lookup (Branch cs) [] = None"
| "lookup (Branch cs) (n # k) =
     (if unat n < length cs then case cs ! unat n of None \<Rightarrow> None | Some c \<Rightarrow> lookup c k else None)"

text \<open>The nodes on the path of a key: the proof an honest server returns.\<close>

fun honest_proof :: "rlp_lib \<Rightarrow> trie \<Rightarrow> u8 list \<Rightarrow> bytes list" where
  "honest_proof L (Leaf p v) k = [encode_node L (Leaf p v)]"
| "honest_proof L (Ext p c) k =
     encode_node L (Ext p c) #
     (if take (length p) k = p then honest_proof L c (drop (length p) k) else [])"
| "honest_proof L (Branch cs) [] = [encode_node L (Branch cs)]"
| "honest_proof L (Branch cs) (n # k) =
     encode_node L (Branch cs) #
     (if unat n < length cs
      then case cs ! unat n of None \<Rightarrow> [] | Some c \<Rightarrow> honest_proof L c k
      else [])"

fun subtries :: "trie \<Rightarrow> trie list" where
  "subtries (Leaf p v) = [Leaf p v]"
| "subtries (Ext p c) = Ext p c # subtries c"
| "subtries (Branch cs) =
     Branch cs # concat (map (\<lambda>c. case c of None \<Rightarrow> [] | Some t \<Rightarrow> subtries t) cs)"

subsection \<open>What the libraries promise\<close>

text \<open>
  The RLP codec returns the byte strings of an encoded list, keccak returns 32 bytes, and the
  hex decoder decodes the two constants of \<open>is_empty_value\<close>.
\<close>

definition rlp_laws :: "rlp_lib \<Rightarrow> bool" where
  "rlp_laws L \<longleftrightarrow>
     (\<forall>xs. rlp_decode_list L (rlp_stream_list L (map RlpBytes xs)) = Some xs) \<and>
     (\<forall>b. length (keccak256 L b) = 32) \<and>
     rlp_hex_decode L ''56e81f171bcc55a6ff8345e692c0f86e5b48e01b996cadc001622fb5e363b421'' \<noteq> None \<and>
     rlp_hex_decode L ''c5d2460186f7233c927e7db2dcc703c0e500b653ca82273b7bfad8045d85a470'' \<noteq> None"

text \<open>
  No second preimage of a node of the trie is known, and no stored value is the hash of a
  byte string.
\<close>

definition collision_free :: "rlp_lib \<Rightarrow> trie \<Rightarrow> bool" where
  "collision_free L t \<longleftrightarrow>
     (\<forall>s \<in> set (subtries t).
        (\<forall>node. keccak256 L node = trie_root L s \<longrightarrow> node = encode_node L s) \<and>
        (\<forall>p v node. s = Leaf p v \<longrightarrow> keccak256 L node \<noteq> v))"

text \<open>The two values that stand for an absent one.\<close>

definition empty_value :: "rlp_lib \<Rightarrow> bytes \<Rightarrow> bool" where
  "empty_value L value \<longleftrightarrow>
     value = [0x80] \<or>
     value = rlp_stream_list L
       [RlpEmptyData, RlpEmptyData,
        RlpBytes (the (rlp_hex_decode L
          ''56e81f171bcc55a6ff8345e692c0f86e5b48e01b996cadc001622fb5e363b421'')),
        RlpBytes (the (rlp_hex_decode L
          ''c5d2460186f7233c927e7db2dcc703c0e500b653ca82273b7bfad8045d85a470''))]"

lemma is_empty_value_eq: "rlp_laws L \<Longrightarrow> is_empty_value L value = Ok (empty_value L value)"
  by (auto simp: rlp_laws_def is_empty_value_def empty_value_def Let_def)

lemma decode_encode_node: "rlp_laws L \<Longrightarrow> rlp_decode_list L (encode_node L t) = Some (node_items L t)"
  by (simp add: rlp_laws_def encode_node_def)

lemma length_keccak: "rlp_laws L \<Longrightarrow> length (keccak256 L b) = 32"
  by (simp add: rlp_laws_def)

lemma keccak_not_Nil: "rlp_laws L \<Longrightarrow> keccak256 L b \<noteq> []" "rlp_laws L \<Longrightarrow> trie_root L t \<noteq> []"
  using length_keccak [of L b] length_keccak [of L "encode_node L t"] by (auto simp: trie_root_def)

subsection \<open>Paths\<close>

lemma nibble_pair:
  assumes "(a :: u8) < 16" "b < 16"
  shows "drop_bit 4 (push_bit 4 a OR b) = a" "(push_bit 4 a OR b) AND 0xF = b"
proof -
  have *: "\<not> bit (x :: u8) n" if "x < 16" "4 \<le> n" for x n
  proof (cases "n < 8")
    case True
    have "take_bit 4 x = x"
      using that by (simp add: take_bit_eq_mod word_less_nat_alt word_arith_nat_mod unat_word_ariths)
    with that show ?thesis by (metis bit_take_bit_iff not_le)
  qed (use bit_imp_le_length [of x n] in auto)
  show "drop_bit 4 (push_bit 4 a OR b) = a"
    by (rule bit_eqI) (use * [OF assms(1)] * [OF assms(2)] in \<open>auto simp: bit_simps, meson not_le\<close>)
  have "(push_bit 4 a OR b) AND mask 4 = b"
    by (rule bit_eqI) (use * [OF assms(2)] in \<open>auto simp: bit_simps, meson not_le\<close>)
  moreover have "(0xF :: u8) = mask 4" by (simp add: mask_eq_exp_minus_1)
  ultimately show "(push_bit 4 a OR b) AND 0xF = b" by metis
qed

lemma nibbles_pair_nibbles:
  "even (length ns) \<Longrightarrow> list_all (\<lambda>n. n < 16) ns \<Longrightarrow> nibbles (pair_nibbles ns) = ns"
  by (induction ns rule: pair_nibbles.induct) (auto simp: nibble_pair simp del: drop_bit_or)

lemma compact_path:
  assumes "list_all (\<lambda>n. n < 16) ns"
  shows "drop (flag_length (compact leaf ns)) (nibbles (compact leaf ns)) = ns"
proof -
  have "nibbles (pair_nibbles ((if leaf then 2 else 0) # 0 # ns)) = (if leaf then 2 else 0) # 0 # ns"
    if "even (length ns)"
    by (rule nibbles_pair_nibbles) (use that assms in auto)
  moreover have "nibbles (pair_nibbles (((if leaf then 2 else 0) + 1) # ns)) =
      ((if leaf then 2 else 0) + 1) # ns" if "odd (length ns)"
    by (rule nibbles_pair_nibbles) (use that assms in auto)
  ultimately show ?thesis by (auto simp: compact_def flag_length_def Let_def)
qed

subsection \<open>One step of the verifier\<close>

text \<open>What the loop does at a node of the trie, at the last node of a proof and before it.\<close>

lemma drop_eq_Cons_nth: "drop po xs = n # k \<Longrightarrow> po < length xs \<and> xs ! po = n \<and> drop (Suc po) xs = k"
  by (metis Cons_nth_drop_Suc drop_all list.distinct(1) list.inject not_less)

lemma loop_hash_mismatch:
  "nodes \<noteq> [] \<Longrightarrow> (\<And>node. keccak256 L node \<noteq> h) \<Longrightarrow> verify_proof_loop L path val nodes h po = Ok False"
  by (cases nodes) (auto dest: sym)

lemma loop_two_items_last:
  assumes "rlp_laws L" "po \<le> length path * 2" "rlp_decode_list L node = Some [compact b p, v]"
    "list_all (\<lambda>n. n < 16) p"
  shows "(verify_proof_loop L path val [node] (keccak256 L node) po :: ('e, bool) outcome) =
     Ok (if p = drop po (nibbles path) then v = val else empty_value L val)"
  using assms(1-3) compact_path [OF assms(4), of b]
  by (auto simp: skip_length_eq paths_match_eq flag_length_le is_empty_value_eq)

lemma loop_two_items:
  assumes "rlp_laws L" "rest \<noteq> []" "rlp_decode_list L node = Some [compact b p, v]"
    "list_all (\<lambda>n. n < 16) p"
  shows "(verify_proof_loop L path val (node # rest) (keccak256 L node) po :: ('e, bool) outcome) =
     (if take (length p) (drop po (nibbles path)) = p
      then verify_proof_loop L path val rest v (po + length p) else Ok False)"
proof -
  let ?k = "drop po (nibbles path)"
  have len: "length (compact b p) * 2 - flag_length (compact b p) = length p"
    using arg_cong [OF compact_path [OF assms(4), of b], of length] by simp
  have "common_prefix_length ?k p < length p \<longleftrightarrow> take (length p) ?k \<noteq> p"
    using common_prefix_length_eq_length_iff [of ?k p] common_prefix_length_le(1) [of ?k p] by linarith
  moreover have "take (length p) ?k = p \<Longrightarrow> common_prefix_length ?k p = length p"
    by (simp add: common_prefix_length_eq_length_iff)
  ultimately show ?thesis
    using assms len by (simp add: skip_length_eq shared_prefix_length_eq compact_path)
qed

lemma decode_two_items:
  assumes "rlp_laws L"
  shows "rlp_decode_list L (encode_node L (Leaf p v)) = Some [compact True p, v]"
    "rlp_decode_list L (encode_node L (Ext p c)) = Some [compact False p, trie_root L c]"
  using assms by (simp_all add: decode_encode_node)

lemmas loop_leaf_last = loop_two_items_last [OF _ _ decode_two_items(1), folded trie_root_def]
  and loop_ext_last = loop_two_items_last [OF _ _ decode_two_items(2), folded trie_root_def]
  and loop_leaf = loop_two_items [OF _ _ decode_two_items(1), folded trie_root_def]
  and loop_ext = loop_two_items [OF _ _ decode_two_items(2), folded trie_root_def]

lemma branch_items:
  assumes "length cs = 16" "unat n < 16"
  shows "length (node_items L (Branch cs)) = 17"
    "node_items L (Branch cs) ! unat n = (case cs ! unat n of None \<Rightarrow> [] | Some t \<Rightarrow> trie_root L t)"
  using assms by (simp_all add: nth_append)

lemma loop_branch_last:
  assumes "rlp_laws L" "length cs = 16" "drop po (nibbles path) = n # k"
  shows "(verify_proof_loop L path val [encode_node L (Branch cs)] (trie_root L (Branch cs)) po :: ('e, bool) outcome) =
     Ok (cs ! unat n = None \<and> empty_value L val)"
proof -
  have po: "po < length path * 2" "nibbles path ! po = n" and n: "unat n < 16"
    using drop_eq_Cons_nth [OF assms(3)] nibble_less_16 [of n path] by (auto simp: set_conv_nth)
  show ?thesis
    using assms(1,2) po n keccak_not_Nil(2) [OF assms(1)]
    by (cases "cs ! unat n")
       (simp_all add: trie_root_def [of L "Branch cs"] decode_encode_node get_nibble_eq branch_items
          index_def is_empty_value_eq del: node_items_root)
qed

lemma loop_branch:
  assumes "rlp_laws L" "length cs = 16" "drop po (nibbles path) = n # k" "rest \<noteq> []"
  shows "(verify_proof_loop L path val (encode_node L (Branch cs) # rest) (trie_root L (Branch cs)) po :: ('e, bool) outcome) =
     verify_proof_loop L path val rest
       (case cs ! unat n of None \<Rightarrow> [] | Some t \<Rightarrow> trie_root L t) (po + 1)"
proof -
  have po: "po < length path * 2" "nibbles path ! po = n" and n: "unat n < 16"
    using drop_eq_Cons_nth [OF assms(3)] nibble_less_16 [of n path] by (auto simp: set_conv_nth)
  show ?thesis
    using assms(1,2,4) po n
    by (simp add: trie_root_def [of L "Branch cs"] decode_encode_node get_nibble_eq branch_items
          index_def del: node_items_root)
qed

subsection \<open>Soundness and completeness\<close>

definition ends_at_extension :: "rlp_lib \<Rightarrow> trie \<Rightarrow> bytes list \<Rightarrow> bool" where
  "ends_at_extension L t nodes \<longleftrightarrow>
     (\<exists>s \<in> set (subtries t). (case s of Ext _ _ \<Rightarrow> last nodes = encode_node L s | _ \<Rightarrow> False))"

text \<open>What an accepted proof establishes of the trie at a key.\<close>

definition established :: "rlp_lib \<Rightarrow> trie \<Rightarrow> bytes list \<Rightarrow> bytes option \<Rightarrow> bytes \<Rightarrow> bool" where
  "established L t nodes stored val \<longleftrightarrow>
     stored = Some val \<or>
     empty_value L val \<and> (stored = None \<or> ends_at_extension L t nodes)"

lemma subtries_self: "t \<in> set (subtries t)"
  by (cases t) auto

lemma subtries_child:
  "set (subtries c) \<subseteq> set (subtries (Ext p c))"
  "i < length cs \<Longrightarrow> cs ! i = Some c \<Longrightarrow> set (subtries c) \<subseteq> set (subtries (Branch cs))"
  by (force simp: in_set_conv_nth)+

lemma collision_free_mono:
  "set (subtries c) \<subseteq> set (subtries t) \<Longrightarrow> collision_free L t \<Longrightarrow> collision_free L c"
  unfolding collision_free_def by blast

lemma established_mono:
  assumes "set (subtries c) \<subseteq> set (subtries t)" "established L c nodes s v" "nodes \<noteq> []"
  shows "established L t (node # nodes) s v"
proof -
  have last: "last (node # nodes) = last nodes" using assms(3) by simp
  show ?thesis
    using assms(1,2) unfolding established_def ends_at_extension_def last by blast
qed

lemma first_node:
  assumes "collision_free L t" "verify_proof_loop L path val (node # rest) (trie_root L t) po = Ok True"
  shows "node = encode_node L t"
proof -
  have "keccak256 L node = trie_root L t" using assms(2) by (auto split: if_splits)
  with assms(1) subtries_self [of t] show ?thesis unfolding collision_free_def by blast
qed

declare verify_proof_loop.simps(2) [simp del]

lemma loop_needs_preimage:
  assumes "verify_proof_loop L path val nodes h po = Ok True"
  shows "nodes \<noteq> []" "\<exists>node. keccak256 L node = h"
  using assms by (cases nodes; auto simp: verify_proof_loop.simps(2) split: if_splits)+

lemma branch_child_ok:
  assumes "trie_ok d (Branch cs)" "cs ! unat n = Some c" "unat n < 16"
  shows "trie_ok (d - 1) c" "set (subtries c) \<subseteq> set (subtries (Branch cs))"
  using assms nth_mem [of "unat n" cs] subtries_child(2) [of "unat n" cs c]
  by (auto simp: list_all_iff split: option.splits)

text \<open>Soundness at the first node of a proof, for each kind of node, from soundness for the rest.\<close>

lemma sound_at_leaf:
  assumes "rlp_laws L" "collision_free L (Leaf p v)" "trie_ok d (Leaf p v)" "po + d = length path * 2"
    and run: "verify_proof_loop L path val (encode_node L (Leaf p v) # rest) (trie_root L (Leaf p v)) po =
      (Ok True :: ('e, bool) outcome)"
  shows "established L (Leaf p v) nodes (lookup (Leaf p v) (drop po (nibbles path))) val"
proof -
  from assms(3) have p: "list_all (\<lambda>n. n < 16) p" by simp
  have "rest = []"
  proof (rule ccontr)
    assume "rest \<noteq> []"
    then have "verify_proof_loop L path val rest v (po + length p) = (Ok True :: ('e, bool) outcome)"
      using run loop_leaf [where 'e = 'e, OF assms(1) _ assms(1) p, of rest path val v po]
      by (auto split: if_splits)
    from loop_needs_preimage(2) [OF this] assms(2) show False
      unfolding collision_free_def by auto
  qed
  then show ?thesis
    using run loop_leaf_last [where 'e = 'e, OF assms(1) _ assms(1) p, of po path val v] assms(4)
    by (auto simp: established_def split: if_splits)
qed

lemma sound_at_extension:
  assumes "rlp_laws L" "collision_free L (Ext p c)" "trie_ok d (Ext p c)" "po + d = length path * 2"
    and run: "verify_proof_loop L path val (encode_node L (Ext p c) # rest) (trie_root L (Ext p c)) po =
      (Ok True :: ('e, bool) outcome)"
    and sound_rest: "\<And>t d po. collision_free L t \<Longrightarrow> trie_ok d t \<Longrightarrow> po + d = length path * 2 \<Longrightarrow>
      verify_proof_loop L path val rest (trie_root L t) po = (Ok True :: ('e, bool) outcome) \<Longrightarrow>
      established L t rest (lookup t (drop po (nibbles path))) val"
  shows "established L (Ext p c) (encode_node L (Ext p c) # rest) (lookup (Ext p c) (drop po (nibbles path))) val"
proof -
  let ?k = "drop po (nibbles path)"
  from assms(3) have p: "list_all (\<lambda>n. n < 16) p" "length p < d" "trie_ok (d - length p) c" by simp_all
  show ?thesis
  proof (cases "rest = []")
    case True
    with run loop_ext_last [where 'e = 'e, OF assms(1) _ assms(1) p(1), of po path val c] assms(4) p(2)
    have "empty_value L val" by (auto split: if_splits)
    with True subtries_self [of "Ext p c"] show ?thesis
      by (auto simp: established_def ends_at_extension_def)
  next
    case False
    with run loop_ext [where 'e = 'e, OF assms(1) _ assms(1) p(1), of rest path val c po]
    have step: "take (length p) ?k = p"
      "verify_proof_loop L path val rest (trie_root L c) (po + length p) = (Ok True :: ('e, bool) outcome)"
      by (auto split: if_splits)
    have "established L c rest (lookup c (drop (po + length p) (nibbles path))) val"
      by (rule sound_rest [OF collision_free_mono [OF subtries_child(1) assms(2)] p(3) _ step(2)])
        (use assms(4) p(2) in simp)
    then show ?thesis
      using established_mono [OF subtries_child(1) _ False] step(1) by (simp add: add.commute)
  qed
qed

lemma sound_at_branch:
  assumes "rlp_laws L" "collision_free L (Branch cs)" "trie_ok d (Branch cs)" "po + d = length path * 2"
    and run: "verify_proof_loop L path val (encode_node L (Branch cs) # rest) (trie_root L (Branch cs)) po =
      (Ok True :: ('e, bool) outcome)"
    and sound_rest: "\<And>t d po. collision_free L t \<Longrightarrow> trie_ok d t \<Longrightarrow> po + d = length path * 2 \<Longrightarrow>
      verify_proof_loop L path val rest (trie_root L t) po = (Ok True :: ('e, bool) outcome) \<Longrightarrow>
      established L t rest (lookup t (drop po (nibbles path))) val"
  shows "established L (Branch cs) (encode_node L (Branch cs) # rest) (lookup (Branch cs) (drop po (nibbles path))) val"
proof -
  let ?k = "drop po (nibbles path)"
  from assms(3,4) have cs: "length cs = 16" "0 < d" "length ?k = d" by simp_all
  then obtain n k where k: "?k = n # k" by (cases ?k) auto
  with nibble_less_16 [of n path] drop_eq_Cons_nth [OF k] have n: "unat n < 16" "drop (Suc po) (nibbles path) = k"
    by (auto simp: set_conv_nth)
  show ?thesis
  proof (cases "rest = []")
    case True
    with run loop_branch_last [where 'e = 'e, OF assms(1) cs(1) k, of val]
    have "cs ! unat n = None" "empty_value L val" by auto
    with k n cs show ?thesis by (simp add: established_def)
  next
    case False
    with run loop_branch [where 'e = 'e, OF assms(1) cs(1) k False, of val]
    have step: "verify_proof_loop L path val rest
        (case cs ! unat n of None \<Rightarrow> [] | Some t \<Rightarrow> trie_root L t) (po + 1) = (Ok True :: ('e, bool) outcome)"
      by simp
    from loop_needs_preimage(2) [OF step] keccak_not_Nil(1) [OF assms(1)]
    obtain c where c: "cs ! unat n = Some c" by (auto split: option.splits)
    note child = branch_child_ok [OF assms(3) c n(1)]
    have "established L c rest (lookup c (drop (po + 1) (nibbles path))) val"
      by (rule sound_rest [OF collision_free_mono [OF child(2) assms(2)] child(1)])
        (use step c assms(4) cs in simp_all)
    then show ?thesis
      using established_mono [OF child(2) _ False] c k n cs by simp
  qed
qed

lemma verify_proof_loop_sound:
  assumes "rlp_laws L" "collision_free L t" "trie_ok d t" "po + d = length path * 2"
    "(verify_proof_loop L path val nodes (trie_root L t) po :: ('e, bool) outcome) = Ok True"
  shows "established L t nodes (lookup t (drop po (nibbles path))) val"
  using assms(2-)
proof (induction nodes arbitrary: t d po)
  case (Cons node rest)
  note node = first_node [OF Cons.prems(1,4)]
  note prems = assms(1) Cons.prems(1-3) Cons.prems(4) [unfolded node]
  show ?case
  proof (cases t)
    case (Leaf p v)
    show ?thesis using sound_at_leaf [OF prems [unfolded Leaf]] by (simp add: Leaf)
  next
    case (Ext p c)
    show ?thesis unfolding node unfolding Ext by (rule sound_at_extension [OF prems [unfolded Ext] Cons.IH])
  next
    case (Branch cs)
    show ?thesis unfolding node unfolding Branch by (rule sound_at_branch [OF prems [unfolded Branch] Cons.IH])
  qed
qed simp

lemma verify_proof_loop_complete:
  assumes "rlp_laws L" "trie_ok d t" "po + d = length path * 2"
    "lookup t (drop po (nibbles path)) = Some val \<or>
     lookup t (drop po (nibbles path)) = None \<and> empty_value L val"
  shows "(verify_proof_loop L path val (honest_proof L t (drop po (nibbles path))) (trie_root L t) po
     :: ('e, bool) outcome) = Ok True"
  using assms(2-)
proof (induction t arbitrary: d po rule: trie.induct)
  case (Leaf p v)
  then show ?case using loop_leaf_last [where 'e = 'e, OF assms(1) _ assms(1), of po path p val v] by (auto split: if_splits)
next
  case (Ext p c)
  let ?k = "drop po (nibbles path)"
  from Ext.prems have p: "list_all (\<lambda>n. n < 16) p" "length p < d" "trie_ok (d - length p) c"
    "length ?k = d" "po \<le> length path * 2" by simp_all
  show ?case
  proof (cases "take (length p) ?k = p")
    case True
    with Ext.prems Ext.IH [OF p(3), of "po + length p"] p(2)
    have "verify_proof_loop L path val (honest_proof L c (drop (length p) ?k)) (trie_root L c) (po + length p)
      = (Ok True :: ('e, bool) outcome)" by (simp add: add.commute)
    moreover from loop_needs_preimage(1) [OF this] have "honest_proof L c (drop (length p) ?k) \<noteq> []" .
    ultimately show ?thesis using loop_ext [where 'e = 'e, OF assms(1) _ assms(1) p(1)] True by simp
  next
    case False
    then have "p \<noteq> ?k" by auto
    with False Ext.prems(3) loop_ext_last [where 'e = 'e, OF assms(1) p(5) assms(1) p(1), of val c] show ?thesis by simp
  qed
next
  case (Branch cs)
  let ?k = "drop po (nibbles path)"
  from Branch.prems have cs: "length cs = 16" "0 < d" "length ?k = d" by simp_all
  then obtain n k where k: "?k = n # k" by (cases ?k) auto
  with nibble_less_16 [of n path] drop_eq_Cons_nth [OF k] have n: "unat n < 16" "drop (Suc po) (nibbles path) = k"
    by (auto simp: set_conv_nth)
  show ?case
  proof (cases "cs ! unat n")
    case None
    with Branch.prems(3) k n cs loop_branch_last [where 'e = 'e, OF assms(1) cs(1) k, of val] show ?thesis by simp
  next
    case (Some c)
    with n cs have mem: "Some c \<in> set cs" using nth_mem [of "unat n" cs] by simp
    have "verify_proof_loop L path val (honest_proof L c k) (trie_root L c) (po + 1)
      = (Ok True :: ('e, bool) outcome)"
      using Branch.IH [OF mem, of c "d - 1" "po + 1"] branch_child_ok [OF Branch.prems(1) Some n(1)]
        Branch.prems(2,3) n k cs Some by simp
    moreover from loop_needs_preimage(1) [OF this] have "honest_proof L c k \<noteq> []" .
    ultimately show ?thesis
      using loop_branch [where 'e = 'e, OF assms(1) cs(1) k, of "honest_proof L c k" val] Some k n cs by simp
  qed
qed

subsection \<open>The contract of an authenticated store\<close>

text \<open>
  What the execution client relies on: a root commits to a finite map, a proof that is accepted
  for a value other than an absent one shows what the map holds, and the holder of the map can
  prove every entry. The library \<open>'l\<close> of external functions is a parameter of every operation.
\<close>

locale authenticated_store =
  fixes well_formed :: "'l \<Rightarrow> 't \<Rightarrow> bool"
    and root :: "'l \<Rightarrow> 't \<Rightarrow> bytes"
    and find :: "'t \<Rightarrow> bytes \<Rightarrow> bytes option"
    and prove :: "'l \<Rightarrow> 't \<Rightarrow> bytes \<Rightarrow> 'p"
    and accepts :: "'l \<Rightarrow> 'p \<Rightarrow> bytes \<Rightarrow> bytes \<Rightarrow> bytes \<Rightarrow> bool"
    and absent :: "'l \<Rightarrow> bytes \<Rightarrow> bool"
    and key_ok :: "bytes \<Rightarrow> bool"
  assumes accepts_present:
    "\<lbrakk>well_formed l t; key_ok k; \<not> absent l v; accepts l p (root l t) k v\<rbrakk> \<Longrightarrow> find t k = Some v"
    and prove_present:
    "\<lbrakk>well_formed l t; key_ok k; find t k = Some v\<rbrakk> \<Longrightarrow> accepts l (prove l t k) (root l t) k v"
begin

lemma accepted_value_unique:
  "\<lbrakk>well_formed l t; key_ok k; \<not> absent l v; \<not> absent l w;
    accepts l p (root l t) k v; accepts l q (root l t) k w\<rbrakk> \<Longrightarrow> v = w"
  by (metis accepts_present option.inject)

lemma root_determines_entries:
  assumes "well_formed l t" "well_formed l s" "root l t = root l s" "key_ok k" "find t k = Some v"
    "\<not> absent l v"
  shows "find s k = Some v"
  using assms accepts_present [of l s k v "prove l t k"] prove_present [of l t k v] by simp

lemma accepted_iff_present:
  "\<lbrakk>well_formed l t; key_ok k; \<not> absent l v\<rbrakk> \<Longrightarrow> (\<exists>p. accepts l p (root l t) k v) \<longleftrightarrow> find t k = Some v"
  using accepts_present prove_present by blast

end

definition mpt_ok :: "rlp_lib \<Rightarrow> trie \<Rightarrow> bool" where
  "mpt_ok L t \<longleftrightarrow> rlp_laws L \<and> collision_free L t \<and> trie_ok 64 t"

definition mpt_find :: "trie \<Rightarrow> bytes \<Rightarrow> bytes option" where
  "mpt_find t key = lookup t (nibbles key)"

definition mpt_prove :: "rlp_lib \<Rightarrow> trie \<Rightarrow> bytes \<Rightarrow> bytes list" where
  "mpt_prove L t key = honest_proof L t (nibbles key)"

definition mpt_accepts :: "rlp_lib \<Rightarrow> bytes list \<Rightarrow> bytes \<Rightarrow> bytes \<Rightarrow> bytes \<Rightarrow> bool" where
  "mpt_accepts L nodes root key val \<longleftrightarrow> verify_proof L nodes root key val = (Ok True :: (report, bool) outcome)"

lemma mpt_accepts_established:
  assumes "mpt_ok L t" "length key = 32" "mpt_accepts L nodes (trie_root L t) key val"
  shows "established L t nodes (mpt_find t key) val"
  using verify_proof_loop_sound [of L t 64 0 key val nodes, where 'e = report] assms
  by (simp add: mpt_ok_def mpt_accepts_def mpt_find_def verify_proof_def)

lemma mpt_prove_accepted:
  assumes "rlp_laws L" "trie_ok 64 t" "length key = 32"
    "mpt_find t key = Some val \<or> mpt_find t key = None \<and> empty_value L val"
  shows "mpt_accepts L (mpt_prove L t key) (trie_root L t) key val"
  using verify_proof_loop_complete [of L 64 t 0 key val, where 'e = report] assms
  by (simp add: mpt_accepts_def mpt_find_def mpt_prove_def verify_proof_def)

interpretation mpt: authenticated_store mpt_ok trie_root mpt_find mpt_prove mpt_accepts empty_value
  "\<lambda>key. length key = 32"
proof
  show "mpt_find t k = Some v"
    if "mpt_ok l t" "length k = 32" "\<not> empty_value l v" "mpt_accepts l p (trie_root l t) k v"
    for l t k v p
    using mpt_accepts_established [OF that(1,2,4)] that(3) by (simp add: established_def)
  show "mpt_accepts l (mpt_prove l t k) (trie_root l t) k v"
    if "mpt_ok l t" "length k = 32" "mpt_find t k = Some v" for l t k v
    using mpt_prove_accepted [of l t k v] that by (simp add: mpt_ok_def)
qed

end
