(* ===== verification/Execution_Client.thy ===== *)
theory Execution_Client
  imports Execution_Types Mpt_Trie
begin

text \<open>
  \<open>execution/src/execution.rs\<close>: every answer of the untrusted execution RPC is checked against a
  verified payload. Arithmetic on \<open>u64\<close> wraps, as in a release build.
\<close>

definition MAX_SUPPORTED_LOGS_NUMBER :: nat where
  "MAX_SUPPORTED_LOGS_NUMBER = 5"

definition check_rpc :: "execution_rpc \<Rightarrow> u64 \<Rightarrow> (report, unit) outcome" where
  "check_rpc rpc expected =
     and_then (er_chain_id rpc) (\<lambda>found.
     if found \<noteq> expected then Err (ExecutionReport IncorrectExecutionRpcNetwork) else Ok ())"

subsection \<open>Accounts\<close>

fun storage_loop ::
    "execution_lib \<Rightarrow> address \<Rightarrow> h256 \<Rightarrow> storage_proof list \<Rightarrow> (h256 \<rightharpoonup> u256) \<Rightarrow>
     (report, h256 \<rightharpoonup> u256) outcome" where
  "storage_loop X address storage_hash [] slot_map = Ok slot_map"
| "storage_loop X address storage_hash (storage_proof # rest) slot_map =
     and_then (hex_str_to_bytes (rlp_hex_decode (xl_rlp X)) (xl_encode_hex X (sp_key storage_proof))) (\<lambda>key.
     let value = xl_encode_u256 X (sp_value storage_proof);
         key_hash = keccak X key in
     and_then (verify_proof (xl_rlp X) (sp_proof storage_proof) storage_hash key_hash value) (\<lambda>is_valid.
     if \<not> is_valid then Err (ExecutionReport (InvalidStorageProof address (sp_key storage_proof)))
     else storage_loop X address storage_hash rest
            (slot_map(sp_key storage_proof \<mapsto> sp_value storage_proof))))"

definition get_account ::
    "execution_lib \<Rightarrow> execution_rpc \<Rightarrow> call_id \<Rightarrow> address \<Rightarrow> h256 list option \<Rightarrow> execution_payload \<Rightarrow>
     (report, account) outcome" where
  "get_account X rpc call address slots payload =
     (let slots = (case slots of Some s \<Rightarrow> s | None \<Rightarrow> []) in
      and_then (er_get_proof rpc call address slots (block_number payload)) (\<lambda>proof.
      let account_path = keccak X address;
          account_encoded = encode_account (xl_rlp X) proof in
      and_then (verify_proof (xl_rlp X) (pr_account_proof proof) (payload_state_root payload)
                  account_path account_encoded) (\<lambda>is_valid.
      if \<not> is_valid then Err (ExecutionReport (InvalidAccountProof address))
      else
      and_then (storage_loop X address (pr_storage_hash proof) (pr_storage_proof proof) Map.empty) (\<lambda>slot_map.
      and_then
        (if pr_code_hash proof = xl_keccak_empty X then Ok []
         else and_then (er_get_code rpc call address (block_number payload)) (\<lambda>code.
           let code_hash = keccak X code in
           if pr_code_hash proof \<noteq> code_hash
           then Err (ExecutionReport (CodeHashMismatch address
                  (xl_h256_to_string X code_hash) (xl_h256_to_string X (pr_code_hash proof))))
           else Ok code)) (\<lambda>code.
      Ok \<lparr>ac_balance = pr_balance proof, ac_nonce = pr_nonce proof, ac_code_hash = pr_code_hash proof,
          ac_code = code, ac_storage_hash = pr_storage_hash proof, ac_slots = slot_map\<rparr>)))))"

definition send_raw_transaction :: "execution_rpc \<Rightarrow> bytes \<Rightarrow> (report, h256) outcome" where
  "send_raw_transaction rpc bytes = er_send_raw_transaction rpc bytes"

subsection \<open>Transactions and blocks\<close>

definition get_transaction ::
    "execution_lib \<Rightarrow> execution_rpc \<Rightarrow> call_id \<Rightarrow> h256 \<Rightarrow> (u64, execution_payload) btree \<Rightarrow>
     (report, transaction option) outcome" where
  "get_transaction X rpc call hash payloads =
     and_then (er_get_transaction rpc call hash) (\<lambda>tx.
     case tx of
       None \<Rightarrow> Ok None
     | Some tx \<Rightarrow>
       (case tx_block_number tx of
          None \<Rightarrow> Ok None
        | Some number \<Rightarrow>
          (case bt_get payloads number of
             None \<Rightarrow> Ok None
           | Some payload \<Rightarrow>
             if xl_tx_rlp X tx \<notin> set (transactions payload)
             then Err (ExecutionReport (MissingTransaction (xl_h256_to_string X hash)))
             else Ok (Some tx))))"

definition tx_hashes :: "execution_lib \<Rightarrow> execution_payload \<Rightarrow> h256 list" where
  "tx_hashes X payload = map (keccak X) (transactions payload)"

definition only_payload :: "execution_payload \<Rightarrow> (u64, execution_payload) btree" where
  "only_payload payload = bt_insert (block_number payload) payload bt_new"

definition get_block ::
    "execution_lib \<Rightarrow> execution_rpc \<Rightarrow> execution_payload \<Rightarrow> bool \<Rightarrow> (report, execution_block) outcome" where
  "get_block X rpc payload full_tx =
     and_then
       (if full_tx then
          and_then (join_all (map (\<lambda>(i, hash).
              and_then (get_transaction X rpc [i] hash (only_payload payload))
                (ok_or (Message ''not reachable'')))
            (enumerate 0 (tx_hashes X payload)))) (\<lambda>txs. Ok (Full txs))
        else Ok (Hashes (tx_hashes X payload))) (\<lambda>txs.
     and_then (ok_or FromHexError (xl_h256_from_str X
       ''0x1dcc4de8dec75d7aab85b567b6ccd41ad312451b948a7413f0a142fd40d49347'')) (\<lambda>empty_uncle_hash.
     Ok \<lparr>eb_number = block_number payload,
         eb_base_fee_per_gas = base_fee_per_gas payload,
         eb_difficulty = 0,
         eb_extra_data = extra_data payload,
         eb_gas_limit = gas_limit payload,
         eb_gas_used = gas_used payload,
         eb_hash = block_hash payload,
         eb_logs_bloom = logs_bloom payload,
         eb_miner = fee_recipient payload,
         eb_mix_hash = prev_randao payload,
         eb_nonce = ''0x0000000000000000'',
         eb_parent_hash = parent_hash payload,
         eb_receipts_root = receipts_root payload,
         eb_sha3_uncles = empty_uncle_hash,
         eb_size = 0,
         eb_state_root = payload_state_root payload,
         eb_timestamp = timestamp payload,
         eb_total_difficulty = 0,
         eb_transactions = txs,
         eb_transactions_root = replicate 32 0,
         eb_uncles = []\<rparr>))"

definition get_transaction_by_block_hash_and_index ::
    "execution_lib \<Rightarrow> execution_rpc \<Rightarrow> execution_payload \<Rightarrow> nat \<Rightarrow> (report, transaction option) outcome" where
  "get_transaction_by_block_hash_and_index X rpc payload i =
     and_then (index (transactions payload) i) (\<lambda>tx.
     and_then (get_transaction X rpc [] (keccak X tx) (only_payload payload)) (\<lambda>tx_option.
     and_then (ok_or (Message ''not reachable'') tx_option) (\<lambda>tx. Ok (Some tx))))"

subsection \<open>Receipts and logs\<close>

text \<open>The low byte of the type is the first byte of a typed receipt.\<close>

definition encode_receipt :: "execution_lib \<Rightarrow> transaction_receipt \<Rightarrow> ('e, bytes) outcome" where
  "encode_receipt X receipt =
     and_then (unwrap (rc_status receipt)) (\<lambda>status.
     let legacy_receipt_encoded = rlp_stream_list (xl_rlp X)
           [RlpU64 status, RlpU256 (rc_cumulative_gas_used receipt), RlpBytes (rc_logs_bloom receipt),
            RlpRawList (map (xl_log_rlp X) (rc_logs receipt))] in
     and_then (unwrap (rc_transaction_type receipt)) (\<lambda>tx_type.
     Ok (if tx_type = 0 then legacy_receipt_encoded else ucast tx_type # legacy_receipt_encoded)))"

definition get_transaction_receipt ::
    "execution_lib \<Rightarrow> execution_rpc \<Rightarrow> call_id \<Rightarrow> h256 \<Rightarrow> (u64, execution_payload) btree \<Rightarrow>
     (report, transaction_receipt option) outcome" where
  "get_transaction_receipt X rpc call hash payloads =
     and_then (er_get_transaction_receipt rpc (call @ [0]) hash) (\<lambda>receipt.
     case receipt of
       None \<Rightarrow> Ok None
     | Some receipt \<Rightarrow>
       and_then (unwrap (rc_block_number receipt)) (\<lambda>number.
       case bt_get payloads number of
         None \<Rightarrow> Ok None
       | Some payload \<Rightarrow>
         and_then (join_all (map (\<lambda>(i, hash).
             and_then (er_get_transaction_receipt rpc (call @ [Suc i]) hash)
               (ok_or (Message ''not reachable'')))
           (enumerate 0 (tx_hashes X payload)))) (\<lambda>receipts.
         and_then (traverse (encode_receipt X) receipts) (\<lambda>receipts_encoded.
         let expected_receipt_root = xl_ordered_trie_root X receipts_encoded;
             payload_receipt_root = receipts_root payload in
         if expected_receipt_root \<noteq> payload_receipt_root \<or> receipt \<notin> set receipts
         then Err (ExecutionReport (ReceiptRootMismatch (xl_h256_to_string X hash)))
         else Ok (Some receipt)))))"

definition restrict_filter ::
    "(u64, execution_payload) btree \<Rightarrow> filter_opts \<Rightarrow> ('e, filter_opts) outcome" where
  "restrict_filter payloads ft =
     (if ft_to_block ft = None \<and> ft_block_hash ft = None then
        and_then (unwrap (bt_last_key_value payloads)) (\<lambda>(block, _).
        let ft = ft\<lparr>ft_to_block := Some block\<rparr> in
        Ok (if ft_from_block ft = None then ft\<lparr>ft_from_block := Some block\<rparr> else ft))
      else Ok ft)"

fun check_logs ::
    "execution_lib \<Rightarrow> execution_rpc \<Rightarrow> (u64, execution_payload) btree \<Rightarrow> nat \<Rightarrow> log list \<Rightarrow>
     (report, unit) outcome" where
  "check_logs X rpc payloads pos [] = Ok ()"
| "check_logs X rpc payloads pos (lg # logs) =
     and_then (ok_or (Message ''tx hash not found in log'') (log_transaction_hash lg)) (\<lambda>hash.
     and_then (get_transaction_receipt X rpc [pos] hash payloads) (\<lambda>receipt.
     and_then (ok_or (ExecutionReport (NoReceiptForTransaction (xl_h256_to_string X hash))) receipt) (\<lambda>receipt.
     if xl_log_rlp X lg \<notin> set (map (xl_log_rlp X) (rc_logs receipt))
     then and_then (unwrap (log_index lg)) (\<lambda>i.
          Err (ExecutionReport (MissingLog (xl_h256_to_string X hash) i)))
     else check_logs X rpc payloads (Suc pos) logs)))"

definition get_logs ::
    "execution_lib \<Rightarrow> execution_rpc \<Rightarrow> filter_opts \<Rightarrow> (u64, execution_payload) btree \<Rightarrow>
     (report, log list) outcome" where
  "get_logs X rpc ft payloads =
     and_then (restrict_filter payloads ft) (\<lambda>ft.
     and_then (er_get_logs rpc ft) (\<lambda>logs.
     if length logs > MAX_SUPPORTED_LOGS_NUMBER
     then Err (ExecutionReport (TooManyLogsToProve (length logs) MAX_SUPPORTED_LOGS_NUMBER))
     else and_then (check_logs X rpc payloads 0 logs) (\<lambda>_. Ok logs)))"

subsection \<open>Fee history\<close>

definition gas_used_ratio_of :: "execution_lib \<Rightarrow> execution_payload \<Rightarrow> f64" where
  "gas_used_ratio_of X payload =
     fl_divide X (fl_round X (fl_times X
       (fl_divide X (fl_of_u64 X (gas_used payload)) (fl_of_u64 X (gas_limit payload)))
       (fl_powi X 10 12))) (fl_powi X 10 12)"

fun fee_history_loop ::
    "execution_lib \<Rightarrow> (u64, execution_payload) btree \<Rightarrow> u64 list \<Rightarrow> fee_history \<Rightarrow>
     (report, fee_history) outcome" where
  "fee_history_loop X payloads [] fee_history = Ok fee_history"
| "fee_history_loop X payloads (block_id # rest) fee_history =
     and_then (ok_or (ExecutionReport EmptyExecutionPayload) (bt_get payloads block_id)) (\<lambda>payload.
     fee_history_loop X payloads rest
       (fee_history\<lparr>fh_base_fee_per_gas := fh_base_fee_per_gas fee_history @ [base_fee_per_gas payload],
                    fh_gas_used_ratio := fh_gas_used_ratio fee_history @ [gas_used_ratio_of X payload]\<rparr>))"

definition inclusive_range :: "u64 \<Rightarrow> u64 \<Rightarrow> u64 list" where
  "inclusive_range a b = map of_nat [unat a ..< Suc (unat b)]"

definition get_fee_history ::
    "execution_lib \<Rightarrow> u64 \<Rightarrow> u64 \<Rightarrow> f64 list \<Rightarrow> (u64, execution_payload) btree \<Rightarrow>
     (report, fee_history option) outcome" where
  "get_fee_history X block_count last_block reward_percentiles payloads =
     and_then (ok_or (ExecutionReport EmptyExecutionPayload) (bt_last_key_value payloads)) (\<lambda>(helios_latest_block_number, _).
     and_then (ok_or (ExecutionReport EmptyExecutionPayload) (bt_first_key_value payloads)) (\<lambda>(helios_oldest_block_number, _).
     if last_block < helios_oldest_block_number
     then Err (ExecutionReport (InvalidBlockRange last_block helios_latest_block_number))
     else
     let request_latest_block =
           (if last_block > helios_latest_block_number then helios_latest_block_number else last_block);
         request_oldest_block = request_latest_block - block_count;
         request_oldest_block =
           (if request_oldest_block < helios_oldest_block_number then helios_oldest_block_number
            else request_oldest_block);
         fee_history = \<lparr>fh_oldest_block = ucast request_oldest_block, fh_base_fee_per_gas = [],
                        fh_gas_used_ratio = [], fh_reward = map (\<lambda>_. []) payloads\<rparr> in
     and_then (fee_history_loop X payloads (inclusive_range request_oldest_block request_latest_block)
                 fee_history) (\<lambda>fee_history.
     Ok (Some fee_history))))"

text \<open>
  The loop over the base fees of the server's answer. \<open>U256 + u64\<close> panics on overflow, and
  \<open>as_u64\<close> on a value that does not fit.
\<close>

definition block_to_check :: "fee_history \<Rightarrow> nat \<Rightarrow> ('e, u64) outcome" where
  "block_to_check fh pos =
     (if unat (fh_oldest_block fh) + pos < 18446744073709551616
      then Ok (of_nat (unat (fh_oldest_block fh) + pos)) else Panic)"

fun verify_fee_loop ::
    "execution_lib \<Rightarrow> fee_history \<Rightarrow> fee_history \<Rightarrow> u64 \<Rightarrow> nat \<Rightarrow> u256 list \<Rightarrow> (report, unit) outcome" where
  "verify_fee_loop X calculated fh block_count pos [] = Ok ()"
| "verify_fee_loop X calculated fh block_count pos (fee # fees) =
     (if pos = unat block_count
      then verify_fee_loop X calculated fh block_count (Suc pos) fees
      else
      and_then (block_to_check fh pos) (\<lambda>block.
      and_then (index (fh_base_fee_per_gas calculated) pos) (\<lambda>fee_to_check.
      and_then (index (fh_gas_used_ratio calculated) pos) (\<lambda>gas_ratio_to_check.
      if fee \<noteq> fee_to_check
      then Err (ExecutionReport (InvalidBaseGaseFee fee_to_check fee block))
      else
      and_then (index (fh_gas_used_ratio fh) pos) (\<lambda>ratio.
      let rpc_gas_used_rounded =
            fl_divide X (fl_round X (fl_times X ratio (fl_powi X 10 12))) (fl_powi X 10 12) in
      if \<not> fl_equal X gas_ratio_to_check rpc_gas_used_rounded
      then Err (ExecutionReport (InvalidGasUsedRatio gas_ratio_to_check rpc_gas_used_rounded block))
      else verify_fee_loop X calculated fh block_count (Suc pos) fees)))))"

definition verify_fee_history ::
    "execution_lib \<Rightarrow> execution_rpc \<Rightarrow> fee_history \<Rightarrow> u64 \<Rightarrow> u64 \<Rightarrow> f64 list \<Rightarrow> (report, unit) outcome" where
  "verify_fee_history X rpc calculated block_count request_latest_block reward_percentiles =
     and_then (er_get_fee_history rpc block_count request_latest_block reward_percentiles) (\<lambda>fh.
     verify_fee_loop X calculated fh block_count 0 (fh_base_fee_per_gas fh))"

end
