(* ===== verification/Execution_Lemmas.thy ===== *)
theory Execution_Lemmas
  imports Execution_Client
begin

text \<open>
  What an \<open>Ok\<close> of the execution client establishes: an account and its slots are proved
  against the state root of the payload, a transaction or a receipt against the contents of a
  payload, a log against a proved receipt, and a fee history is computed from the payloads.
\<close>

subsection \<open>Accounts\<close>

definition account_encoding :: "execution_lib \<Rightarrow> account \<Rightarrow> bytes" where
  "account_encoding X acc = rlp_stream_list (xl_rlp X)
     [RlpU64 (ac_nonce acc), RlpU256 (ac_balance acc), RlpH256 (ac_storage_hash acc),
      RlpH256 (ac_code_hash acc)]"

text \<open>The libraries decode what they encode; the hash constant of the EVM crate is that of no code.\<close>

definition execution_laws :: "execution_lib \<Rightarrow> bool" where
  "execution_laws X \<longleftrightarrow>
     rlp_laws (xl_rlp X) \<and> xl_keccak_empty X = keccak X [] \<and>
     (\<forall>k. hex_str_to_bytes (rlp_hex_decode (xl_rlp X)) (xl_encode_hex X k) = Ok k)"

definition account_proved :: "execution_lib \<Rightarrow> execution_payload \<Rightarrow> address \<Rightarrow> account \<Rightarrow> bool" where
  "account_proved X payload address acc \<longleftrightarrow>
     (\<exists>nodes. mpt_accepts (xl_rlp X) nodes (payload_state_root payload) (keccak X address)
                (account_encoding X acc)) \<and>
     keccak X (ac_code acc) = ac_code_hash acc \<and>
     (\<forall>k v. ac_slots acc k = Some v \<longrightarrow>
        (\<exists>nodes. mpt_accepts (xl_rlp X) nodes (ac_storage_hash acc) (keccak X k) (xl_encode_u256 X v)))"

lemma storage_loop_Ok:
  assumes "storage_loop X address h sps m = Ok m'" "m' k = Some v"
  shows "m k = Some v \<or>
    (\<exists>sp key. sp \<in> set sps \<and> sp_key sp = k \<and> sp_value sp = v \<and>
       hex_str_to_bytes (rlp_hex_decode (xl_rlp X)) (xl_encode_hex X k) = Ok key \<and>
       mpt_accepts (xl_rlp X) (sp_proof sp) h (keccak X key) (xl_encode_u256 X v))"
  using assms
proof (induction sps arbitrary: m)
  case (Cons sp sps)
  from Cons.prems(1) obtain key where
    key: "hex_str_to_bytes (rlp_hex_decode (xl_rlp X)) (xl_encode_hex X (sp_key sp)) = Ok key"
    and proved: "mpt_accepts (xl_rlp X) (sp_proof sp) h (keccak X key) (xl_encode_u256 X (sp_value sp))"
    and rest: "storage_loop X address h sps (m(sp_key sp \<mapsto> sp_value sp)) = Ok m'"
    by (auto simp: outcome_simps Let_def mpt_accepts_def split: if_splits)
  from Cons.IH [OF rest Cons.prems(2)] key proved show ?case
    by (auto split: if_splits)
qed simp

lemma get_account_Ok:
  assumes "get_account X rpc call address slots payload = Ok acc"
  obtains p where
    "er_get_proof rpc call address (case slots of Some s \<Rightarrow> s | None \<Rightarrow> []) (block_number payload) = Ok p"
    "mpt_accepts (xl_rlp X) (pr_account_proof p) (payload_state_root payload) (keccak X address)
       (encode_account (xl_rlp X) p)"
    "storage_loop X address (pr_storage_hash p) (pr_storage_proof p) Map.empty = Ok (ac_slots acc)"
    "ac_nonce acc = pr_nonce p" "ac_balance acc = pr_balance p" "ac_storage_hash acc = pr_storage_hash p"
    "ac_code_hash acc = pr_code_hash p"
    "pr_code_hash p = xl_keccak_empty X \<and> ac_code acc = [] \<or> keccak X (ac_code acc) = pr_code_hash p"
  using assms unfolding get_account_def
  by (auto simp: outcome_simps Let_def mpt_accepts_def split: if_splits)

text \<open>With the proofs that the server gave.\<close>

lemma get_account_accepted:
  assumes "get_account X rpc call address slots payload = Ok acc" "execution_laws X"
  obtains p where
    "er_get_proof rpc call address (case slots of Some s \<Rightarrow> s | None \<Rightarrow> []) (block_number payload) = Ok p"
    "mpt_accepts (xl_rlp X) (pr_account_proof p) (payload_state_root payload) (keccak X address)
       (account_encoding X acc)"
    "keccak X (ac_code acc) = ac_code_hash acc"
    "\<And>k v. ac_slots acc k = Some v \<Longrightarrow>
       \<exists>sp \<in> set (pr_storage_proof p). sp_key sp = k \<and> sp_value sp = v \<and>
         mpt_accepts (xl_rlp X) (sp_proof sp) (ac_storage_hash acc) (keccak X k) (xl_encode_u256 X v)"
proof -
  from assms(1) obtain p where p:
    "er_get_proof rpc call address (case slots of Some s \<Rightarrow> s | None \<Rightarrow> []) (block_number payload) = Ok p"
    "mpt_accepts (xl_rlp X) (pr_account_proof p) (payload_state_root payload) (keccak X address)
       (encode_account (xl_rlp X) p)"
    "storage_loop X address (pr_storage_hash p) (pr_storage_proof p) Map.empty = Ok (ac_slots acc)"
    "ac_nonce acc = pr_nonce p" "ac_balance acc = pr_balance p" "ac_storage_hash acc = pr_storage_hash p"
    "ac_code_hash acc = pr_code_hash p"
    "pr_code_hash p = xl_keccak_empty X \<and> ac_code acc = [] \<or> keccak X (ac_code acc) = pr_code_hash p"
    by (rule get_account_Ok)
  have "\<exists>sp \<in> set (pr_storage_proof p). sp_key sp = k \<and> sp_value sp = v \<and>
      mpt_accepts (xl_rlp X) (sp_proof sp) (ac_storage_hash acc) (keccak X k) (xl_encode_u256 X v)"
    if "ac_slots acc k = Some v" for k v
    using storage_loop_Ok [OF p(3) that] assms(2) p(6) by (auto simp: execution_laws_def)
  moreover have "keccak X (ac_code acc) = ac_code_hash acc" using p(7,8) assms(2) by (auto simp: execution_laws_def)
  moreover have "encode_account (xl_rlp X) p = account_encoding X acc"
    using p(4-7) by (simp add: account_encoding_def encode_account_def)
  ultimately show thesis using p(1,2) that by simp
qed

lemma get_account_proved:
  assumes "get_account X rpc call address slots payload = Ok acc" "execution_laws X"
  shows "account_proved X payload address acc"
  using assms by (rule get_account_accepted) (unfold account_proved_def, blast)

text \<open>What that means of the state trie and of the storage trie of the account.\<close>

lemma account_proved_sound:
  assumes "account_proved X payload address acc" "execution_laws X"
    and "mpt_ok (xl_rlp X) state" "trie_root (xl_rlp X) state = payload_state_root payload"
  shows "mpt_find state (keccak X address) = Some (account_encoding X acc) \<or>
      empty_value (xl_rlp X) (account_encoding X acc)"
    and "\<lbrakk>mpt_ok (xl_rlp X) storage; trie_root (xl_rlp X) storage = ac_storage_hash acc; ac_slots acc k = Some v\<rbrakk> \<Longrightarrow>
       mpt_find storage (keccak X k) = Some (xl_encode_u256 X v) \<or>
       empty_value (xl_rlp X) (xl_encode_u256 X v)"
proof -
  have len: "length (keccak X b) = 32" for b
    using assms(2) by (simp add: execution_laws_def keccak_def length_keccak)
  note proved = assms(1) [unfolded account_proved_def]
  show "mpt_find state (keccak X address) = Some (account_encoding X acc) \<or>
      empty_value (xl_rlp X) (account_encoding X acc)"
    using proved mpt.accepts_present [OF assms(3)] len assms(4) by metis
  show "mpt_find storage (keccak X k) = Some (xl_encode_u256 X v) \<or> empty_value (xl_rlp X) (xl_encode_u256 X v)"
    if "mpt_ok (xl_rlp X) storage" "trie_root (xl_rlp X) storage = ac_storage_hash acc" "ac_slots acc k = Some v"
    using proved mpt.accepts_present [OF that(1)] len that(2,3) by metis
qed

text \<open>The errors of an account request, each with its cause.\<close>

lemma get_account_invalid_proof:
  assumes "er_get_proof rpc call address (case slots of Some s \<Rightarrow> s | None \<Rightarrow> []) (block_number payload) = Ok p"
    and "verify_proof (xl_rlp X) (pr_account_proof p) (payload_state_root payload) (keccak X address)
           (encode_account (xl_rlp X) p) = (Ok False :: (report, bool) outcome)"
  shows "get_account X rpc call address slots payload = Err (ExecutionReport (InvalidAccountProof address))"
  using assms by (simp add: get_account_def Let_def)

subsection \<open>Transactions and receipts\<close>

lemma get_transaction_Ok_Some:
  "get_transaction X rpc call hash payloads = Ok (Some tx) \<longleftrightarrow>
     er_get_transaction rpc call hash = Ok (Some tx) \<and>
     (\<exists>n payload. tx_block_number tx = Some n \<and> bt_get payloads n = Some payload \<and>
        xl_tx_rlp X tx \<in> set (transactions payload))"
proof (cases "er_get_transaction rpc call hash")
  case (Ok t)
  then show ?thesis by (cases t) (auto simp: get_transaction_def split: option.splits)
qed (auto simp: get_transaction_def)

definition receipt_proved ::
    "execution_lib \<Rightarrow> (u64, execution_payload) btree \<Rightarrow> transaction_receipt \<Rightarrow> bool" where
  "receipt_proved X payloads receipt \<longleftrightarrow>
     (\<exists>n payload receipts encoded.
        rc_block_number receipt = Some n \<and> bt_get payloads n = Some payload \<and>
        length receipts = length (transactions payload) \<and> receipt \<in> set receipts \<and>
        map (encode_receipt X) receipts = map (Ok :: bytes \<Rightarrow> (report, bytes) outcome) encoded \<and>
        xl_ordered_trie_root X encoded = receipts_root payload)"

lemma traverse_Ok_map: "traverse f xs = Ok ys \<longleftrightarrow> map f xs = map Ok ys"
  by (auto simp: traverse_Ok_nth list_eq_iff_nth_eq)

lemma get_block_Ok:
  assumes "get_block X rpc payload full_tx = Ok b"
  shows "eb_number b = block_number payload" "eb_hash b = block_hash payload"
    "eb_parent_hash b = parent_hash payload" "eb_state_root b = payload_state_root payload"
    "eb_receipts_root b = receipts_root payload" "eb_timestamp b = timestamp payload"
    "eb_miner b = fee_recipient payload" "eb_base_fee_per_gas b = base_fee_per_gas payload"
    "eb_gas_used b = gas_used payload" "eb_gas_limit b = gas_limit payload"
    "eb_logs_bloom b = logs_bloom payload" "eb_extra_data b = extra_data payload"
    "eb_mix_hash b = prev_randao payload"
    "if full_tx
     then \<exists>txs. eb_transactions b = Full txs \<and> length txs = length (transactions payload) \<and>
       list_all (\<lambda>tx. xl_tx_rlp X tx \<in> set (transactions payload)) txs
     else eb_transactions b = Hashes (map (keccak X) (transactions payload))"
proof -
  let ?get = "\<lambda>(i, hash). and_then (get_transaction X rpc [i] hash (only_payload payload))
      (ok_or (Message ''not reachable''))"
  have txs: "length txs = length (transactions payload) \<and>
      list_all (\<lambda>tx. xl_tx_rlp X tx \<in> set (transactions payload)) txs"
    if "map ?get (enumerate 0 (tx_hashes X payload)) = map Ok txs" for txs
  proof
    show "length txs = length (transactions payload)"
      using arg_cong [OF that, of length] by (simp add: tx_hashes_def)
    have "xl_tx_rlp X (txs ! j) \<in> set (transactions payload)" if "j < length txs" for j
    proof -
      have "Ok (txs ! j) \<in> set (map ?get (enumerate 0 (tx_hashes X payload)))"
        unfolding \<open>map ?get (enumerate 0 (tx_hashes X payload)) = map Ok txs\<close> using that by simp
      then obtain e where "Ok (txs ! j) = ?get e" unfolding set_map by (rule imageE)
      then obtain i h where "and_then (get_transaction X rpc [i] h (only_payload payload))
          (ok_or (Message ''not reachable'')) = Ok (txs ! j)" by (cases e) simp
      then show ?thesis
        by (auto simp: outcome_simps get_transaction_Ok_Some only_payload_def bt_get_def bt_new_def
            split: if_splits)
    qed
    then show "list_all (\<lambda>tx. xl_tx_rlp X tx \<in> set (transactions payload)) txs"
      by (simp add: list_all_length)
  qed
  show "if full_tx
     then \<exists>txs. eb_transactions b = Full txs \<and> length txs = length (transactions payload) \<and>
       list_all (\<lambda>tx. xl_tx_rlp X tx \<in> set (transactions payload)) txs
     else eb_transactions b = Hashes (map (keccak X) (transactions payload))"
    using assms txs by (auto simp: get_block_def outcome_simps tx_hashes_def split: if_splits)
qed (use assms in \<open>auto simp: get_block_def outcome_simps\<close>)

lemma get_transaction_receipt_proved:
  assumes "get_transaction_receipt X rpc call hash payloads = Ok (Some receipt)"
  shows "er_get_transaction_receipt rpc (call @ [0]) hash = Ok (Some receipt)"
    and "receipt_proved X payloads receipt"
proof -
  from assms obtain n payload receipts encoded where
    *: "er_get_transaction_receipt rpc (call @ [0]) hash = Ok (Some receipt)"
      "rc_block_number receipt = Some n" "bt_get payloads n = Some payload"
      "traverse (encode_receipt X) receipts = (Ok encoded :: (report, bytes list) outcome)"
      "xl_ordered_trie_root X encoded = receipts_root payload" "receipt \<in> set receipts"
    and receipts: "map (\<lambda>(i, hash). and_then (er_get_transaction_receipt rpc (call @ [Suc i]) hash)
               (ok_or (Message ''not reachable''))) (enumerate 0 (tx_hashes X payload)) = map Ok receipts"
    by (auto simp: get_transaction_receipt_def outcome_simps Let_def split: option.splits if_splits)
  show "er_get_transaction_receipt rpc (call @ [0]) hash = Ok (Some receipt)" by (rule *(1))
  have "length receipts = length (transactions payload)"
    using arg_cong [OF receipts, of length] by (simp add: tx_hashes_def)
  with * show "receipt_proved X payloads receipt"
    unfolding receipt_proved_def traverse_Ok_map by blast
qed

definition log_proved :: "execution_lib \<Rightarrow> (u64, execution_payload) btree \<Rightarrow> log \<Rightarrow> bool" where
  "log_proved X payloads lg \<longleftrightarrow>
     (\<exists>receipt. receipt_proved X payloads receipt \<and>
        xl_log_rlp X lg \<in> xl_log_rlp X ` set (rc_logs receipt))"

lemma check_logs_Ok:
  assumes "check_logs X rpc payloads pos logs = Ok ()" "lg \<in> set logs"
  shows "log_transaction_hash lg \<noteq> None \<and> log_proved X payloads lg"
  using assms
proof (induction logs arbitrary: pos)
  case (Cons l logs)
  from Cons.prems(1) obtain h receipt where
    "log_transaction_hash l = Some h" "get_transaction_receipt X rpc [pos] h payloads = Ok (Some receipt)"
    "xl_log_rlp X l \<in> xl_log_rlp X ` set (rc_logs receipt)" "check_logs X rpc payloads (Suc pos) logs = Ok ()"
    by (auto simp: outcome_simps split: if_splits)
  moreover from this have "receipt_proved X payloads receipt"
    by (blast dest: get_transaction_receipt_proved(2))
  ultimately have "log_transaction_hash l \<noteq> None \<and> log_proved X payloads l"
    unfolding log_proved_def by auto
  with Cons.IH [OF \<open>check_logs X rpc payloads (Suc pos) logs = Ok ()\<close>] Cons.prems(2) show ?case by auto
qed simp

lemma get_logs_proved:
  assumes "get_logs X rpc ft payloads = Ok logs"
  shows "length logs \<le> MAX_SUPPORTED_LOGS_NUMBER"
    and "lg \<in> set logs \<Longrightarrow> log_transaction_hash lg \<noteq> None \<and> log_proved X payloads lg"
  using assms by (auto simp: get_logs_def outcome_simps not_less split: if_splits dest: check_logs_Ok)

subsection \<open>Fee history\<close>

definition base_fee_at :: "(u64, execution_payload) btree \<Rightarrow> u64 \<Rightarrow> u256" where
  "base_fee_at payloads n = base_fee_per_gas (the (bt_get payloads n))"

lemma fee_history_loop_Ok_iff:
  "fee_history_loop X payloads ns fh = Ok fh' \<longleftrightarrow>
     (\<forall>n \<in> set ns. bt_get payloads n \<noteq> None) \<and>
     fh' = fh\<lparr>fh_base_fee_per_gas := fh_base_fee_per_gas fh @ map (base_fee_at payloads) ns,
              fh_gas_used_ratio := fh_gas_used_ratio fh @
                map (\<lambda>n. gas_used_ratio_of X (the (bt_get payloads n))) ns\<rparr>"
  by (induction ns arbitrary: fh) (auto simp: outcome_simps base_fee_at_def)

lemma set_inclusive_range: "n \<in> set (inclusive_range a b) \<longleftrightarrow> a \<le> n \<and> n \<le> b"
proof -
  have "n \<in> set (inclusive_range a b) \<longleftrightarrow> unat a \<le> unat n \<and> unat n \<le> unat b"
  proof
    assume "n \<in> set (inclusive_range a b)"
    then obtain k where "n = of_nat k" "unat a \<le> k" "k \<le> unat b" by (auto simp: inclusive_range_def)
    then show "unat a \<le> unat n \<and> unat n \<le> unat b"
      using unat_u64_bound [of b] by (simp add: unat_u64_of_nat)
  next
    assume "unat a \<le> unat n \<and> unat n \<le> unat b"
    then show "n \<in> set (inclusive_range a b)"
      unfolding inclusive_range_def
      by (auto simp del: upt_Suc intro!: image_eqI [where x = "unat n"])
  qed
  then show ?thesis by (simp add: word_le_nat_alt)
qed

lemma inclusive_range_empty: "b < a \<Longrightarrow> inclusive_range a b = []"
  by (simp add: inclusive_range_def word_less_nat_alt)

lemma length_inclusive_range: "length (inclusive_range a b) = Suc (unat b) - unat a"
  by (simp add: inclusive_range_def del: upt_Suc)

text \<open>The window that a request selects, where the number of blocks does not exceed the last one.\<close>

definition fee_window :: "u64 \<Rightarrow> u64 \<Rightarrow> u64 \<Rightarrow> u64 \<Rightarrow> u64 list" where
  "fee_window oldest latest block_count last_block =
     inclusive_range (max oldest (min last_block latest - block_count)) (min last_block latest)"

definition contiguous :: "(u64, execution_payload) btree \<Rightarrow> u64 \<Rightarrow> u64 \<Rightarrow> bool" where
  "contiguous payloads oldest latest \<longleftrightarrow>
     (\<exists>p. bt_first_key_value payloads = Some (oldest, p)) \<and>
     (\<exists>p. bt_last_key_value payloads = Some (latest, p)) \<and>
     (\<forall>n. oldest \<le> n \<and> n \<le> latest \<longrightarrow> bt_get payloads n \<noteq> None)"

lemma get_fee_history_window:
  assumes "contiguous payloads oldest latest" "oldest \<le> last_block"
  shows "\<exists>fh. get_fee_history X block_count last_block percentiles payloads = Ok (Some fh) \<and>
     fh_base_fee_per_gas fh = map (base_fee_at payloads) (fee_window oldest latest block_count last_block) \<and>
     fh_gas_used_ratio fh = map (\<lambda>n. gas_used_ratio_of X (the (bt_get payloads n)))
       (fee_window oldest latest block_count last_block)"
proof -
  from assms(1) obtain p q where ends: "bt_first_key_value payloads = Some (oldest, p)"
    "bt_last_key_value payloads = Some (latest, q)" unfolding contiguous_def by blast
  let ?w = "fee_window oldest latest block_count last_block"
  have "\<forall>n \<in> set ?w. bt_get payloads n \<noteq> None"
    using assms(1) unfolding contiguous_def fee_window_def by (auto simp: set_inclusive_range)
  then have loop: "\<exists>fh'. fee_history_loop X payloads ?w fh = Ok fh' \<and>
      fh_base_fee_per_gas fh' = fh_base_fee_per_gas fh @ map (base_fee_at payloads) ?w \<and>
      fh_gas_used_ratio fh' = fh_gas_used_ratio fh @
        map (\<lambda>n. gas_used_ratio_of X (the (bt_get payloads n))) ?w" for fh
    by (simp add: fee_history_loop_Ok_iff)
  have w: "?w = inclusive_range
      (if (if last_block > latest then latest else last_block) - block_count < oldest then oldest
       else (if last_block > latest then latest else last_block) - block_count)
      (if last_block > latest then latest else last_block)"
    by (auto simp: fee_window_def max_def min_def not_le not_less)
  show ?thesis
    using ends assms(2) loop unfolding get_fee_history_def
    by (simp add: Let_def not_less flip: w) (metis (no_types, lifting) append_Nil and_then.simps(1) fee_history.select_convs(2,3))
qed

lemma fee_window_underflow:
  assumes "unat (min last_block latest) < unat block_count"
  shows "fee_window oldest latest block_count last_block = []"
proof -
  have "min last_block latest < min last_block latest - block_count"
    using assms unat_sub_wrap_u64 [of "min last_block latest" block_count] unat_u64_bound [of block_count]
    by (simp add: word_less_nat_alt)
  then show ?thesis
    unfolding fee_window_def by (intro inclusive_range_empty) (simp add: less_max_iff_disj)
qed

lemma verify_fee_loop_Ok:
  assumes "verify_fee_loop X calculated fh block_count pos fees = Ok ()" "i < length fees"
    "pos + i \<noteq> unat block_count"
  shows "pos + i < length (fh_base_fee_per_gas calculated)"
    and "fh_base_fee_per_gas calculated ! (pos + i) = fees ! i"
    and "fl_equal X (fh_gas_used_ratio calculated ! (pos + i))
           (fl_divide X (fl_round X (fl_times X (fh_gas_used_ratio fh ! (pos + i)) (fl_powi X 10 12)))
              (fl_powi X 10 12))"
  using assms
proof (induction fees arbitrary: pos i)
  case (Cons fee fees)
  { case 1 with Cons.IH(1) [of "Suc pos" "i - 1"] show ?case
      by (cases i) (auto simp: outcome_simps Let_def split: if_splits)
  next
    case 2 with Cons.IH(2) [of "Suc pos" "i - 1"] show ?case
      by (cases i) (auto simp: outcome_simps Let_def split: if_splits)
  next
    case 3 with Cons.IH(3) [of "Suc pos" "i - 1"] show ?case
      by (cases i) (auto simp: outcome_simps Let_def split: if_splits) }
qed auto

end
