(* ===== verification/Evm_Model.thy ===== *)
theory Evm_Model
  imports Execution_Lemmas
begin

text \<open>
  \<open>execution/src/evm.rs\<close>: the environment and the proof-checking database that the EVM runs on.
  The interpreter (\<open>revm\<close>) is a parameter: a function of the database's answers and of the
  environment, without a result where it panics. The methods of the database return nothing but their answer (\<open>ProofDB\<close> caches
  nothing), so the database is a record of functions. The field \<open>error\<close> is read by
  \<open>call\<close> and \<open>estimate_gas\<close>, but no code of the crate sets it.
\<close>

definition PARALLEL_QUERY_BATCH_SIZE :: nat where
  "PARALLEL_QUERY_BATCH_SIZE = 20"

datatype transact_out = OutNone | OutCreate bytes "address option" | OutCall bytes

record env =
  env_transact_to :: address
  env_caller :: address
  env_value :: u256
  env_data :: bytes
  env_gas_limit :: u64
  env_gas_price :: u256
  env_number :: u256
  env_coinbase :: address
  env_timestamp :: u256
  env_difficulty :: u256
  env_chain_id :: u256

record account_info =
  ai_balance :: u256
  ai_nonce :: u64
  ai_code :: bytes

record database =
  db_basic :: "call_id \<Rightarrow> address \<Rightarrow> (report, account_info) outcome"
  db_block_hash :: "u256 \<Rightarrow> (report, h256) outcome"
  db_storage :: "call_id \<Rightarrow> address \<Rightarrow> u256 \<Rightarrow> (report, u256) outcome"
  db_code_by_hash :: "h256 \<Rightarrow> (report, bytes) outcome"

record transact_result =
  exit_reason :: revm_return
  tx_out :: transact_out
  tx_gas_used :: u64

record evm_lib =
  vl_execution :: execution_lib
  vl_transact :: "database \<Rightarrow> env \<Rightarrow> transact_result option"
  vl_h256_from_uint :: "u256 \<Rightarrow> h256"
  vl_u256_from_little_endian :: "bytes \<Rightarrow> u256"

record proof_db =
  pd_rpc :: execution_rpc
  pd_current_payload :: execution_payload
  pd_payloads :: "(u64, execution_payload) btree"
  pd_accounts :: "address \<rightharpoonup> account"
  pd_error :: "string option"

definition proof_db_new ::
    "execution_rpc \<Rightarrow> execution_payload \<Rightarrow> (u64, execution_payload) btree \<Rightarrow> proof_db" where
  "proof_db_new rpc current_payload payloads =
     \<lparr>pd_rpc = rpc, pd_current_payload = current_payload, pd_payloads = payloads,
      pd_accounts = Map.empty, pd_error = None\<rparr>"

definition set_accounts :: "(address \<rightharpoonup> account) \<Rightarrow> proof_db \<Rightarrow> proof_db" where
  "set_accounts accounts db = db\<lparr>pd_accounts := accounts\<rparr>"

text \<open>
  \<open>U256::as_u64\<close> panics on a value that does not fit. The order of addresses is that of their
  bytes, and the last precompile is at \<open>0x00..09\<close>.
\<close>

definition u256_as_u64 :: "u256 \<Rightarrow> ('e, u64) outcome" where
  "u256_as_u64 x = (if unat x < 18446744073709551616 then Ok (ucast x) else Panic)"

fun bytes_less :: "bytes \<Rightarrow> bytes \<Rightarrow> bool" where
  "bytes_less [] b = (b \<noteq> [])"
| "bytes_less (x # a) [] = False"
| "bytes_less (x # a) (y # b) = (x < y \<or> x = y \<and> bytes_less a b)"

definition is_precompile :: "address \<Rightarrow> bool" where
  "is_precompile address \<longleftrightarrow>
     \<not> bytes_less (replicate 19 0 @ [9]) address \<and> bytes_less (replicate 20 0) address"

subsection \<open>The database\<close>

text \<open>
  The account is fetched in a blocking task that is waited for; a panic of it aborts the process, as
  it would in the caller.
\<close>

definition db_get_account ::
    "evm_lib \<Rightarrow> proof_db \<Rightarrow> call_id \<Rightarrow> address \<Rightarrow> h256 list \<Rightarrow> (report, account) outcome" where
  "db_get_account V db call address slots =
     get_account (vl_execution V) (pd_rpc db) call address (Some slots) (pd_current_payload db)"

definition basic :: "evm_lib \<Rightarrow> proof_db \<Rightarrow> call_id \<Rightarrow> address \<Rightarrow> (report, account_info) outcome" where
  "basic V db call address =
     (if is_precompile address then Ok \<lparr>ai_balance = 0, ai_nonce = 0, ai_code = []\<rparr>
      else and_then (case pd_accounts db address of
                       Some acc \<Rightarrow> Ok acc
                     | None \<Rightarrow> db_get_account V db call address []) (\<lambda>acc.
           Ok \<lparr>ai_balance = ac_balance acc, ai_nonce = ac_nonce acc, ai_code = ac_code acc\<rparr>))"

definition evm_block_hash :: "proof_db \<Rightarrow> u256 \<Rightarrow> (report, h256) outcome" where
  "evm_block_hash db number =
     and_then (u256_as_u64 number) (\<lambda>number.
     and_then (ok_or (BlockNotFoundError (Number number)) (bt_get (pd_payloads db) number)) (\<lambda>payload.
     Ok (block_hash payload)))"

definition storage :: "evm_lib \<Rightarrow> proof_db \<Rightarrow> call_id \<Rightarrow> address \<Rightarrow> u256 \<Rightarrow> (report, u256) outcome" where
  "storage V db call address slot_number =
     (let sl = vl_h256_from_uint V slot_number;
          fetch = and_then (db_get_account V db call address [sl]) (\<lambda>acc.
                    ok_or (SlotNotFoundError sl) (ac_slots acc sl)) in
      case pd_accounts db address of
        Some acc \<Rightarrow> (case ac_slots acc sl of Some v \<Rightarrow> Ok v | None \<Rightarrow> fetch)
      | None \<Rightarrow> fetch)"

definition code_by_hash :: "h256 \<Rightarrow> (report, bytes) outcome" where
  "code_by_hash code_hash = Err (Message ''should never be called'')"

text \<open>The interpreter names its requests; they are apart from those of the prefetch.\<close>

definition database_of :: "evm_lib \<Rightarrow> proof_db \<Rightarrow> database" where
  "database_of V db =
     \<lparr>db_basic = (\<lambda>call. basic V db (0 # call)), db_block_hash = evm_block_hash db,
      db_storage = (\<lambda>call. storage V db (1 # call)), db_code_by_hash = code_by_hash\<rparr>"

subsection \<open>Prefetching the accounts of a call\<close>

fun chunks :: "nat \<Rightarrow> 'a list \<Rightarrow> 'a list list" where
  "chunks n [] = []"
| "chunks n (x # xs) =
     (if n = 0 then [] else take n (x # xs) # chunks n (drop n (x # xs)))"

definition fetch_chunk ::
    "execution_lib \<Rightarrow> execution_rpc \<Rightarrow> execution_payload \<Rightarrow> (nat \<times> access_list_item) list \<Rightarrow>
     (address \<rightharpoonup> account) \<Rightarrow> ('e, address \<rightharpoonup> account) outcome" where
  "fetch_chunk X rpc payload chunk account_map =
     (let account_chunk = map (\<lambda>(i, item).
            (al_address item,
             get_account X rpc [2, i] (al_address item) (Some (al_storage_keys item)) payload)) chunk in
      if list_ex (\<lambda>(_, r). is_panic r) account_chunk then Panic
      else Ok (foldl (\<lambda>m (key, r). case r of Ok acc \<Rightarrow> m(key \<mapsto> acc) | _ \<Rightarrow> m) account_map account_chunk))"

fun fetch_chunks ::
    "execution_lib \<Rightarrow> execution_rpc \<Rightarrow> execution_payload \<Rightarrow> (nat \<times> access_list_item) list list \<Rightarrow>
     (address \<rightharpoonup> account) \<Rightarrow> ('e, address \<rightharpoonup> account) outcome" where
  "fetch_chunks X rpc payload [] account_map = Ok account_map"
| "fetch_chunks X rpc payload (chunk # rest) account_map =
     and_then (fetch_chunk X rpc payload chunk account_map) (fetch_chunks X rpc payload rest)"

definition access_list :: "call_opts \<Rightarrow> execution_payload \<Rightarrow> access_list_item list \<Rightarrow> access_list_item list" where
  "access_list opts payload listed =
     listed @
     [\<lparr>al_address = (case co_from opts of Some a \<Rightarrow> a | None \<Rightarrow> replicate 20 0), al_storage_keys = []\<rparr>,
      \<lparr>al_address = (case co_to opts of Some a \<Rightarrow> a | None \<Rightarrow> replicate 20 0), al_storage_keys = []\<rparr>,
      \<lparr>al_address = fee_recipient payload, al_storage_keys = []\<rparr>]"

definition batch_fetch_accounts ::
    "evm_lib \<Rightarrow> proof_db \<Rightarrow> call_opts \<Rightarrow> (report evm_error, address \<rightharpoonup> account) outcome" where
  "batch_fetch_accounts V db opts =
     (let payload = pd_current_payload db in
      and_then (map_err EvmRpcError (er_create_access_list (pd_rpc db) opts (block_number payload))) (\<lambda>listed.
      fetch_chunks (vl_execution V) (pd_rpc db) payload
        (chunks PARALLEL_QUERY_BATCH_SIZE (enumerate 0 (access_list opts payload listed))) Map.empty))"

subsection \<open>Calls\<close>

definition get_env :: "evm_lib \<Rightarrow> u64 \<Rightarrow> execution_payload \<Rightarrow> call_opts \<Rightarrow> ('e, env) outcome" where
  "get_env V cid payload opts =
     and_then (case co_gas opts of Some gas \<Rightarrow> u256_as_u64 gas | None \<Rightarrow> Ok (- 1)) (\<lambda>gas_lim.
     Ok \<lparr>env_transact_to = (case co_to opts of Some a \<Rightarrow> a | None \<Rightarrow> replicate 20 0),
         env_caller = (case co_from opts of Some a \<Rightarrow> a | None \<Rightarrow> replicate 20 0),
         env_value = (case co_value opts of Some v \<Rightarrow> v | None \<Rightarrow> 0),
         env_data = (case co_data opts of Some d \<Rightarrow> d | None \<Rightarrow> []),
         env_gas_limit = gas_lim,
         env_gas_price = (case co_gas_price opts of Some p \<Rightarrow> p | None \<Rightarrow> 0),
         env_number = ucast (block_number payload),
         env_coinbase = fee_recipient payload,
         env_timestamp = ucast (timestamp payload),
         env_difficulty = vl_u256_from_little_endian V (prev_randao payload),
         env_chain_id = ucast cid\<rparr>)"

definition transact ::
    "evm_lib \<Rightarrow> u64 \<Rightarrow> proof_db \<Rightarrow> call_opts \<Rightarrow> (report evm_error, proof_db \<times> transact_result) outcome" where
  "transact V cid db opts =
     and_then (batch_fetch_accounts V db opts) (\<lambda>account_map.
     let db = set_accounts account_map db in
     and_then (get_env V cid (pd_current_payload db) opts) (\<lambda>env.
     and_then (unwrap (vl_transact V (database_of V db) env)) (\<lambda>tx.
     Ok (db, tx))))"

fun revert_error :: "transact_out \<Rightarrow> report evm_error" where
  "revert_error (OutCall bytes) = Revert (Some bytes)"
| "revert_error _ = Revert None"

definition evm_call :: "evm_lib \<Rightarrow> u64 \<Rightarrow> proof_db \<Rightarrow> call_opts \<Rightarrow> (report evm_error, bytes) outcome" where
  "evm_call V cid db opts =
     and_then (transact V cid db opts) (\<lambda>(db, tx).
     if exit_reason tx = RevmRevert then Err (revert_error (tx_out tx))
     else if exit_reason tx = RevmReturn \<or> exit_reason tx = RevmStop then
       (case pd_error db of
          Some err \<Rightarrow> Err (Generic err)
        | None \<Rightarrow>
          (case tx_out tx of
             OutNone \<Rightarrow> Err (Generic ''Invalid Call'')
           | OutCreate _ _ \<Rightarrow> Err (Generic ''Invalid Call'')
           | OutCall bytes \<Rightarrow> Ok bytes))
     else Err (Revm (exit_reason tx)))"

definition evm_estimate_gas :: "evm_lib \<Rightarrow> u64 \<Rightarrow> proof_db \<Rightarrow> call_opts \<Rightarrow> (report evm_error, u64) outcome" where
  "evm_estimate_gas V cid db opts =
     and_then (transact V cid db opts) (\<lambda>(db, tx).
     let X = vl_execution V; gas = tx_gas_used tx in
     if exit_reason tx = RevmRevert then Err (revert_error (tx_out tx))
     else if exit_reason tx = RevmReturn \<or> exit_reason tx = RevmStop then
       (case pd_error db of
          Some err \<Rightarrow> Err (Generic err)
        | None \<Rightarrow> Ok (fl_to_u64 X (fl_times X (fl_1_10 X) (fl_of_u64 X gas))))
     else Err (Revm (exit_reason tx)))"

subsection \<open>Lemmas\<close>

lemma concat_chunks: "0 < n \<Longrightarrow> concat (chunks n xs) = xs"
  by (induction n xs rule: chunks.induct) auto

lemma fetch_chunk_append:
  "fetch_chunk X rpc payload (xs @ ys) m =
     and_then (fetch_chunk X rpc payload xs m) (fetch_chunk X rpc payload ys)"
  by (simp add: fetch_chunk_def Let_def)

text \<open>Splitting the accounts into batches of parallel requests does not change what is fetched.\<close>

lemma fetch_chunks_concat:
  "(fetch_chunks X rpc payload cs m :: ('e, address \<rightharpoonup> account) outcome) =
     fetch_chunk X rpc payload (concat cs) m"
proof (induction cs arbitrary: m)
  case Nil
  show ?case by (simp add: fetch_chunk_def)
next
  case (Cons c cs)
  have "(fetch_chunks X rpc payload cs :: _ \<Rightarrow> ('e, address \<rightharpoonup> account) outcome) =
      fetch_chunk X rpc payload (concat cs)"
    by (rule ext) (rule Cons.IH)
  then show ?case by (simp add: fetch_chunk_append)
qed

lemma batch_fetch_accounts_eq:
  "batch_fetch_accounts V db opts =
     and_then (map_err EvmRpcError (er_create_access_list (pd_rpc db) opts
                 (block_number (pd_current_payload db)))) (\<lambda>listed.
     fetch_chunk (vl_execution V) (pd_rpc db) (pd_current_payload db)
       (enumerate 0 (access_list opts (pd_current_payload db) listed)) Map.empty)"
  by (simp add: batch_fetch_accounts_def Let_def fetch_chunks_concat concat_chunks
      PARALLEL_QUERY_BATCH_SIZE_def)

text \<open>Every account that the prefetch leaves in the map is proved against the payload.\<close>

definition accounts_proved :: "execution_lib \<Rightarrow> execution_payload \<Rightarrow> (address \<rightharpoonup> account) \<Rightarrow> bool" where
  "accounts_proved X payload m \<longleftrightarrow> (\<forall>a acc. m a = Some acc \<longrightarrow> account_proved X payload a acc)"

lemma accounts_proved_empty [simp]: "accounts_proved X payload Map.empty"
  by (simp add: accounts_proved_def)

lemma fetch_chunk_proved:
  assumes "execution_laws X" "accounts_proved X payload m" "fetch_chunk X rpc payload chunk m = (Ok m' :: ('e, address \<rightharpoonup> account) outcome)"
  shows "accounts_proved X payload m'"
  using assms(2,3)
proof (induction chunk arbitrary: m)
  case Nil
  then show ?case by (simp add: fetch_chunk_def)
next
  case (Cons c cs)
  obtain i item where c: "c = (i, item)" by fastforce
  let ?r = "get_account X rpc [2, i] (al_address item) (Some (al_storage_keys item)) payload"
  have "fetch_chunk X rpc payload ([c] @ cs) m = (Ok m' :: ('e, address \<rightharpoonup> account) outcome)" using Cons.prems(2) by simp
  then obtain m1 where m1: "fetch_chunk X rpc payload [c] m = (Ok m1 :: ('e, address \<rightharpoonup> account) outcome)"
    "fetch_chunk X rpc payload cs m1 = (Ok m' :: ('e, address \<rightharpoonup> account) outcome)"
    unfolding fetch_chunk_append by (auto simp: outcome_simps)
  have "accounts_proved X payload m1"
  proof (cases ?r)
    case (Ok acc)
    with m1(1) have "m1 = m(al_address item \<mapsto> acc)" by (simp add: fetch_chunk_def c)
    with Cons.prems(1) get_account_proved [OF Ok assms(1)] show ?thesis
      by (simp add: accounts_proved_def)
  qed (use m1(1) Cons.prems(1) in \<open>simp_all add: fetch_chunk_def c\<close>)
  from Cons.IH [OF this m1(2)] show ?case .
qed

lemma batch_fetch_accounts_proved:
  assumes "execution_laws (vl_execution V)" "batch_fetch_accounts V db opts = Ok m"
  shows "accounts_proved (vl_execution V) (pd_current_payload db) m"
  using assms(2) fetch_chunk_proved [OF assms(1) accounts_proved_empty]
  by (auto simp: batch_fetch_accounts_eq outcome_simps)

lemma db_get_account_Ok: "db_get_account V db call address slots = Ok acc \<longleftrightarrow>
  get_account (vl_execution V) (pd_rpc db) call address (Some slots) (pd_current_payload db) = Ok acc"
  unfolding db_get_account_def ..

text \<open>
  The contract of the database: whatever the execution RPC answers, what the interpreter reads
  is proved against the payload the call runs on, or read from the known payloads.
\<close>

definition db_ok :: "evm_lib \<Rightarrow> proof_db \<Rightarrow> bool" where
  "db_ok V db \<longleftrightarrow> execution_laws (vl_execution V) \<and>
     accounts_proved (vl_execution V) (pd_current_payload db) (pd_accounts db)"

lemma basic_proved:
  assumes "db_ok V db" "basic V db call address = Ok info" "\<not> is_precompile address"
  shows "\<exists>acc. account_proved (vl_execution V) (pd_current_payload db) address acc \<and>
    info = \<lparr>ai_balance = ac_balance acc, ai_nonce = ac_nonce acc, ai_code = ac_code acc\<rparr>"
proof (cases "pd_accounts db address")
  case None
  with assms(2,3) obtain acc where "db_get_account V db call address [] = Ok acc"
    "info = \<lparr>ai_balance = ac_balance acc, ai_nonce = ac_nonce acc, ai_code = ac_code acc\<rparr>"
    by (auto simp: basic_def outcome_simps)
  with assms(1) get_account_proved show ?thesis unfolding db_get_account_Ok db_ok_def by blast
next
  case (Some acc)
  with assms show ?thesis by (auto simp: basic_def db_ok_def accounts_proved_def)
qed

lemma storage_proved:
  assumes "db_ok V db" "storage V db call address n = Ok v"
  shows "\<exists>acc. account_proved (vl_execution V) (pd_current_payload db) address acc \<and>
    ac_slots acc (vl_h256_from_uint V n) = Some v"
proof (cases "\<exists>acc. pd_accounts db address = Some acc \<and> ac_slots acc (vl_h256_from_uint V n) \<noteq> None")
  case True
  then obtain acc where "pd_accounts db address = Some acc" "ac_slots acc (vl_h256_from_uint V n) = Some v"
    using assms(2) by (auto simp: storage_def Let_def)
  with assms(1) show ?thesis unfolding db_ok_def accounts_proved_def by blast
next
  case False
  with assms(2) obtain acc where
    "db_get_account V db call address [vl_h256_from_uint V n] = Ok acc"
    "ac_slots acc (vl_h256_from_uint V n) = Some v"
    by (auto simp: storage_def Let_def outcome_simps split: option.splits)
  with assms(1) get_account_proved show ?thesis unfolding db_get_account_Ok db_ok_def by blast
qed

lemma transact_Ok:
  assumes "transact V cid (proof_db_new rpc payload payloads) opts = Ok (db, tx)"
    "execution_laws (vl_execution V)"
  shows "db_ok V db" "pd_current_payload db = payload" "pd_payloads db = payloads" "pd_error db = None"
    "\<exists>env. get_env V cid payload opts = (Ok env :: (report evm_error, env) outcome) \<and>
      vl_transact V (database_of V db) env = Some tx"
proof -
  from assms(1) obtain m where m: "batch_fetch_accounts V (proof_db_new rpc payload payloads) opts = Ok m"
    and db: "db = set_accounts m (proof_db_new rpc payload payloads)"
    and env: "\<exists>env. get_env V cid payload opts = (Ok env :: (report evm_error, env) outcome) \<and>
      vl_transact V (database_of V db) env = Some tx"
    by (auto simp: transact_def outcome_simps Let_def set_accounts_def proof_db_new_def)
  from batch_fetch_accounts_proved [OF assms(2) m] assms(2) show "db_ok V db"
    by (simp add: db db_ok_def set_accounts_def proof_db_new_def)
  show "pd_current_payload db = payload" "pd_payloads db = payloads" "pd_error db = None"
    by (simp_all add: db set_accounts_def proof_db_new_def)
  from env show "\<exists>env. get_env V cid payload opts = (Ok env :: (report evm_error, env) outcome) \<and>
      vl_transact V (database_of V db) env = Some tx" .
qed

lemma transact_fetched:
  assumes "transact V cid db0 opts = Ok (db, tx)"
  shows "\<exists>m. batch_fetch_accounts V db0 opts = Ok m \<and> db = set_accounts m db0"
  using assms by (auto simp: transact_def outcome_simps Let_def)

text \<open>The precompiles are the addresses 1 to 9.\<close>

lemma bytes_less_replicate_0:
  "length (a :: bytes) = n \<Longrightarrow> bytes_less (replicate n 0) a \<longleftrightarrow> a \<noteq> replicate n 0"
proof (induction a arbitrary: n)
  case (Cons x a)
  then show ?case by (cases n) (auto simp: word_gt_0)
qed simp

lemma bytes_less_single:
  "length (a :: bytes) = Suc n \<Longrightarrow> \<not> bytes_less (replicate n 0 @ [k]) a \<Longrightarrow>
     take n a = replicate n 0 \<and> a ! n \<le> k"
proof (induction n arbitrary: a)
  case 0
  then show ?case by (cases a) auto
next
  case (Suc n)
  then obtain x b where a: "a = x # b" by (cases a) auto
  with Suc.prems have "x = 0" by (auto simp: word_gt_0)
  with Suc a show ?case by simp
qed

lemma is_precompile_addresses:
  assumes "length a = 20"
  shows "is_precompile a \<longleftrightarrow> (\<exists>n. 1 \<le> n \<and> n \<le> 9 \<and> a = replicate 19 0 @ [n])"
proof
  assume pre: "is_precompile a"
  then have "take 19 a = replicate 19 0" "a ! 19 \<le> 9" "a \<noteq> replicate 20 0"
    using bytes_less_single [of a 19 9] bytes_less_replicate_0 [of a 20] assms
    by (auto simp: is_precompile_def)
  moreover have "a = take 19 a @ [a ! 19]"
    using assms take_Suc_conv_app_nth [of 19 a] by simp
  moreover have "replicate 20 (0 :: u8) = replicate 19 0 @ [0]"
    by (simp add: replicate_append_same numeral_eq_Suc)
  ultimately have "a = replicate 19 0 @ [a ! 19]" "a ! 19 \<noteq> 0" "a ! 19 \<le> 9" by metis+
  moreover from this(2) have "1 \<le> a ! 19" by (simp add: word_le_nat_alt Suc_le_eq unat_gt_0)
  ultimately show "\<exists>n. 1 \<le> n \<and> n \<le> 9 \<and> a = replicate 19 0 @ [n]" by blast
next
  assume "\<exists>n. 1 \<le> n \<and> n \<le> 9 \<and> a = replicate 19 0 @ [n]"
  then obtain n where n: "1 \<le> n" "n \<le> 9" "a = replicate 19 0 @ [n]" by blast
  have less: "bytes_less (replicate k 0 @ [x]) (replicate k 0 @ [y]) \<longleftrightarrow> x < y" for k x y
    by (induction k) simp_all
  have "a \<noteq> replicate 20 0"
  proof
    assume "a = replicate 20 0"
    then have "last (replicate 19 0 @ [n]) = last (replicate 20 0)" using n(3) by metis
    with n(1) show False by simp
  qed
  with n assms show "is_precompile a"
    using bytes_less_replicate_0 [of a 20] less [of 19 9 n] by (auto simp: is_precompile_def)
qed

end
