(* ===== verification/Node_Model.thy ===== *)
theory Node_Model
  imports Light_Client_Trust Evm_Model
begin

text \<open>
  \<open>client/src/node.rs\<close>: the node joins the consensus client, the execution client and the two
  maps of execution payloads by block number. Its RPC servers, the libraries and the readings
  of the clock are arguments. A mutating method returns the node as it left it.
\<close>

record node =
  consensus :: consensus_client
  node_config :: config
  payloads :: "(u64, execution_payload) btree"
  finalized_payloads :: "(u64, execution_payload) btree"
  current_slot :: "u64 option"
  history_size :: nat

text \<open>
  \<open>ConsensusClient::new\<close> always returns a client; \<open>ExecutionClient::new\<close> fails where the URL of
  the server does not parse, which the argument \<open>execution_rpc_new\<close> decides.
\<close>

definition node_new ::
    "(string \<Rightarrow> (report, unit) outcome) \<Rightarrow> config \<Rightarrow> (report node_error, node) outcome" where
  "node_new execution_rpc_new cfg =
     and_then (unwrap (checkpoint cfg)) (\<lambda>checkpoint_hash.
     and_then (map_err ExecutionClientCreationError (execution_rpc_new (execution_rpc cfg))) (\<lambda>_.
     Ok \<lparr>consensus = consensus_client_new checkpoint_hash cfg, node_config = cfg, payloads = bt_new,
         finalized_payloads = bt_new, current_slot = None, history_size = 64\<rparr>))"

definition node_chain_id :: "node \<Rightarrow> u64" where
  "node_chain_id n = chain_id (chain (node_config n))"

subsection \<open>Following the chain\<close>

definition insert_payload ::
    "execution_payload \<Rightarrow> (u64, execution_payload) btree \<Rightarrow> (u64, execution_payload) btree" where
  "insert_payload p m = bt_insert (block_number p) p m"

definition update_payloads ::
    "('pk, 'sg) consensus_lib \<Rightarrow> consensus_rpc_server \<Rightarrow> node \<Rightarrow> (node, report node_error, unit) ret" where
  "update_payloads L R n =
     (let latest_header = get_header (consensus n);
          finalized_header = get_finalized_header (consensus n) in
      then_op (map_err ConsensusPayloadError
        (get_execution_payload L R 0 (consensus n) (Some (slot latest_header))), n) (\<lambda>latest_payload n.
      then_op (map_err ConsensusPayloadError
        (get_execution_payload L R 1 (consensus n) (Some (slot finalized_header))), n) (\<lambda>finalized_payload n.
      let n = n\<lparr>payloads := insert_payload finalized_payload (insert_payload latest_payload (payloads n)),
                finalized_payloads := insert_payload finalized_payload (finalized_payloads n)\<rparr>;
          start_slot = (case current_slot n of Some s \<Rightarrow> s
                        | None \<Rightarrow> slot latest_header - of_nat (history_size n)) in
      then_op (map_err ConsensusPayloadError (get_payloads R 2 start_slot (slot latest_header)), n)
        (\<lambda>backfill_payloads n.
      (Ok (), n\<lparr>payloads := bt_truncate (history_size n)
                   (foldl (\<lambda>m p. insert_payload p m) (payloads n) backfill_payloads),
                current_slot := Some (slot latest_header),
                finalized_payloads := bt_truncate (max (history_size n div 32) 1)
                   (finalized_payloads n)\<rparr>)))))"

text \<open>Running a method of the consensus client inside the node.\<close>

definition on_consensus ::
    "(report \<Rightarrow> report node_error) \<Rightarrow> (consensus_client \<Rightarrow> (consensus_client, report, unit) ret) \<Rightarrow> node \<Rightarrow>
     (node, report node_error, unit) ret" where
  "on_consensus err m n = (case m (consensus n) of (r, c) \<Rightarrow> (map_err err r, n\<lparr>consensus := c\<rparr>))"

definition node_sync ::
    "('pk, 'sg) consensus_lib \<Rightarrow> consensus_rpc_server \<Rightarrow> execution_rpc \<Rightarrow> (nat \<Rightarrow> u64) \<Rightarrow> node \<Rightarrow>
     (node, report node_error, unit) ret" where
  "node_sync L R E clk n =
     then_op (map_err ExecutionNodeError (check_rpc E (chain_id (chain (node_config n)))), n) (\<lambda>_ n.
     then_op (map_err ConsensusSyncError (check_consensus_rpc R (consensus n)), n) (\<lambda>_ n.
     then_op (on_consensus ConsensusSyncError (sync L R clk) n) (\<lambda>_ n.
     update_payloads L R n)))"

definition node_advance ::
    "('pk, 'sg) consensus_lib \<Rightarrow> consensus_rpc_server \<Rightarrow> (nat \<Rightarrow> u64) \<Rightarrow> node \<Rightarrow>
     (node, report node_error, unit) ret" where
  "node_advance L R clk n =
     then_op (on_consensus ConsensusAdvanceError (advance L R clk) n) (\<lambda>_ n. update_payloads L R n)"

text \<open>\<open>to_std().unwrap()\<close> panics on a negative duration.\<close>

definition node_duration_until_next_update :: "node \<Rightarrow> u64 \<Rightarrow> ('e, nat) outcome" where
  "node_duration_until_next_update n now =
     and_then (duration_until_next_update (client_config (consensus n)) now) (\<lambda>d.
     if d < 0 then Panic else Ok (nat d))"

subsection \<open>Selecting a payload\<close>

definition get_payload :: "node \<Rightarrow> block_tag \<Rightarrow> (block_tag, execution_payload) outcome" where
  "get_payload n block =
     (case block of
        Latest \<Rightarrow> and_then (ok_or Latest (bt_last_key_value (payloads n))) (\<lambda>(_, p). Ok p)
      | Finalized \<Rightarrow> and_then (ok_or Finalized (bt_last_key_value (finalized_payloads n))) (\<lambda>(_, p). Ok p)
      | Number num \<Rightarrow> ok_or (Number num) (bt_get (payloads n) num))"

definition get_payload_by_hash :: "node \<Rightarrow> bytes \<Rightarrow> (report, u64 \<times> execution_payload) outcome" where
  "get_payload_by_hash n hash =
     (let ps = filter (\<lambda>(_, p). block_hash p = hash) (payloads n) in
      ok_or (Message ''Block not found by hash'') (case ps of [] \<Rightarrow> None | e # _ \<Rightarrow> Some e))"

definition check_head_age :: "node \<Rightarrow> u64 \<Rightarrow> (report node_error, unit) outcome" where
  "check_head_age n now =
     (let synced_slot = slot (get_header (consensus n)) in
      and_then (expected_current_slot (client_config (consensus n)) now) (\<lambda>expected_slot.
      let slot_delay = expected_slot - synced_slot in
      if slot_delay > 10 then Err (OutOfSync slot_delay) else Ok ()))"

definition check_blocktag_age :: "node \<Rightarrow> u64 \<Rightarrow> block_tag \<Rightarrow> (report node_error, unit) outcome" where
  "check_blocktag_age n now block =
     (case block of Latest \<Rightarrow> check_head_age n now | Finalized \<Rightarrow> Ok () | Number _ \<Rightarrow> Ok ())"

text \<open>The two conversions of \<open>?\<close>: into the error of the node, and into a report.\<close>

definition node_payload :: "node \<Rightarrow> block_tag \<Rightarrow> (report node_error, execution_payload) outcome" where
  "node_payload n block = map_err NodeBlockNotFoundError (get_payload n block)"

definition report_payload :: "node \<Rightarrow> block_tag \<Rightarrow> (report, execution_payload) outcome" where
  "report_payload n block = map_err BlockNotFoundError (get_payload n block)"

subsection \<open>Calls\<close>

definition node_call ::
    "evm_lib \<Rightarrow> execution_rpc \<Rightarrow> u64 \<Rightarrow> node \<Rightarrow> call_opts \<Rightarrow> block_tag \<Rightarrow> (report node_error, bytes) outcome" where
  "node_call V E now n opts block =
     and_then (check_blocktag_age n now block) (\<lambda>_.
     and_then (node_payload n block) (\<lambda>payload.
     map_err ExecutionEvmError
       (evm_call V (node_chain_id n) (proof_db_new E payload (payloads n)) opts)))"

definition node_estimate_gas ::
    "evm_lib \<Rightarrow> execution_rpc \<Rightarrow> u64 \<Rightarrow> node \<Rightarrow> call_opts \<Rightarrow> (report node_error, u64) outcome" where
  "node_estimate_gas V E now n opts =
     and_then (check_head_age n now) (\<lambda>_.
     and_then (node_payload n Latest) (\<lambda>payload.
     map_err ExecutionEvmError
       (evm_estimate_gas V (node_chain_id n) (proof_db_new E payload (payloads n)) opts)))"

text \<open>The account at a block, behind the checks that its readers share.\<close>

definition node_account ::
    "execution_lib \<Rightarrow> execution_rpc \<Rightarrow> node \<Rightarrow> (report node_error, unit) outcome \<Rightarrow> address \<Rightarrow>
     h256 list option \<Rightarrow> block_tag \<Rightarrow> (report, account) outcome" where
  "node_account X E n age_check address slots block =
     and_then (map_err NodeReport age_check) (\<lambda>_.
     and_then (report_payload n block) (\<lambda>payload.
     get_account X E [] address slots payload))"

definition get_balance ::
    "execution_lib \<Rightarrow> execution_rpc \<Rightarrow> u64 \<Rightarrow> node \<Rightarrow> address \<Rightarrow> block_tag \<Rightarrow> (report, u256) outcome" where
  "get_balance X E now n address block =
     and_then (node_account X E n (check_blocktag_age n now block) address None block) (\<lambda>acc.
     Ok (ac_balance acc))"

definition get_nonce ::
    "execution_lib \<Rightarrow> execution_rpc \<Rightarrow> u64 \<Rightarrow> node \<Rightarrow> address \<Rightarrow> block_tag \<Rightarrow> (report, u64) outcome" where
  "get_nonce X E now n address block =
     and_then (node_account X E n (check_blocktag_age n now block) address None block) (\<lambda>acc.
     Ok (ac_nonce acc))"

definition get_code ::
    "execution_lib \<Rightarrow> execution_rpc \<Rightarrow> u64 \<Rightarrow> node \<Rightarrow> address \<Rightarrow> block_tag \<Rightarrow> (report, bytes) outcome" where
  "get_code X E now n address block =
     and_then (node_account X E n (check_blocktag_age n now block) address None block) (\<lambda>acc.
     Ok (ac_code acc))"

definition get_storage_at ::
    "execution_lib \<Rightarrow> execution_rpc \<Rightarrow> u64 \<Rightarrow> node \<Rightarrow> address \<Rightarrow> h256 \<Rightarrow> block_tag \<Rightarrow> (report, u256) outcome" where
  "get_storage_at X E now n address sl block =
     and_then (node_account X E n (check_head_age n now) address (Some [sl]) block) (\<lambda>acc.
     case ac_slots acc sl of Some v \<Rightarrow> Ok v | None \<Rightarrow> Err (Message ''slot not found''))"

subsection \<open>Blocks, transactions, logs\<close>

definition get_block_transaction_count_by_hash :: "node \<Rightarrow> bytes \<Rightarrow> (report, u64) outcome" where
  "get_block_transaction_count_by_hash n hash =
     and_then (get_payload_by_hash n hash) (\<lambda>(_, payload). Ok (of_nat (length (transactions payload))))"

definition get_block_transaction_count_by_number :: "node \<Rightarrow> block_tag \<Rightarrow> (report, u64) outcome" where
  "get_block_transaction_count_by_number n block =
     and_then (report_payload n block) (\<lambda>payload. Ok (of_nat (length (transactions payload))))"

definition node_send_raw_transaction :: "execution_rpc \<Rightarrow> bytes \<Rightarrow> (report, h256) outcome" where
  "node_send_raw_transaction E bytes = send_raw_transaction E bytes"

definition node_get_transaction_receipt ::
    "execution_lib \<Rightarrow> execution_rpc \<Rightarrow> node \<Rightarrow> h256 \<Rightarrow> (report, transaction_receipt option) outcome" where
  "node_get_transaction_receipt X E n hash = get_transaction_receipt X E [] hash (payloads n)"

definition get_transaction_by_hash ::
    "execution_lib \<Rightarrow> execution_rpc \<Rightarrow> node \<Rightarrow> h256 \<Rightarrow> (report, transaction option) outcome" where
  "get_transaction_by_hash X E n hash = get_transaction X E [] hash (payloads n)"

definition node_get_transaction_by_block_hash_and_index ::
    "execution_lib \<Rightarrow> execution_rpc \<Rightarrow> node \<Rightarrow> bytes \<Rightarrow> nat \<Rightarrow> (report, transaction option) outcome" where
  "node_get_transaction_by_block_hash_and_index X E n hash i =
     and_then (get_payload_by_hash n hash) (\<lambda>(_, payload).
     get_transaction_by_block_hash_and_index X E payload i)"

definition node_get_logs ::
    "execution_lib \<Rightarrow> execution_rpc \<Rightarrow> node \<Rightarrow> filter_opts \<Rightarrow> (report, log list) outcome" where
  "node_get_logs X E n ft = get_logs X E ft (payloads n)"

definition node_get_fee_history ::
    "execution_lib \<Rightarrow> node \<Rightarrow> u64 \<Rightarrow> u64 \<Rightarrow> f64 list \<Rightarrow> (report, fee_history option) outcome" where
  "node_get_fee_history X n block_count last_block reward_percentiles =
     get_fee_history X block_count last_block reward_percentiles (payloads n)"

text \<open>A block that is not known is \<open>None\<close>, not an error.\<close>

definition get_block_by_number ::
    "execution_lib \<Rightarrow> execution_rpc \<Rightarrow> u64 \<Rightarrow> node \<Rightarrow> block_tag \<Rightarrow> bool \<Rightarrow>
     (report, execution_block option) outcome" where
  "get_block_by_number X E now n block full_tx =
     and_then (map_err NodeReport (check_blocktag_age n now block)) (\<lambda>_.
     case get_payload n block of
       Ok payload \<Rightarrow> and_then (get_block X E payload full_tx) (\<lambda>b. Ok (Some b))
     | Err _ \<Rightarrow> Ok None
     | Panic \<Rightarrow> Panic)"

definition get_block_by_hash ::
    "execution_lib \<Rightarrow> execution_rpc \<Rightarrow> node \<Rightarrow> bytes \<Rightarrow> bool \<Rightarrow> (report, execution_block option) outcome" where
  "get_block_by_hash X E n hash full_tx =
     (case get_payload_by_hash n hash of
        Ok (_, payload) \<Rightarrow> and_then (get_block X E payload full_tx) (\<lambda>b. Ok (Some b))
      | Err _ \<Rightarrow> Ok None
      | Panic \<Rightarrow> Panic)"

subsection \<open>The state of the node\<close>

definition u256_add :: "u256 \<Rightarrow> u256 \<Rightarrow> ('e, u256) outcome" where
  "u256_add a b = (if unat a + unat b < 2 ^ 256 then Ok (a + b) else Panic)"

definition get_gas_price :: "u64 \<Rightarrow> node \<Rightarrow> (report, u256) outcome" where
  "get_gas_price now n =
     and_then (map_err NodeReport (check_head_age n now)) (\<lambda>_.
     and_then (report_payload n Latest) (\<lambda>payload.
     u256_add (base_fee_per_gas payload) (10 ^ 9)))"

definition get_priority_fee :: "(report, u256) outcome" where
  "get_priority_fee = Ok (10 ^ 9)"

definition get_block_number :: "u64 \<Rightarrow> node \<Rightarrow> (report, u64) outcome" where
  "get_block_number now n =
     and_then (map_err NodeReport (check_head_age n now)) (\<lambda>_.
     and_then (report_payload n Latest) (\<lambda>payload. Ok (block_number payload)))"

record sync_progress =
  sp_current_block :: u64
  sp_highest_block :: u64
  sp_starting_block :: u64

datatype syncing_status = SyncIsFalse | IsSyncing sync_progress

text \<open>\<open>now\<close> and \<open>now'\<close>: \<open>check_head_age\<close> runs twice; the last reading is \<open>now''\<close>.\<close>

definition syncing :: "u64 \<Rightarrow> u64 \<Rightarrow> u64 \<Rightarrow> node \<Rightarrow> (report, syncing_status) outcome" where
  "syncing now now' now'' n =
     (case check_head_age n now of
        Ok _ \<Rightarrow> Ok SyncIsFalse
      | Panic \<Rightarrow> Panic
      | Err _ \<Rightarrow>
        and_then (get_block_number now' n) (\<lambda>latest_synced_block.
        let oldest_synced_block =
              (case bt_first_key_value (payloads n) of Some (k, _) \<Rightarrow> k | None \<Rightarrow> latest_synced_block) in
        and_then (expected_current_slot (client_config (consensus n)) now'') (\<lambda>highest_block.
        Ok (IsSyncing \<lparr>sp_current_block = latest_synced_block, sp_highest_block = highest_block,
                       sp_starting_block = oldest_synced_block\<rparr>))))"

definition node_get_header :: "u64 \<Rightarrow> node \<Rightarrow> (report, header) outcome" where
  "node_get_header now n =
     and_then (map_err NodeReport (check_head_age n now)) (\<lambda>_. Ok (get_header (consensus n)))"

definition get_coinbase :: "u64 \<Rightarrow> node \<Rightarrow> (report, address) outcome" where
  "get_coinbase now n =
     and_then (map_err NodeReport (check_head_age n now)) (\<lambda>_.
     and_then (report_payload n Latest) (\<lambda>payload. Ok (fee_recipient payload)))"

definition get_last_checkpoint :: "node \<Rightarrow> bytes option" where
  "get_last_checkpoint n = last_checkpoint (consensus n)"

end
