(* ===== verification/Node_Lemmas.thy ===== *)
theory Node_Lemmas
  imports Node_Model
begin

text \<open>
  What the node keeps: sorted payload maps of bounded size, and finalised payloads that belong
  to headers of the signed chain, in every node that synced and advances against any servers.
\<close>

subsection \<open>Payloads and headers\<close>

text \<open>The payload of a block whose root is that of a header the light client holds.\<close>

definition payload_of_header :: "('pk, 'sg) consensus_lib \<Rightarrow> header \<Rightarrow> execution_payload \<Rightarrow> bool" where
  "payload_of_header L h p \<longleftrightarrow>
     (\<exists>block root. htr_header L h = Some root \<and> htr_beacon_block L block = Some root \<and>
        p = execution_payload_of (body block))"

lemma get_execution_payload_verified:
  assumes "get_execution_payload L R k c (Some s) = Ok p"
  shows "\<exists>h. (h = st_optimistic_header (store c) \<or>
              h = st_finalized_header (store c) \<and> s \<noteq> slot (st_optimistic_header (store c))) \<and>
             slot h = s \<and> payload_of_header L h p"
  using assms
  by (auto simp: get_execution_payload_def outcome_simps Let_def payload_of_header_def
      split: if_splits)

text \<open>The payload belongs to a header that the anchored committees signed or finalised.\<close>

definition payload_trusted :: "('pk, 'sg) consensus_lib \<Rightarrow> config \<Rightarrow> bytes \<Rightarrow> execution_payload \<Rightarrow> bool" where
  "payload_trusted L cfg ckpt p \<longleftrightarrow>
     (\<exists>h. payload_of_header L h p \<and>
        (finalized_by_chain L cfg ckpt h \<or> (\<exists>n. n \<noteq> 0 \<and> signed_header L cfg ckpt h n)))"

lemma get_execution_payload_trusted:
  assumes "reachable L c" "get_execution_payload L R k c (Some s) = Ok p"
  shows "payload_trusted L (client_config c) (initial_checkpoint c) p"
  using get_execution_payload_verified [OF assms(2)] reachable_trusted [OF assms(1)]
  unfolding payload_trusted_def store_trusted_def by blast

subsection \<open>The maps of payloads\<close>

definition keyed :: "(u64, execution_payload) btree \<Rightarrow> bool" where
  "keyed m \<longleftrightarrow> bt_inv m \<and> (\<forall>k p. bt_get m k = Some p \<longrightarrow> block_number p = k)"

lemma keyed_new [simp]: "keyed bt_new"
  by (auto simp: keyed_def bt.inv_new bt.get_new)

lemma keyed_insert [invariants]: "keyed m \<Longrightarrow> keyed (insert_payload p m)"
  by (auto simp: keyed_def insert_payload_def bt.inv_insert bt.get_insert)

lemma keyed_truncate [invariants]: "keyed m \<Longrightarrow> keyed (bt_truncate n m)"
  by (auto simp: keyed_def bt_inv_truncate dest: bt_truncate_get)

lemma keyed_fold [invariants]: "keyed m \<Longrightarrow> keyed (foldl (\<lambda>m p. insert_payload p m) m ps)"
  by (induction ps arbitrary: m) (auto intro: keyed_insert)

definition all_payloads :: "(execution_payload \<Rightarrow> bool) \<Rightarrow> (u64, execution_payload) btree \<Rightarrow> bool" where
  "all_payloads P m \<longleftrightarrow> bt_inv m \<and> (\<forall>k p. bt_get m k = Some p \<longrightarrow> P p)"

lemma all_payloads_new [simp]: "all_payloads P bt_new"
  by (simp add: all_payloads_def bt.inv_new bt.get_new)

lemma all_payloads_insert: "all_payloads P m \<Longrightarrow> P p \<Longrightarrow> all_payloads P (insert_payload p m)"
  by (auto simp: all_payloads_def insert_payload_def bt.inv_insert bt.get_insert)

lemma all_payloads_truncate: "all_payloads P m \<Longrightarrow> all_payloads P (bt_truncate n m)"
  by (auto simp: all_payloads_def bt_inv_truncate dest: bt_truncate_get)

lemma all_payloads_fold:
  "all_payloads P m \<Longrightarrow> list_all P ps \<Longrightarrow> all_payloads P (foldl (\<lambda>m p. insert_payload p m) m ps)"
  by (induction ps arbitrary: m) (auto intro: all_payloads_insert)

subsection \<open>Updating the payloads\<close>

lemma update_payloads_frames:
  assumes "update_payloads L R n = (r, n')"
  shows "consensus n' = consensus n" "node_config n' = node_config n" "history_size n' = history_size n"
proof -
  have "consensus (snd (update_payloads L R n)) = consensus n \<and>
    node_config (snd (update_payloads L R n)) = node_config n \<and>
    history_size (snd (update_payloads L R n)) = history_size n"
    unfolding update_payloads_def Let_def
    by (rule then_op_invariant, simp, rule then_op_invariant, simp, rule then_op_invariant) auto
  with assms show "consensus n' = consensus n" "node_config n' = node_config n"
    "history_size n' = history_size n" by simp_all
qed

lemma update_payloads_Ok:
  assumes "update_payloads L R n = (Ok (), n')"
  obtains latest fin backfill where
    "get_execution_payload L R 0 (consensus n) (Some (slot (get_header (consensus n)))) = Ok latest"
    "get_execution_payload L R 1 (consensus n) (Some (slot (get_finalized_header (consensus n)))) = Ok fin"
    "get_payloads R 2 (case current_slot n of Some s \<Rightarrow> s
        | None \<Rightarrow> slot (get_header (consensus n)) - of_nat (history_size n))
        (slot (get_header (consensus n))) = Ok backfill"
    "n' = n\<lparr>payloads := bt_truncate (history_size n) (foldl (\<lambda>m p. insert_payload p m)
              (insert_payload fin (insert_payload latest (payloads n))) backfill),
            current_slot := Some (slot (get_header (consensus n))),
            finalized_payloads := bt_truncate (max (history_size n div 32) 1)
              (insert_payload fin (finalized_payloads n))\<rparr>"
  using assms by (auto simp: update_payloads_def Let_def outcome_simps cong: option.case_cong)

lemma update_payloads_finalized:
  assumes "update_payloads L R n = (r, n')"
  shows "finalized_payloads n' = finalized_payloads n \<or>
    (\<exists>fin. get_execution_payload L R 1 (consensus n) (Some (slot (get_finalized_header (consensus n)))) = Ok fin \<and>
       (finalized_payloads n' = insert_payload fin (finalized_payloads n) \<or>
        finalized_payloads n' = bt_truncate (max (history_size n div 32) 1)
          (insert_payload fin (finalized_payloads n))))"
proof -
  let ?l = "get_execution_payload L R 0 (consensus n) (Some (slot (get_header (consensus n))))"
  let ?f = "get_execution_payload L R 1 (consensus n) (Some (slot (get_finalized_header (consensus n))))"
  let ?b = "get_payloads R 2 (case current_slot n of Some s \<Rightarrow> s
        | None \<Rightarrow> slot (get_header (consensus n)) - of_nat (history_size n))
        (slot (get_header (consensus n)))"
  show ?thesis
    using assms
    by (cases ?l; cases ?f; cases ?b) (auto simp: update_payloads_def Let_def cong: option.case_cong)
qed

lemma update_payloads_maps:
  assumes "update_payloads L R n = (r, n')" "keyed (payloads n)" "keyed (finalized_payloads n)"
  shows "keyed (payloads n')" "keyed (finalized_payloads n')"
proof -
  let ?ok = "\<lambda>n. keyed (payloads n) \<and> keyed (finalized_payloads n)"
  have "?ok (snd (update_payloads L R n))"
    unfolding update_payloads_def Let_def
    by (rule then_op_invariant, simp add: assms, rule then_op_invariant, simp, rule then_op_invariant)
      (auto intro!: keyed_insert keyed_truncate keyed_fold)
  with assms(1) show "keyed (payloads n')" "keyed (finalized_payloads n')" by simp_all
qed

lemma update_payloads_bounded:
  assumes "update_payloads L R n = (Ok (), n')"
  shows "bt_len (payloads n') \<le> history_size n"
    "bt_len (finalized_payloads n') \<le> max (history_size n div 32) 1"
  using assms by (auto elim!: update_payloads_Ok simp: bt_len_truncate)

lemma update_payloads_all:
  assumes "update_payloads L R n = (r, n')" "all_payloads P (finalized_payloads n)"
    and new: "\<And>k s p. get_execution_payload L R k (consensus n) (Some s) = Ok p \<Longrightarrow> P p"
  shows "all_payloads P (finalized_payloads n')"
  using update_payloads_finalized [OF assms(1)]
proof (elim disjE exE conjE)
  fix fin
  assume "get_execution_payload L R 1 (consensus n) (Some (slot (get_finalized_header (consensus n)))) = Ok fin"
  note ins = all_payloads_insert [OF assms(2) new [OF this]]
  show ?thesis if "finalized_payloads n' = insert_payload fin (finalized_payloads n)"
    using that ins by simp
  show ?thesis if "finalized_payloads n' = bt_truncate (max (history_size n div 32) 1)
      (insert_payload fin (finalized_payloads n))"
    unfolding that by (rule all_payloads_truncate [OF ins])
qed (use assms(2) in simp)

lemma update_payloads_trusted:
  assumes "update_payloads L R n = (r, n')" "reachable L (consensus n)"
    "all_payloads (payload_trusted L (client_config (consensus n)) (initial_checkpoint (consensus n)))
       (finalized_payloads n)"
  shows "all_payloads (payload_trusted L (client_config (consensus n)) (initial_checkpoint (consensus n)))
    (finalized_payloads n')"
  using update_payloads_all [OF assms(1,3)] get_execution_payload_trusted [OF assms(2)] by blast

subsection \<open>Reachable nodes\<close>

inductive node_reachable :: "('pk, 'sg) consensus_lib \<Rightarrow> node \<Rightarrow> bool"
  for L :: "('pk, 'sg) consensus_lib"
where
  synced: "payloads n = bt_new \<Longrightarrow> finalized_payloads n = bt_new \<Longrightarrow>
     node_sync L R E clk n = (Ok (), n') \<Longrightarrow> node_reachable L n'"
| advanced: "node_reachable L n \<Longrightarrow> node_advance L R clk n = (r, n') \<Longrightarrow> node_reachable L n'"

definition node_inv :: "('pk, 'sg) consensus_lib \<Rightarrow> node \<Rightarrow> bool" where
  "node_inv L n \<longleftrightarrow> reachable L (consensus n) \<and> keyed (payloads n) \<and> keyed (finalized_payloads n) \<and>
     all_payloads (payload_trusted L (client_config (consensus n)) (initial_checkpoint (consensus n)))
       (finalized_payloads n)"

lemma server_ok_any: "trust.server_ok R"
  by (simp add: trust.server_ok_def)

lemma sync_reachable: "sync L R clk c = (Ok (), c') \<Longrightarrow> reachable L c'"
  using trust.sync_good [of L R clk c c'] reachable.booted server_ok_any by blast

lemma advance_reachable:
  assumes "reachable L c" "advance L R clk c = (r, c')"
  shows "reachable L c'" "later c c'"
  using trust.advance_good [OF assms(1) server_ok_any, of R clk] assms(2) by (simp_all add: trust.good_def)

lemma node_inv_update_payloads:
  assumes "update_payloads L R n = (r, n')" "node_inv L n"
  shows "node_inv L n'"
  using assms update_payloads_frames [OF assms(1)] update_payloads_maps [OF assms(1)]
    update_payloads_trusted [OF assms(1)]
  by (simp add: node_inv_def)

lemma node_sync_cases:
  assumes "node_sync L R E clk n = (r, n')"
  obtains "\<not> is_ok r" "payloads n' = payloads n" "finalized_payloads n' = finalized_payloads n"
    "node_config n' = node_config n"
  | c where "sync L R clk (consensus n) = (Ok (), c)" "update_payloads L R (n\<lparr>consensus := c\<rparr>) = (r, n')"
proof -
  obtain q c where sync: "sync L R clk (consensus n) = (q, c)" by fastforce
  let ?e = "check_rpc E (chain_id (chain (node_config n)))"
  let ?c = "check_consensus_rpc R (consensus n)"
  show ?thesis
    using assms sync that
    by (cases ?e; cases ?c; cases q) (auto simp: node_sync_def on_consensus_def)
qed

lemma node_sync_Ok:
  assumes "node_sync L R E clk n = (Ok (), n')"
  obtains c where "er_chain_id E = Ok (chain_id (chain (node_config n)))"
    "rpc_consensus_chain_id R = Ok (chain_id (chain (client_config (consensus n))))"
    "sync L R clk (consensus n) = (Ok (), c)"
    "update_payloads L R (n\<lparr>consensus := c\<rparr>) = (Ok (), n')"
  using assms
  by (auto simp: node_sync_def on_consensus_def check_rpc_def check_consensus_rpc_def outcome_simps
      split: prod.splits if_splits)

lemma node_inv_sync:
  assumes "payloads n = bt_new" "finalized_payloads n = bt_new" "node_sync L R E clk n = (Ok (), n')"
  shows "node_inv L n'"
proof -
  from assms(3) obtain c where c: "sync L R clk (consensus n) = (Ok (), c)"
    "update_payloads L R (n\<lparr>consensus := c\<rparr>) = (Ok (), n')" by (rule node_sync_Ok)
  have "node_inv L (n\<lparr>consensus := c\<rparr>)"
    using sync_reachable [OF c(1)] assms(1,2) by (simp add: node_inv_def)
  with c(2) show ?thesis by (rule node_inv_update_payloads)
qed

lemma node_inv_advance:
  assumes "node_inv L n" "node_advance L R clk n = (r, n')"
  shows "node_inv L n'"
proof -
  obtain q c where adv: "advance L R clk (consensus n) = (q, c)" by fastforce
  from assms(1) advance_reachable [OF _ adv] have inv: "node_inv L (n\<lparr>consensus := c\<rparr>)"
    by (auto simp: node_inv_def later_def)
  have "n' = n\<lparr>consensus := c\<rparr> \<or> update_payloads L R (n\<lparr>consensus := c\<rparr>) = (r, n')"
    using assms(2) adv by (cases q) (auto simp: node_advance_def on_consensus_def)
  with inv node_inv_update_payloads show ?thesis by blast
qed

lemma node_reachable_inv: "node_reachable L n \<Longrightarrow> node_inv L n"
  by (induction rule: node_reachable.induct) (auto intro: node_inv_sync node_inv_advance)

lemma finalized_payload_trusted:
  assumes "node_reachable L n" "get_payload n Finalized = Ok p"
  shows "payload_trusted L (client_config (consensus n)) (initial_checkpoint (consensus n)) p"
proof -
  have fin: "all_payloads (payload_trusted L (client_config (consensus n)) (initial_checkpoint (consensus n)))
      (finalized_payloads n)"
    using node_reachable_inv [OF assms(1)] by (simp add: node_inv_def)
  from assms(2) obtain k where "bt_last_key_value (finalized_payloads n) = Some (k, p)"
    by (auto simp: get_payload_def outcome_simps split: prod.splits)
  with bt.last_Some [of "finalized_payloads n" k p] fin have "bt_get (finalized_payloads n) k = Some p"
    by (simp add: all_payloads_def)
  with fin show ?thesis by (auto simp: all_payloads_def)
qed

end
