(* ===== verification/Checkpoint_Fallback.thy ===== *)
theory Checkpoint_Fallback
  imports Config_Model
begin

text \<open>
  \<open>config/src/checkpoints.rs\<close>: the community list of checkpoint services, and the vote that
  picks a checkpoint from their answers. HTTP requests and the YAML parser are parameters. The
  iteration order of a \<open>HashMap\<close> is not specified; the order in which the distinct roots are
  enumerated is the parameter \<open>order\<close>.
\<close>

definition CHECKPOINT_SYNC_SERVICES_LIST :: string where
  "CHECKPOINT_SYNC_SERVICES_LIST = ''https://raw.githubusercontent.com/ethpandaops/checkpoint-sync-health-checks/master/_data/endpoints.yaml''"

record start_end_time =
  start_time :: string
  end_time :: string

record slot_info =
  si_slot :: u64
  si_block_root :: "h256 option"
  si_state_root :: "h256 option"
  si_epoch :: u64
  si_time :: start_end_time

record raw_slot_response_data =
  rs_slots :: "slot_info list"

record raw_slot_response =
  rs_data :: raw_slot_response_data

record health =
  hl_result :: bool
  hl_date :: string

record checkpoint_fallback_service =
  sv_endpoint :: string
  sv_name :: string
  sv_state :: bool
  sv_verification :: bool
  sv_contacts :: "string option"
  sv_notes :: "string option"
  sv_health :: "health list"

record checkpoint_fallback =
  services :: "network \<rightharpoonup> checkpoint_fallback_service list"
  networks :: "network list"

definition checkpoint_fallback_new :: checkpoint_fallback where
  "checkpoint_fallback_new = \<lparr>services = Map.empty, networks = [MAINNET, GOERLI]\<rparr>"

fun network_to_string :: "network \<Rightarrow> string" where
  "network_to_string MAINNET = ''MAINNET''"
| "network_to_string GOERLI = ''GOERLI''"

text \<open>The lower-cased name is the key of the list.\<close>

fun network_key :: "network \<Rightarrow> string" where
  "network_key MAINNET = ''mainnet''"
| "network_key GOERLI = ''goerli''"

subsection \<open>The list of services\<close>

record 'y fallback_io =
  io_get_text :: "string \<Rightarrow> (report, string) outcome"
  io_yaml :: "string \<Rightarrow> (report, 'y) outcome"
  io_yaml_get :: "'y \<Rightarrow> string \<Rightarrow> 'y option"
  io_yaml_services :: "'y \<Rightarrow> (report, checkpoint_fallback_service list) outcome"
  io_get_json :: "string \<Rightarrow> (report, raw_slot_response) outcome"

fun build_services ::
    "'y fallback_io \<Rightarrow> 'y \<Rightarrow> network list \<Rightarrow> (network \<rightharpoonup> checkpoint_fallback_service list) \<Rightarrow>
     (report, network \<rightharpoonup> checkpoint_fallback_service list) outcome" where
  "build_services H list [] acc = Ok acc"
| "build_services H list (network # rest) acc =
     and_then (ok_or (Message (''missing '' @ network_to_string network @ '' fallback checkpoint services''))
                (io_yaml_get H list (network_key network))) (\<lambda>service_list.
     and_then (io_yaml_services H service_list) (\<lambda>parsed.
     build_services H list rest (acc(network \<mapsto> parsed))))"

definition build_fallback ::
    "'y fallback_io \<Rightarrow> checkpoint_fallback \<Rightarrow> (report, checkpoint_fallback) outcome" where
  "build_fallback H f =
     and_then (io_get_text H CHECKPOINT_SYNC_SERVICES_LIST) (\<lambda>yaml.
     and_then (io_yaml H yaml) (\<lambda>list.
     and_then (build_services H list (networks f) Map.empty) (\<lambda>s. Ok (f\<lparr>services := s\<rparr>))))"

text \<open>Indexing the map panics on a network that is not in it.\<close>

definition get_fallback_services ::
    "checkpoint_fallback \<Rightarrow> network \<Rightarrow> ('e, checkpoint_fallback_service list) outcome" where
  "get_fallback_services f network = unwrap (services f network)"

definition get_all_fallback_endpoints ::
    "checkpoint_fallback \<Rightarrow> network \<Rightarrow> ('e, string list) outcome" where
  "get_all_fallback_endpoints f network =
     and_then (unwrap (services f network)) (\<lambda>ss. Ok (map sv_endpoint ss))"

definition get_healthy_fallback_endpoints ::
    "checkpoint_fallback \<Rightarrow> network \<Rightarrow> ('e, string list) outcome" where
  "get_healthy_fallback_endpoints f network =
     and_then (unwrap (services f network)) (\<lambda>ss. Ok (map sv_endpoint (filter sv_state ss)))"

definition get_healthy_fallback_services ::
    "checkpoint_fallback \<Rightarrow> network \<Rightarrow> ('e, checkpoint_fallback_service list) outcome" where
  "get_healthy_fallback_services f network =
     and_then (unwrap (services f network)) (\<lambda>ss. Ok (filter sv_state ss))"

subsection \<open>The vote\<close>

definition construct_url :: "string \<Rightarrow> string" where
  "construct_url endpoint = endpoint @ ''/checkpointz/v1/beacon/slots''"

definition query_service :: "'y fallback_io \<Rightarrow> string \<Rightarrow> raw_slot_response option" where
  "query_service H endpoint =
     (case io_get_json H (construct_url endpoint) of Ok raw \<Rightarrow> Some raw | _ \<Rightarrow> None)"

text \<open>\<open>max_by_key\<close>: of several maximal elements, the last.\<close>

fun max_by_key_from :: "('a \<Rightarrow> 'k::linorder) \<Rightarrow> 'a \<Rightarrow> 'a list \<Rightarrow> 'a" where
  "max_by_key_from f x [] = x"
| "max_by_key_from f x (y # ys) = max_by_key_from f (if f x \<le> f y then y else x) ys"

definition max_by_key :: "('a \<Rightarrow> 'k::linorder) \<Rightarrow> 'a list \<Rightarrow> 'a option" where
  "max_by_key f xs = (case xs of [] \<Rightarrow> None | x # xs \<Rightarrow> Some (max_by_key_from f x xs))"

definition service_slot ::
    "'y fallback_io \<Rightarrow> checkpoint_fallback_service \<Rightarrow> (report, slot_info) outcome" where
  "service_slot H service =
     (case query_service H (sv_endpoint service) of
        Some raw \<Rightarrow>
          if rs_slots (rs_data raw) = [] then Err (Message ''no slots'')
          else ok_or (Message ''no valid slots'')
                 (find (\<lambda>s. si_block_root s \<noteq> None) (rs_slots (rs_data raw)))
      | None \<Rightarrow> Err (Message ''failed to query service''))"

definition valid_slots :: "'y fallback_io \<Rightarrow> checkpoint_fallback_service list \<Rightarrow> slot_info list" where
  "valid_slots H ss =
     filter (\<lambda>s. si_block_root s \<noteq> None)
       (List.map_filter (\<lambda>r. case r of Ok s \<Rightarrow> Some s | _ \<Rightarrow> None) (map (service_slot H) ss))"

definition fetch_latest_checkpoint_from_services ::
    "'y fallback_io \<Rightarrow> (h256 list \<Rightarrow> h256 list) \<Rightarrow> checkpoint_fallback_service list \<Rightarrow> (report, h256) outcome" where
  "fetch_latest_checkpoint_from_services H order ss =
     (let slots = valid_slots H ss in
      and_then (ok_or (Message ''Failed to find max epoch from checkpoint slots'')
                 (max_by_key si_epoch slots)) (\<lambda>max_epoch_slot.
      let max_epoch = si_epoch max_epoch_slot;
          slots = filter (\<lambda>x. si_epoch x = max_epoch) slots;
          checkpoints = List.map_filter si_block_root slots;
          most_common = max_by_key (\<lambda>k. count_list checkpoints k) (order (remdups checkpoints)) in
      ok_or (Message ''No checkpoint found'') most_common))"

definition fetch_latest_checkpoint ::
    "'y fallback_io \<Rightarrow> (h256 list \<Rightarrow> h256 list) \<Rightarrow> checkpoint_fallback \<Rightarrow> network \<Rightarrow> (report, h256) outcome" where
  "fetch_latest_checkpoint H order f network =
     and_then (get_healthy_fallback_services f network) (fetch_latest_checkpoint_from_services H order)"

definition fetch_checkpoint_from_api :: "'y fallback_io \<Rightarrow> string \<Rightarrow> (report, h256) outcome" where
  "fetch_checkpoint_from_api H url =
     and_then (io_get_json H (construct_url url)) (\<lambda>raw.
     and_then (index (rs_slots (rs_data raw)) 0) (\<lambda>sl.
     ok_or (Message ''Checkpoint not in returned slot'') (si_block_root sl)))"

subsection \<open>Lemmas\<close>

lemma max_by_key_from_props:
  "max_by_key_from f x xs \<in> set (x # xs) \<and> (\<forall>y \<in> set (x # xs). f y \<le> f (max_by_key_from f x xs))"
proof (induction xs arbitrary: x)
  case (Cons y ys)
  show ?case using Cons.IH [of "if f x \<le> f y then y else x"] by (auto split: if_splits)
qed simp

lemma max_by_key_None [simp]: "max_by_key f xs = None \<longleftrightarrow> xs = []"
  by (cases xs) (auto simp: max_by_key_def)

lemma max_by_key_Nil [simp]: "max_by_key f [] = None"
  by simp

lemma max_by_key_Some:
  assumes "max_by_key f xs = Some x"
  shows "x \<in> set xs" "y \<in> set xs \<Longrightarrow> f y \<le> f x"
  using assms max_by_key_from_props [of f "hd xs" "tl xs"]
  by (cases xs; auto simp: max_by_key_def)+

lemma case_Ok_Some: "(case r of Ok x \<Rightarrow> Some x | _ \<Rightarrow> None) = Some y \<longleftrightarrow> r = Ok y"
  by (cases r) auto

lemma in_set_map_filter: "y \<in> set (List.map_filter f xs) \<longleftrightarrow> (\<exists>x \<in> set xs. f x = Some y)"
  by (induction xs) (auto simp: map_filter_simps split: option.splits)

lemma service_slot_Ok_iff:
  "service_slot H sv = Ok s \<longleftrightarrow>
     (\<exists>raw. query_service H (sv_endpoint sv) = Some raw \<and>
        find (\<lambda>s. si_block_root s \<noteq> None) (rs_slots (rs_data raw)) = Some s)"
  by (cases "query_service H (sv_endpoint sv)") (auto simp: service_slot_def outcome_simps)

text \<open>The answers that take part: the first root of every service that answers with one.\<close>

lemma valid_slots_iff:
  "s \<in> set (valid_slots H ss) \<longleftrightarrow>
     (\<exists>sv raw. sv \<in> set ss \<and> query_service H (sv_endpoint sv) = Some raw \<and>
        find (\<lambda>s. si_block_root s \<noteq> None) (rs_slots (rs_data raw)) = Some s)"
proof -
  have "s \<in> set (valid_slots H ss) \<longleftrightarrow> si_block_root s \<noteq> None \<and> (\<exists>sv \<in> set ss. service_slot H sv = Ok s)"
    by (auto simp: valid_slots_def in_set_map_filter case_Ok_Some intro: rev_image_eqI)
  also have "\<dots> \<longleftrightarrow> (\<exists>sv \<in> set ss. service_slot H sv = Ok s)"
    by (auto simp: service_slot_Ok_iff find_Some_iff)
  finally show ?thesis by (auto simp: service_slot_Ok_iff)
qed

text \<open>A candidate root, and its votes, among the answers of the greatest epoch.\<close>

definition max_epoch_roots :: "'y fallback_io \<Rightarrow> checkpoint_fallback_service list \<Rightarrow> h256 list" where
  "max_epoch_roots H ss =
     List.map_filter si_block_root
       (filter (\<lambda>s. \<forall>t \<in> set (valid_slots H ss). si_epoch t \<le> si_epoch s) (valid_slots H ss))"

lemma fetch_latest_checkpoint_from_services_eq:
  "fetch_latest_checkpoint_from_services H order ss =
     (if valid_slots H ss = [] then Err (Message ''Failed to find max epoch from checkpoint slots'')
      else ok_or (Message ''No checkpoint found'')
        (max_by_key (count_list (max_epoch_roots H ss)) (order (remdups (max_epoch_roots H ss)))))"
proof (cases "max_by_key si_epoch (valid_slots H ss)")
  case (Some m)
  note m = max_by_key_Some [OF Some]
  have "filter (\<lambda>x. si_epoch x = si_epoch m) (valid_slots H ss) =
      filter (\<lambda>s. \<forall>t \<in> set (valid_slots H ss). si_epoch t \<le> si_epoch s) (valid_slots H ss)"
    by (rule filter_cong) (use m in \<open>auto intro: order_antisym\<close>)
  with m Some show ?thesis
    by (auto simp: fetch_latest_checkpoint_from_services_def Let_def max_epoch_roots_def)
qed (auto simp: fetch_latest_checkpoint_from_services_def)

lemma max_epoch_roots_nonempty:
  assumes "valid_slots H ss \<noteq> []"
  shows "max_epoch_roots H ss \<noteq> []"
proof -
  from assms obtain m where "max_by_key si_epoch (valid_slots H ss) = Some m"
    by (cases "max_by_key si_epoch (valid_slots H ss)") auto
  note m = max_by_key_Some [OF this]
  then obtain r where "si_block_root m = Some r" by (auto simp: valid_slots_def)
  with m have "r \<in> set (max_epoch_roots H ss)"
    by (force simp: max_epoch_roots_def in_set_map_filter)
  then show ?thesis by auto
qed

end
