(* ===== verification/Checkpoint_Db.thy ===== *)
theory Checkpoint_Db
  imports Config_Model
begin

text \<open>
  \<open>client/src/database.rs\<close>: where the last checkpoint is kept between runs. The trait is a
  locale; the database in a file and the database that is only the configuration provide it.
  The file system is the state of one file: its content, or none, and whether it can be read
  and written.
\<close>

record file_db =
  db_data_dir :: string
  db_default_checkpoint :: bytes

definition file_db_new :: "config \<Rightarrow> (report, file_db) outcome" where
  "file_db_new cfg =
     (case data_dir cfg of
        Some dir \<Rightarrow> Ok \<lparr>db_data_dir = dir, db_default_checkpoint = default_checkpoint cfg\<rparr>
      | None \<Rightarrow> Err (Message ''data dir not in config''))"

text \<open>
  A file system maps the path of a file to its content. \<open>fs_create_dir\<close> and \<open>fs_open\<close> say which
  operations fail (no permission, no space), \<open>fs_readable\<close> whether a read fails, and
  \<open>fs_write_limit\<close> after how many bytes a write fails.
\<close>

record file_system =
  fs_files :: "string \<rightharpoonup> bytes"
  fs_create_dir :: "string \<Rightarrow> bool"
  fs_writable :: "string \<Rightarrow> bool"
  fs_readable :: "string \<Rightarrow> bool"
  fs_write_limit :: "nat option"

definition checkpoint_path :: "file_db \<Rightarrow> string" where
  "checkpoint_path db = db_data_dir db @ ''/checkpoint''"

text \<open>Opening truncates the file, also where the write then fails.\<close>

definition file_save_checkpoint ::
    "file_db \<Rightarrow> bytes \<Rightarrow> file_system \<Rightarrow> (file_system, report, unit) ret" where
  "file_save_checkpoint db ckpt fs =
     (if \<not> fs_create_dir fs (db_data_dir db) then (Err (Message ''io error''), fs)
      else if \<not> fs_writable fs (checkpoint_path db) then (Err (Message ''io error''), fs)
      else case fs_write_limit fs of
        Some k \<Rightarrow>
          if k < length ckpt
          then (Err (Message ''io error''),
                fs\<lparr>fs_files := (fs_files fs)(checkpoint_path db \<mapsto> take k ckpt)\<rparr>)
          else (Ok (), fs\<lparr>fs_files := (fs_files fs)(checkpoint_path db \<mapsto> ckpt)\<rparr>)
      | None \<Rightarrow> (Ok (), fs\<lparr>fs_files := (fs_files fs)(checkpoint_path db \<mapsto> ckpt)\<rparr>))"

text \<open>
  A file of another length, an unreadable file and a missing file all give the default. The
  test \<open>res.is_ok()\<close> is about opening the file; the result of the read inside is not looked at.
\<close>

definition file_load_checkpoint :: "file_db \<Rightarrow> file_system \<Rightarrow> (report, bytes) outcome" where
  "file_load_checkpoint db fs =
     (case fs_files fs (checkpoint_path db) of
        Some buf \<Rightarrow>
          if length buf = 32 \<and> fs_readable fs (checkpoint_path db) then Ok buf
          else Ok (db_default_checkpoint db)
      | None \<Rightarrow> Ok (db_default_checkpoint db))"

definition config_db_new :: "config \<Rightarrow> (report, bytes) outcome" where
  "config_db_new cfg =
     Ok (case checkpoint cfg of Some c \<Rightarrow> c | None \<Rightarrow> default_checkpoint cfg)"

definition config_save_checkpoint ::
    "bytes \<Rightarrow> bytes \<Rightarrow> file_system \<Rightarrow> (file_system, report, unit) ret" where
  "config_save_checkpoint db ckpt fs = (Ok (), fs)"

definition config_load_checkpoint :: "bytes \<Rightarrow> file_system \<Rightarrow> (report, bytes) outcome" where
  "config_load_checkpoint db fs = Ok db"

subsection \<open>The trait\<close>

text \<open>
  What the client relies on: loading never fails, and after a save that reports success the
  loaded checkpoint is the saved one, where the database is persistent and the checkpoint has
  the 32 bytes of a root.
\<close>

locale checkpoint_database =
  fixes new :: "config \<Rightarrow> (report, 'db) outcome"
    and save :: "'db \<Rightarrow> bytes \<Rightarrow> file_system \<Rightarrow> (file_system, report, unit) ret"
    and load :: "'db \<Rightarrow> file_system \<Rightarrow> (report, bytes) outcome"
    and persistent :: "'db \<Rightarrow> file_system \<Rightarrow> bool"
  assumes load_total: "\<exists>c. load db fs = Ok c"
    and load_saved: "save db c fs = (Ok (), fs') \<Longrightarrow> length c = 32 \<Longrightarrow> persistent db fs \<Longrightarrow> load db fs' = Ok c"
    and save_persistent: "persistent db fs \<Longrightarrow> persistent db (snd (save db c fs))"
begin

lemma load_not_Err: "load db fs \<noteq> Err e" "load db fs \<noteq> Panic"
  using load_total [of db fs] by auto

text \<open>The last successful save wins.\<close>

lemma load_last_saved:
  assumes "save db c fs = (r, fs1)" "save db c' fs1 = (Ok (), fs2)" "length c' = 32" "persistent db fs"
  shows "load db fs2 = Ok c'"
  using assms load_saved save_persistent [of db fs c] by simp

end

interpretation file_db: checkpoint_database file_db_new file_save_checkpoint file_load_checkpoint
  "\<lambda>db fs. fs_readable fs (checkpoint_path db)"
proof
  show "\<exists>c. file_load_checkpoint db fs = Ok c" for db fs
    by (simp add: file_load_checkpoint_def split: option.splits)
  show "file_load_checkpoint db fs' = Ok c"
    if "file_save_checkpoint db c fs = (Ok (), fs')" "length c = 32" "fs_readable fs (checkpoint_path db)"
    for db c fs fs'
    using that by (auto simp: file_save_checkpoint_def file_load_checkpoint_def split: if_splits option.splits)
  show "fs_readable (snd (file_save_checkpoint db c fs)) (checkpoint_path db)"
    if "fs_readable fs (checkpoint_path db)" for db fs c
    using that by (auto simp: file_save_checkpoint_def split: option.splits)
qed

interpretation config_db: checkpoint_database config_db_new config_save_checkpoint
  config_load_checkpoint "\<lambda>_ _. False"
  by unfold_locales (simp_all add: config_load_checkpoint_def)

text \<open>A save that fails half-way loses the previous checkpoint, and the default is loaded.\<close>

lemma file_save_interrupted:
  assumes "fs_create_dir fs (db_data_dir db)" "fs_writable fs (checkpoint_path db)"
    "fs_write_limit fs = Some k" "k < length c" "length c = 32"
  shows "file_load_checkpoint db (snd (file_save_checkpoint db c fs)) = Ok (db_default_checkpoint db)"
  using assms by (simp add: file_save_checkpoint_def file_load_checkpoint_def)

end
