(* ===== verification/Rpc_Clients.thy ===== *)
theory Rpc_Clients
  imports Consensus_Client Evm_Model
begin

text \<open>
  The two network clients: \<open>NimbusRpc\<close> (\<open>consensus/src/rpc/nimbus_rpc.rs\<close>) and \<open>HttpRpc\<close>
  (\<open>execution/src/rpc/http_rpc.rs\<close>). The HTTP stack and the JSON parser are parameters: what a
  request returns after parsing, or the message of the error. What is modelled is the request
  each method makes, the unwrapping of the response, and the error it reports.
\<close>

subsection \<open>Nimbus\<close>

record 'a data_response =
  response_data :: 'a

record beacon_block_data =
  message :: beacon_block

record spec =
  spec_chain_id :: u64

record consensus_http =
  get_bootstrap_json :: "string \<Rightarrow> (string, bootstrap data_response) outcome"
  get_updates_json :: "string \<Rightarrow> (string, update data_response list) outcome"
  get_finality_update_json :: "string \<Rightarrow> (string, finality_update data_response) outcome"
  get_optimistic_update_json :: "string \<Rightarrow> (string, optimistic_update data_response) outcome"
  get_block_json :: "nat \<Rightarrow> string \<Rightarrow> (string, beacon_block_data data_response) outcome"
  get_spec_json :: "string \<Rightarrow> (string, spec data_response) outcome"

definition nimbus_get_bootstrap ::
    "(bytes \<Rightarrow> string) \<Rightarrow> consensus_http \<Rightarrow> string \<Rightarrow> bytes \<Rightarrow> (report, bootstrap) outcome" where
  "nimbus_get_bootstrap hex rpc_io rpc block_root =
     and_then (map_err (RpcError ''bootstrap'') (get_bootstrap_json rpc_io
       (rpc @ ''/eth/v1/beacon/light_client/bootstrap/0x'' @ hex block_root))) (\<lambda>res.
     Ok (response_data res))"

definition nimbus_get_updates ::
    "consensus_http \<Rightarrow> string \<Rightarrow> u64 \<Rightarrow> u8 \<Rightarrow> (report, update list) outcome" where
  "nimbus_get_updates rpc_io rpc period count =
     (let count = min count MAX_REQUEST_LIGHT_CLIENT_UPDATES in
      and_then (map_err (RpcError ''updates'') (get_updates_json rpc_io
        (rpc @ ''/eth/v1/beacon/light_client/updates?start_period='' @ u64_to_string period @
         ''&count='' @ show_radix 10 (unat count)))) (\<lambda>res.
      Ok (map response_data res)))"

definition nimbus_get_finality_update ::
    "consensus_http \<Rightarrow> string \<Rightarrow> (report, finality_update) outcome" where
  "nimbus_get_finality_update rpc_io rpc =
     and_then (map_err (RpcError ''finality_update'') (get_finality_update_json rpc_io
       (rpc @ ''/eth/v1/beacon/light_client/finality_update''))) (\<lambda>res. Ok (response_data res))"

definition nimbus_get_optimistic_update ::
    "consensus_http \<Rightarrow> string \<Rightarrow> (report, optimistic_update) outcome" where
  "nimbus_get_optimistic_update rpc_io rpc =
     and_then (map_err (RpcError ''optimistic_update'') (get_optimistic_update_json rpc_io
       (rpc @ ''/eth/v1/beacon/light_client/optimistic_update''))) (\<lambda>res. Ok (response_data res))"

definition nimbus_get_block ::
    "consensus_http \<Rightarrow> string \<Rightarrow> nat \<Rightarrow> u64 \<Rightarrow> (report, beacon_block) outcome" where
  "nimbus_get_block rpc_io rpc k sl =
     and_then (map_err (RpcError ''blocks'') (get_block_json rpc_io k
       (rpc @ ''/eth/v2/beacon/blocks/'' @ u64_to_string sl))) (\<lambda>res.
     Ok (message (response_data res)))"

definition nimbus_chain_id :: "consensus_http \<Rightarrow> string \<Rightarrow> (report, u64) outcome" where
  "nimbus_chain_id rpc_io rpc =
     and_then (map_err (RpcError ''spec'') (get_spec_json rpc_io (rpc @ ''/eth/v1/config/spec''))) (\<lambda>res.
     Ok (spec_chain_id (response_data res)))"

text \<open>The client of the trait \<open>ConsensusRpc\<close> that the node is built with.\<close>

definition nimbus_rpc :: "(bytes \<Rightarrow> string) \<Rightarrow> consensus_http \<Rightarrow> string \<Rightarrow> consensus_rpc_server" where
  "nimbus_rpc hex rpc_io rpc =
     \<lparr>rpc_get_bootstrap = nimbus_get_bootstrap hex rpc_io rpc,
      rpc_get_updates = nimbus_get_updates rpc_io rpc,
      rpc_get_finality_update = nimbus_get_finality_update rpc_io rpc,
      rpc_get_optimistic_update = nimbus_get_optimistic_update rpc_io rpc,
      rpc_get_block = nimbus_get_block rpc_io rpc,
      rpc_consensus_chain_id = nimbus_chain_id rpc_io rpc\<rparr>"

subsection \<open>The execution RPC\<close>

record eip1559_request =
  rq_to :: "address option"
  rq_from :: "address option"
  rq_value :: "u256 option"
  rq_gas :: "u256 option"
  rq_max_fee_per_gas :: "u256 option"
  rq_max_priority_fee_per_gas :: "u256 option"
  rq_data :: "bytes option"

record provider =
  pv_get_proof :: "call_id \<Rightarrow> address \<Rightarrow> h256 list \<Rightarrow> u64 option \<Rightarrow> (string, eip1186_proof_response) outcome"
  pv_create_access_list :: "eip1559_request \<Rightarrow> u64 option \<Rightarrow> (string, access_list_item list) outcome"
  pv_get_code :: "call_id \<Rightarrow> address \<Rightarrow> u64 option \<Rightarrow> (string, bytes) outcome"
  pv_send_raw_transaction :: "bytes \<Rightarrow> (string, h256) outcome"
  pv_get_transaction_receipt :: "call_id \<Rightarrow> h256 \<Rightarrow> (string, transaction_receipt option) outcome"
  pv_get_transaction :: "call_id \<Rightarrow> h256 \<Rightarrow> (string, transaction option) outcome"
  pv_get_logs :: "filter_opts \<Rightarrow> (string, log list) outcome"
  pv_get_chainid :: "(string, u256) outcome"
  pv_fee_history :: "u64 \<Rightarrow> u64 \<Rightarrow> f64 list \<Rightarrow> (string, fee_history) outcome"

definition access_list_request :: "call_opts \<Rightarrow> eip1559_request" where
  "access_list_request opts =
     \<lparr>rq_to = Some (case co_to opts of Some a \<Rightarrow> a | None \<Rightarrow> replicate 20 0),
      rq_from = co_from opts,
      rq_value = co_value opts,
      rq_gas = Some (case co_gas opts of Some g \<Rightarrow> g | None \<Rightarrow> 100000000),
      rq_max_fee_per_gas = Some 0,
      rq_max_priority_fee_per_gas = Some 0,
      rq_data = co_data opts\<rparr>"

definition http_rpc :: "provider \<Rightarrow> execution_rpc" where
  "http_rpc P =
     \<lparr>er_get_proof = (\<lambda>call address slots block.
        map_err (RpcError ''get_proof'') (pv_get_proof P call address slots (Some block))),
      er_create_access_list = (\<lambda>opts block.
        map_err (RpcError ''create_access_list'')
          (pv_create_access_list P (access_list_request opts) (Some block))),
      er_get_code = (\<lambda>call address block.
        map_err (RpcError ''get_code'') (pv_get_code P call address (Some block))),
      er_send_raw_transaction = (\<lambda>bytes.
        map_err (RpcError ''send_raw_transaction'') (pv_send_raw_transaction P bytes)),
      er_get_transaction_receipt = (\<lambda>call hash.
        map_err (RpcError ''get_transaction_receipt'') (pv_get_transaction_receipt P call hash)),
      er_get_transaction = (\<lambda>call hash.
        map_err (RpcError ''get_transaction'') (pv_get_transaction P call hash)),
      er_get_logs = (\<lambda>ft. map_err (RpcError ''get_logs'') (pv_get_logs P ft)),
      er_chain_id = and_then (map_err (RpcError ''chain_id'') (pv_get_chainid P)) u256_as_u64,
      er_get_fee_history = (\<lambda>block_count last_block reward_percentiles.
        map_err (RpcError ''fee_history'') (pv_fee_history P block_count last_block reward_percentiles))\<rparr>"

subsection \<open>Lemmas\<close>

text \<open>No request asks for more updates than the protocol allows in one response.\<close>

lemma nimbus_get_updates_capped:
  "nimbus_get_updates rpc_io rpc period count =
   nimbus_get_updates rpc_io rpc period (min count MAX_REQUEST_LIGHT_CLIENT_UPDATES)"
  by (simp add: nimbus_get_updates_def)

end
