(* ===== verification/Client_Model.thy ===== *)
theory Client_Model
  imports Node_Lemmas Checkpoint_Fallback Checkpoint_Db Rpc_Clients
begin

text \<open>
  \<open>client/src/client.rs\<close>: building a client from a configuration, starting it, with the two
  fallbacks for a checkpoint that is too old, and the loop that advances it. Logging is left
  out. The \<open>k\<close>-th attempt to sync sees the \<open>k\<close>-th answers of the servers and of the clock.
\<close>

record client_builder =
  cb_network :: "network option"
  cb_consensus_rpc :: "string option"
  cb_execution_rpc :: "string option"
  cb_checkpoint :: "bytes option"
  cb_rpc_bind_ip :: "ip_addr option"
  cb_rpc_port :: "u16 option"
  cb_data_dir :: "string option"
  cb_config :: "config option"
  cb_fallback :: "string option"
  cb_load_external_fallback :: bool
  cb_strict_checkpoint_age :: bool

definition client_builder_new :: client_builder where
  "client_builder_new = \<lparr>cb_network = None, cb_consensus_rpc = None, cb_execution_rpc = None,
     cb_checkpoint = None, cb_rpc_bind_ip = None, cb_rpc_port = None, cb_data_dir = None,
     cb_config = None, cb_fallback = None, cb_load_external_fallback = False,
     cb_strict_checkpoint_age = False\<rparr>"

definition set_network :: "network \<Rightarrow> client_builder \<Rightarrow> client_builder" where
  "set_network network b = b\<lparr>cb_network := Some network\<rparr>"

definition set_consensus_rpc :: "string \<Rightarrow> client_builder \<Rightarrow> client_builder" where
  "set_consensus_rpc url b = b\<lparr>cb_consensus_rpc := Some url\<rparr>"

definition set_execution_rpc :: "string \<Rightarrow> client_builder \<Rightarrow> client_builder" where
  "set_execution_rpc url b = b\<lparr>cb_execution_rpc := Some url\<rparr>"

definition set_checkpoint ::
    "(string \<Rightarrow> bytes option) \<Rightarrow> string \<Rightarrow> client_builder \<Rightarrow> ('e, client_builder) outcome" where
  "set_checkpoint hex_dec ckpt b =
     and_then (unwrap (hex_dec (case strip_prefix ''0x'' ckpt of Some t \<Rightarrow> t | None \<Rightarrow> ckpt))) (\<lambda>bytes.
     Ok (b\<lparr>cb_checkpoint := Some bytes\<rparr>))"

definition set_rpc_port :: "u16 \<Rightarrow> client_builder \<Rightarrow> client_builder" where
  "set_rpc_port port b = b\<lparr>cb_rpc_port := Some port\<rparr>"

definition set_data_dir :: "string \<Rightarrow> client_builder \<Rightarrow> client_builder" where
  "set_data_dir dir b = b\<lparr>cb_data_dir := Some dir\<rparr>"

definition set_config :: "config \<Rightarrow> client_builder \<Rightarrow> client_builder" where
  "set_config cfg b = b\<lparr>cb_config := Some cfg\<rparr>"

definition set_fallback :: "string \<Rightarrow> client_builder \<Rightarrow> client_builder" where
  "set_fallback url b = b\<lparr>cb_fallback := Some url\<rparr>"

definition set_load_external_fallback :: "client_builder \<Rightarrow> client_builder" where
  "set_load_external_fallback b = b\<lparr>cb_load_external_fallback := True\<rparr>"

definition set_strict_checkpoint_age :: "client_builder \<Rightarrow> client_builder" where
  "set_strict_checkpoint_age b = b\<lparr>cb_strict_checkpoint_age := True\<rparr>"

text \<open>An explicit setting wins over the one of the configuration.\<close>

definition explicit_or :: "'a option \<Rightarrow> config option \<Rightarrow> (config \<Rightarrow> 'a option) \<Rightarrow> 'a option" where
  "explicit_or setting cfg f =
     (case setting of
        Some x \<Rightarrow> Some x
      | None \<Rightarrow> (case cfg of Some c \<Rightarrow> f c | None \<Rightarrow> None))"

definition build_config ::
    "(string \<Rightarrow> bytes option) \<Rightarrow> client_builder \<Rightarrow> (report, config) outcome" where
  "build_config hex_dec b =
     and_then
       (case cb_network b of
          Some network \<Rightarrow> network_to_base_config hex_dec network
        | None \<Rightarrow> and_then (ok_or (Message ''missing network config'') (cb_config b)) (\<lambda>c.
                 Ok (to_base_config c))) (\<lambda>base.
     and_then (unwrap (explicit_or (cb_consensus_rpc b) (cb_config b) (\<lambda>c. Some (consensus_rpc c)))) (\<lambda>cons_rpc.
     and_then (unwrap (explicit_or (cb_execution_rpc b) (cb_config b) (\<lambda>c. Some (execution_rpc c)))) (\<lambda>exec_rpc.
     Ok \<lparr>consensus_rpc = cons_rpc,
         execution_rpc = exec_rpc,
         rpc_bind_ip = explicit_or (cb_rpc_bind_ip b) (cb_config b) rpc_bind_ip,
         rpc_port = explicit_or (cb_rpc_port b) (cb_config b) rpc_port,
         default_checkpoint =
           (case cb_config b of Some c \<Rightarrow> default_checkpoint c | None \<Rightarrow> bc_default_checkpoint base),
         checkpoint = explicit_or (cb_checkpoint b) (cb_config b) checkpoint,
         data_dir = explicit_or (cb_data_dir b) (cb_config b) data_dir,
         chain = bc_chain base,
         forks = bc_forks base,
         max_checkpoint_age = bc_max_checkpoint_age base,
         fallback = explicit_or (cb_fallback b) (cb_config b) fallback,
         load_external_fallback =
           (case cb_config b of Some c \<Rightarrow> cb_load_external_fallback b \<or> load_external_fallback c
            | None \<Rightarrow> cb_load_external_fallback b),
         strict_checkpoint_age =
           (case cb_config b of Some c \<Rightarrow> cb_strict_checkpoint_age b \<or> strict_checkpoint_age c
            | None \<Rightarrow> cb_strict_checkpoint_age b)\<rparr>)))"

subsection \<open>The client\<close>

text \<open>The implementation of the trait \<open>Database\<close> that the client is built with.\<close>

record 'db database_ops =
  dbo_new :: "config \<Rightarrow> (report, 'db) outcome"
  dbo_save :: "'db \<Rightarrow> bytes \<Rightarrow> file_system \<Rightarrow> (file_system, report, unit) ret"
  dbo_load :: "'db \<Rightarrow> file_system \<Rightarrow> (report, bytes) outcome"

definition file_db_ops :: "file_db database_ops" where
  "file_db_ops = \<lparr>dbo_new = file_db_new, dbo_save = file_save_checkpoint, dbo_load = file_load_checkpoint\<rparr>"

definition config_db_ops :: "bytes database_ops" where
  "config_db_ops = \<lparr>dbo_new = config_db_new, dbo_save = config_save_checkpoint, dbo_load = config_load_checkpoint\<rparr>"

record 'db client =
  cl_node :: node
  cl_rpc :: "(ip_addr \<times> u16) option"
  cl_db :: 'db
  cl_fallback :: "string option"
  cl_load_external_fallback :: bool
  cl_files :: file_system

record ('pk, 'sg, 'y) world =
  w_lib :: "('pk, 'sg) consensus_lib"
  w_consensus :: "nat \<Rightarrow> consensus_rpc_server"
  w_execution :: "nat \<Rightarrow> execution_rpc"
  w_clock :: "nat \<Rightarrow> nat \<Rightarrow> u64"
  w_execution_rpc_new :: "string \<Rightarrow> (report, unit) outcome"
  w_rpc_start :: "(report, unit) outcome"
  w_fallback :: "'y fallback_io"
  w_order :: "h256 list \<Rightarrow> h256 list"

definition client_new ::
    "('pk, 'sg, 'y) world \<Rightarrow> 'db database_ops \<Rightarrow> file_system \<Rightarrow> config \<Rightarrow> (report, 'db client) outcome" where
  "client_new W D fs cfg =
     and_then (dbo_new D cfg) (\<lambda>db.
     and_then
       (case checkpoint cfg of
          Some _ \<Rightarrow> Ok cfg
        | None \<Rightarrow> and_then (dbo_load D db fs) (\<lambda>c. Ok (cfg\<lparr>checkpoint := Some c\<rparr>))) (\<lambda>cfg.
     and_then (map_err NodeReport (node_new (w_execution_rpc_new W) cfg)) (\<lambda>n.
     Ok \<lparr>cl_node = n,
         cl_rpc = (if rpc_bind_ip cfg \<noteq> None \<or> rpc_port cfg \<noteq> None
                   then Some (case rpc_bind_ip cfg of Some ip \<Rightarrow> ip | None \<Rightarrow> LOCALHOST,
                              case rpc_port cfg of Some p \<Rightarrow> p | None \<Rightarrow> 0)
                   else None),
         cl_db = db,
         cl_fallback = fallback cfg,
         cl_load_external_fallback = load_external_fallback cfg,
         cl_files = fs\<rparr>)))"

definition client_build ::
    "('pk, 'sg, 'y) world \<Rightarrow> 'db database_ops \<Rightarrow> file_system \<Rightarrow> client_builder \<Rightarrow> (report, 'db client) outcome" where
  "client_build W D fs b =
     and_then (build_config (hex_decode (w_lib W)) b) (client_new W D fs)"

subsection \<open>Start\<close>

definition client_sync ::
    "('pk, 'sg, 'y) world \<Rightarrow> nat \<Rightarrow> 'db client \<Rightarrow> ('db client, report node_error, unit) ret" where
  "client_sync W k c =
     (case node_sync (w_lib W) (w_consensus W k) (w_execution W k) (w_clock W k) (cl_node c) of
        (r, n) \<Rightarrow> (r, c\<lparr>cl_node := n\<rparr>))"

text \<open>Sync again from another checkpoint, with a new consensus client.\<close>

definition reboot ::
    "('pk, 'sg, 'y) world \<Rightarrow> nat \<Rightarrow> bytes \<Rightarrow> 'db client \<Rightarrow> ('db client, report, unit) ret" where
  "reboot W k ckpt c =
     (let cfg = node_config (cl_node c);
          c = c\<lparr>cl_node := (cl_node c)\<lparr>consensus := consensus_client_new ckpt cfg\<rparr>\<rparr> in
      case client_sync W k c of (r, c) \<Rightarrow> (map_err NodeReport r, c))"

definition boot_from_fallback ::
    "('pk, 'sg, 'y) world \<Rightarrow> 'db client \<Rightarrow> ('db client, report, unit) ret" where
  "boot_from_fallback W c =
     (case cl_fallback c of
        Some url \<Rightarrow>
          then_op (map_err (\<lambda>_. Message (''Failed to fetch checkpoint from fallback '' @
                     [CHR 0x22] @ url @ [CHR 0x22]))
                    (fetch_checkpoint_from_api (w_fallback W) url), c) (\<lambda>ckpt c.
          reboot W 1 ckpt c)
      | None \<Rightarrow> (Err (Message ''no explicit fallback specified''), c))"

definition boot_from_external_fallbacks ::
    "('pk, 'sg, 'y) world \<Rightarrow> 'db client \<Rightarrow> ('db client, report, unit) ret" where
  "boot_from_external_fallbacks W c =
     then_op (map_err (\<lambda>_. Message ''Failed to construct external checkpoint sync fallbacks'')
               (build_fallback (w_fallback W) checkpoint_fallback_new), c) (\<lambda>list c.
     then_op
       (if chain_id (chain (node_config (cl_node c))) = 5
        then map_err (\<lambda>_. Message ''Failed to fetch latest goerli checkpoint from external fallbacks'')
               (fetch_latest_checkpoint (w_fallback W) (w_order W) list GOERLI)
        else map_err (\<lambda>_. Message ''Failed to fetch latest mainnet checkpoint from external fallbacks'')
               (fetch_latest_checkpoint (w_fallback W) (w_order W) list MAINNET), c) (\<lambda>ckpt c.
     reboot W 2 ckpt c))"

definition save_last_checkpoint :: "'db database_ops \<Rightarrow> 'db client \<Rightarrow> 'db client" where
  "save_last_checkpoint D c =
     (case get_last_checkpoint (cl_node c) of
        Some ckpt \<Rightarrow> c\<lparr>cl_files := snd (dbo_save D (cl_db c) ckpt (cl_files c))\<rparr>
      | None \<Rightarrow> c)"

definition client_start ::
    "('pk, 'sg, 'y) world \<Rightarrow> 'db database_ops \<Rightarrow> 'db client \<Rightarrow> ('db client, report, unit) ret" where
  "client_start W D c =
     then_op (if cl_rpc c \<noteq> None then w_rpc_start W else Ok (), c) (\<lambda>_ c.
     then_op
       (case client_sync W 0 c of
          (Ok _, c) \<Rightarrow> (Ok (), c)
        | (Panic, c) \<Rightarrow> (Panic, c)
        | (Err err, c) \<Rightarrow>
          (case err of
             ConsensusSyncError e \<Rightarrow>
               if e = ConsensusReport CheckpointTooOld then
                 (case boot_from_fallback W c of
                    (Ok _, c) \<Rightarrow> (Ok (), c)
                  | (Panic, c) \<Rightarrow> (Panic, c)
                  | (Err _, c) \<Rightarrow>
                    if cl_load_external_fallback c then boot_from_external_fallbacks W c
                    else (Err e, c))
               else (Err e, c)
           | _ \<Rightarrow> (Err (NodeReport err), c))) (\<lambda>_ c.
     (Ok (), save_last_checkpoint D c)))"

definition client_shutdown :: "'db database_ops \<Rightarrow> 'db client \<Rightarrow> 'db client" where
  "client_shutdown D c = save_last_checkpoint D c"

text \<open>
  One round of the advance loop, at the servers \<open>R\<close> and the clock \<open>clk\<close>: an error is logged,
  and the loop goes on after the time the node returns; \<open>now\<close> is the reading for that.
\<close>

definition advance_round ::
    "('pk, 'sg) consensus_lib \<Rightarrow> consensus_rpc_server \<Rightarrow> (nat \<Rightarrow> u64) \<Rightarrow> u64 \<Rightarrow> 'db client \<Rightarrow>
     ('db client, report, nat) ret" where
  "advance_round L R clk now c =
     (case node_advance L R clk (cl_node c) of
        (r, n) \<Rightarrow>
          (if is_panic r then (Panic, c\<lparr>cl_node := n\<rparr>)
           else (node_duration_until_next_update n now, c\<lparr>cl_node := n\<rparr>)))"

end
