(* ===== verification/Client_Lemmas.thy ===== *)
theory Client_Lemmas
  imports Client_Model
begin

text \<open>
  What a started client has: a node that synced from the configured checkpoint or from one of
  the fallbacks, and a checkpoint saved for the next run.
\<close>

subsection \<open>Errors of a sync\<close>

lemma update_payloads_Err:
  "update_payloads L R n = (Err err, n') \<Longrightarrow> \<exists>e. err = ConsensusPayloadError e"
  by (auto simp: update_payloads_def Let_def outcome_simps)

text \<open>A sync that failed in the consensus client has not touched the payloads.\<close>

lemma node_sync_consensus_error:
  assumes "node_sync L R E clk n = (Err (ConsensusSyncError e), n')"
  shows "payloads n' = payloads n" "finalized_payloads n' = finalized_payloads n"
    "node_config n' = node_config n"
proof -
  have "payloads n' = payloads n \<and> finalized_payloads n' = finalized_payloads n \<and> node_config n' = node_config n"
    using assms
    by (auto simp: node_sync_def on_consensus_def outcome_simps dest: update_payloads_Err split: prod.splits)
  then show "payloads n' = payloads n" "finalized_payloads n' = finalized_payloads n"
    "node_config n' = node_config n" by simp_all
qed

lemma node_sync_started:
  assumes "node_sync L R E clk n = (Ok (), n')"
  shows "initial_checkpoint (consensus n') = initial_checkpoint (consensus n)"
    "client_config (consensus n') = client_config (consensus n)"
proof -
  from assms obtain c where c: "sync L R clk (consensus n) = (Ok (), c)"
    "update_payloads L R (n\<lparr>consensus := c\<rparr>) = (Ok (), n')" by (rule node_sync_Ok)
  from sync_started_from [OF c(1)] update_payloads_frames(1) [OF c(2)]
  show "initial_checkpoint (consensus n') = initial_checkpoint (consensus n)"
    "client_config (consensus n') = client_config (consensus n)" by (simp_all add: started_from_def)
qed

subsection \<open>Booting\<close>

definition no_payloads :: "node \<Rightarrow> bool" where
  "no_payloads n \<longleftrightarrow> payloads n = bt_new \<and> finalized_payloads n = bt_new"

text \<open>The client has a synced node that started from the checkpoint \<open>ck\<close>.\<close>

definition booted :: "('pk, 'sg) consensus_lib \<Rightarrow> config \<Rightarrow> bytes \<Rightarrow> 'db client \<Rightarrow> bool" where
  "booted L cfg ck c \<longleftrightarrow> node_reachable L (cl_node c) \<and>
     initial_checkpoint (consensus (cl_node c)) = ck \<and> client_config (consensus (cl_node c)) = cfg"

text \<open>
  The checkpoints that the fallbacks answer: the configured service, and the vote of the community
  services for the network, where they are allowed.
\<close>

definition fallback_network :: "config \<Rightarrow> network" where
  "fallback_network cfg = (if chain_id (chain cfg) = 5 then GOERLI else MAINNET)"

definition fallback_checkpoints ::
    "('pk, 'sg, 'y) world \<Rightarrow> string option \<Rightarrow> bool \<Rightarrow> network \<Rightarrow> bytes set" where
  "fallback_checkpoints W url external network =
     {ck. (\<exists>u. url = Some u \<and> fetch_checkpoint_from_api (w_fallback W) u = Ok ck) \<or>
        external \<and> (\<exists>list. build_fallback (w_fallback W) checkpoint_fallback_new = Ok list \<and>
           fetch_latest_checkpoint (w_fallback W) (w_order W) list network = Ok ck)}"

lemma client_sync_booted:
  assumes "no_payloads (cl_node c)" "client_sync W k c = (Ok (), c')"
  shows "booted (w_lib W) (client_config (consensus (cl_node c))) (initial_checkpoint (consensus (cl_node c))) c'"
  using assms node_sync_started
  by (fastforce simp: client_sync_def no_payloads_def booted_def split: prod.splits intro: node_reachable.synced)

lemma reboot_booted:
  assumes "no_payloads (cl_node c)" "reboot W k ckpt c = (Ok (), c')"
  shows "booted (w_lib W) (node_config (cl_node c)) ckpt c'"
proof -
  let ?c = "c\<lparr>cl_node := (cl_node c)\<lparr>consensus := consensus_client_new ckpt (node_config (cl_node c))\<rparr>\<rparr>"
  have "client_sync W k ?c = (Ok (), c')"
    using assms(2) by (auto simp: reboot_def Let_def outcome_simps split: prod.splits)
  moreover have "no_payloads (cl_node ?c)" using assms(1) by (simp add: no_payloads_def)
  ultimately show ?thesis
    using client_sync_booted [of ?c W k c'] by (simp add: consensus_client_new_def)
qed

lemma boot_from_fallback_booted:
  assumes "no_payloads (cl_node c)" "boot_from_fallback W c = (Ok (), c')"
  shows "\<exists>ck \<in> fallback_checkpoints W (cl_fallback c) external network.
    booted (w_lib W) (node_config (cl_node c)) ck c'"
  using assms reboot_booted
  by (fastforce simp: boot_from_fallback_def fallback_checkpoints_def outcome_simps split: option.splits)

lemma boot_from_external_booted:
  assumes "no_payloads (cl_node c)" "boot_from_external_fallbacks W c = (Ok (), c')"
  shows "\<exists>ck \<in> fallback_checkpoints W (cl_fallback c) True (fallback_network (node_config (cl_node c))).
    booted (w_lib W) (node_config (cl_node c)) ck c'"
proof -
  from assms(2) obtain list ck where
    "build_fallback (w_fallback W) checkpoint_fallback_new = Ok list"
    "fetch_latest_checkpoint (w_fallback W) (w_order W) list (fallback_network (node_config (cl_node c))) = Ok ck"
    and run: "reboot W 2 ck c = (Ok (), c')"
    by (cases "chain_id (chain (node_config (cl_node c))) = 5")
      (auto simp: boot_from_external_fallbacks_def fallback_network_def outcome_simps)
  with reboot_booted [OF assms(1) run] show ?thesis unfolding fallback_checkpoints_def by blast
qed

lemma boot_from_fallback_None:
  "cl_fallback c = None \<Longrightarrow> boot_from_fallback W c = (Err (Message ''no explicit fallback specified''), c)"
  by (simp add: boot_from_fallback_def)

lemma client_sync_frames:
  assumes "client_sync W k c = (r, c')"
  shows "cl_fallback c' = cl_fallback c" "cl_load_external_fallback c' = cl_load_external_fallback c"
    "cl_db c' = cl_db c" "cl_files c' = cl_files c"
  using assms by (auto simp: client_sync_def split: prod.splits)

lemma client_sync_too_old:
  assumes "no_payloads (cl_node c)" "client_sync W k c = (Err (ConsensusSyncError e), c')"
  shows "no_payloads (cl_node c')" "node_config (cl_node c') = node_config (cl_node c)"
  using assms node_sync_consensus_error
  by (fastforce simp: client_sync_def no_payloads_def split: prod.splits)+

lemma client_sync_load_external [simp]:
  "cl_load_external_fallback (snd (client_sync W k c)) = cl_load_external_fallback c"
  using client_sync_frames(2) [of W k c] by (cases "client_sync W k c") auto

lemma reboot_load_external:
  "cl_load_external_fallback (snd (reboot W k ckpt c)) = cl_load_external_fallback c"
  by (simp add: reboot_def Let_def split_beta)

lemma boot_from_fallback_load_external:
  "cl_load_external_fallback (snd (boot_from_fallback W c)) = cl_load_external_fallback c"
proof (cases "cl_fallback c")
  case (Some url)
  then show ?thesis
    by (cases "fetch_checkpoint_from_api (w_fallback W) url")
      (simp_all add: boot_from_fallback_def reboot_load_external)
qed (simp add: boot_from_fallback_def)

text \<open>
  The node of a client that started. With both fallbacks in use the payloads of a failed first
  fallback would stay in the node, so they are not both configured here.
\<close>

lemma client_start_Ok:
  assumes "client_start W D c = (Ok (), c')" "no_payloads (cl_node c)"
    "client_config (consensus (cl_node c)) = node_config (cl_node c)"
    "cl_fallback c = None \<or> \<not> cl_load_external_fallback c"
  shows "\<exists>c1. \<exists>ck \<in> insert (initial_checkpoint (consensus (cl_node c))) (fallback_checkpoints W (cl_fallback c)
      (cl_load_external_fallback c) (fallback_network (node_config (cl_node c)))).
    booted (w_lib W) (node_config (cl_node c)) ck c1 \<and> c' = save_last_checkpoint D c1"
proof -
  obtain r c0 where sync: "client_sync W 0 c = (r, c0)" by fastforce
  note frames = client_sync_frames [OF sync]
  show ?thesis
  proof (cases r)
    case (Ok u)
    with assms(1) sync have "c' = save_last_checkpoint D c0"
      by (auto simp: client_start_def outcome_simps)
    moreover have "client_sync W 0 c = (Ok (), c0)" using sync Ok by simp
    note client_sync_booted [OF assms(2) this]
    ultimately show ?thesis using assms(3) by auto
  next
    case Panic
    with assms(1) sync show ?thesis by (auto simp: client_start_def outcome_simps)
  next
    case (Err err)
    obtain q c1 where boot: "boot_from_fallback W c0 = (q, c1)" by fastforce
    from assms(1) sync Err obtain e where err: "err = ConsensusSyncError e"
      "e = ConsensusReport CheckpointTooOld"
      by (auto simp: client_start_def outcome_simps split: node_error.splits if_splits)
    have none: "no_payloads (cl_node c0)" "node_config (cl_node c0) = node_config (cl_node c)"
      using client_sync_too_old [OF assms(2)] sync Err err by blast+
    show ?thesis
    proof (cases "\<exists>u. q = Ok u")
      case True
      with assms(1) sync Err err boot have "c' = save_last_checkpoint D c1"
        by (auto simp: client_start_def outcome_simps)
      with boot_from_fallback_booted [OF none(1), of W c1
          "cl_load_external_fallback c" "fallback_network (node_config (cl_node c))"] boot True none(2) frames(1) show ?thesis by auto
    next
      case False
      with assms(1) sync Err err boot have ext: "cl_load_external_fallback c1"
        and fin: "\<exists>c2. boot_from_external_fallbacks W c1 = (Ok (), c2) \<and> c' = save_last_checkpoint D c2"
        by (cases q; auto simp: client_start_def outcome_simps split: if_splits)+
      have load: "cl_load_external_fallback c"
        using ext boot_from_fallback_load_external [of W c0] boot frames(2) by simp
      with assms(4) frames(1) have "cl_fallback c0 = None" by simp
      with boot boot_from_fallback_None [of c0 W] have "c1 = c0" by simp
      with fin obtain c2 where c2: "boot_from_external_fallbacks W c0 = (Ok (), c2)" "c' = save_last_checkpoint D c2"
        by blast
      from boot_from_external_booted [OF none(1) c2(1)] load c2(2) show ?thesis
        unfolding none(2) frames(1) by auto
    qed
  qed
qed

lemma save_last_checkpoint_node [simp]: "cl_node (save_last_checkpoint D c) = cl_node c"
  by (simp add: save_last_checkpoint_def split: option.split)

lemma client_new_Ok:
  assumes "client_new W D fs cfg = Ok c"
  shows "no_payloads (cl_node c)" "client_config (consensus (cl_node c)) = node_config (cl_node c)"
    "cl_fallback c = fallback cfg" "cl_load_external_fallback c = load_external_fallback cfg"
    "fallback_network (node_config (cl_node c)) = fallback_network cfg"
proof -
  from assms obtain cfg' n where n: "node_new (w_execution_rpc_new W) cfg' = Ok n"
    and c: "cl_node c = n" "cl_fallback c = fallback cfg'" "cl_load_external_fallback c = load_external_fallback cfg'"
    and cfg: "cfg' = cfg \<or> (\<exists>ck. cfg' = cfg\<lparr>checkpoint := Some ck\<rparr>)"
    unfolding client_new_def and_then_Ok_iff map_err_iffs
    by (cases "checkpoint cfg") (force simp: and_then_Ok_iff)+
  show "cl_fallback c = fallback cfg" "cl_load_external_fallback c = load_external_fallback cfg"
    using c cfg by auto
  show "fallback_network (node_config (cl_node c)) = fallback_network cfg"
  proof -
    have "chain cfg' = chain cfg" using cfg by auto
    moreover have "node_config (cl_node c) = cfg'"
      using n unfolding c(1) by (auto simp: node_new_def and_then_Ok_iff)
    ultimately show ?thesis by (simp add: fallback_network_def)
  qed
  show "no_payloads (cl_node c)" "client_config (consensus (cl_node c)) = node_config (cl_node c)"
    using n unfolding c(1) by (auto simp: node_new_def no_payloads_def consensus_client_new_def and_then_Ok_iff)
qed

text \<open>A builder that only has a configuration builds the client of it.\<close>

lemma build_same_config:
  "client_build W D fs (set_config cfg client_builder_new) = client_new W D fs cfg"
proof -
  have "build_config D (set_config cfg client_builder_new) = Ok cfg" for D
    by (simp add: build_config_def set_config_def client_builder_new_def explicit_or_def to_base_config_keeps)
  then show ?thesis by (simp add: client_build_def)
qed

subsection \<open>Restarting\<close>

lemma save_then_load:
  assumes "cl_db c = db" "get_last_checkpoint (cl_node c) = Some ckpt" "length ckpt = 32"
    "file_save_checkpoint db ckpt (cl_files c) = (Ok (), fs)" "fs_readable (cl_files c) (checkpoint_path db)"
  shows "file_load_checkpoint db (cl_files (save_last_checkpoint file_db_ops c)) = Ok ckpt"
  using assms file_db.load_saved by (simp add: save_last_checkpoint_def file_db_ops_def)

lemma client_new_resumes:
  assumes "checkpoint cfg = None" "data_dir cfg = Some dir"
    "client_new W file_db_ops fs cfg = Ok c"
    "file_load_checkpoint \<lparr>db_data_dir = dir, db_default_checkpoint = default_checkpoint cfg\<rparr> fs = Ok ckpt"
  shows "initial_checkpoint (consensus (cl_node c)) = ckpt" "no_payloads (cl_node c)"
  using assms
  by (auto simp: client_new_def file_db_ops_def file_db_new_def node_new_def consensus_client_new_def
      no_payloads_def outcome_simps)

end
