(* ===== verification/Rpc_Server.thy ===== *)
theory Rpc_Server
  imports Client_Lemmas
begin

text \<open>
  \<open>client/src/rpc.rs\<close>, \<open>client/src/errors.rs\<close> and the methods of \<open>Client\<close> in
  \<open>client/src/client.rs\<close> that delegate to the node: the JSON-RPC handlers, which parse their
  arguments, ask the node, and format the answer or the error. The texts of the error types and
  the external parsers and printers are parameters.
\<close>

datatype json_error = CustomError string | CallError int string "string option"

record rpc_format =
  rf_report :: "report \<Rightarrow> string"
  rf_node_error :: "report node_error \<Rightarrow> string"
  rf_evm_error :: "report evm_error \<Rightarrow> string"
  rf_abi_decode_string :: "bytes \<Rightarrow> string option"
  rf_hex_encode :: "bytes \<Rightarrow> string"
  rf_hex_decode :: "string \<Rightarrow> bytes option"
  rf_address_from_str :: "string \<Rightarrow> (string, address) outcome"
  rf_encode_hex_u256 :: "u256 \<Rightarrow> string"

subsection \<open>Errors\<close>

definition decode_revert_reason :: "rpc_format \<Rightarrow> bytes \<Rightarrow> string option" where
  "decode_revert_reason F data = (if length data < 4 then None else rf_abi_decode_string F (drop 4 data))"

definition to_json_rpsee_error :: "rpc_format \<Rightarrow> report node_error \<Rightarrow> json_error" where
  "to_json_rpsee_error F err =
     (case err of
        ExecutionEvmError evm_err \<Rightarrow>
          (case evm_err of
             Revert data \<Rightarrow>
               let reason = (case data of Some d \<Rightarrow> decode_revert_reason F d | None \<Rightarrow> None);
                   msg = (case reason of Some r \<Rightarrow> ''execution reverted'' @ '': '' @ r
                          | None \<Rightarrow> ''execution reverted'')
               in CallError 3 msg (map_option (\<lambda>d. ''0x'' @ rf_hex_encode F d) data)
           | _ \<Rightarrow> CustomError (rf_evm_error F evm_err))
      | _ \<Rightarrow> CustomError (rf_node_error F err))"

definition convert_err :: "('e \<Rightarrow> string) \<Rightarrow> ('e, 'a) outcome \<Rightarrow> (json_error, 'a) outcome" where
  "convert_err show_err res = map_err (\<lambda>err. CustomError (show_err err)) res"

definition format_hex :: "rpc_format \<Rightarrow> u256 \<Rightarrow> (json_error, string) outcome" where
  "format_hex F num =
     and_then (unwrap (strip_prefix ''0x'' (rf_encode_hex_u256 F num))) (\<lambda>s.
     let stripped = dropWhile (\<lambda>c. c = CHR ''0'') s;
         stripped = (if stripped = [] then ''0'' else stripped) in
     Ok (''0x'' @ stripped))"

text \<open>The two parsers of arguments; \<open>H256::from_slice\<close> panics on another length than 32.\<close>

definition parse_bytes :: "rpc_format \<Rightarrow> string \<Rightarrow> (json_error, bytes) outcome" where
  "parse_bytes F s = convert_err (rf_report F) (hex_str_to_bytes (rf_hex_decode F) s)"

definition parse_h256 :: "rpc_format \<Rightarrow> string \<Rightarrow> (json_error, h256) outcome" where
  "parse_h256 F s = and_then (parse_bytes F s) (\<lambda>b. if length b = 32 then Ok b else Panic)"

definition parse_address :: "rpc_format \<Rightarrow> string \<Rightarrow> (json_error, address) outcome" where
  "parse_address F s = convert_err (\<lambda>e. e) (rf_address_from_str F s)"

subsection \<open>Handlers of the namespace \<open>eth\<close>\<close>

text \<open>The node behind the lock, its servers and libraries, and the clock of one request.\<close>

record rpc_inner =
  in_node :: node
  in_rpc :: execution_rpc
  in_evm :: evm_lib
  in_format :: rpc_format
  in_now :: "nat \<Rightarrow> u64"

abbreviation in_lib :: "rpc_inner \<Rightarrow> execution_lib" where
  "in_lib S \<equiv> vl_execution (in_evm S)"

definition eth_get_balance :: "rpc_inner \<Rightarrow> string \<Rightarrow> block_tag \<Rightarrow> (json_error, string) outcome" where
  "eth_get_balance S address block =
     and_then (parse_address (in_format S) address) (\<lambda>address.
     and_then (convert_err (rf_report (in_format S))
       (get_balance (in_lib S) (in_rpc S) (in_now S 0) (in_node S) address block)) (\<lambda>balance.
     format_hex (in_format S) balance))"

definition eth_get_transaction_count :: "rpc_inner \<Rightarrow> string \<Rightarrow> block_tag \<Rightarrow> (json_error, string) outcome" where
  "eth_get_transaction_count S address block =
     and_then (parse_address (in_format S) address) (\<lambda>address.
     and_then (convert_err (rf_report (in_format S))
       (get_nonce (in_lib S) (in_rpc S) (in_now S 0) (in_node S) address block)) (\<lambda>nonce.
     Ok (''0x'' @ show_radix 16 (unat nonce))))"

definition eth_get_block_transaction_count_by_hash :: "rpc_inner \<Rightarrow> string \<Rightarrow> (json_error, string) outcome" where
  "eth_get_block_transaction_count_by_hash S hash =
     and_then (parse_bytes (in_format S) hash) (\<lambda>hash.
     and_then (convert_err (rf_report (in_format S))
       (get_block_transaction_count_by_hash (in_node S) hash)) (\<lambda>count.
     Ok (u64_to_hex_string count)))"

definition eth_get_block_transaction_count_by_number ::
    "rpc_inner \<Rightarrow> block_tag \<Rightarrow> (json_error, string) outcome" where
  "eth_get_block_transaction_count_by_number S block =
     and_then (convert_err (rf_report (in_format S))
       (get_block_transaction_count_by_number (in_node S) block)) (\<lambda>count.
     Ok (u64_to_hex_string count))"

definition eth_get_code :: "rpc_inner \<Rightarrow> string \<Rightarrow> block_tag \<Rightarrow> (json_error, string) outcome" where
  "eth_get_code S address block =
     and_then (parse_address (in_format S) address) (\<lambda>address.
     and_then (convert_err (rf_report (in_format S))
       (get_code (in_lib S) (in_rpc S) (in_now S 0) (in_node S) address block)) (\<lambda>code.
     Ok (''0x'' @ rf_hex_encode (in_format S) code)))"

definition eth_call :: "rpc_inner \<Rightarrow> call_opts \<Rightarrow> block_tag \<Rightarrow> (json_error, string) outcome" where
  "eth_call S opts block =
     and_then (map_err (to_json_rpsee_error (in_format S))
       (node_call (in_evm S) (in_rpc S) (in_now S 0) (in_node S) opts block)) (\<lambda>res.
     Ok (''0x'' @ rf_hex_encode (in_format S) res))"

definition eth_estimate_gas :: "rpc_inner \<Rightarrow> call_opts \<Rightarrow> (json_error, string) outcome" where
  "eth_estimate_gas S opts =
     and_then (map_err (to_json_rpsee_error (in_format S))
       (node_estimate_gas (in_evm S) (in_rpc S) (in_now S 0) (in_node S) opts)) (\<lambda>gas.
     Ok (u64_to_hex_string gas))"

definition eth_chain_id :: "rpc_inner \<Rightarrow> (json_error, string) outcome" where
  "eth_chain_id S = Ok (u64_to_hex_string (node_chain_id (in_node S)))"

definition eth_gas_price :: "rpc_inner \<Rightarrow> (json_error, string) outcome" where
  "eth_gas_price S =
     and_then (convert_err (rf_report (in_format S)) (get_gas_price (in_now S 0) (in_node S)))
       (format_hex (in_format S))"

definition eth_max_priority_fee_per_gas :: "rpc_inner \<Rightarrow> (json_error, string) outcome" where
  "eth_max_priority_fee_per_gas S =
     and_then (convert_err (rf_report (in_format S)) get_priority_fee) (format_hex (in_format S))"

definition eth_block_number :: "rpc_inner \<Rightarrow> (json_error, string) outcome" where
  "eth_block_number S =
     and_then (convert_err (rf_report (in_format S)) (get_block_number (in_now S 0) (in_node S))) (\<lambda>num.
     Ok (u64_to_hex_string num))"

definition eth_get_block_by_number ::
    "rpc_inner \<Rightarrow> block_tag \<Rightarrow> bool \<Rightarrow> (json_error, execution_block option) outcome" where
  "eth_get_block_by_number S block full_tx =
     convert_err (rf_report (in_format S))
       (get_block_by_number (in_lib S) (in_rpc S) (in_now S 0) (in_node S) block full_tx)"

definition eth_get_block_by_hash ::
    "rpc_inner \<Rightarrow> string \<Rightarrow> bool \<Rightarrow> (json_error, execution_block option) outcome" where
  "eth_get_block_by_hash S hash full_tx =
     and_then (parse_bytes (in_format S) hash) (\<lambda>hash.
     convert_err (rf_report (in_format S))
       (get_block_by_hash (in_lib S) (in_rpc S) (in_node S) hash full_tx))"

definition eth_send_raw_transaction :: "rpc_inner \<Rightarrow> string \<Rightarrow> (json_error, string) outcome" where
  "eth_send_raw_transaction S bytes =
     and_then (parse_bytes (in_format S) bytes) (\<lambda>bytes.
     and_then (convert_err (rf_report (in_format S)) (node_send_raw_transaction (in_rpc S) bytes)) (\<lambda>hash.
     Ok (rf_hex_encode (in_format S) hash)))"

definition eth_get_transaction_receipt ::
    "rpc_inner \<Rightarrow> string \<Rightarrow> (json_error, transaction_receipt option) outcome" where
  "eth_get_transaction_receipt S hash =
     and_then (parse_h256 (in_format S) hash) (\<lambda>hash.
     convert_err (rf_report (in_format S))
       (node_get_transaction_receipt (in_lib S) (in_rpc S) (in_node S) hash))"

definition eth_get_transaction_by_hash ::
    "rpc_inner \<Rightarrow> string \<Rightarrow> (json_error, transaction option) outcome" where
  "eth_get_transaction_by_hash S hash =
     and_then (parse_h256 (in_format S) hash) (\<lambda>hash.
     convert_err (rf_report (in_format S))
       (get_transaction_by_hash (in_lib S) (in_rpc S) (in_node S) hash))"

definition eth_get_transaction_by_block_hash_and_index ::
    "rpc_inner \<Rightarrow> string \<Rightarrow> nat \<Rightarrow> (json_error, transaction option) outcome" where
  "eth_get_transaction_by_block_hash_and_index S hash i =
     and_then (parse_bytes (in_format S) hash) (\<lambda>hash.
     convert_err (rf_report (in_format S))
       (node_get_transaction_by_block_hash_and_index (in_lib S) (in_rpc S) (in_node S) hash i))"

text \<open>\<open>coinbase\<close> unwraps the answer of the node.\<close>

definition eth_coinbase :: "rpc_inner \<Rightarrow> (json_error, address) outcome" where
  "eth_coinbase S = (case get_coinbase (in_now S 0) (in_node S) of Ok a \<Rightarrow> Ok a | _ \<Rightarrow> Panic)"

definition eth_syncing :: "rpc_inner \<Rightarrow> (json_error, syncing_status) outcome" where
  "eth_syncing S =
     convert_err (rf_report (in_format S)) (syncing (in_now S 0) (in_now S 1) (in_now S 2) (in_node S))"

definition eth_get_logs :: "rpc_inner \<Rightarrow> filter_opts \<Rightarrow> (json_error, log list) outcome" where
  "eth_get_logs S ft =
     convert_err (rf_report (in_format S)) (node_get_logs (in_lib S) (in_rpc S) (in_node S) ft)"

definition eth_get_storage_at ::
    "rpc_inner \<Rightarrow> string \<Rightarrow> h256 \<Rightarrow> block_tag \<Rightarrow> (json_error, string) outcome" where
  "eth_get_storage_at S address sl block =
     and_then (parse_address (in_format S) address) (\<lambda>address.
     and_then (convert_err (rf_report (in_format S))
       (get_storage_at (in_lib S) (in_rpc S) (in_now S 0) (in_node S) address sl block)) (\<lambda>v.
     format_hex (in_format S) v))"

definition net_version :: "rpc_inner \<Rightarrow> (json_error, string) outcome" where
  "net_version S = Ok (u64_to_string (node_chain_id (in_node S)))"

subsection \<open>Requests\<close>

text \<open>
  The methods that the two traits register, by name, and the handler that each request reaches.
\<close>

datatype rpc_request =
    GetBalance string block_tag
  | GetTransactionCount string block_tag
  | GetBlockTransactionCountByHash string
  | GetBlockTransactionCountByNumber block_tag
  | GetCode string block_tag
  | Call call_opts block_tag
  | EstimateGas call_opts
  | ChainId
  | GasPrice
  | MaxPriorityFeePerGas
  | BlockNumber
  | GetBlockByNumber block_tag bool
  | GetBlockByHash string bool
  | SendRawTransaction string
  | GetTransactionReceipt string
  | GetTransactionByHash string
  | GetTransactionByBlockHashAndIndex string nat
  | GetLogs filter_opts
  | GetStorageAt string h256 block_tag
  | Coinbase
  | SyncStatus
  | NetVersion

datatype rpc_answer =
    AString string
  | ABlock "execution_block option"
  | AReceipt "transaction_receipt option"
  | ATransaction "transaction option"
  | ALogs "log list"
  | AAddress address
  | ASyncing syncing_status

definition eth_methods :: "string list" where
  "eth_methods = map (\<lambda>m. ''eth_'' @ m)
     [''getBalance'', ''getTransactionCount'', ''getBlockTransactionCountByHash'',
      ''getBlockTransactionCountByNumber'', ''getCode'', ''call'', ''estimateGas'', ''chainId'',
      ''gasPrice'', ''maxPriorityFeePerGas'', ''blockNumber'', ''getBlockByNumber'',
      ''getBlockByHash'', ''sendRawTransaction'', ''getTransactionReceipt'', ''getTransactionByHash'',
      ''getTransactionByBlockHashAndIndex'', ''getLogs'', ''getStorageAt'', ''coinbase'', ''syncing'']"

definition net_methods :: "string list" where
  "net_methods = [''net_version'']"

fun method_name :: "rpc_request \<Rightarrow> string" where
  "method_name (GetBalance _ _) = ''eth_getBalance''"
| "method_name (GetTransactionCount _ _) = ''eth_getTransactionCount''"
| "method_name (GetBlockTransactionCountByHash _) = ''eth_getBlockTransactionCountByHash''"
| "method_name (GetBlockTransactionCountByNumber _) = ''eth_getBlockTransactionCountByNumber''"
| "method_name (GetCode _ _) = ''eth_getCode''"
| "method_name (Call _ _) = ''eth_call''"
| "method_name (EstimateGas _) = ''eth_estimateGas''"
| "method_name ChainId = ''eth_chainId''"
| "method_name GasPrice = ''eth_gasPrice''"
| "method_name MaxPriorityFeePerGas = ''eth_maxPriorityFeePerGas''"
| "method_name BlockNumber = ''eth_blockNumber''"
| "method_name (GetBlockByNumber _ _) = ''eth_getBlockByNumber''"
| "method_name (GetBlockByHash _ _) = ''eth_getBlockByHash''"
| "method_name (SendRawTransaction _) = ''eth_sendRawTransaction''"
| "method_name (GetTransactionReceipt _) = ''eth_getTransactionReceipt''"
| "method_name (GetTransactionByHash _) = ''eth_getTransactionByHash''"
| "method_name (GetTransactionByBlockHashAndIndex _ _) = ''eth_getTransactionByBlockHashAndIndex''"
| "method_name (GetLogs _) = ''eth_getLogs''"
| "method_name (GetStorageAt _ _ _) = ''eth_getStorageAt''"
| "method_name Coinbase = ''eth_coinbase''"
| "method_name SyncStatus = ''eth_syncing''"
| "method_name NetVersion = ''net_version''"

fun rpc_handle :: "rpc_inner \<Rightarrow> rpc_request \<Rightarrow> (json_error, rpc_answer) outcome" where
  "rpc_handle S (GetBalance a b) = map_ok AString (eth_get_balance S a b)"
| "rpc_handle S (GetTransactionCount a b) = map_ok AString (eth_get_transaction_count S a b)"
| "rpc_handle S (GetBlockTransactionCountByHash h) =
     map_ok AString (eth_get_block_transaction_count_by_hash S h)"
| "rpc_handle S (GetBlockTransactionCountByNumber b) =
     map_ok AString (eth_get_block_transaction_count_by_number S b)"
| "rpc_handle S (GetCode a b) = map_ok AString (eth_get_code S a b)"
| "rpc_handle S (Call opts b) = map_ok AString (eth_call S opts b)"
| "rpc_handle S (EstimateGas opts) = map_ok AString (eth_estimate_gas S opts)"
| "rpc_handle S ChainId = map_ok AString (eth_chain_id S)"
| "rpc_handle S GasPrice = map_ok AString (eth_gas_price S)"
| "rpc_handle S MaxPriorityFeePerGas = map_ok AString (eth_max_priority_fee_per_gas S)"
| "rpc_handle S BlockNumber = map_ok AString (eth_block_number S)"
| "rpc_handle S (GetBlockByNumber b full_tx) = map_ok ABlock (eth_get_block_by_number S b full_tx)"
| "rpc_handle S (GetBlockByHash h full_tx) = map_ok ABlock (eth_get_block_by_hash S h full_tx)"
| "rpc_handle S (SendRawTransaction tx) = map_ok AString (eth_send_raw_transaction S tx)"
| "rpc_handle S (GetTransactionReceipt h) = map_ok AReceipt (eth_get_transaction_receipt S h)"
| "rpc_handle S (GetTransactionByHash h) = map_ok ATransaction (eth_get_transaction_by_hash S h)"
| "rpc_handle S (GetTransactionByBlockHashAndIndex h i) =
     map_ok ATransaction (eth_get_transaction_by_block_hash_and_index S h i)"
| "rpc_handle S (GetLogs ft) = map_ok ALogs (eth_get_logs S ft)"
| "rpc_handle S (GetStorageAt a sl b) = map_ok AString (eth_get_storage_at S a sl b)"
| "rpc_handle S Coinbase = map_ok AAddress (eth_coinbase S)"
| "rpc_handle S SyncStatus = map_ok ASyncing (eth_syncing S)"
| "rpc_handle S NetVersion = map_ok AString (net_version S)"

text \<open>A request to the node \<open>n\<close>, answered with the help of the execution server \<open>E\<close>.\<close>

definition request_inner ::
    "evm_lib \<Rightarrow> rpc_format \<Rightarrow> execution_rpc \<Rightarrow> (nat \<Rightarrow> u64) \<Rightarrow> node \<Rightarrow> rpc_inner" where
  "request_inner V F E now n = \<lparr>in_node = n, in_rpc = E, in_evm = V, in_format = F, in_now = now\<rparr>"

subsection \<open>The server\<close>

record rpc_server =
  rs_handle :: "(ip_addr \<times> u16) option"
  rs_address :: "ip_addr \<times> u16"

definition rpc_new :: "ip_addr option \<Rightarrow> u16 option \<Rightarrow> rpc_server" where
  "rpc_new ip port = \<lparr>rs_handle = None,
     rs_address = (case ip of Some ip \<Rightarrow> ip | None \<Rightarrow> LOCALHOST, case port of Some p \<Rightarrow> p | None \<Rightarrow> 0)\<rparr>"

text \<open>\<open>Methods::merge\<close> refuses a name that is registered already.\<close>

definition merge_methods :: "string list \<Rightarrow> string list \<Rightarrow> (report, string list) outcome" where
  "merge_methods ms ns =
     (case find (\<lambda>n. n \<in> set ms) ns of
        Some n \<Rightarrow> Err (Message (''Method already registered: '' @ n))
      | None \<Rightarrow> Ok (ms @ ns))"

text \<open>
  \<open>listen\<close> opens the socket and gives its address (the port where 0 was asked for); \<open>serve\<close> starts
  to serve the methods.
\<close>

definition rpc_start_server ::
    "(ip_addr \<times> u16 \<Rightarrow> (report, ip_addr \<times> u16) outcome) \<Rightarrow> (string list \<Rightarrow> (report, unit) outcome) \<Rightarrow>
     ip_addr \<times> u16 \<Rightarrow> (report, ip_addr \<times> u16) outcome" where
  "rpc_start_server listen serve address =
     and_then (listen address) (\<lambda>addr.
     and_then (merge_methods [] eth_methods) (\<lambda>methods.
     and_then (merge_methods methods net_methods) (\<lambda>methods.
     and_then (serve methods) (\<lambda>_. Ok addr))))"

definition rpc_start ::
    "(ip_addr \<times> u16 \<Rightarrow> (report, ip_addr \<times> u16) outcome) \<Rightarrow> (string list \<Rightarrow> (report, unit) outcome) \<Rightarrow>
     rpc_server \<Rightarrow> (rpc_server, report, ip_addr \<times> u16) ret" where
  "rpc_start listen serve r =
     then_op (rpc_start_server listen serve (rs_address r), r) (\<lambda>addr r.
     (Ok addr, r\<lparr>rs_handle := Some addr\<rparr>))"

subsection \<open>Requests and the clock\<close>

lemma check_blocktag_age_old [simp]: "b \<noteq> Latest \<Longrightarrow> check_blocktag_age n now b = Ok ()"
  by (cases b) (simp_all add: check_blocktag_age_def)

lemmas handler_defs =
  eth_get_balance_def eth_get_transaction_count_def eth_get_block_transaction_count_by_hash_def
  eth_get_block_transaction_count_by_number_def eth_get_code_def eth_call_def eth_estimate_gas_def
  eth_chain_id_def eth_gas_price_def eth_max_priority_fee_per_gas_def eth_block_number_def
  eth_get_block_by_number_def eth_get_block_by_hash_def eth_send_raw_transaction_def
  eth_get_transaction_receipt_def eth_get_transaction_by_hash_def
  eth_get_transaction_by_block_hash_and_index_def eth_coinbase_def eth_syncing_def eth_get_logs_def
  eth_get_storage_at_def net_version_def

lemmas query_defs =
  get_balance_def get_nonce_def get_code_def get_storage_at_def node_call_def node_estimate_gas_def
  get_gas_price_def get_block_number_def get_block_by_number_def get_coinbase_def syncing_def

text \<open>The requests that a handler answers without reading the clock.\<close>

lemma handle_any_clock:
  "rpc_handle (S\<lparr>in_now := f\<rparr>) ChainId = rpc_handle S ChainId"
  "rpc_handle (S\<lparr>in_now := f\<rparr>) MaxPriorityFeePerGas = rpc_handle S MaxPriorityFeePerGas"
  "rpc_handle (S\<lparr>in_now := f\<rparr>) NetVersion = rpc_handle S NetVersion"
  "rpc_handle (S\<lparr>in_now := f\<rparr>) (SendRawTransaction tx) = rpc_handle S (SendRawTransaction tx)"
  "rpc_handle (S\<lparr>in_now := f\<rparr>) (GetBlockByHash h full) = rpc_handle S (GetBlockByHash h full)"
  "rpc_handle (S\<lparr>in_now := f\<rparr>) (GetTransactionReceipt h) = rpc_handle S (GetTransactionReceipt h)"
  "rpc_handle (S\<lparr>in_now := f\<rparr>) (GetTransactionByHash h) = rpc_handle S (GetTransactionByHash h)"
  "rpc_handle (S\<lparr>in_now := f\<rparr>) (GetTransactionByBlockHashAndIndex h i) =
     rpc_handle S (GetTransactionByBlockHashAndIndex h i)"
  "rpc_handle (S\<lparr>in_now := f\<rparr>) (GetLogs ft) = rpc_handle S (GetLogs ft)"
  "rpc_handle (S\<lparr>in_now := f\<rparr>) (GetBlockTransactionCountByHash h) = rpc_handle S (GetBlockTransactionCountByHash h)"
  "rpc_handle (S\<lparr>in_now := f\<rparr>) (GetBlockTransactionCountByNumber b) =
     rpc_handle S (GetBlockTransactionCountByNumber b)"
  by (simp_all add: handler_defs)

text \<open>The requests with a block tag are, where the tag is not the latest block.\<close>

lemma handle_any_clock_tag:
  assumes "b \<noteq> Latest"
  shows "rpc_handle (S\<lparr>in_now := f\<rparr>) (GetBalance a b) = rpc_handle S (GetBalance a b)"
    "rpc_handle (S\<lparr>in_now := f\<rparr>) (GetTransactionCount a b) = rpc_handle S (GetTransactionCount a b)"
    "rpc_handle (S\<lparr>in_now := f\<rparr>) (GetCode a b) = rpc_handle S (GetCode a b)"
    "rpc_handle (S\<lparr>in_now := f\<rparr>) (Call opts b) = rpc_handle S (Call opts b)"
    "rpc_handle (S\<lparr>in_now := f\<rparr>) (GetBlockByNumber b full) = rpc_handle S (GetBlockByNumber b full)"
  using assms by (simp_all add: handler_defs query_defs)

lemma handle_stale_head:
  assumes "\<And>k. \<not> is_ok (check_head_age (in_node S) (in_now S k))"
  shows "\<not> is_ok (rpc_handle S (GetBalance a Latest))" "\<not> is_ok (rpc_handle S (GetTransactionCount a Latest))"
    "\<not> is_ok (rpc_handle S (GetCode a Latest))" "\<not> is_ok (rpc_handle S (GetStorageAt a sl b))"
    "\<not> is_ok (rpc_handle S (Call opts Latest))" "\<not> is_ok (rpc_handle S (EstimateGas opts))"
    "\<not> is_ok (rpc_handle S (GetBlockByNumber Latest full))" "\<not> is_ok (rpc_handle S BlockNumber)"
    "\<not> is_ok (rpc_handle S GasPrice)" "\<not> is_ok (rpc_handle S SyncStatus)" "rpc_handle S Coinbase = Panic"
proof -
  have no: "check_head_age (in_node S) (in_now S k) \<noteq> Ok u" "check_blocktag_age (in_node S) (in_now S k) Latest \<noteq> Ok u"
    for k u using assms [of k] by (auto simp: is_ok_iff check_blocktag_age_def)
  note defs = is_ok_iff handler_defs query_defs node_account_def convert_err_def map_ok_def outcome_simps
  show "\<not> is_ok (rpc_handle S (GetBalance a Latest))" "\<not> is_ok (rpc_handle S (GetTransactionCount a Latest))"
    "\<not> is_ok (rpc_handle S (GetCode a Latest))" "\<not> is_ok (rpc_handle S (GetStorageAt a sl b))"
    "\<not> is_ok (rpc_handle S (Call opts Latest))" "\<not> is_ok (rpc_handle S (EstimateGas opts))"
    "\<not> is_ok (rpc_handle S (GetBlockByNumber Latest full))" "\<not> is_ok (rpc_handle S BlockNumber)"
    "\<not> is_ok (rpc_handle S GasPrice)" "\<not> is_ok (rpc_handle S SyncStatus)"
    using no by (auto simp: defs split: outcome.splits)
  show "rpc_handle S Coinbase = Panic"
    using no [of 0] by (cases "check_head_age (in_node S) (in_now S 0)") (auto simp: defs)
qed

lemma transaction_count_answer:
  "get_payload (in_node S) b = Ok p \<Longrightarrow> rpc_handle S (GetBlockTransactionCountByNumber b) =
     Ok (AString (u64_to_hex_string (of_nat (length (transactions p)))))"
  by (simp add: eth_get_block_transaction_count_by_number_def get_block_transaction_count_by_number_def
      report_payload_def convert_err_def map_ok_def)

lemma methods_distinct: "distinct (eth_methods @ net_methods)"
  by (simp add: eth_methods_def net_methods_def)

lemma method_registered: "method_name q \<in> set (eth_methods @ net_methods)"
  by (cases q) (simp_all add: eth_methods_def net_methods_def)

lemma rpc_start_server_eq:
  "rpc_start_server listen serve address =
     and_then (listen address) (\<lambda>addr. and_then (serve (eth_methods @ net_methods)) (\<lambda>_. Ok addr))"
proof -
  have "find (\<lambda>n :: string. False) ms = None" for ms by (induction ms) simp_all
  then have "merge_methods [] eth_methods = Ok eth_methods"
    by (simp add: merge_methods_def)
  moreover have "find (\<lambda>n. n \<in> set eth_methods) net_methods = None"
    using methods_distinct by (auto simp: find_None_iff)
  then have "merge_methods eth_methods net_methods = Ok (eth_methods @ net_methods)"
    by (simp add: merge_methods_def)
  ultimately show ?thesis by (simp add: rpc_start_server_def)
qed

subsection \<open>Lemmas\<close>

lemma char_of_48 [simp]: "char_of (48 :: nat) = CHR ''0''"
  using char_of_char [of "CHR ''0''", where 'a = nat] by simp

lemma digit_char_zero: "d < 16 \<Longrightarrow> digit_char d = CHR ''0'' \<longleftrightarrow> d = 0"
proof
  assume "d < 16" "digit_char d = CHR ''0''"
  then have "to_digit 16 (CHR ''0'') = Some d" using to_digit_digit_char [of d 16] by simp
  then show "d = 0" by (simp add: to_digit_def)
qed (simp add: digit_char_def)

lemma hd_show_radix: "0 < n \<Longrightarrow> hd (show_radix 16 n) \<noteq> CHR ''0''"
proof (induction n rule: less_induct)
  case (less n)
  show ?case
  proof (cases "n < 16")
    case True
    with less.prems show ?thesis by (simp add: show_radix.simps [of 16 n] digit_char_zero)
  next
    case False
    then have "hd (show_radix 16 (n div 16)) \<noteq> CHR ''0''" by (intro less.IH) auto
    with False show ?thesis by (simp add: show_radix.simps [of 16 n])
  qed
qed

text \<open>Formatting drops the padding and nothing else.\<close>

lemma format_hex_eq:
  assumes "rf_encode_hex_u256 F x = ''0x'' @ replicate k (CHR ''0'') @ show_radix 16 (unat x)"
  shows "format_hex F x = Ok (''0x'' @ show_radix 16 (unat x))"
proof (cases "x = 0")
  case True
  then have "show_radix 16 (unat x) = ''0''" by (simp add: show_radix.simps digit_char_def)
  with assms show ?thesis
    by (simp add: format_hex_def strip_prefix_def dropWhile_append2 dropWhile_eq_Nil_conv Let_def)
next
  case False
  then have pos: "hd (show_radix 16 (unat x)) \<noteq> CHR ''0''"
    by (intro hd_show_radix) (simp add: unat_gt_0)
  then obtain c cs where "show_radix 16 (unat x) = c # cs" "c \<noteq> CHR ''0''"
    by (cases "show_radix 16 (unat x)") auto
  moreover from this have "dropWhile (\<lambda>c. c = CHR ''0'') (replicate k (CHR ''0'') @ c # cs) = c # cs"
    by (induction k) auto
  ultimately show ?thesis using assms
    by (simp add: format_hex_def strip_prefix_def Let_def)
qed

lemma out_of_sync_Err:
  assumes "check_head_age n now = Err e"
  shows "get_coinbase now n = Err (NodeReport e)" "get_block_number now n = Err (NodeReport e)"
    "get_gas_price now n = Err (NodeReport e)"
  using assms by (simp_all add: get_coinbase_def get_block_number_def get_gas_price_def)

end
