(* ===== verification/Light_Client_Spec.thy ===== *)
theory Light_Client_Spec
  imports Light_Client_Trust
begin

text \<open>
  The light client of \<open>consensus/src/consensus.rs\<close> against the protocol it implements: the state
  changes of the consensus specification on natural numbers, which the application of a verified
  update refines; the checkpoints that the client offers to save; and the progress it makes where
  the server brings a good update and the clock does not run backwards.
\<close>

subsection \<open>The protocol\<close>

record protocol_store =
  ps_finalized :: header
  ps_optimistic :: header
  ps_current :: sync_committee
  ps_next :: "sync_committee option"
  ps_previous_max :: nat
  ps_current_max :: nat

definition abs_store :: "light_client_store \<Rightarrow> protocol_store" where
  "abs_store s = \<lparr>ps_finalized = st_finalized_header s, ps_optimistic = st_optimistic_header s,
     ps_current = st_current_sync_committee s, ps_next = st_next_sync_committee s,
     ps_previous_max = unat (previous_max_active_participants s),
     ps_current_max = unat (current_max_active_participants s)\<rparr>"

abbreviation participants :: "generic_update \<Rightarrow> nat" where
  "participants u \<equiv> length (filter id (sync_committee_bits (sync_aggregate u)))"

definition finalized_slot :: "generic_update \<Rightarrow> nat" where
  "finalized_slot u = (case finalized_header u of Some h \<Rightarrow> unat (slot h) | None \<Rightarrow> 0)"

text \<open>
  \<open>apply_light_client_update\<close> of the specification. With an unknown next committee it asserts that
  the finalised header is in the period of the store: \<open>None\<close> is a violated assertion.
\<close>

definition protocol_rotate :: "generic_update \<Rightarrow> protocol_store \<Rightarrow> protocol_store option" where
  "protocol_rotate u p =
     (let store_period = sync_period (slot (ps_finalized p));
          update_period = finalized_slot u div 8192 in
      case ps_next p of
        None \<Rightarrow> if update_period = store_period then Some (p\<lparr>ps_next := next_sync_committee u\<rparr>) else None
      | Some next_committee \<Rightarrow>
          if update_period = store_period + 1
          then Some (p\<lparr>ps_current := next_committee, ps_next := next_sync_committee u,
                       ps_previous_max := ps_current_max p, ps_current_max := 0\<rparr>)
          else Some p)"

definition protocol_finalize :: "generic_update \<Rightarrow> protocol_store \<Rightarrow> protocol_store" where
  "protocol_finalize u p =
     (case finalized_header u of
        Some h \<Rightarrow>
          if unat (slot (ps_finalized p)) < unat (slot h)
          then p\<lparr>ps_finalized := h,
                 ps_optimistic := (if unat (slot (ps_optimistic p)) < unat (slot h) then h
                                   else ps_optimistic p)\<rparr>
          else p
      | None \<Rightarrow> p)"

text \<open>\<open>process_light_client_update\<close>, after validation.\<close>

definition protocol_process :: "generic_update \<Rightarrow> protocol_store \<Rightarrow> protocol_store option" where
  "protocol_process u p =
     (let p = p\<lparr>ps_current_max := max (ps_current_max p) (participants u)\<rparr>;
          p = (if max (ps_current_max p) (ps_previous_max p) div 2 < participants u
                  \<and> unat (slot (ps_optimistic p)) < unat (slot (attested_header u))
               then p\<lparr>ps_optimistic := attested_header u\<rparr> else p);
          brings_committee = ps_next p = None \<and> has_sync_update u \<and> has_finality_update u
            \<and> finalized_slot u div 8192 = sync_period (slot (attested_header u)) in
      if 2 * 512 \<le> 3 * participants u \<and> (unat (slot (ps_finalized p)) < finalized_slot u \<or> brings_committee)
      then map_option (protocol_finalize u) (protocol_rotate u p)
      else Some p)"

subsection \<open>Refinement\<close>

lemma unat_update_finalized_slot: "unat (update_finalized_slot u) = finalized_slot u"
  by (simp add: update_finalized_slot_def finalized_slot_def split: option.split)

lemma sync_period_finalized: "sync_period (update_finalized_slot u) = finalized_slot u div 8192"
  by (simp add: sync_period_def unat_update_finalized_slot)

lemma committee_bits_count:
  assumes "length (sync_committee_bits (sync_aggregate u)) = 512"
  shows "unat (committee_bits u) = participants u" "participants u \<le> 512"
  using assms get_bits_count [of "sync_committee_bits (sync_aggregate u)"]
    length_filter_le [of id "sync_committee_bits (sync_aggregate u)"]
  by (simp_all add: committee_bits_def)

lemma majority_iff:
  assumes "length (sync_committee_bits (sync_aggregate u)) = 512"
  shows "512 * 2 \<le> committee_bits u * 3 \<longleftrightarrow> 2 * 512 \<le> 3 * participants u"
  using committee_bits_count [OF assms]
  by (simp add: word_le_nat_alt unat_mult_u64 mult.commute)

lemma abs_count:
  assumes "length (sync_committee_bits (sync_aggregate u)) = 512"
  shows "abs_store (count_participants u s) =
    (abs_store s)\<lparr>ps_current_max := max (ps_current_max (abs_store s)) (participants u)\<rparr>"
proof -
  have "unat (max a b) = max (unat a) (unat b)" for a b :: u64
    by (simp add: max_def word_le_nat_alt)
  then show ?thesis
    by (simp add: abs_store_def count_participants_def committee_bits_count [OF assms])
qed

lemma threshold_iff:
  assumes "length (sync_committee_bits (sync_aggregate u)) = 512"
  shows "safety_threshold s < committee_bits u \<longleftrightarrow>
    max (ps_current_max (abs_store s)) (ps_previous_max (abs_store s)) div 2 < participants u"
proof -
  have "unat (max a b) = max (unat a) (unat b)" for a b :: u64
    by (simp add: max_def word_le_nat_alt)
  then show ?thesis
    by (simp add: word_less_nat_alt safety_threshold_def abs_store_def unat_div committee_bits_count [OF assms])
qed

lemma abs_optimistic:
  assumes "length (sync_committee_bits (sync_aggregate u)) = 512"
  shows "abs_store (optimistic_step u s) =
    (if max (ps_current_max (abs_store s)) (ps_previous_max (abs_store s)) div 2 < participants u
        \<and> unat (slot (ps_optimistic (abs_store s))) < unat (slot (attested_header u))
     then (abs_store s)\<lparr>ps_optimistic := attested_header u\<rparr> else abs_store s)"
  unfolding optimistic_step_def should_update_optimistic_def threshold_iff [OF assms]
  by (simp add: abs_store_def word_less_nat_alt)

lemma abs_rotate:
  assumes "st_next_sync_committee s = None \<Longrightarrow>
      finalized_slot u div 8192 = sync_period (slot (st_finalized_header s))"
  shows "protocol_rotate u (abs_store s) = Some (abs_store (rotate_committees u s))"
  using assms
  by (auto simp: protocol_rotate_def rotate_committees_def abs_store_def calc_sync_period_Suc_iff
      sync_period_finalized Let_def split: option.split)

lemma abs_finalize: "protocol_finalize u (abs_store s) = abs_store (finalize_step u s)"
  by (auto simp: protocol_finalize_def finalize_step_def abs_store_def word_less_nat_alt split: option.split)

text \<open>
  The code does not have the assertion: for an update that was verified it holds anyway.
\<close>

lemma finalized_period_known:
  assumes "verify_generic_update L now c u = Ok ()" "paired u" "reachable L c"
    and "st_next_sync_committee (store c) = None"
    and "slot (st_finalized_header (store c)) < update_finalized_slot u \<or>
      finalized_slot u div 8192 = sync_period (slot (attested_header u))"
  shows "finalized_slot u div 8192 = sync_period (slot (st_finalized_header (store c)))"
proof -
  note f = verified_update_facts [OF assms(1,2) reachable_trusted [OF assms(3)]]
  note att = f(6) [OF assms(4)]
  show ?thesis
  proof (cases "slot (st_finalized_header (store c)) < update_finalized_slot u")
    case True
    then have "sync_period (slot (st_finalized_header (store c))) \<le> sync_period (update_finalized_slot u)"
      by (intro sync_period_mono) simp
    moreover have "sync_period (update_finalized_slot u) \<le> sync_period (slot (attested_header u))"
      using f(3) by (auto simp: update_finalized_slot_def sync_period_def word_le_nat_alt
          intro: div_le_mono split: option.split)
    ultimately show ?thesis using att by (simp add: sync_period_finalized)
  next
    case False
    with assms(5) att show ?thesis by simp
  qed
qed

lemma apply_refines:
  assumes "verify_generic_update L now c u = Ok ()" "paired u" "reachable L c"
    and "length (sync_committee_bits (sync_aggregate u)) = 512"
    and "apply_generic_update L now' u c = (Ok (), c')"
  shows "protocol_process u (abs_store (store c)) = Some (abs_store (store c'))"
proof -
  let ?s1 = "count_participants u (store c)"
  let ?s2 = "optimistic_step u ?s1"
  have s2: "protocol_process u (abs_store (store c)) =
      (if 2 * 512 \<le> 3 * participants u \<and> (unat (slot (ps_finalized (abs_store ?s2))) < finalized_slot u \<or>
          ps_next (abs_store ?s2) = None \<and> has_sync_update u \<and> has_finality_update u \<and>
          finalized_slot u div 8192 = sync_period (slot (attested_header u)))
       then map_option (protocol_finalize u) (protocol_rotate u (abs_store ?s2))
       else Some (abs_store ?s2))"
    unfolding protocol_process_def Let_def abs_count [OF assms(4), symmetric]
      abs_optimistic [OF assms(4), symmetric] by (rule refl)
  have apply_iff: "should_apply_update u ?s2 \<longleftrightarrow>
      2 * 512 \<le> 3 * participants u \<and> (unat (slot (ps_finalized (abs_store ?s2))) < finalized_slot u \<or>
        ps_next (abs_store ?s2) = None \<and> has_sync_update u \<and> has_finality_update u \<and>
        finalized_slot u div 8192 = sync_period (slot (attested_header u)))"
    unfolding should_apply_update_def Let_def majority_iff [OF assms(4)]
    by (auto simp: word_less_nat_alt unat_update_finalized_slot calc_sync_period_eq_iff
        sync_period_finalized abs_store_def)
  have rotate: "protocol_rotate u (abs_store ?s2) = Some (abs_store (rotate_committees u ?s2))"
    if "should_apply_update u ?s2"
  proof (rule abs_rotate)
    assume "st_next_sync_committee ?s2 = None"
    then have "st_next_sync_committee (store c) = None" by simp
    from finalized_period_known [OF assms(1-3) this] that
    show "finalized_slot u div 8192 = sync_period (slot (st_finalized_header ?s2))"
      by (auto simp: should_apply_update_def Let_def calc_sync_period_eq_iff sync_period_finalized)
  qed
  show ?thesis
    unfolding s2 apply_iff [symmetric] apply_generic_update_store(4) [OF assms(5) refl] next_store_def Let_def
    using rotate by (simp add: abs_finalize)
qed

subsection \<open>The checkpoint to save\<close>

text \<open>
  A checkpoint that a later run may start from: the root of a header at the start of an epoch,
  which the committees linked to the checkpoint \<open>ckpt\<close> finalised.
\<close>

definition checkpoint_trusted ::
    "('pk, 'sg) consensus_lib \<Rightarrow> config \<Rightarrow> bytes \<Rightarrow> bytes \<Rightarrow> bool" where
  "checkpoint_trusted L cfg ckpt r \<longleftrightarrow>
     (\<exists>h. finalized_by_chain L cfg ckpt h \<and> htr_header L h = Some r \<and> unat (slot h) mod 32 = 0)"

lemma finalize_last_checkpoint:
  assumes "finalize L now u c = (r, c')"
  shows "last_checkpoint c' = last_checkpoint c \<or>
    (\<exists>h r. finalized_header u = Some h \<and> htr_header L h = Some r \<and> unat (slot h) mod 32 = 0 \<and>
       last_checkpoint c' = Some r)"
proof (cases r)
  case (Ok x)
  with assms show ?thesis
    by (auto simp: finalize_def Let_def outcome_simps word_unat_eq_iff unat_mod
        split: if_splits option.splits)
qed (use finalize_store(3,5) [OF assms] in auto)

lemma apply_last_checkpoint:
  assumes "apply_generic_update L now u c = (r, c')"
  shows "last_checkpoint c' = last_checkpoint c \<or>
    512 * 2 \<le> committee_bits u * 3 \<and>
    (\<exists>h r. finalized_header u = Some h \<and> htr_header L h = Some r \<and> unat (slot h) mod 32 = 0 \<and>
       last_checkpoint c' = Some r)"
proof (cases r)
  case (Ok x)
  with assms finalize_last_checkpoint should_apply_majority show ?thesis
    by (fastforce simp: apply_generic_update_def Let_def outcome_simps split: if_splits)
qed (use apply_generic_update_store(3,5) [OF assms] in auto)

definition saves_trusted ::
    "('pk, 'sg) consensus_lib \<times> bytes \<times> config \<Rightarrow> consensus_client \<Rightarrow> bool" where
  "saves_trusted p c \<longleftrightarrow> started_from p c \<and>
     (\<forall>r. last_checkpoint c = Some r \<longrightarrow> checkpoint_trusted (fst p) (snd (snd p)) (fst (snd p)) r)"

interpretation saving: client_contract True saves_trusted "\<lambda>_. later" "\<lambda>_. True" fst
proof unfold_locales
  fix p :: "('a, 'b) consensus_lib \<times> bytes \<times> config" and c c' g now now' r
  show "saves_trusted p c'" if c: "saves_trusted p c" and "paired g"
    and ver: "verify_generic_update (fst p) now c g = Ok ()"
    and app: "apply_generic_update (fst p) now' g c = (r, c')"
  proof -
    have start: "started_from p c" using c by (simp add: saves_trusted_def)
    then have "reachable (fst p) c" "client_config c = snd (snd p)" "initial_checkpoint c = fst (snd p)"
      by (simp_all add: started_from_def)
    note f = verified_update_facts [OF ver \<open>paired g\<close> reachable_trusted [OF this(1)], unfolded this(2,3)]
    have "checkpoint_trusted (fst p) (snd (snd p)) (fst (snd p)) ck" if "last_checkpoint c' = Some ck" for ck
      using apply_last_checkpoint [OF app] that
    proof (elim disjE conjE exE)
      show "checkpoint_trusted (fst p) (snd (snd p)) (fst (snd p)) ck"
        if "last_checkpoint c' = last_checkpoint c"
        using c that \<open>last_checkpoint c' = Some ck\<close> by (simp add: saves_trusted_def)
    next
      fix h r'
      assume "512 * 2 \<le> committee_bits g * 3" "finalized_header g = Some h"
        "htr_header (fst p) h = Some r'" "unat (slot h) mod 32 = 0" "last_checkpoint c' = Some r'"
      with f(1) f(3) [of h] that show "checkpoint_trusted (fst p) (snd (snd p)) (fst (snd p)) ck"
        unfolding checkpoint_trusted_def finalized_by_chain_def by (intro exI [of _ h]) auto
    qed
    moreover have "started_from p c'"
      using anchored.step_inv [OF start TrueI \<open>paired g\<close> ver app] by blast
    ultimately show ?thesis by (simp add: saves_trusted_def)
  qed
qed (blast intro: later_refl later_trans later_apply)+

lemma sync_saves_trusted:
  assumes "sync L R clk c = (Ok (), c')" "last_checkpoint c = None"
  shows "saves_trusted (L, initial_checkpoint c, client_config c) c'"
proof -
  have "saves_trusted (L, initial_checkpoint c, client_config c) c1"
    if "bootstrap_client L R (clk 0) c = (Ok (), c1)" for c1
  proof -
    have "last_checkpoint c1 = None"
      using that assms(2) by (auto elim!: bootstrap_client_Ok)
    with bootstrap_started_from [OF that] show ?thesis by (simp add: saves_trusted_def)
  qed
  with saving.sync_good [of "(L, initial_checkpoint c, client_config c)" R clk c c'] assms(1)
  show ?thesis by (simp add: saving.server_ok_def)
qed

lemma advance_saves_trusted:
  assumes "saves_trusted (L, ckpt, cfg) c" "advance L R clk c = (r, c')"
  shows "saves_trusted (L, ckpt, cfg) c'"
  using saving.advance_good [OF assms(1), of R clk] assms(2)
  by (simp add: saving.server_ok_def saving.good_def)

text \<open>A session of the client: a successful sync of a new client, then any advances.\<close>

inductive session ::
    "('pk, 'sg) consensus_lib \<Rightarrow> bytes \<Rightarrow> config \<Rightarrow> consensus_client \<Rightarrow> bool"
  for L :: "('pk, 'sg) consensus_lib" and ckpt :: bytes and cfg :: config
where
  synced: "sync L R clk (consensus_client_new ckpt cfg) = (Ok (), c) \<Longrightarrow> session L ckpt cfg c"
| advanced: "session L ckpt cfg c \<Longrightarrow> advance L R clk c = (r, c') \<Longrightarrow> session L ckpt cfg c'"

lemma session_saves_trusted: "session L ckpt cfg c \<Longrightarrow> saves_trusted (L, ckpt, cfg) c"
proof (induction rule: session.induct)
  case (synced R clk c)
  have new: "last_checkpoint (consensus_client_new ckpt cfg) = None" "initial_checkpoint (consensus_client_new ckpt cfg) = ckpt"
    "client_config (consensus_client_new ckpt cfg) = cfg" by (simp_all add: consensus_client_new_def)
  show ?case by (rule sync_saves_trusted [OF synced new(1), unfolded new(2,3)])
next
  case (advanced c R clk r c')
  show ?case by (rule advance_saves_trusted [OF advanced.IH advanced.hyps(2)])
qed

subsection \<open>Progress\<close>

text \<open>
  The header of a slot that has begun has an age: the two logging calls cannot panic on it. The
  conversion of durations is only asked for those up to the current time.
\<close>

lemma age_Ok:
  assumes "unat (genesis_time (chain cfg)) + 12 * unat s \<le> unat now" "\<And>d. d \<le> now \<Longrightarrow> chrono_from_std L d \<noteq> None"
  shows "\<exists>a. age L cfg now s = Ok a"
proof -
  have "12 * unat s < 18446744073709551616" "unat s * 12 + unat (genesis_time (chain cfg)) < 18446744073709551616"
    using assms(1) unat_u64_bound [of now] by linarith+
  then have t: "unat (slot_timestamp cfg s) = unat s * 12 + unat (genesis_time (chain cfg))"
    by (simp add: slot_timestamp_def unat_word_ariths unat_mult_u64)
  then have le: "slot_timestamp cfg s \<le> now"
    using assms(1) by (simp add: word_le_nat_alt)
  then have "now - slot_timestamp cfg s \<le> now"
    by (simp add: word_le_nat_alt unat_sub)
  with assms(2) obtain a where "chrono_from_std L (now - slot_timestamp cfg s) = Some a" by blast
  with le show ?thesis by (simp add: age_def Let_def not_less [symmetric])
qed

lemma valid_update_times:
  assumes "valid_update L now c u" "unat now \<le> unat now'"
  shows "unat (genesis_time (chain (client_config c))) + 12 * unat (slot (attested_header u)) \<le> unat now'"
    "finalized_header u = Some h \<Longrightarrow>
       unat (genesis_time (chain (client_config c))) + 12 * unat (slot h) \<le> unat now'"
  using assms by (fastforce simp: valid_update_def Let_def)+

text \<open>An update that is valid when it is verified is applied, where the clock does not run backwards.\<close>

lemma apply_total:
  assumes "valid_update L now c u" "now \<le> now'" "\<And>d. d \<le> now' \<Longrightarrow> chrono_from_std L d \<noteq> None"
  shows "\<exists>c'. apply_generic_update L now' u c = (Ok (), c')"
proof -
  have now: "unat now \<le> unat now'" using assms(2) by (simp add: word_le_nat_alt)
  obtain a :: int where att: "age L (client_config c) now' (slot (attested_header u)) = (Ok a :: (report, int) outcome)"
    using age_Ok [OF valid_update_times(1) [OF assms(1) now] assms(3)] by blast
  have fin: "\<exists>a. age L (client_config c) now' (slot h) = (Ok a :: (report, int) outcome)"
    if "finalized_header u = Some h" for h
    using age_Ok [OF valid_update_times(2) [OF assms(1) now that] assms(3)] by blast
  have "\<exists>c'. finalize L now' u (c\<lparr>store := s\<rparr>) = (Ok (), c')" for s
  proof (cases "finalized_header u")
    case None
    then have "\<not> slot (st_finalized_header s) < update_finalized_slot u"
      by (simp add: update_finalized_slot_def)
    then show ?thesis by (simp add: finalize_def)
  next
    case (Some h)
    with fin [of h] show ?thesis by (auto simp: finalize_def Let_def log_finality_update_def)
  qed
  then show ?thesis
    using att by (simp add: apply_generic_update_def Let_def log_optimistic_update_def)
qed

lemma advance_progress:
  assumes "reachable L c" "rpc_get_finality_update R = Ok fu"
    and "u = generic_from_finality_update fu" "valid_update L (clk 0) c u"
    and "length (sync_committee_bits (sync_aggregate u)) = 512" "2 * 512 \<le> 3 * participants u"
    and "clk 0 \<le> clk 1" "\<And>d. d \<le> clk 1 \<Longrightarrow> chrono_from_std L d \<noteq> None"
  shows "slot (fu_finalized_header fu) \<le>
    slot (st_finalized_header (store (snd (advance L R clk c))))"
proof -
  have ver: "verify_generic_update L (clk 0) c u = Ok ()"
    using assms(4) by (simp add: verify_generic_update_valid [OF assms(5)])
  obtain c1 where app: "apply_generic_update L (clk 1) u c = (Ok (), c1)"
    using apply_total [OF assms(4,7,8)] by blast
  then have acc: "accept L clk 0 u c = (Ok (), c1)" by (simp add: accept_def ver)
  have "paired u" by (simp add: assms(3))
  then have c1: "reachable L c1" by (rule reachable.accepted [OF assms(1) _ ver app])
  have "trust.leaves L c1 (advance L R clk c)"
    by (rule trust.advance_after_finality [OF assms(2) acc [unfolded assms(3)] trust.good_refl [OF c1]])
      (simp add: trust.server_ok_def)
  then have later: "slot (st_finalized_header (store c1)) \<le>
      slot (st_finalized_header (store (snd (advance L R clk c))))"
    by (simp add: trust.leaves_def trust.good_def later_def)
  have fin: "finalized_header u = Some (fu_finalized_header fu)"
    by (simp add: assms(3) generic_from_finality_update_def)
  have "512 * 2 \<le> committee_bits u * 3" using majority_iff [OF assms(5)] assms(6) by blast
  with fin have "slot (fu_finalized_header fu) \<le> slot (st_finalized_header (store c1))"
    by (auto simp: apply_generic_update_store(4) [OF app refl] next_store_def Let_def should_apply_update_def
        finalize_step_def update_finalized_slot_def)
  with later show ?thesis by simp
qed

text \<open>Which header is finalised: application moves the finalised header only to that of the update.\<close>

lemma finalized_cases:
  assumes "t = next_store u s \<or> t \<in> panic_stores u s"
  shows "st_finalized_header t = st_finalized_header s \<or> finalized_header u = Some (st_finalized_header t)"
proof -
  have "st_finalized_header (optimistic_step u (count_participants u s)) = st_finalized_header s"
    by (simp add: optimistic_step_def count_participants_def)
  moreover have "st_finalized_header (rotate_committees u s') = st_finalized_header s'" for s'
    by (simp add: rotate_committees_def Let_def split: option.split)
  ultimately show ?thesis using assms
    by (auto simp: next_store_def panic_stores_def Let_def finalize_step_def split: if_splits option.splits)
qed

lemma apply_finalized_cases:
  assumes "apply_generic_update L now u c = (r, c')"
  shows "st_finalized_header (store c') = st_finalized_header (store c) \<or>
    finalized_header u = Some (st_finalized_header (store c'))"
  using finalized_cases [of "store c'" u "store c"] apply_generic_update_store(3-5) [OF assms] by auto

text \<open>The update after which \<open>advance\<close> may finalise another header than that of the finality update.\<close>

definition brings_committee :: "consensus_rpc_server \<Rightarrow> header \<Rightarrow> bool" where
  "brings_committee R h \<longleftrightarrow> (\<exists>per u. rpc_get_updates R per 1 = Ok [u] \<and> up_finalized_header u = h)"

lemma advance_finalized_header:
  assumes "rpc_get_finality_update R = Ok fu"
    and "accept L clk 0 (generic_from_finality_update fu) c = (Ok (), c1)"
  shows "st_finalized_header (store (snd (advance L R clk c))) = st_finalized_header (store c1) \<or>
    brings_committee R (st_finalized_header (store (snd (advance L R clk c))))"
proof -
  define kept where "kept d \<longleftrightarrow> st_finalized_header (store d) = st_finalized_header (store c1) \<or>
    brings_committee R (st_finalized_header (store d))" for d :: consensus_client
  have optimistic: "kept (snd (accept L clk k (generic_from_optimistic_update ou) d))" if "kept d" for k ou d
  proof (cases rule: accept_cases [of L clk k d "generic_from_optimistic_update ou"])
    case (accepted r d')
    with apply_finalized_cases [OF accepted(2)] that show ?thesis
      by (simp add: kept_def generic_from_optimistic_update_def)
  qed (use that in simp)
  have first: "kept (snd (accept_finality_and_optimistic L R clk 0 c))"
  proof -
    have "kept c1" by (simp add: kept_def)
    then show ?thesis
      unfolding accept_finality_and_optimistic_eq using assms optimistic
      by (cases "rpc_get_optimistic_update R") simp_all
  qed
  have applied: "kept (snd (apply_update L now u d))" if "kept d" "rpc_get_updates R per 1 = Ok [u]" for now u d per
  proof -
    obtain r d' where app: "apply_generic_update L now (generic_from_update u) d = (r, d')" by fastforce
    then have "snd (apply_update L now u d) = d'" by (simp add: apply_update_def)
    moreover have "finalized_header (generic_from_update u) = Some (up_finalized_header u)"
      by (simp add: generic_from_update_def)
    with apply_finalized_cases [OF app] that have "kept d'" unfolding kept_def brings_committee_def by auto
    ultimately show ?thesis by simp
  qed
  have "kept (snd (advance L R clk c))"
    unfolding advance_def
  proof (rule then_op_invariant [where P = kept, OF first])
    fix x and d :: consensus_client
    assume d: "kept d"
    let ?per = "calc_sync_period (slot (st_finalized_header (store d)))"
    show "kept (snd (if st_next_sync_committee (store d) = None then
       let current_period = calc_sync_period (slot (st_finalized_header (store d))) in
       then_op (rpc_get_updates R current_period 1, d) (\<lambda>updates c.
       case updates of
         [u] \<Rightarrow> (case verify_update L (clk 4) c u of
                  Ok _ \<Rightarrow> apply_update L (clk 5) u c
                | Err _ \<Rightarrow> (Ok (), c)
                | Panic \<Rightarrow> (Panic, c))
       | _ \<Rightarrow> (Ok (), c))
     else (Ok (), d)))"
      using d applied [OF d]
      by (cases "rpc_get_updates R ?per 1")
        (auto simp: Let_def split: list.splits outcome.splits)
  qed
  then show ?thesis by (simp add: kept_def)
qed

lemma advance_finalizes:
  assumes "rpc_get_finality_update R = Ok fu"
    and "u = generic_from_finality_update fu" "valid_update L (clk 0) c u"
    and "length (sync_committee_bits (sync_aggregate u)) = 512" "2 * 512 \<le> 3 * participants u"
    and "clk 0 \<le> clk 1" "\<And>d. d \<le> clk 1 \<Longrightarrow> chrono_from_std L d \<noteq> None"
    and "slot (st_finalized_header (store c)) < slot (fu_finalized_header fu)"
  shows "st_finalized_header (store (snd (advance L R clk c))) = fu_finalized_header fu \<or>
    brings_committee R (st_finalized_header (store (snd (advance L R clk c))))"
proof -
  have ver: "verify_generic_update L (clk 0) c u = Ok ()"
    using assms(3) by (simp add: verify_generic_update_valid [OF assms(4)])
  obtain c1 where app: "apply_generic_update L (clk 1) u c = (Ok (), c1)"
    using apply_total [OF assms(3,6,7)] by blast
  have fin: "finalized_header u = Some (fu_finalized_header fu)"
    by (simp add: assms(2) generic_from_finality_update_def)
  have kept: "st_finalized_header (rotate_committees u (optimistic_step u (count_participants u s))) =
      st_finalized_header s" for s
    by (simp add: rotate_committees_def optimistic_step_def count_participants_def Let_def split: option.split)
  have "512 * 2 \<le> committee_bits u * 3" using majority_iff [OF assms(4)] assms(5) by blast
  with fin assms(8) have "st_finalized_header (store c1) = fu_finalized_header fu"
    by (simp add: apply_generic_update_store(4) [OF app refl] next_store_def Let_def should_apply_update_def
        finalize_step_def update_finalized_slot_def kept optimistic_step_def count_participants_def)
  moreover have "accept L clk 0 (generic_from_finality_update fu) c = (Ok (), c1)"
    using ver app by (simp add: accept_def assms(2))
  ultimately show ?thesis using advance_finalized_header [OF assms(1)] by metis
qed

end
