(* ===== verification/Command_Line.thy ===== *)
theory Command_Line
  imports Rpc_Server Light_Client_Spec
begin

text \<open>
  The process of \<open>cli/src/main.rs\<close>: \<open>main\<close> builds and starts a client and then waits forever; a
  task of the client advances it; others handle requests; and the handler of ctrl-c saves the
  checkpoint in a thread and exits, or exits at once at the third press. The process is a state, and
  the tasks are the steps of a relation: the lock on the node makes an advance and a save one step
  each, and a forced exit may come while a save is under way.

  The release profile of \<open>Cargo.toml\<close> sets \<open>panic = "abort"\<close>: a panic of any task ends the whole
  process by the signal \<open>SIGABRT\<close>, which a shell reports as the status 134. An exited state has no
  successor.
\<close>

record cli_process =
  cp_client :: "file_db client"
  cp_counter :: int
  cp_saving :: bool

text \<open>The exit code and the files that a process leaves.\<close>

datatype cli_run = Running cli_process | Exited int file_system

text \<open>\<open>main\<close>, after the configuration is read. A panic aborts the process.\<close>

definition cli_main ::
    "('pk, 'sg, 'y) world \<Rightarrow> file_system \<Rightarrow> config \<Rightarrow> cli_run" where
  "cli_main W fs cfg =
     (case client_build W file_db_ops fs (set_config cfg client_builder_new) of
        Err _ \<Rightarrow> Exited 1 fs
      | Panic \<Rightarrow> Exited 134 fs
      | Ok client \<Rightarrow>
         (case client_start W file_db_ops client of
            (Err _, client) \<Rightarrow> Exited 1 (cl_files client)
          | (Panic, client) \<Rightarrow> Exited 134 (cl_files client)
          | (Ok _, client) \<Rightarrow>
              Running \<lparr>cp_client = client, cp_counter = 0, cp_saving = False\<rparr>))"

subsection \<open>The handler of ctrl-c\<close>

datatype handler_effect = InfoForced | InfoShuttingDown int | ExitProcess int | SpawnShutdown

definition shutdown_handler :: "int \<Rightarrow> int \<times> handler_effect list" where
  "shutdown_handler counter =
     (let counter_value = counter + 1 in
      if counter_value = 3 then (counter_value, [InfoForced, ExitProcess 0])
      else (counter_value, InfoShuttingDown (3 - counter_value) #
              (if counter_value = 1 then [SpawnShutdown] else [])))"

fun run_effect :: "handler_effect \<Rightarrow> cli_run \<Rightarrow> cli_run" where
  "run_effect (ExitProcess code) (Running p) = Exited code (cl_files (cp_client p))"
| "run_effect SpawnShutdown (Running p) = Running (p\<lparr>cp_saving := True\<rparr>)"
| "run_effect _ s = s"

definition ctrl_c :: "cli_process \<Rightarrow> cli_run" where
  "ctrl_c p = (case shutdown_handler (cp_counter p) of
     (counter, effects) \<Rightarrow> fold run_effect effects (Running (p\<lparr>cp_counter := counter\<rparr>)))"

subsection \<open>The tasks of the process\<close>

text \<open>A save of which only the first \<open>n\<close> bytes reach the file.\<close>

definition interrupted_save :: "nat \<Rightarrow> file_db client \<Rightarrow> file_system" where
  "interrupted_save n c =
     (let fs = cl_files c;
          limit = (case fs_write_limit fs of None \<Rightarrow> n | Some m \<Rightarrow> min m n) in
      (cl_files (save_last_checkpoint file_db_ops
         (c\<lparr>cl_files := fs\<lparr>fs_write_limit := Some limit\<rparr>\<rparr>)))\<lparr>fs_write_limit := fs_write_limit fs\<rparr>)"

text \<open>The files that a process leaves where it ends at once, also while the thread is saving.\<close>

definition left_files :: "nat option \<Rightarrow> cli_process \<Rightarrow> file_system" where
  "left_files k p = (case k of None \<Rightarrow> cl_files (cp_client p) | Some n \<Rightarrow> interrupted_save n (cp_client p))"

datatype cli_event = Advanced | Pressed | Saved | Crashed

text \<open>
  A round of the advance task; a press of ctrl-c, the third one also while the thread is saving; the
  end of that thread; and a panic, of the advance task or of the handler of a request where the
  client has an RPC server, which aborts the process.
\<close>

inductive cli_step ::
    "('pk, 'sg) consensus_lib \<Rightarrow> cli_event \<Rightarrow> cli_run \<Rightarrow> cli_run \<Rightarrow> bool"
  for L :: "('pk, 'sg) consensus_lib"
where
  round: "advance_round L R clk now (cp_client p) = (r, c) \<Longrightarrow> \<not> is_panic r \<Longrightarrow>
    cli_step L Advanced (Running p) (Running (p\<lparr>cp_client := c\<rparr>))"
| press: "cli_step L Pressed (Running p) (ctrl_c p)"
| press_saving: "cp_saving p \<Longrightarrow> ctrl_c p = Exited code fs \<Longrightarrow>
    cli_step L Pressed (Running p) (Exited code (left_files (Some n) p))"
| saved: "cp_saving p \<Longrightarrow>
    cli_step L Saved (Running p) (Exited 0 (cl_files (client_shutdown file_db_ops (cp_client p))))"
| round_panics: "advance_round L R clk now (cp_client p) = (Panic, c) \<Longrightarrow> k = None \<or> cp_saving p \<Longrightarrow>
    cli_step L Crashed (Running p) (Exited 134 (left_files k p))"
| handler_panics: "cl_rpc (cp_client p) \<noteq> None \<Longrightarrow>
    rpc_handle (request_inner V F E clk (cl_node (cp_client p))) req = Panic \<Longrightarrow> k = None \<or> cp_saving p \<Longrightarrow>
    cli_step L Crashed (Running p) (Exited 134 (left_files k p))"

inductive_cases cli_step_Exited: "cli_step L e (Exited code fs) s"
inductive_cases cli_step_Running: "cli_step L e (Running p) s"

inductive cli_steps ::
    "('pk, 'sg) consensus_lib \<Rightarrow> cli_event list \<Rightarrow> cli_run \<Rightarrow> cli_run \<Rightarrow> bool"
  for L :: "('pk, 'sg) consensus_lib"
where
  none: "cli_steps L [] s s"
| more: "cli_steps L es s s' \<Longrightarrow> cli_step L e s' s'' \<Longrightarrow> cli_steps L (es @ [e]) s s''"

text \<open>A task that panics in this state, for some answers of the servers and some clock.\<close>

definition task_panics :: "('pk, 'sg) consensus_lib \<Rightarrow> cli_process \<Rightarrow> bool" where
  "task_panics L p \<longleftrightarrow>
     (\<exists>R clk now. is_panic (fst (advance_round L R clk now (cp_client p)))) \<or>
     cl_rpc (cp_client p) \<noteq> None \<and>
       (\<exists>V F E clk req. is_panic (rpc_handle (request_inner V F E clk (cl_node (cp_client p))) req))"

lemma crash_panics: "cli_step L Crashed s s' \<Longrightarrow> \<exists>p. s = Running p \<and> task_panics L p"
proof (erule cli_step.cases, simp_all)
  fix R clk now and p :: cli_process and c
  assume "advance_round L R clk now (cp_client p) = (Panic, c)"
  then have "is_panic (fst (advance_round L R clk now (cp_client p)))" by simp
  then show "task_panics L p" unfolding task_panics_def by blast
next
  fix V F E clk and p :: cli_process and req
  assume "rpc_handle (request_inner V F E clk (cl_node (cp_client p))) req = Panic"
    "\<exists>a b. cl_rpc (cp_client p) = Some (a, b)"
  then show "task_panics L p" unfolding task_panics_def by (metis is_panic.simps(1) option.distinct(1))
qed

lemma exited_final: "\<not> cli_step L e (Exited code fs) s"
  by (auto elim: cli_step_Exited)

text \<open>A crash is the last event of a run.\<close>

lemma crash_last:
  assumes "cli_steps L es s s'" "Crashed \<in> set es"
  shows "\<exists>es' p. es = es' @ [Crashed] \<and> cli_steps L es' s (Running p) \<and> task_panics L p"
  using assms
proof (induction rule: cli_steps.induct)
  case (more es s s1 e s2)
  show ?case
  proof (cases "Crashed \<in> set es")
    case True
    with more.IH obtain es' p where "es = es' @ [Crashed]" by blast
    with more.hyps(1) obtain s0 where "cli_step L Crashed s0 s1" by (auto elim: cli_steps.cases)
    then obtain fs where "s1 = Exited 134 fs" by (auto elim: cli_step.cases)
    with more.hyps(2) show ?thesis by (simp add: exited_final)
  next
    case False
    with more.prems have "e = Crashed" by simp
    with more.hyps crash_panics show ?thesis by blast
  qed
qed simp

subsection \<open>Counting presses\<close>

lemma ctrl_c_eq:
  "ctrl_c p =
     (if cp_counter p = 2 then Exited 0 (cl_files (cp_client p))
      else if cp_counter p = 0 then Running (p\<lparr>cp_counter := 1, cp_saving := True\<rparr>)
      else Running (p\<lparr>cp_counter := cp_counter p + 1\<rparr>))"
  by (auto simp: ctrl_c_def shutdown_handler_def Let_def)

text \<open>
  While the process runs, the counter is the number of presses and below three, and the thread that
  saves exists from the first press on.
\<close>

definition counts :: "cli_event list \<Rightarrow> cli_run \<Rightarrow> bool" where
  "counts es s \<longleftrightarrow>
     (case s of
        Running p \<Rightarrow> cp_counter p = int (count_list es Pressed) \<and> count_list es Pressed < 3 \<and>
          (cp_saving p \<longleftrightarrow> 0 < count_list es Pressed) \<and> Saved \<notin> set es \<and> Crashed \<notin> set es
      | Exited code fs \<Rightarrow> count_list es Pressed \<le> 3 \<and>
          (if Crashed \<in> set es then code = 134 \<and> count_list es Pressed < 3 \<and> Saved \<notin> set es
           else code = 0 \<and> 0 < count_list es Pressed \<and> (count_list es Pressed = 3 \<longleftrightarrow> Saved \<notin> set es)))"

lemma counts_step:
  assumes "counts es s" "cli_step L e s s'"
  shows "counts (es @ [e]) s'"
  using assms(2,1)
  by (induction rule: cli_step.induct)
    (auto simp: counts_def ctrl_c_eq split: if_splits)

lemma counts_steps:
  assumes "cli_steps L es (Running p) s" "cp_counter p = 0" "\<not> cp_saving p"
  shows "counts es s"
proof -
  have "counts [] (Running p)" using assms(2,3) by (simp add: counts_def)
  with assms(1) show ?thesis
    by (induction es "Running p" s rule: cli_steps.induct) (auto intro: counts_step)
qed

end
