(* ===== verification/Client_Lifecycle.thy ===== *)
theory Client_Lifecycle
  imports Command_Line
begin

text \<open>
  A client over its whole life on one machine: it is installed with a default checkpoint and no
  file, boots from the checkpoint in the file of its data directory, advances, is stopped, killed or
  loses power or aborts, also while it saves, and boots again. Whatever the servers answered in any of its
  runs, the checkpoint it boots from is connected to the default one by checkpoints each of
  which was finalised under the one before it.
\<close>

subsection \<open>Checkpoints that follow from checkpoints\<close>

inductive checkpoint_chain ::
    "('pk, 'sg) consensus_lib \<Rightarrow> config \<Rightarrow> bytes \<Rightarrow> bool"
  for L :: "('pk, 'sg) consensus_lib" and cfg :: config
where
  default: "checkpoint_chain L cfg (default_checkpoint cfg)"
| followed: "checkpoint_chain L cfg ck \<Longrightarrow> checkpoint_trusted L (cfg\<lparr>checkpoint := Some ck\<rparr>) ck r \<Longrightarrow>
    checkpoint_chain L cfg r"

text \<open>A root has 32 bytes (the type \<open>Node\<close> of the SSZ library).\<close>

definition roots_sized :: "('pk, 'sg) consensus_lib \<Rightarrow> bool" where
  "roots_sized L \<longleftrightarrow> (\<forall>h r. htr_header L h = Some r \<longrightarrow> length r = 32)"

text \<open>The settings of this deployment: the checkpoint comes from the file, and there is no fallback.\<close>

definition file_settings :: "config \<Rightarrow> string \<Rightarrow> bool" where
  "file_settings cfg dir \<longleftrightarrow> checkpoint cfg = None \<and> data_dir cfg = Some dir \<and> fallback cfg = None \<and>
     \<not> load_external_fallback cfg"

definition home_db :: "config \<Rightarrow> string \<Rightarrow> file_db" where
  "home_db cfg dir = \<lparr>db_data_dir = dir, db_default_checkpoint = default_checkpoint cfg\<rparr>"

subsection \<open>The deployment\<close>

text \<open>
  The environment decides about the servers, the clocks, when the process is stopped, and which
  operations of the file system fail; only the client writes its checkpoint file. \<open>Ws\<close> are the
  worlds that the client may boot in.
\<close>

inductive deployment ::
    "('pk, 'sg) consensus_lib \<Rightarrow> ('pk, 'sg, 'y) world set \<Rightarrow> config \<Rightarrow> string \<Rightarrow> cli_run \<Rightarrow> bool"
  for L :: "('pk, 'sg) consensus_lib" and Ws :: "('pk, 'sg, 'y) world set" and cfg :: config and dir :: string
where
  installed: "fs_files fs (checkpoint_path (home_db cfg dir)) = None \<Longrightarrow> deployment L Ws cfg dir (Exited 0 fs)"
| boot: "deployment L Ws cfg dir (Exited code fs) \<Longrightarrow> W \<in> Ws \<Longrightarrow> w_lib W = L \<Longrightarrow>
    deployment L Ws cfg dir (cli_main W fs cfg)"
| step: "deployment L Ws cfg dir s \<Longrightarrow> cli_step L e s s' \<Longrightarrow> deployment L Ws cfg dir s'"
| killed: "deployment L Ws cfg dir (Running p) \<Longrightarrow> deployment L Ws cfg dir (Exited code (cl_files (cp_client p)))"
| killed_saving: "deployment L Ws cfg dir (Running p) \<Longrightarrow>
    deployment L Ws cfg dir (Exited code (interrupted_save n (cp_client p)))"
| disk_stopped: "deployment L Ws cfg dir (Exited code fs) \<Longrightarrow> fs_files fs' = fs_files fs \<Longrightarrow>
    deployment L Ws cfg dir (Exited code fs')"
| disk_running: "deployment L Ws cfg dir (Running p) \<Longrightarrow> fs_files fs' = fs_files (cl_files (cp_client p)) \<Longrightarrow>
    deployment L Ws cfg dir (Running (p\<lparr>cp_client := (cp_client p)\<lparr>cl_files := fs'\<rparr>\<rparr>))"

text \<open>What the file holds at any time, where it has the length of a checkpoint.\<close>

definition file_chained ::
    "('pk, 'sg) consensus_lib \<Rightarrow> config \<Rightarrow> string \<Rightarrow> file_system \<Rightarrow> bool" where
  "file_chained L cfg dir fs \<longleftrightarrow>
     (\<forall>b. fs_files fs (checkpoint_path (home_db cfg dir)) = Some b \<longrightarrow> length b = 32 \<longrightarrow>
        checkpoint_chain L cfg b)"

text \<open>A client that runs from a checkpoint of the chain, and may save another one.\<close>

definition client_chained ::
    "('pk, 'sg) consensus_lib \<Rightarrow> config \<Rightarrow> string \<Rightarrow> file_db client \<Rightarrow> bool" where
  "client_chained L cfg dir c \<longleftrightarrow> cl_db c = home_db cfg dir \<and> file_chained L cfg dir (cl_files c) \<and>
     node_reachable L (cl_node c) \<and>
     (\<exists>ck. checkpoint_chain L cfg ck \<and>
        saves_trusted (L, ck, cfg\<lparr>checkpoint := Some ck\<rparr>) (consensus (cl_node c)))"

definition run_chained ::
    "('pk, 'sg) consensus_lib \<Rightarrow> config \<Rightarrow> string \<Rightarrow> cli_run \<Rightarrow> bool" where
  "run_chained L cfg dir s =
     (case s of Running p \<Rightarrow> client_chained L cfg dir (cp_client p) | Exited code fs \<Rightarrow> file_chained L cfg dir fs)"

subsection \<open>Saving\<close>

lemma saves_trusted_last:
  assumes "saves_trusted (L, ck, cfg) c" "last_checkpoint c = Some r" "roots_sized L"
  shows "checkpoint_trusted L cfg ck r" "length r = 32"
  using assms by (auto simp: saves_trusted_def checkpoint_trusted_def roots_sized_def)

text \<open>A checkpoint file after a save: as it was, or a prefix of the saved checkpoint.\<close>

lemma file_save_content:
  "fs_files (snd (file_save_checkpoint db ck fs)) = fs_files fs \<or>
   (\<exists>k. fs_files (snd (file_save_checkpoint db ck fs)) = (fs_files fs)(checkpoint_path db \<mapsto> take k ck))"
proof -
  have "\<exists>k. (fs_files fs)(checkpoint_path db \<mapsto> ck) = (fs_files fs)(checkpoint_path db \<mapsto> take k ck)"
    by (rule exI [of _ "length ck"]) simp
  then show ?thesis
    unfolding file_save_checkpoint_def by (simp split: option.split) blast
qed

lemma file_chained_save:
  assumes "file_chained L cfg dir fs" "length ck = 32 \<Longrightarrow> checkpoint_chain L cfg ck" "length ck = 32"
  shows "file_chained L cfg dir (snd (file_save_checkpoint (home_db cfg dir) ck fs))"
  using file_save_content [of "home_db cfg dir" ck fs] assms
  by (auto simp: file_chained_def)

lemma client_chained_saved:
  assumes "client_chained L cfg dir c" "roots_sized L"
  shows "client_chained L cfg dir (save_last_checkpoint file_db_ops c)"
proof (cases "get_last_checkpoint (cl_node c)")
  case (Some r)
  obtain ck where ck: "checkpoint_chain L cfg ck"
    "saves_trusted (L, ck, cfg\<lparr>checkpoint := Some ck\<rparr>) (consensus (cl_node c))"
    using assms(1) by (auto simp: client_chained_def)
  from Some have last: "last_checkpoint (consensus (cl_node c)) = Some r" by (simp add: get_last_checkpoint_def)
  note r = saves_trusted_last [OF ck(2) last assms(2)]
  have "file_chained L cfg dir (snd (file_save_checkpoint (home_db cfg dir) r (cl_files c)))"
    using assms(1) r checkpoint_chain.followed [OF ck(1) r(1)]
    by (intro file_chained_save) (auto simp: client_chained_def)
  with Some assms(1) show ?thesis
    by (simp add: client_chained_def save_last_checkpoint_def file_db_ops_def)
qed (use assms in \<open>simp add: save_last_checkpoint_def\<close>)

lemma file_chained_limit: "fs_files fs' = fs_files fs \<Longrightarrow> file_chained L cfg dir fs' = file_chained L cfg dir fs"
  by (simp add: file_chained_def)

lemma client_chained_files:
  "client_chained L cfg dir c \<Longrightarrow> fs_files fs = fs_files (cl_files c) \<Longrightarrow>
     client_chained L cfg dir (c\<lparr>cl_files := fs\<rparr>)"
  by (simp add: client_chained_def file_chained_def)

lemma interrupted_save_chained:
  assumes "client_chained L cfg dir c" "roots_sized L"
  shows "file_chained L cfg dir (interrupted_save n c)"
proof -
  define limit where "limit = (case fs_write_limit (cl_files c) of None \<Rightarrow> n | Some m \<Rightarrow> min m n)"
  have "client_chained L cfg dir (c\<lparr>cl_files := (cl_files c)\<lparr>fs_write_limit := Some limit\<rparr>\<rparr>)"
    by (rule client_chained_files [OF assms(1)]) simp
  from client_chained_saved [OF this assms(2)] show ?thesis
    by (simp add: interrupted_save_def Let_def limit_def client_chained_def file_chained_def)
qed

lemma left_files_chained:
  "client_chained L cfg dir (cp_client p) \<Longrightarrow> roots_sized L \<Longrightarrow> file_chained L cfg dir (left_files k p)"
  by (simp add: left_files_def interrupted_save_chained client_chained_def split: option.split)

subsection \<open>Booting\<close>

lemma node_sync_saves:
  assumes "node_sync L R E clk n = (Ok (), n')" "last_checkpoint (consensus n) = None"
  shows "saves_trusted (L, initial_checkpoint (consensus n), client_config (consensus n)) (consensus n')"
proof -
  from assms(1) obtain c where "sync L R clk (consensus n) = (Ok (), c)"
    "update_payloads L R (n\<lparr>consensus := c\<rparr>) = (Ok (), n')" by (rule node_sync_Ok)
  with sync_saves_trusted [OF _ assms(2)] update_payloads_frames(1) show ?thesis by force
qed

lemma node_advance_saves:
  assumes "node_advance L R clk n = (r, n')" "saves_trusted (L, ck, cfg) (consensus n)"
  shows "saves_trusted (L, ck, cfg) (consensus n')"
proof -
  obtain q c where adv: "advance L R clk (consensus n) = (q, c)" by fastforce
  have "consensus n' = c"
    using assms(1) adv update_payloads_frames(1)
    by (cases q) (force simp: node_advance_def on_consensus_def)+
  with advance_saves_trusted [OF assms(2) adv] show ?thesis by simp
qed

text \<open>Without fallbacks a client that starts has synced from its checkpoint.\<close>

lemma client_start_plain:
  assumes "client_start W D c = (Ok (), c')" "cl_fallback c = None" "\<not> cl_load_external_fallback c"
  shows "\<exists>c0. client_sync W 0 c = (Ok (), c0) \<and> c' = save_last_checkpoint D c0"
proof -
  obtain r c0 where sync: "client_sync W 0 c = (r, c0)" by fastforce
  note frames = client_sync_frames [OF sync]
  have "boot_from_fallback W c0 = (Err (Message ''no explicit fallback specified''), c0)"
    using assms(2) frames(1) by (simp add: boot_from_fallback_None)
  with assms sync frames show ?thesis
    by (cases r) (auto simp: client_start_def outcome_simps split: node_error.splits if_splits)
qed

lemma client_new_file:
  assumes "client_new W file_db_ops fs cfg = Ok c" "file_settings cfg dir"
  obtains ck where "file_load_checkpoint (home_db cfg dir) fs = Ok ck" "cl_db c = home_db cfg dir"
    "cl_files c = fs" "consensus (cl_node c) = consensus_client_new ck (cfg\<lparr>checkpoint := Some ck\<rparr>)"
    "no_payloads (cl_node c)" "cl_fallback c = None" "\<not> cl_load_external_fallback c"
  using assms
  by (auto simp: client_new_def file_settings_def file_db_ops_def file_db_new_def home_db_def node_new_def
      no_payloads_def outcome_simps)

lemma loaded_chained:
  assumes "file_load_checkpoint (home_db cfg dir) fs = Ok ck" "file_chained L cfg dir fs"
  shows "checkpoint_chain L cfg ck"
  using assms checkpoint_chain.default [of L cfg]
  by (auto simp: file_load_checkpoint_def file_chained_def home_db_def split: option.splits if_splits)

lemma client_start_failed_files:
  assumes "client_start W D c = (r, c')" "\<not> r = Ok ()" "cl_fallback c = None" "\<not> cl_load_external_fallback c"
  shows "cl_files c' = cl_files c"
proof -
  obtain q c0 where sync: "client_sync W 0 c = (q, c0)" by fastforce
  note frames = client_sync_frames [OF sync]
  have fb: "boot_from_fallback W c0 = (Err (Message ''no explicit fallback specified''), c0)"
    using assms(3) frames(1) by (simp add: boot_from_fallback_None)
  show ?thesis
  proof (cases "cl_rpc c \<noteq> None \<and> w_rpc_start W \<noteq> Ok ()")
    case True
    with assms(1) show ?thesis by (cases "w_rpc_start W") (auto simp: client_start_def)
  next
    case False
    then have "(if cl_rpc c \<noteq> None then w_rpc_start W else Ok ()) = Ok ()" by (auto split: if_split)
    with assms sync frames fb show ?thesis
      by (cases q) (auto simp: client_start_def split: node_error.splits if_splits)
  qed
qed

lemma cli_main_chained:
  assumes "file_settings cfg dir" "roots_sized (w_lib W)" "file_chained (w_lib W) cfg dir fs"
  shows "run_chained (w_lib W) cfg dir (cli_main W fs cfg)"
proof (cases "client_new W file_db_ops fs cfg")
  case (Ok c)
  then obtain ck where ck: "file_load_checkpoint (home_db cfg dir) fs = Ok ck" "cl_db c = home_db cfg dir"
    "cl_files c = fs" "consensus (cl_node c) = consensus_client_new ck (cfg\<lparr>checkpoint := Some ck\<rparr>)"
    "no_payloads (cl_node c)" "cl_fallback c = None" "\<not> cl_load_external_fallback c"
    using assms(1) by (rule client_new_file)
  obtain r c' where start: "client_start W file_db_ops c = (r, c')" by fastforce
  show ?thesis
  proof (cases "r = Ok ()")
    case True
    then obtain c0 where c0: "client_sync W 0 c = (Ok (), c0)" "c' = save_last_checkpoint file_db_ops c0"
      using client_start_plain start ck(6,7) by blast
    note frames = client_sync_frames [OF c0(1)]
    obtain n where n: "node_sync (w_lib W) (w_consensus W 0) (w_execution W 0) (w_clock W 0) (cl_node c) = (Ok (), n)"
      "cl_node c0 = n" using c0(1) by (auto simp: client_sync_def split: prod.splits)
    have "node_reachable (w_lib W) n"
      using node_reachable.synced [OF _ _ n(1)] ck(5) by (simp add: no_payloads_def)
    moreover have "saves_trusted (w_lib W, ck, cfg\<lparr>checkpoint := Some ck\<rparr>) (consensus n)"
      using node_sync_saves [OF n(1)] by (simp add: ck(4) consensus_client_new_def)
    ultimately have "client_chained (w_lib W) cfg dir c0"
      using loaded_chained [OF ck(1) assms(3)] assms(3) ck(2,3) frames(3,4) n(2)
      by (auto simp: client_chained_def)
    from client_chained_saved [OF this assms(2)] show ?thesis
      using Ok start True c0(2) by (simp add: cli_main_def build_same_config run_chained_def)
  next
    case False
    then show ?thesis
      using Ok start client_start_failed_files [OF start False ck(6,7)] assms(3) ck(3)
      by (cases r) (simp_all add: cli_main_def build_same_config run_chained_def)
  qed
qed (use assms(3) in \<open>simp_all add: cli_main_def build_same_config run_chained_def\<close>)

subsection \<open>Every run\<close>

lemma client_chained_round:
  assumes "client_chained L cfg dir c" "advance_round L R clk now c = (r, c')"
  shows "client_chained L cfg dir c'"
proof -
  obtain q n where adv: "node_advance L R clk (cl_node c) = (q, n)" by fastforce
  then have c': "c' = c\<lparr>cl_node := n\<rparr>"
    using assms(2) by (auto simp: advance_round_def split: if_splits)
  obtain ck where "checkpoint_chain L cfg ck"
    "saves_trusted (L, ck, cfg\<lparr>checkpoint := Some ck\<rparr>) (consensus (cl_node c))"
    using assms(1) by (auto simp: client_chained_def)
  with assms(1) node_reachable.advanced [OF _ adv] node_advance_saves [OF adv] show ?thesis
    unfolding c' client_chained_def by auto
qed

lemma run_chained_step:
  assumes "cli_step L e s s'" "run_chained L cfg dir s" "roots_sized L"
  shows "run_chained L cfg dir s'"
  using assms
proof (induction rule: cli_step.induct)
  case (round p R clk now r c)
  then show ?case by (auto simp: run_chained_def intro: client_chained_round)
next
  case (press p)
  then show ?case by (auto simp: run_chained_def ctrl_c_eq client_chained_def)
next
  case (press_saving p code fs n)
  then show ?case by (simp add: run_chained_def left_files_chained)
next
  case (saved p)
  then have "client_chained L cfg dir (save_last_checkpoint file_db_ops (cp_client p))"
    by (intro client_chained_saved) (simp_all add: run_chained_def)
  then show ?case by (simp add: run_chained_def client_shutdown_def client_chained_def)
qed (simp_all add: run_chained_def left_files_chained)

lemma deployment_chained:
  assumes "deployment L Ws cfg dir s" "file_settings cfg dir" "roots_sized L"
  shows "run_chained L cfg dir s"
  using assms(1)
proof (induction rule: deployment.induct)
  case (boot code fs W)
  then show ?case using cli_main_chained [of cfg dir W fs] assms(2,3) by (simp add: run_chained_def)
next
  case (step s e s')
  then show ?case using run_chained_step assms(3) by blast
next
  case (killed_saving p code n)
  then show ?case using assms(3) by (simp add: run_chained_def interrupted_save_chained)
next
  case (disk_running p fs')
  then show ?case by (simp add: run_chained_def client_chained_files)
qed (auto simp: run_chained_def file_chained_def client_chained_def)

text \<open>The trust of a running client, in terms of the default checkpoint.\<close>

lemma running_payload_trusted:
  assumes "client_chained L cfg dir c" "get_payload (cl_node c) Finalized = Ok p"
  shows "\<exists>ck. checkpoint_chain L cfg ck \<and> payload_trusted L (cfg\<lparr>checkpoint := Some ck\<rparr>) ck p"
proof -
  obtain ck where ck: "checkpoint_chain L cfg ck" "node_reachable L (cl_node c)"
    "saves_trusted (L, ck, cfg\<lparr>checkpoint := Some ck\<rparr>) (consensus (cl_node c))"
    using assms(1) by (auto simp: client_chained_def)
  with finalized_payload_trusted [OF ck(2) assms(2)] show ?thesis
    by (auto simp: saves_trusted_def started_from_def)
qed

end
