(* ===== verification/Sample_Chain.thy ===== *)
theory Sample_Chain
  imports Client_Lifecycle
begin

text \<open>
  A concrete run, on which the theorems about the consensus client and the node are applied: one
  value for each external function, a bootstrap at slot 96, a finality update that finalises
  slot 160 with the attested slot 200, an optimistic update for slot 210, and blocks whose
  execution payload has the number of their slot.
\<close>

subsection \<open>The external functions\<close>

definition root_of_slot :: "u64 \<Rightarrow> bytes" where
  "root_of_slot s = replicate 31 0 @ [ucast s]"

definition sized :: "nat \<Rightarrow> bytes \<Rightarrow> bytes option" where
  "sized n b = (if length b = n then Some b else None)"

definition chars :: "bytes \<Rightarrow> string" where
  "chars b = map (\<lambda>x. char_of (unat x)) b"

definition sample_committee :: sync_committee where
  "sample_committee = \<lparr>pubkeys = replicate 512 [1], aggregate_pubkey = [2]\<rparr>"

text \<open>
  A branch is the leaf that it proves, and the one for a committee only proves the sample committee; any
  set of keys but the empty one signs.
\<close>

definition sample_lib :: "(bytes, bytes) consensus_lib" where
  "sample_lib = \<lparr>htr_header = (\<lambda>h. Some (root_of_slot (slot h))),
     htr_sync_committee = (\<lambda>c. Some (if c = sample_committee then replicate 32 7 else replicate 32 8)),
     htr_beacon_block = (\<lambda>b. Some (root_of_slot (bb_slot b))),
     htr_signing_data = (\<lambda>_ _. Some (replicate 32 1)),
     htr_fork_data = (\<lambda>_ _. Some (replicate 32 2)),
     is_valid_merkle_branch = (\<lambda>leaf branch depth _ _. branch = [leaf] \<and> (depth = 5 \<longrightarrow> leaf = replicate 32 7)),
     vector_try_from = sized, vector_from_iter = sized,
     node_to_string = (\<lambda>b. ''0x'' @ chars b), hex_encode = chars,
     hex_decode = (\<lambda>_. Some [7, 0, 0, 0]),
     public_key_from_bytes_unchecked = Some, aggregate_signature_from_bytes = Some,
     fast_aggregate_verify = (\<lambda>_ _ pks. pks \<noteq> []),
     chrono_from_std = (\<lambda>s. Some (uint s))\<rparr>"

definition sample_fork :: fork where
  "sample_fork = \<lparr>fork_epoch = 0, fork_bytes = [0, 0, 0, 0]\<rparr>"

definition sample_config :: config where
  "sample_config = config_default\<lparr>
     chain := \<lparr>chain_id = 1, genesis_time = 0, genesis_root = replicate 32 0\<rparr>,
     forks := \<lparr>genesis = sample_fork, altair = sample_fork, bellatrix = sample_fork, capella = sample_fork\<rparr>,
     max_checkpoint_age := 1209600, default_checkpoint := root_of_slot 96,
     checkpoint := Some (root_of_slot 96), data_dir := Some ''data''\<rparr>"

subsection \<open>Headers and updates\<close>

definition header_at :: "u64 \<Rightarrow> header" where
  "header_at s = header_default\<lparr>slot := s\<rparr>"

definition all_sign :: sync_aggregate where
  "all_sign = \<lparr>sync_committee_bits = replicate 512 True, sync_committee_signature = [3]\<rparr>"

definition sample_bootstrap :: bootstrap where
  "sample_bootstrap = \<lparr>bs_header = header_at 96, bs_current_sync_committee = sample_committee,
     bs_current_sync_committee_branch = [replicate 32 7]\<rparr>"

definition sample_finality :: finality_update where
  "sample_finality = \<lparr>fu_attested_header = header_at 200, fu_finalized_header = header_at 160,
     fu_finality_branch = [root_of_slot 160], fu_sync_aggregate = all_sign, fu_signature_slot = 201\<rparr>"

definition sample_optimistic :: optimistic_update where
  "sample_optimistic = \<lparr>ou_attested_header = header_at 210, ou_sync_aggregate = all_sign,
     ou_signature_slot = 211\<rparr>"

definition payload_at :: "u64 \<Rightarrow> execution_payload" where
  "payload_at s = PayloadBellatrix (payload_bellatrix_default\<lparr>ep_block_number := s,
     ep_state_root := replicate 32 3\<rparr>)"

definition body_of :: "execution_payload \<Rightarrow> beacon_block_body" where
  "body_of p = BodyBellatrix \<lparr>randao_reveal = [],
     body_eth1_data = \<lparr>deposit_root = [], deposit_count = 0, eth1_block_hash = []\<rparr>, graffiti = [],
     proposer_slashings = [], attester_slashings = [], attestations = [], deposits = [],
     voluntary_exits = [], body_sync_aggregate = all_sign, body_execution_payload = p\<rparr>"

definition block_with :: "u64 \<Rightarrow> execution_payload \<Rightarrow> beacon_block" where
  "block_with s p = \<lparr>bb_slot = s, bb_proposer_index = 0, bb_parent_root = [], bb_state_root = [],
     body = body_of p\<rparr>"

definition sample_server :: consensus_rpc_server where
  "sample_server = \<lparr>rpc_get_bootstrap = (\<lambda>_. Ok sample_bootstrap),
     rpc_get_updates = (\<lambda>_ _. Ok []),
     rpc_get_finality_update = Ok sample_finality,
     rpc_get_optimistic_update = Ok sample_optimistic,
     rpc_get_block = (\<lambda>k s. if k = 3 then Err (Message ''no block'') else Ok (block_with s (payload_at s))),
     rpc_consensus_chain_id = Ok 1\<rparr>"

definition sample_clock :: "nat \<Rightarrow> u64" where
  "sample_clock k = 12000"

subsection \<open>The states of the run\<close>

definition client_0 :: consensus_client where
  "client_0 = consensus_client_new (root_of_slot 96) sample_config"

definition client_1 :: consensus_client where
  "client_1 = client_0\<lparr>store :=
     \<lparr>st_finalized_header = header_at 96, st_current_sync_committee = sample_committee,
      st_next_sync_committee = None, st_optimistic_header = header_at 96,
      previous_max_active_participants = 0, current_max_active_participants = 0\<rparr>\<rparr>"

definition client_2 :: consensus_client where
  "client_2 = client_0\<lparr>store :=
     \<lparr>st_finalized_header = header_at 160, st_current_sync_committee = sample_committee,
      st_next_sync_committee = None, st_optimistic_header = header_at 200,
      previous_max_active_participants = 0, current_max_active_participants = 512\<rparr>,
     last_checkpoint := Some (root_of_slot 160)\<rparr>"

definition client_3 :: consensus_client where
  "client_3 = client_2\<lparr>store := (store client_2)\<lparr>st_optimistic_header := header_at 210\<rparr>\<rparr>"

lemma sample_header [simp]:
  "slot (header_at s) = s" "state_root (header_at s) = replicate 32 0"
  by (simp_all add: header_at_def header_default_def)

lemma sample_root [simp]: "htr_header sample_lib h = Some (root_of_slot (slot h))"
  by (simp add: sample_lib_def)

lemma sample_bootstrap_run: "bootstrap_client sample_lib sample_server 12000 client_0 = (Ok (), client_1)"
  by (simp add: bootstrap_client_def sample_server_def client_0_def consensus_client_new_def
      sample_bootstrap_def is_valid_checkpoint_def expected_current_slot_def slot_timestamp_def
      sample_config_def config_default_def is_current_committee_proof_valid_def is_proof_valid_iff
      sample_lib_def client_1_def Let_def)

lemma sample_keys:
  "get_participating_keys sample_lib sample_committee (replicate 512 True) = Ok (replicate 512 [1])"
proof -
  have "selected (replicate n x) (replicate n True) = replicate n x" for n and x :: bytes
    by (induction n) (simp_all add: selected_def)
  then have "selected (pubkeys sample_committee) (replicate 512 True) = replicate 512 [1]"
    by (simp add: sample_committee_def)
  then show ?thesis
    by (subst get_participating_keys_eq) (simp_all add: sample_committee_def sample_lib_def traverse_Ok_iff list_all2_same)
qed

lemma sample_committee_bits: "get_bits (replicate 512 True) = 512"
proof -
  have "unat (get_bits (replicate 512 True)) = 512" by (simp add: get_bits_count)
  then show ?thesis by (simp add: word_unat_eq_iff)
qed

lemma sample_signed:
  assumes "sync_aggregate u = all_sign"
  shows "committee_signed sample_lib sample_config sample_committee u"
proof -
  have "\<exists>signing. compute_committee_sign_root sample_lib sample_config h s = Ok signing" for h s
    by (simp add: compute_committee_sign_root_def sample_config_def fork_version_def sample_fork_def
        compute_domain_def compute_fork_data_root_def compute_signing_root_def sample_lib_def
        sized_def Let_def)
  with assms sample_keys show ?thesis
    by (auto simp: committee_signed_def all_sign_def is_aggregate_valid_def sample_lib_def sized_def
        root_of_slot_def)
qed

lemma sample_configs [simp]:
  "client_config client_1 = sample_config" "client_config client_2 = sample_config"
  "initial_checkpoint client_1 = root_of_slot 96" "initial_checkpoint client_2 = root_of_slot 96"
  by (simp_all add: client_1_def client_2_def client_0_def consensus_client_new_def)

lemma sample_verified:
  assumes "sync_aggregate u = all_sign" "client_config c = sample_config"
    "st_current_sync_committee (store c) = sample_committee"
    "unat (slot (attested_header u)) < unat (signature_slot u)" "unat (signature_slot u) \<le> 1000"
    "unat (slot (st_finalized_header (store c))) < unat (slot (attested_header u))"
    "\<And>h. finalized_header u = Some h \<Longrightarrow> unat (slot h) \<le> unat (slot (attested_header u))"
    "state_root (attested_header u) = replicate 32 0"
    "next_sync_committee u = None \<or>
       next_sync_committee u = Some sample_committee \<and> next_sync_committee_branch u = Some [replicate 32 7]"
    "finality_branch u = map_option (\<lambda>h. [root_of_slot (slot h)]) (finalized_header u)"
  shows "verify_generic_update sample_lib 12000 c u = Ok ()"
proof -
  have per: "sync_period (slot (st_finalized_header (store c))) = 0" "sync_period (signature_slot u) = 0"
    using assms(4-6) by (simp_all add: sync_period_def)
  have "is_finality_proof_valid sample_lib (attested_header u) h [root_of_slot (slot h)]" for h
    using assms(8) by (simp add: is_finality_proof_valid_def is_proof_valid_iff sample_lib_def root_of_slot_def)
  moreover have "is_next_committee_proof_valid sample_lib (attested_header u) sample_committee [replicate 32 7]"
    using assms(8) by (simp add: is_next_committee_proof_valid_def is_proof_valid_iff sample_lib_def)
  ultimately have "valid_update sample_lib 12000 c u"
    unfolding valid_update_def Let_def per
    using assms sample_signed [OF assms(1)]
    by (auto simp: all_sign_def sample_config_def)
  then show ?thesis
    by (subst verify_generic_update_valid) (simp_all add: assms(1) all_sign_def)
qed

lemma sample_bits: "sync_aggregate u = all_sign \<Longrightarrow> committee_bits u = 512"
  by (simp add: committee_bits_def all_sign_def sample_committee_bits)

lemma sample_age: "s \<le> 1000 \<Longrightarrow> age sample_lib sample_config 12000 s = Ok (uint (12000 - s * 12))"
proof -
  assume "s \<le> 1000"
  then have "unat s * 12 \<le> 12000" by (simp add: word_le_nat_alt)
  then have "\<not> 12000 < s * 12" by (simp add: word_less_nat_alt unat_mult_u64)
  then show ?thesis
    by (simp add: age_def slot_timestamp_def sample_config_def sample_lib_def Let_def)
qed

lemma sample_accept_finality:
  "accept sample_lib sample_clock k (generic_from_finality_update sample_finality) client_1 = (Ok (), client_2)"
proof -
  let ?u = "generic_from_finality_update sample_finality"
  have "verify_generic_update sample_lib 12000 client_1 ?u = Ok ()"
    by (rule sample_verified)
      (simp_all add: generic_from_finality_update_def sample_finality_def client_1_def client_0_def
        consensus_client_new_def)
  moreover have "apply_generic_update sample_lib 12000 ?u client_1 = (Ok (), client_2)"
    using sample_bits [of ?u]
    by (simp add: apply_generic_update_def generic_from_finality_update_def sample_finality_def
        client_1_def client_0_def client_2_def consensus_client_new_def count_participants_def
        should_update_optimistic_def safety_threshold_def should_apply_update_def has_sync_update_def
        update_finalized_slot_def log_optimistic_update_def sample_age rotate_committees_def
        finalize_def log_finality_update_def Let_def)
  ultimately show ?thesis by (simp add: accept_def sample_clock_def)
qed

lemma sample_accept_optimistic:
  "accept sample_lib sample_clock k (generic_from_optimistic_update sample_optimistic) client_2 = (Ok (), client_3)"
proof -
  let ?u = "generic_from_optimistic_update sample_optimistic"
  have "verify_generic_update sample_lib 12000 client_2 ?u = Ok ()"
    by (rule sample_verified)
      (simp_all add: generic_from_optimistic_update_def sample_optimistic_def client_2_def client_0_def
        consensus_client_new_def)
  moreover have "apply_generic_update sample_lib 12000 ?u client_2 = (Ok (), client_3)"
    using sample_bits [of ?u]
    by (simp add: apply_generic_update_def generic_from_optimistic_update_def sample_optimistic_def
        client_2_def client_0_def client_3_def consensus_client_new_def count_participants_def
        should_update_optimistic_def safety_threshold_def should_apply_update_def has_sync_update_def
        update_finalized_slot_def log_optimistic_update_def sample_age Let_def)
  ultimately show ?thesis by (simp add: accept_def sample_clock_def)
qed

lemma sample_finality_and_optimistic:
  "accept_finality_and_optimistic sample_lib sample_server sample_clock k client_1 = (Ok (), client_3)"
  by (simp add: accept_finality_and_optimistic_eq sample_accept_finality sample_accept_optimistic)
    (simp add: sample_server_def sample_accept_finality sample_accept_optimistic)

lemma sample_sync_run: "sync sample_lib sample_server sample_clock client_0 = (Ok (), client_3)"
proof -
  have "bootstrap_client sample_lib sample_server (sample_clock 0) client_0 = (Ok (), client_1)"
    using sample_bootstrap_run by (simp add: sample_clock_def)
  moreover have "rpc_get_updates sample_server p n = Ok []" for p n by (simp add: sample_server_def)
  ultimately show ?thesis by (simp add: sync_def Let_def sample_finality_and_optimistic)
qed

lemma sample_reachable: "reachable sample_lib client_3"
  by (rule sync_reachable [OF sample_sync_run])

subsection \<open>The node\<close>

definition sample_rpc :: execution_rpc where
  "sample_rpc = \<lparr>er_get_proof = (\<lambda>_ _ _ _. Err (Message [])),
     er_create_access_list = (\<lambda>_ _. Ok []), er_get_code = (\<lambda>_ _ _. Ok []),
     er_send_raw_transaction = (\<lambda>_. Ok []), er_get_transaction_receipt = (\<lambda>_ _. Ok None),
     er_get_transaction = (\<lambda>_ _. Ok None), er_get_logs = (\<lambda>_. Ok []), er_chain_id = Ok 1,
     er_get_fee_history = (\<lambda>_ _ _. Err (Message []))\<rparr>"

definition node_0 :: node where
  "node_0 = \<lparr>consensus = client_0, node_config = sample_config, payloads = bt_new,
     finalized_payloads = bt_new, current_slot = None, history_size = 64\<rparr>"

definition node_3 :: node where
  "node_3 = \<lparr>consensus = client_3, node_config = sample_config,
     payloads = [(160, payload_at 160), (210, payload_at 210)],
     finalized_payloads = [(160, payload_at 160)], current_slot = Some 210, history_size = 64\<rparr>"

lemma sample_payload [simp]: "block_number (payload_at s) = s"
  by (simp add: payload_at_def block_number_def)

lemma sample_get_payload:
  assumes "s = 210 \<or> s = 160" "k < 3"
  shows "get_execution_payload sample_lib sample_server k client_3 (Some s) = Ok (payload_at s)"
  using assms
  by (auto simp: get_execution_payload_def sample_server_def client_3_def client_2_def sample_lib_def
      block_with_def body_of_def Let_def)

lemma link_payloads_errors: "link_payloads h (map (\<lambda>_. Err e) xs) ps = ps"
  by (induction xs) simp_all

lemma sample_backfill: "get_payloads sample_server 2 a b = Ok []"
proof -
  have "rpc_get_block sample_server 3 = (\<lambda>_. Err (Message ''no block''))"
    by (simp add: sample_server_def fun_eq_iff)
  moreover have "\<exists>blk. rpc_get_block sample_server 2 b = Ok blk" by (simp add: sample_server_def)
  ultimately show ?thesis
    by (auto simp: get_payloads_def Let_def link_payloads_errors list_ex_iff)
qed

lemma sample_update_payloads:
  "update_payloads sample_lib sample_server (node_0\<lparr>consensus := client_3\<rparr>) = (Ok (), node_3)"
proof -
  have "get_header client_3 = header_at 210" "get_finalized_header client_3 = header_at 160"
    by (simp_all add: get_header_def get_finalized_header_def client_3_def client_2_def)
  then show ?thesis
    by (simp add: update_payloads_def Let_def node_0_def sample_get_payload sample_backfill
        insert_payload_def bt_new_def bt_truncate_eq node_3_def)
qed

lemma sample_node_sync:
  "node_sync sample_lib sample_server sample_rpc sample_clock node_0 = (Ok (), node_3)"
proof -
  have "check_rpc sample_rpc 1 = Ok ()" by (simp add: check_rpc_def sample_rpc_def)
  moreover have "check_consensus_rpc sample_server client_0 = Ok ()"
    by (simp add: check_consensus_rpc_def sample_server_def client_0_def consensus_client_new_def
        sample_config_def)
  moreover have "chain_id (chain (node_config node_0)) = 1" "consensus node_0 = client_0"
    by (simp_all add: node_0_def sample_config_def)
  ultimately show ?thesis
    by (simp add: node_sync_def on_consensus_def sample_sync_run sample_update_payloads)
qed

lemma sample_node_reachable: "node_reachable sample_lib node_3"
  by (rule node_reachable.synced [OF _ _ sample_node_sync]) (simp_all add: node_0_def)

subsection \<open>Advancing\<close>

text \<open>Against the same servers an advance changes nothing: the finality update is still relevant to
  the finalised header but not newer.\<close>

lemma sample_advance: "advance sample_lib sample_server sample_clock client_3 = (Ok (), client_3)"
proof -
  let ?f = "generic_from_finality_update sample_finality"
  let ?o = "generic_from_optimistic_update sample_optimistic"
  have "verify_generic_update sample_lib 12000 client_3 ?f = Ok ()"
    by (rule sample_verified)
      (simp_all add: generic_from_finality_update_def sample_finality_def client_3_def client_2_def
        client_0_def consensus_client_new_def)
  moreover have "apply_generic_update sample_lib 12000 ?f client_3 = (Ok (), client_3)"
    using sample_bits [of ?f]
    by (simp add: apply_generic_update_def generic_from_finality_update_def sample_finality_def
        client_3_def client_2_def count_participants_def should_update_optimistic_def
        should_apply_update_def has_sync_update_def update_finalized_slot_def Let_def)
  ultimately have f: "accept sample_lib sample_clock 0 ?f client_3 = (Ok (), client_3)"
    by (simp add: accept_def sample_clock_def)
  have "verify_generic_update sample_lib 12000 client_3 ?o = Ok ()"
    by (rule sample_verified)
      (simp_all add: generic_from_optimistic_update_def sample_optimistic_def client_3_def client_2_def
        client_0_def consensus_client_new_def)
  moreover have "apply_generic_update sample_lib 12000 ?o client_3 = (Ok (), client_3)"
    using sample_bits [of ?o]
    by (simp add: apply_generic_update_def generic_from_optimistic_update_def sample_optimistic_def
        client_3_def client_2_def count_participants_def should_update_optimistic_def
        should_apply_update_def has_sync_update_def update_finalized_slot_def Let_def)
  ultimately have o: "accept sample_lib sample_clock 2 ?o client_3 = (Ok (), client_3)"
    by (simp add: accept_def sample_clock_def)
  have server: "rpc_get_finality_update sample_server = Ok sample_finality"
    "rpc_get_optimistic_update sample_server = Ok sample_optimistic" "rpc_get_updates sample_server p n = Ok []"
    for p n by (simp_all add: sample_server_def)
  have "accept_finality_and_optimistic sample_lib sample_server sample_clock 0 client_3 = (Ok (), client_3)"
    by (simp add: accept_finality_and_optimistic_eq server f o [unfolded numeral_2_eq_2] numeral_2_eq_2)
  then show ?thesis by (simp add: advance_def Let_def server)
qed

lemma sample_node_advance:
  "node_advance sample_lib sample_server sample_clock node_3 = (Ok (), node_3)"
proof -
  have "get_header client_3 = header_at 210" "get_finalized_header client_3 = header_at 160"
    by (simp_all add: get_header_def get_finalized_header_def client_3_def client_2_def)
  moreover have "consensus node_3 = client_3" by (simp add: node_3_def)
  moreover have "update_payloads sample_lib sample_server node_3 = (Ok (), node_3)"
    using calculation
    by (simp add: update_payloads_def Let_def sample_get_payload sample_backfill)
      (simp add: node_3_def insert_payload_def bt_truncate_eq)
  moreover have upd: "node_3\<lparr>consensus := client_3\<rparr> = node_3" by (simp add: node_3_def)
  ultimately show ?thesis
    by (simp add: node_advance_def on_consensus_def sample_advance upd)
qed

subsection \<open>The client\<close>

text \<open>A world in which the sample servers answer, a configuration without a checkpoint, whose
  default is the sample checkpoint, and a file system without files.\<close>

definition sample_io :: "unit fallback_io" where
  "sample_io = \<lparr>io_get_text = (\<lambda>_. Err (Message [])), io_yaml = (\<lambda>_. Err (Message [])),
     io_yaml_get = (\<lambda>_ _. None), io_yaml_services = (\<lambda>_. Err (Message [])),
     io_get_json = (\<lambda>_. Err (Message []))\<rparr>"

definition sample_world :: "(bytes, bytes, unit) world" where
  "sample_world = \<lparr>w_lib = sample_lib, w_consensus = (\<lambda>_. sample_server), w_execution = (\<lambda>_. sample_rpc),
     w_clock = (\<lambda>_. sample_clock), w_execution_rpc_new = (\<lambda>_. Ok ()),
     w_rpc_start = Ok (), w_fallback = sample_io, w_order = (\<lambda>xs. xs)\<rparr>"

definition empty_files :: file_system where
  "empty_files = \<lparr>fs_files = Map.empty, fs_create_dir = (\<lambda>_. True), fs_writable = (\<lambda>_. True),
     fs_readable = (\<lambda>_. True), fs_write_limit = None\<rparr>"

definition stored_config :: config where
  "stored_config = sample_config\<lparr>checkpoint := None\<rparr>"

definition sample_home :: file_db where
  "sample_home = \<lparr>db_data_dir = ''data'', db_default_checkpoint = root_of_slot 96\<rparr>"

definition new_client :: "bytes client" where
  "new_client = \<lparr>cl_node = node_0, cl_rpc = None, cl_db = root_of_slot 96, cl_fallback = None,
     cl_load_external_fallback = False, cl_files = empty_files\<rparr>"

lemma sample_client_new:
  "client_new sample_world config_db_ops empty_files sample_config = Ok new_client"
  by (simp add: client_new_def config_db_ops_def config_db_new_def node_new_def sample_world_def
      new_client_def node_0_def client_0_def sample_config_def config_default_def)

lemma sample_client_start:
  "client_start sample_world config_db_ops new_client = (Ok (), new_client\<lparr>cl_node := node_3\<rparr>)"
proof -
  have "client_sync sample_world 0 new_client = (Ok (), new_client\<lparr>cl_node := node_3\<rparr>)"
    by (simp add: client_sync_def sample_world_def new_client_def sample_node_sync)
  then show ?thesis
    by (simp add: client_start_def new_client_def save_last_checkpoint_def config_db_ops_def
        config_save_checkpoint_def split: option.split)
qed

text \<open>The same run for a client with a checkpoint file: it leaves the root of slot 160 there.\<close>

definition saved_files :: file_system where
  "saved_files = empty_files\<lparr>fs_files := Map.empty(''data/checkpoint'' \<mapsto> root_of_slot 160)\<rparr>"

definition file_client :: "file_db client" where
  "file_client = \<lparr>cl_node = node_3, cl_rpc = None, cl_db = sample_home, cl_fallback = None,
     cl_load_external_fallback = False, cl_files = saved_files\<rparr>"

lemma sample_main:
  "cli_main sample_world empty_files stored_config =
     Running \<lparr>cp_client = file_client, cp_counter = 0, cp_saving = False\<rparr>"
proof -
  have restore: "stored_config\<lparr>checkpoint := Some (root_of_slot 96)\<rparr> = sample_config"
    by (simp add: stored_config_def sample_config_def)
  let ?c = "\<lparr>cl_node = node_0, cl_rpc = None, cl_db = sample_home, cl_fallback = None,
     cl_load_external_fallback = False, cl_files = empty_files\<rparr>"
  have "file_db_new stored_config = Ok sample_home"
    by (simp add: file_db_new_def stored_config_def sample_config_def sample_home_def)
  moreover have "file_load_checkpoint sample_home empty_files = Ok (root_of_slot 96)"
    by (simp add: file_load_checkpoint_def empty_files_def sample_home_def)
  moreover have "node_new (w_execution_rpc_new sample_world) sample_config = Ok node_0"
    by (simp add: node_new_def sample_world_def node_0_def client_0_def sample_config_def)
  ultimately have new: "client_new sample_world file_db_ops empty_files stored_config = Ok ?c"
    by (simp add: client_new_def file_db_ops_def restore)
      (simp add: stored_config_def sample_config_def config_default_def)
  have "client_sync sample_world 0 ?c = (Ok (), ?c\<lparr>cl_node := node_3\<rparr>)"
    by (simp add: client_sync_def sample_world_def sample_node_sync)
  moreover have "get_last_checkpoint node_3 = Some (root_of_slot 160)"
    by (simp add: get_last_checkpoint_def node_3_def client_3_def client_2_def)
  moreover have "file_save_checkpoint sample_home (root_of_slot 160) empty_files = (Ok (), saved_files)"
    by (simp add: file_save_checkpoint_def empty_files_def sample_home_def checkpoint_path_def saved_files_def)
  ultimately have "client_start sample_world file_db_ops ?c = (Ok (), file_client)"
    by (simp add: client_start_def save_last_checkpoint_def file_db_ops_def file_client_def)
  then show ?thesis by (simp add: cli_main_def build_same_config new)
qed

lemma sample_deployment:
  "deployment sample_lib {sample_world} stored_config ''data''
     (Running \<lparr>cp_client = file_client, cp_counter = 0, cp_saving = False\<rparr>)"
  unfolding sample_main [symmetric]
  by (rule deployment.boot [OF deployment.installed])
    (simp_all add: empty_files_def sample_world_def)

end
