(* ===== verification/Light_Client_Quorum.thy ===== *)
theory Light_Client_Quorum
  imports Light_Client_Spec
begin

text \<open>
  Who is accountable for what a client finalises: the members that signed an update, by their
  positions in the committee, and the overlap of any two updates with a two-thirds majority.
\<close>

definition signers :: "generic_update \<Rightarrow> nat set" where
  "signers u = {i. i < length (sync_committee_bits (sync_aggregate u)) \<and> sync_committee_bits (sync_aggregate u) ! i}"

text \<open>The committee whose keys the verification of an update uses.\<close>

definition signing_committee :: "light_client_store \<Rightarrow> generic_update \<Rightarrow> sync_committee option" where
  "signing_committee s u =
     (if calc_sync_period (signature_slot u) = calc_sync_period (slot (st_finalized_header s))
      then Some (st_current_sync_committee s) else st_next_sync_committee s)"

text \<open>A member that signs has a key: every signer is a position of the committee.\<close>

lemma keys_positions:
  assumes "participating_keys_loop L com i bits pks = Ok ks" "j < length bits" "bits ! j"
  shows "i + j < length (pubkeys com)"
  using assms
proof (induction bits arbitrary: i j pks)
  case (Cons b bits)
  then obtain pks' where rest: "participating_keys_loop L com (Suc i) bits pks' = Ok ks"
    and first: "b \<Longrightarrow> i < length (pubkeys com)"
    by (auto simp: outcome_simps index_def split: if_splits)
  show ?case
  proof (cases j)
    case 0
    with Cons.prems(3) first show ?thesis by simp
  next
    case (Suc k)
    with Cons.IH [OF rest, of k] Cons.prems(2,3) show ?thesis by simp
  qed
qed simp

lemma signers_within:
  assumes "committee_signed L cfg com u"
  shows "signers u \<subseteq> {..< length (pubkeys com)}"
  using assms keys_positions [where i = 0]
  by (fastforce simp: committee_signed_def get_participating_keys_def signers_def)

lemma card_signers:
  assumes "signers u \<subseteq> {..< 512}"
  shows "card (signers u) = unat (committee_bits u)" "card (signers u) \<le> 512"
proof -
  have len: "card (signers u) = length (filter id (sync_committee_bits (sync_aggregate u)))"
    by (simp add: signers_def length_filter_conv_card)
  show le: "card (signers u) \<le> 512" using card_mono [OF _ assms] by simp
  with len show "card (signers u) = unat (committee_bits u)"
    by (simp add: committee_bits_def get_bits_of_nat unat_u64_of_nat)
qed

text \<open>Two thirds of 512 are at least 342 members; the multiplication does not wrap.\<close>

lemma majority_signers:
  assumes "signers u \<subseteq> {..< 512}" "512 * 2 \<le> committee_bits u * 3"
  shows "342 \<le> card (signers u)"
proof -
  have "unat (committee_bits u * 3) = unat (committee_bits u) * 3"
    using card_signers [OF assms(1)] by (simp add: unat_word_ariths)
  with assms(2) have "1024 \<le> unat (committee_bits u) * 3" by (simp add: word_le_nat_alt)
  then show ?thesis by (simp add: card_signers(1) [OF assms(1)])
qed

lemma quorum_overlap:
  assumes "A \<subseteq> {..< 512}" "B \<subseteq> {..< 512 :: nat}" "342 \<le> card A" "342 \<le> card B"
  shows "172 \<le> card (A \<inter> B)"
proof -
  have fin: "finite A" "finite B" using assms(1,2) finite_subset by blast+
  have "card (A \<union> B) \<le> 512" using card_mono [of "{..< 512 :: nat}" "A \<union> B"] assms(1,2) by simp
  with card_Un_Int [OF fin] assms(3,4) show ?thesis by linarith
qed

text \<open>An update that moves the finalised header of a client.\<close>

definition finalizes ::
    "('pk, 'sg) consensus_lib \<Rightarrow> consensus_client \<Rightarrow> generic_update \<Rightarrow> bool" where
  "finalizes L c u \<longleftrightarrow> (\<exists>now now' r c'. verify_generic_update L now c u = Ok () \<and>
     apply_generic_update L now' u c = (r, c') \<and>
     st_finalized_header (store c') \<noteq> st_finalized_header (store c))"

lemma finalize_changes:
  assumes "apply_generic_update L now u c = (r, c')" "st_finalized_header (store c') \<noteq> st_finalized_header (store c)"
  shows "512 * 2 \<le> committee_bits u * 3"
proof -
  let ?s2 = "optimistic_step u (count_participants u (store c))"
  from apply_generic_update_store(3-5) [OF assms(1)] assms(2) have "should_apply_update u ?s2"
    by (auto simp: next_store_def panic_stores_def Let_def split: if_splits)
  then show ?thesis by (rule should_apply_majority)
qed

lemma verified_signing_committee:
  assumes "verify_generic_update L now c u = Ok ()"
  shows "\<exists>com. signing_committee (store c) u = Some com \<and> committee_signed L (client_config c) com u"
  using assms unfolding verify_generic_update_Ok_iff Let_def committee_signed_iff signing_committee_def
  by (auto split: if_splits)

lemma finalizes_quorum:
  assumes "finalizes L c u" "signing_committee (store c) u = Some com" "length (pubkeys com) = 512"
  shows "committee_signed L (client_config c) com u" "signers u \<subseteq> {..< 512}" "342 \<le> card (signers u)"
proof -
  from assms(1,2) show signed: "committee_signed L (client_config c) com u"
    using verified_signing_committee unfolding finalizes_def by fastforce
  then show within: "signers u \<subseteq> {..< 512}" using signers_within assms(3) by metis
  from assms(1) show "342 \<le> card (signers u)"
    using majority_signers [OF within] finalize_changes unfolding finalizes_def by blast
qed

subsection \<open>Honest committees\<close>

text \<open>
  The assumption of the protocol: \<open>real p\<close> is the committee of the period \<open>p\<close>, fewer than two thirds
  of its members are dishonest, and the honest ones only sign headers of the chain, which are the
  headers of \<open>canonical\<close>.
\<close>

definition honest_committees ::
    "('pk, 'sg) consensus_lib \<Rightarrow> config \<Rightarrow> (nat \<Rightarrow> sync_committee) \<Rightarrow> (nat \<Rightarrow> nat set) \<Rightarrow> (header \<Rightarrow> bool) \<Rightarrow> bool" where
  "honest_committees L cfg real honest canonical \<longleftrightarrow>
     (\<forall>p. length (pubkeys (real p)) = 512 \<and> honest p \<subseteq> {..< 512} \<and> 171 \<le> card (honest p)) \<and>
     (\<forall>u i. committee_signed L cfg (real (sync_period (signature_slot u))) u \<longrightarrow>
        i \<in> signers u \<inter> honest (sync_period (signature_slot u)) \<longrightarrow> canonical (attested_header u))"

text \<open>
  The proofs bind: what a header of the chain proves is what the chain has, and the checkpoint names
  a header of the chain.
\<close>

definition binding_proofs ::
    "('pk, 'sg) consensus_lib \<Rightarrow> bytes \<Rightarrow> (nat \<Rightarrow> sync_committee) \<Rightarrow> (header \<Rightarrow> bool) \<Rightarrow> bool" where
  "binding_proofs L ckpt real canonical \<longleftrightarrow>
     (\<forall>h. is_anchor L ckpt h \<longrightarrow> canonical h) \<and>
     (\<forall>h com br. canonical h \<longrightarrow> is_current_committee_proof_valid L h com br \<longrightarrow> com = real (sync_period (slot h))) \<and>
     (\<forall>h com br. canonical h \<longrightarrow> is_next_committee_proof_valid L h com br \<longrightarrow> com = real (sync_period (slot h) + 1)) \<and>
     (\<forall>h f br. canonical h \<longrightarrow> is_finality_proof_valid L h f br \<longrightarrow> canonical f)"

text \<open>Every majority has an honest member.\<close>

lemma majority_honest:
  assumes "honest_committees L cfg real honest canonical"
    and "committee_signed L cfg (real (sync_period (signature_slot u))) u" "512 * 2 \<le> committee_bits u * 3"
  shows "canonical (attested_header u)"
proof -
  let ?p = "sync_period (signature_slot u)"
  have within: "signers u \<subseteq> {..< 512}" "honest ?p \<subseteq> {..< 512}" "171 \<le> card (honest ?p)"
    using assms(1) signers_within [OF assms(2)] by (auto simp: honest_committees_def)
  have "signers u \<inter> honest ?p \<noteq> {}"
  proof
    assume "signers u \<inter> honest ?p = {}"
    then have "card (signers u \<union> honest ?p) = card (signers u) + card (honest ?p)"
      using within by (intro card_Un_disjoint) (auto intro: finite_subset)
    moreover have "card (signers u \<union> honest ?p) \<le> 512"
      using card_mono [of "{..< 512 :: nat}" "signers u \<union> honest ?p"] within by simp
    ultimately show False using majority_signers [OF within(1) assms(3)] within(3) by linarith
  qed
  with assms(1,2) show ?thesis unfolding honest_committees_def by blast
qed

text \<open>So the chain of trust holds only what the real chain has.\<close>

lemma trusted_real:
  assumes "honest_committees L cfg real honest canonical" "binding_proofs L ckpt real canonical"
  shows "trusted_committee L cfg ckpt com p \<Longrightarrow> com = real p"
    and "signed_header L cfg ckpt h n \<Longrightarrow> 512 * 2 \<le> n * 3 \<Longrightarrow> canonical h"
proof (induction rule: trusted_committee_signed_header.inducts)
  case (anchor_committee h com br)
  then show ?case using assms(2) unfolding binding_proofs_def by blast
next
  case (signed com u)
  then show ?case using majority_honest [OF assms(1)] by blast
next
  case (proved_committee h n com br)
  then show ?case using assms(2) unfolding binding_proofs_def by blast
qed

lemma finalized_canonical:
  assumes "honest_committees L cfg real honest canonical" "binding_proofs L ckpt real canonical"
    "finalized_by_chain L cfg ckpt h"
  shows "canonical h"
  using assms(3) trusted_real(2) [OF assms(1,2)] assms(2)
  unfolding finalized_by_chain_def binding_proofs_def by blast

end
