(* ===== verification/Mock_Servers.thy ===== *)
theory Mock_Servers
  imports Node_Model
begin

text \<open>
  The two mock servers, which answer with the content of files below a directory
  (\<open>consensus/src/rpc/mock_rpc.rs\<close>, \<open>execution/src/rpc/mock_rpc.rs\<close>). Reading a file and parsing
  JSON are parameters.
\<close>

record consensus_json =
  json_bootstrap :: "string \<Rightarrow> (report, bootstrap) outcome"
  json_updates :: "string \<Rightarrow> (report, update list) outcome"
  json_finality_update :: "string \<Rightarrow> (report, finality_update) outcome"
  json_optimistic_update :: "string \<Rightarrow> (report, optimistic_update) outcome"
  json_block :: "string \<Rightarrow> (report, beacon_block) outcome"

definition path_join :: "string \<Rightarrow> string \<Rightarrow> string" where
  "path_join dir file = dir @ ''/'' @ file"

text \<open>The arguments of a request are ignored.\<close>

definition consensus_mock_rpc ::
    "consensus_json \<Rightarrow> (string \<Rightarrow> (report, string) outcome) \<Rightarrow> string \<Rightarrow> consensus_rpc_server" where
  "consensus_mock_rpc J read testdata =
     \<lparr>rpc_get_bootstrap = (\<lambda>_. and_then (read (path_join testdata ''bootstrap.json'')) (json_bootstrap J)),
      rpc_get_updates = (\<lambda>_ _. and_then (read (path_join testdata ''updates.json'')) (json_updates J)),
      rpc_get_finality_update =
        and_then (read (path_join testdata ''finality.json'')) (json_finality_update J),
      rpc_get_optimistic_update =
        and_then (read (path_join testdata ''optimistic.json'')) (json_optimistic_update J),
      rpc_get_block = (\<lambda>_ _. and_then (read (path_join testdata ''blocks.json'')) (json_block J)),
      rpc_consensus_chain_id = Err (Message ''not implemented'')\<rparr>"

record execution_json =
  json_proof :: "string \<Rightarrow> (report, eip1186_proof_response) outcome"
  json_receipt :: "string \<Rightarrow> (report, transaction_receipt option) outcome"
  json_transaction :: "string \<Rightarrow> (report, transaction option) outcome"
  json_logs :: "string \<Rightarrow> (report, log list) outcome"
  json_fee_history :: "string \<Rightarrow> (report, fee_history) outcome"
  json_hex_decode :: "string \<Rightarrow> bytes option"

text \<open>\<open>&code[0..code.len() - 1]\<close> drops the newline, and panics on an empty file.\<close>

definition drop_newline :: "string \<Rightarrow> ('e, string) outcome" where
  "drop_newline code = (if code = [] then Panic else Ok (butlast code))"

definition execution_mock_rpc ::
    "execution_json \<Rightarrow> (string \<Rightarrow> (report, string) outcome) \<Rightarrow> string \<Rightarrow> execution_rpc" where
  "execution_mock_rpc J read dir =
     \<lparr>er_get_proof = (\<lambda>_ _ _ _. and_then (read (path_join dir ''proof.json'')) (json_proof J)),
      er_create_access_list = (\<lambda>_ _. Err (Message ''not implemented'')),
      er_get_code = (\<lambda>_ _ _. and_then (read (path_join dir ''code.json'')) (\<lambda>code.
        and_then (drop_newline code) (hex_str_to_bytes (json_hex_decode J)))),
      er_send_raw_transaction = (\<lambda>_. Err (Message ''not implemented'')),
      er_get_transaction_receipt = (\<lambda>_ _. and_then (read (path_join dir ''receipt.json'')) (json_receipt J)),
      er_get_transaction = (\<lambda>_ _. and_then (read (path_join dir ''transaction.json'')) (json_transaction J)),
      er_get_logs = (\<lambda>_. and_then (read (path_join dir ''logs.json'')) (json_logs J)),
      er_chain_id = Err (Message ''not implemented''),
      er_get_fee_history = (\<lambda>_ _ _. and_then (read (path_join dir ''fee_history.json'')) (json_fee_history J))\<rparr>"

subsection \<open>Lemmas\<close>

text \<open>A node cannot be synced with the mock servers: they do not answer the check of the network.\<close>

lemma mock_node_sync:
  "node_sync L R (execution_mock_rpc J read dir) clk n =
     (Err (ExecutionNodeError (Message ''not implemented'')), n)"
  by (simp add: node_sync_def check_rpc_def execution_mock_rpc_def)

lemma mock_consensus_check:
  "check_consensus_rpc (consensus_mock_rpc J read dir) c = Err (Message ''not implemented'')"
  by (simp add: check_consensus_rpc_def consensus_mock_rpc_def)

text \<open>The consensus client itself can: the same sync, whatever period and count it asks for.\<close>

lemma mock_updates_any_request:
  "rpc_get_updates (consensus_mock_rpc J read dir) p n = rpc_get_updates (consensus_mock_rpc J read dir) p' n'"
  by (simp add: consensus_mock_rpc_def)

end
