(* ===== verification/Unit_Tests.thy ===== *)
theory Unit_Tests
  imports Mock_Servers
begin

text \<open>
  The unit tests of \<open>consensus/src/consensus.rs\<close>, \<open>execution/src/evm.rs\<close> and \<open>execution/src/proof.rs\<close>, as
  programs over the mock servers: a failed assertion is a panic. Each negative test tampers with
  one field of an update that verifies; the lemmas show for every such update that verification
  refuses it with the error that names the field.
\<close>

subsection \<open>Tampered updates\<close>

text \<open>The checks that come before the proofs and the signature, and the rest.\<close>

definition relevant_update :: "u64 \<Rightarrow> consensus_client \<Rightarrow> generic_update \<Rightarrow> bool" where
  "relevant_update now c u \<longleftrightarrow>
     (let s = store c; sp = calc_sync_period (slot (st_finalized_header s));
          sg = calc_sync_period (signature_slot u) in
      get_bits (sync_committee_bits (sync_aggregate u)) \<noteq> 0
      \<and> (\<exists>cur. (expected_current_slot (client_config c) now :: (report, u64) outcome) = Ok cur
            \<and> signature_slot u \<le> cur)
      \<and> slot (attested_header u) < signature_slot u
      \<and> slot (case finalized_header u of Some h \<Rightarrow> h | None \<Rightarrow> header_default) \<le> slot (attested_header u)
      \<and> (sg = sp \<or> sg = sp + 1 \<and> st_next_sync_committee s \<noteq> None)
      \<and> (slot (st_finalized_header s) < slot (attested_header u)
          \<or> st_next_sync_committee s = None \<and> next_sync_committee u \<noteq> None
             \<and> calc_sync_period (slot (attested_header u)) = sp))"

definition finality_proved :: "('pk, 'sg) consensus_lib \<Rightarrow> generic_update \<Rightarrow> bool" where
  "finality_proved L u \<longleftrightarrow> (\<forall>h br. finalized_header u = Some h \<longrightarrow> finality_branch u = Some br \<longrightarrow>
     is_finality_proof_valid L (attested_header u) h br)"

definition committee_proved :: "('pk, 'sg) consensus_lib \<Rightarrow> generic_update \<Rightarrow> bool" where
  "committee_proved L u \<longleftrightarrow> (\<forall>com br. next_sync_committee u = Some com \<longrightarrow> next_sync_committee_branch u = Some br \<longrightarrow>
     is_next_committee_proof_valid L (attested_header u) com br)"

definition signature_check ::
    "('pk, 'sg) consensus_lib \<Rightarrow> consensus_client \<Rightarrow> generic_update \<Rightarrow> (report, unit) outcome" where
  "signature_check L c u =
     and_then (if calc_sync_period (signature_slot u) = calc_sync_period (slot (st_finalized_header (store c)))
               then Ok (st_current_sync_committee (store c)) else unwrap (st_next_sync_committee (store c))) (\<lambda>committee.
     and_then (get_participating_keys L committee (sync_committee_bits (sync_aggregate u))) (\<lambda>pks.
     and_then (verify_sync_committee_signture L (client_config c) pks (attested_header u)
                 (sync_committee_signature (sync_aggregate u)) (signature_slot u)) (\<lambda>is_valid_sig.
     if \<not> is_valid_sig then Err (ConsensusReport InvalidSignature) else Ok ())))"

lemma verify_relevant:
  assumes "relevant_update now c u"
  shows "verify_generic_update L now c u =
    (if \<not> finality_proved L u then Err (ConsensusReport InvalidFinalityProof)
     else if \<not> committee_proved L u then Err (ConsensusReport InvalidNextSyncCommitteeProof)
     else signature_check L c u)"
proof -
  from assms obtain cur where cur: "(expected_current_slot (client_config c) now :: (report, u64) outcome) = Ok cur"
    "signature_slot u \<le> cur" by (auto simp: relevant_update_def Let_def)
  note facts = assms [unfolded relevant_update_def Let_def]
  have participation: "\<not> get_bits (sync_committee_bits (sync_aggregate u)) = 0" using facts by blast
  have time: "\<not> \<not> (signature_slot u \<le> cur \<and> slot (attested_header u) < signature_slot u \<and>
      slot (case finalized_header u of Some h \<Rightarrow> h | None \<Rightarrow> header_default) \<le> slot (attested_header u))"
    using facts cur(2) by blast
  have period: "\<not> \<not> (if st_next_sync_committee (store c) \<noteq> None
      then calc_sync_period (signature_slot u) = calc_sync_period (slot (st_finalized_header (store c))) \<or>
        calc_sync_period (signature_slot u) = calc_sync_period (slot (st_finalized_header (store c))) + 1
      else calc_sync_period (signature_slot u) = calc_sync_period (slot (st_finalized_header (store c))))"
    using facts by (metis (no_types, lifting))
  have relevant: "\<not> (slot (attested_header u) \<le> slot (st_finalized_header (store c)) \<and>
      \<not> (st_next_sync_committee (store c) = None \<and> next_sync_committee u \<noteq> None \<and>
         calc_sync_period (slot (attested_header u)) = calc_sync_period (slot (st_finalized_header (store c)))))"
    using facts by (metis (no_types, lifting) not_le)
  show ?thesis
    unfolding verify_generic_update_def Let_def both_given finality_proved_def [symmetric]
      committee_proved_def [symmetric] signature_check_def [symmetric] cur(1) and_then.simps
      if_not_P [OF participation] if_not_P [OF time] if_not_P [OF period] if_not_P [OF relevant] not_not ..
qed

lemma verified_relevant:
  assumes "verify_generic_update L now c u = Ok ()"
  shows "relevant_update now c u" "finality_proved L u" "committee_proved L u" "signature_check L c u = Ok ()"
proof -
  note facts = assms [unfolded verify_generic_update_Ok_iff Let_def]
  then show rel: "relevant_update now c u" unfolding relevant_update_def Let_def by blast
  show "finality_proved L u" "committee_proved L u" using facts unfolding finality_proved_def committee_proved_def by blast+
  with verify_relevant [OF rel, of L] assms show "signature_check L c u = Ok ()" by simp
qed

text \<open>A branch proves at most one leaf at a position.\<close>

definition merkle_binding :: "('pk, 'sg) consensus_lib \<Rightarrow> bool" where
  "merkle_binding L \<longleftrightarrow> (\<forall>leaf leaf' br d i root.
     is_valid_merkle_branch L leaf br d i root \<longrightarrow> is_valid_merkle_branch L leaf' br d i root \<longrightarrow> leaf = leaf')"

lemma proof_binding:
  assumes "merkle_binding L" "is_proof_valid L h leaf br d i" "is_proof_valid L h leaf' br d i"
  shows "leaf = leaf'"
  using assms unfolding is_proof_valid_iff merkle_binding_def by blast

lemma tampered_committee:
  assumes "verify_generic_update L now c u = Ok ()" "next_sync_committee u = Some com"
    and "next_sync_committee_branch u = Some br" "merkle_binding L" "htr_sync_committee L com' \<noteq> htr_sync_committee L com"
  shows "verify_generic_update L now c (u\<lparr>next_sync_committee := Some com'\<rparr>) =
    Err (ConsensusReport InvalidNextSyncCommitteeProof)"
proof -
  let ?u = "u\<lparr>next_sync_committee := Some com'\<rparr>"
  note ok = verified_relevant [OF assms(1)]
  have "relevant_update now c ?u" using ok(1) assms(2) by (simp add: relevant_update_def Let_def)
  moreover have "finality_proved L ?u" using ok(2) by (simp add: finality_proved_def)
  moreover have "\<not> committee_proved L ?u"
    using ok(3) assms(2,3) proof_binding [OF assms(4)] assms(5)
    by (auto simp: committee_proved_def is_next_committee_proof_valid_def)
  ultimately show ?thesis by (simp add: verify_relevant)
qed

lemma tampered_finality:
  assumes "verify_generic_update L now c u = Ok ()" "finalized_header u = Some h"
    and "finality_branch u = Some br" "merkle_binding L" "htr_header L h' \<noteq> htr_header L h"
    and "slot h' \<le> slot (attested_header u)"
  shows "verify_generic_update L now c (u\<lparr>finalized_header := Some h'\<rparr>) =
    Err (ConsensusReport InvalidFinalityProof)"
proof -
  let ?u = "u\<lparr>finalized_header := Some h'\<rparr>"
  note ok = verified_relevant [OF assms(1)]
  have "relevant_update now c ?u" using ok(1) assms(2,6) by (simp add: relevant_update_def Let_def)
  moreover have "\<not> finality_proved L ?u"
    using ok(2) assms(2,3) proof_binding [OF assms(4)] assms(5)
    by (auto simp: finality_proved_def is_finality_proof_valid_def)
  ultimately show ?thesis by (simp add: verify_relevant)
qed

text \<open>A finalised header after the attested one is refused before its proof is looked at.\<close>

lemma late_finality:
  assumes "verify_generic_update L now c u = Ok ()" "slot (attested_header u) < slot h'"
  shows "verify_generic_update L now c (u\<lparr>finalized_header := Some h'\<rparr>) = Err (ConsensusReport InvalidTimestamp)"
proof -
  note facts = verified_relevant(1) [OF assms(1), unfolded relevant_update_def Let_def]
  from facts obtain cur where
    "(expected_current_slot (client_config c) now :: (report, u64) outcome) = Ok cur" by blast
  moreover have "get_bits (sync_committee_bits (sync_aggregate u)) \<noteq> 0" using facts by blast
  moreover have "\<not> slot h' \<le> slot (attested_header u)" using assms(2) by simp
  ultimately show ?thesis by (simp add: verify_generic_update_def)
qed

text \<open>With another signature only the signature check counts.\<close>

lemma replaced_signature:
  assumes "verify_generic_update L now c u = Ok ()"
  shows "verify_generic_update L now c (u\<lparr>sync_aggregate := (sync_aggregate u)\<lparr>sync_committee_signature := sig\<rparr>\<rparr>) =
    signature_check L c (u\<lparr>sync_aggregate := (sync_aggregate u)\<lparr>sync_committee_signature := sig\<rparr>\<rparr>)"
proof -
  note ok = verified_relevant [OF assms(1)]
  let ?u = "u\<lparr>sync_aggregate := (sync_aggregate u)\<lparr>sync_committee_signature := sig\<rparr>\<rparr>"
  have "relevant_update now c ?u" using ok(1) by (simp add: relevant_update_def Let_def)
  moreover have "finality_proved L ?u" "committee_proved L ?u"
    using ok(2,3) by (simp_all add: finality_proved_def committee_proved_def)
  ultimately show ?thesis by (simp add: verify_relevant)
qed

text \<open>The message and the keys are those of the update that verified.\<close>

lemma replaced_signature_check:
  assumes "signature_check L c u = Ok ()"
  obtains com where
    "(if calc_sync_period (signature_slot u) = calc_sync_period (slot (st_finalized_header (store c)))
      then Some (st_current_sync_committee (store c)) else st_next_sync_committee (store c)) = Some com"
    "\<And>sig u'. u' = u\<lparr>sync_aggregate := (sync_aggregate u)\<lparr>sync_committee_signature := sig\<rparr>\<rparr> \<Longrightarrow>
       signature_check L c u' = (if committee_signed L (client_config c) com u' then Ok ()
         else Err (ConsensusReport InvalidSignature))"
proof -
  from assms obtain com pks where com:
    "(if calc_sync_period (signature_slot u) = calc_sync_period (slot (st_finalized_header (store c)))
      then Ok (st_current_sync_committee (store c)) else unwrap (st_next_sync_committee (store c))) =
      (Ok com :: (report, sync_committee) outcome)"
    and pks: "get_participating_keys L com (sync_committee_bits (sync_aggregate u)) = Ok pks"
    and sig: "verify_sync_committee_signture L (client_config c) pks (attested_header u)
       (sync_committee_signature (sync_aggregate u)) (signature_slot u) = Ok True"
    by (auto simp: signature_check_def outcome_simps split: if_splits)
  have "(if calc_sync_period (signature_slot u) = calc_sync_period (slot (st_finalized_header (store c)))
      then Some (st_current_sync_committee (store c)) else st_next_sync_committee (store c)) = Some com"
    using com by (cases "st_next_sync_committee (store c)") (auto split: if_splits)
  moreover have "signature_check L c u' = (if committee_signed L (client_config c) com u' then Ok ()
         else Err (ConsensusReport InvalidSignature))"
    if "u' = u\<lparr>sync_aggregate := (sync_aggregate u)\<lparr>sync_committee_signature := s\<rparr>\<rparr>" for u' s
  proof -
    from sig obtain root hdr signing where "htr_header L (attested_header u) = Some root"
      "vector_from_iter L 32 root = Some hdr"
      "compute_committee_sign_root L (client_config c) hdr (signature_slot u) = Ok signing"
      by (auto simp: verify_signature_Ok_True_iff)
    with that com pks show ?thesis
      by (simp add: signature_check_def committee_signed_def verify_sync_committee_signture_def)
  qed
  ultimately show thesis by (rule that)
qed

lemma tampered_signature:
  assumes "verify_generic_update L now c u = Ok ()" "\<And>m pks. \<not> is_aggregate_valid L sig m pks"
  shows "verify_generic_update L now c (u\<lparr>sync_aggregate := (sync_aggregate u)\<lparr>sync_committee_signature := sig\<rparr>\<rparr>) =
    Err (ConsensusReport InvalidSignature)"
proof -
  from replaced_signature_check [OF verified_relevant(4) [OF assms(1)]] obtain com where
    "\<And>s u'. u' = u\<lparr>sync_aggregate := (sync_aggregate u)\<lparr>sync_committee_signature := s\<rparr>\<rparr> \<Longrightarrow>
       signature_check L c u' = (if committee_signed L (client_config c) com u' then Ok ()
         else Err (ConsensusReport InvalidSignature))" by blast
  from this [OF refl, of sig] assms(2) show ?thesis
    by (simp add: replaced_signature [OF assms(1)] committee_signed_def)
qed

subsection \<open>The tests of the consensus client\<close>

text \<open>What \<open>.err().unwrap()\<close> and the comparison of the messages assert.\<close>

fun assert_err :: "report \<Rightarrow> (report, 'a) outcome \<Rightarrow> ('e, unit) outcome" where
  "assert_err e (Err e') = (if e' = e then Ok () else Panic)"
| "assert_err e _ = Panic"

record ('pk, 'sg) test_world =
  tw_lib :: "('pk, 'sg) consensus_lib"
  tw_json :: consensus_json
  tw_read :: "string \<Rightarrow> (report, string) outcome"
  tw_boot_clock :: u64
  tw_sync_clock :: "nat \<Rightarrow> u64"
  tw_now :: u64

definition tw_rpc :: "('pk, 'sg) test_world \<Rightarrow> consensus_rpc_server" where
  "tw_rpc T = consensus_mock_rpc (tw_json T) (tw_read T) ''testdata/''"

definition get_test_client ::
    "('pk, 'sg) test_world \<Rightarrow> bool \<Rightarrow> (report, consensus_client) outcome" where
  "get_test_client T strict =
     and_then (goerli (hex_decode (tw_lib T))) (\<lambda>base.
     let cfg = config_default\<lparr>consensus_rpc := [], execution_rpc := [], chain := bc_chain base,
           forks := bc_forks base, strict_checkpoint_age := strict\<rparr> in
     and_then (unwrap (hex_decode (tw_lib T)
       ''1e591af1e90f2db918b2a132991c7c2ee9a4ab26da496bd6e71e4f0bd65ea870'')) (\<lambda>ckpt.
     case bootstrap_client (tw_lib T) (tw_rpc T) (tw_boot_clock T) (consensus_client_new ckpt cfg) of
       (r, client) \<Rightarrow> and_then (unwrap_ok r) (\<lambda>_. Ok client)))"

text \<open>A bootstrapped client and the first update, and a synced client, as the tests begin.\<close>

definition with_update ::
    "('pk, 'sg) test_world \<Rightarrow> (consensus_client \<Rightarrow> update \<Rightarrow> (report, unit) outcome) \<Rightarrow> (report, unit) outcome" where
  "with_update T check =
     and_then (get_test_client T False) (\<lambda>client.
     and_then (unwrap_ok (rpc_get_updates (tw_rpc T)
       (calc_sync_period (slot (st_finalized_header (store client)))) MAX_REQUEST_LIGHT_CLIENT_UPDATES)) (\<lambda>updates.
     and_then (index updates 0) (\<lambda>update. check client update)))"

definition with_synced ::
    "('pk, 'sg) test_world \<Rightarrow> (consensus_client \<Rightarrow> (report, unit) outcome) \<Rightarrow> (report, unit) outcome" where
  "with_synced T check =
     and_then (get_test_client T False) (\<lambda>client.
     case sync (tw_lib T) (tw_rpc T) (tw_sync_clock T) client of
       (r, client) \<Rightarrow> and_then (unwrap_ok r) (\<lambda>_. check client))"

definition test_verify_update :: "('pk, 'sg) test_world \<Rightarrow> (report, unit) outcome" where
  "test_verify_update T = with_update T (\<lambda>client update.
     unwrap_ok (verify_update (tw_lib T) (tw_now T) client update))"

text \<open>\<open>pubkeys[0]\<close> becomes 48 zero bytes; the assignment panics on an empty vector.\<close>

definition test_verify_update_invalid_committee :: "('pk, 'sg) test_world \<Rightarrow> (report, unit) outcome" where
  "test_verify_update_invalid_committee T = with_update T (\<lambda>client update.
     let com = up_next_sync_committee update in
     and_then (index (pubkeys com) 0) (\<lambda>_.
     let update = update\<lparr>up_next_sync_committee := com\<lparr>pubkeys := (pubkeys com)[0 := replicate 48 0]\<rparr>\<rparr> in
     assert_err (ConsensusReport InvalidNextSyncCommitteeProof)
       (verify_update (tw_lib T) (tw_now T) client update)))"

definition test_verify_update_invalid_finality :: "('pk, 'sg) test_world \<Rightarrow> (report, unit) outcome" where
  "test_verify_update_invalid_finality T = with_update T (\<lambda>client update.
     let update = update\<lparr>up_finalized_header := header_default\<rparr> in
     assert_err (ConsensusReport InvalidFinalityProof)
       (verify_update (tw_lib T) (tw_now T) client update))"

definition test_verify_update_invalid_sig :: "('pk, 'sg) test_world \<Rightarrow> (report, unit) outcome" where
  "test_verify_update_invalid_sig T = with_update T (\<lambda>client update.
     let update = update\<lparr>up_sync_aggregate :=
           (up_sync_aggregate update)\<lparr>sync_committee_signature := replicate 96 0\<rparr>\<rparr> in
     assert_err (ConsensusReport InvalidSignature)
       (verify_update (tw_lib T) (tw_now T) client update))"

definition test_verify_finality :: "('pk, 'sg) test_world \<Rightarrow> (report, unit) outcome" where
  "test_verify_finality T = with_synced T (\<lambda>client.
     and_then (unwrap_ok (rpc_get_finality_update (tw_rpc T))) (\<lambda>update.
     unwrap_ok (verify_finality_update (tw_lib T) (tw_now T) client update)))"

definition test_verify_finality_invalid_finality :: "('pk, 'sg) test_world \<Rightarrow> (report, unit) outcome" where
  "test_verify_finality_invalid_finality T = with_synced T (\<lambda>client.
     and_then (unwrap_ok (rpc_get_finality_update (tw_rpc T))) (\<lambda>update.
     let update = update\<lparr>fu_finalized_header := header_default\<rparr> in
     assert_err (ConsensusReport InvalidFinalityProof)
       (verify_finality_update (tw_lib T) (tw_now T) client update)))"

definition test_verify_finality_invalid_sig :: "('pk, 'sg) test_world \<Rightarrow> (report, unit) outcome" where
  "test_verify_finality_invalid_sig T = with_synced T (\<lambda>client.
     and_then (unwrap_ok (rpc_get_finality_update (tw_rpc T))) (\<lambda>update.
     let update = update\<lparr>fu_sync_aggregate :=
           (fu_sync_aggregate update)\<lparr>sync_committee_signature := replicate 96 0\<rparr>\<rparr> in
     assert_err (ConsensusReport InvalidSignature)
       (verify_finality_update (tw_lib T) (tw_now T) client update)))"

definition test_verify_optimistic :: "('pk, 'sg) test_world \<Rightarrow> (report, unit) outcome" where
  "test_verify_optimistic T = with_synced T (\<lambda>client.
     and_then (unwrap_ok (rpc_get_optimistic_update (tw_rpc T))) (\<lambda>update.
     unwrap_ok (verify_optimistic_update (tw_lib T) (tw_now T) client update)))"

definition test_verify_optimistic_invalid_sig :: "('pk, 'sg) test_world \<Rightarrow> (report, unit) outcome" where
  "test_verify_optimistic_invalid_sig T = with_synced T (\<lambda>client.
     and_then (unwrap_ok (rpc_get_optimistic_update (tw_rpc T))) (\<lambda>update.
     let update = update\<lparr>ou_sync_aggregate :=
           (ou_sync_aggregate update)\<lparr>sync_committee_signature := replicate 96 0\<rparr>\<rparr> in
     assert_err (ConsensusReport InvalidSignature)
       (verify_optimistic_update (tw_lib T) (tw_now T) client update)))"

text \<open>\<open>#[should_panic]\<close>: the test passes where this panics.\<close>

definition test_verify_checkpoint_age_invalid :: "('pk, 'sg) test_world \<Rightarrow> (report, unit) outcome" where
  "test_verify_checkpoint_age_invalid T = and_then (get_test_client T True) (\<lambda>_. Ok ())"

subsection \<open>What the tests establish\<close>

text \<open>
  Where the test of a valid update passes, its three negative tests pass as well: the proofs bind,
  the tampered containers have other roots, and no key signs with a signature of zeros.
\<close>

lemma with_update_Ok:
  "with_update T check = Ok () \<longleftrightarrow>
     (\<exists>client updates update. get_test_client T False = Ok client \<and>
        rpc_get_updates (tw_rpc T) (calc_sync_period (slot (st_finalized_header (store client))))
          MAX_REQUEST_LIGHT_CLIENT_UPDATES = Ok updates \<and>
        index updates 0 = (Ok update :: (report, update) outcome) \<and> check client update = Ok ())"
  by (auto simp: with_update_def outcome_simps)

lemma negative_update_tests:
  assumes "test_verify_update T = Ok ()" "merkle_binding (tw_lib T)"
    and "\<And>m pks. \<not> is_aggregate_valid (tw_lib T) (replicate 96 0) m pks"
    and other: "\<And>client updates update. get_test_client T False = Ok client \<Longrightarrow>
      rpc_get_updates (tw_rpc T) (calc_sync_period (slot (st_finalized_header (store client))))
        MAX_REQUEST_LIGHT_CLIENT_UPDATES = Ok updates \<Longrightarrow> index updates 0 = (Ok update :: (report, update) outcome) \<Longrightarrow>
      pubkeys (up_next_sync_committee update) \<noteq> [] \<and>
      htr_sync_committee (tw_lib T) ((up_next_sync_committee update)\<lparr>pubkeys :=
        (pubkeys (up_next_sync_committee update))[0 := replicate 48 0]\<rparr>) \<noteq>
        htr_sync_committee (tw_lib T) (up_next_sync_committee update) \<and>
      htr_header (tw_lib T) header_default \<noteq> htr_header (tw_lib T) (up_finalized_header update)"
  shows "test_verify_update_invalid_committee T = Ok ()" "test_verify_update_invalid_finality T = Ok ()"
    "test_verify_update_invalid_sig T = Ok ()"
proof -
  from assms(1) obtain client updates update where run: "get_test_client T False = Ok client"
    "rpc_get_updates (tw_rpc T) (calc_sync_period (slot (st_finalized_header (store client))))
       MAX_REQUEST_LIGHT_CLIENT_UPDATES = Ok updates" "index updates 0 = (Ok update :: (report, update) outcome)"
    and "verify_update (tw_lib T) (tw_now T) client update = Ok ()"
    by (auto simp: test_verify_update_def with_update_Ok outcome_simps)
  then have ok: "verify_generic_update (tw_lib T) (tw_now T) client (generic_from_update update) = Ok ()"
    by (simp add: verify_update_def)
  note fields = generic_from_update_def verify_update_def
  let ?com = "(up_next_sync_committee update)\<lparr>pubkeys := (pubkeys (up_next_sync_committee update))[0 := replicate 48 0]\<rparr>"
  from tampered_committee [OF ok, of "up_next_sync_committee update" "up_next_sync_committee_branch update" ?com]
    assms(2) other [OF run]
  have "verify_update (tw_lib T) (tw_now T) client (update\<lparr>up_next_sync_committee := ?com\<rparr>) =
      Err (ConsensusReport InvalidNextSyncCommitteeProof)" by (simp add: fields)
  with run other [OF run] show "test_verify_update_invalid_committee T = Ok ()"
    by (auto simp: test_verify_update_invalid_committee_def with_update_Ok index_def Let_def)
  from tampered_finality [OF ok, of "up_finalized_header update" "up_finality_branch update" header_default]
    assms(2) other [OF run]
  have "verify_update (tw_lib T) (tw_now T) client (update\<lparr>up_finalized_header := header_default\<rparr>) =
      Err (ConsensusReport InvalidFinalityProof)" by (simp add: fields header_default_def)
  with run show "test_verify_update_invalid_finality T = Ok ()"
    by (auto simp: test_verify_update_invalid_finality_def with_update_Ok Let_def)
  from tampered_signature [OF ok assms(3)]
  have "verify_update (tw_lib T) (tw_now T) client (update\<lparr>up_sync_aggregate :=
      (up_sync_aggregate update)\<lparr>sync_committee_signature := replicate 96 0\<rparr>\<rparr>) =
      Err (ConsensusReport InvalidSignature)" by (simp add: fields)
  with run show "test_verify_update_invalid_sig T = Ok ()"
    by (auto simp: test_verify_update_invalid_sig_def with_update_Ok Let_def)
qed

text \<open>
  The test of an old checkpoint panics whatever the files and the clock are: the default
  configuration has the maximal age zero, and no checkpoint is younger.
\<close>

lemma strict_test_client: "get_test_client T True \<noteq> Ok client"
proof
  assume "get_test_client T True = Ok client"
  then obtain base :: base_config and ckpt where run: "(case bootstrap_client (tw_lib T) (tw_rpc T) (tw_boot_clock T)
      (consensus_client_new ckpt (config_default\<lparr>consensus_rpc := [], execution_rpc := [], chain := bc_chain base,
         forks := bc_forks base, strict_checkpoint_age := True\<rparr>)) of
      (r, client) \<Rightarrow> and_then (unwrap_ok r) (\<lambda>_. Ok client)) = (Ok client :: (report, consensus_client) outcome)"
    unfolding get_test_client_def Let_def and_then_Ok_iff by blast
  define cfg where "cfg = config_default\<lparr>consensus_rpc := [], execution_rpc := [], chain := bc_chain base,
    forks := bc_forks base, strict_checkpoint_age := True\<rparr>"
  have cfg: "max_checkpoint_age cfg = 0" "strict_checkpoint_age cfg" by (simp_all add: cfg_def config_default_def)
  have boot: "bootstrap_client (tw_lib T) (tw_rpc T) (tw_boot_clock T) (consensus_client_new ckpt cfg) = (Ok (), client)"
    using run unfolding cfg_def [symmetric] by (auto simp: outcome_simps split: prod.splits)
  from boot cfg show False
    by (auto simp: bootstrap_client_def consensus_client_new_def is_valid_checkpoint_def Let_def outcome_simps
        split: if_splits)
qed

subsection \<open>The tests of the execution crate\<close>

definition test_shared_prefix_length :: "('e, unit) outcome" where
  "test_shared_prefix_length =
     (let path = [0x12, 0x13, 0x14, 0x6f, 0x6c, 0x64, 0x21] in
      and_then (shared_prefix_length path 6 [0x6f, 0x6c, 0x63, 0x21]) (\<lambda>shared_len.
      if shared_len \<noteq> 5 then Panic
      else and_then (shared_prefix_length path 5 [0x14, 0x6f, 0x6c, 0x64, 0x11]) (\<lambda>shared_len.
      if shared_len \<noteq> 7 then Panic else Ok ())))"

lemma test_shared_prefix_length_passes: "test_shared_prefix_length = Ok ()"
  by (simp add: test_shared_prefix_length_def shared_prefix_length_def skip_length_def get_nibble_def index_def
      Let_def upt_rec)

text \<open>
  The database of the EVM with an account that was fetched without slots: the slot is requested again,
  from the mock server. \<open>from_iter\<close> makes the state root of the bytes.
\<close>

definition test_proof_db ::
    "evm_lib \<Rightarrow> execution_json \<Rightarrow> (string \<Rightarrow> (report, string) outcome) \<Rightarrow> (string \<Rightarrow> address option) \<Rightarrow>
     (bytes \<Rightarrow> bytes option) \<Rightarrow> (report, unit) outcome" where
  "test_proof_db V J read address_from_str from_iter =
     (let rpc = execution_mock_rpc J read ''testdata/'' in
      and_then (unwrap (address_from_str ''14f9D4aF749609c1438528C0Cce1cC3f6D411c47'')) (\<lambda>address.
      and_then (unwrap_ok (hex_str_to_bytes (json_hex_decode J)
        ''0xaa02f5db2ee75e3da400d10f3c30e894b6016ce8a2501680380a907b6674ce0d'')) (\<lambda>root_bytes.
      and_then (unwrap (from_iter root_bytes)) (\<lambda>root.
      let payload = PayloadBellatrix (payload_bellatrix_default\<lparr>ep_state_root := root\<rparr>);
          payloads = bt_insert 7530933 payload bt_new;
          proof_db = proof_db_new rpc payload payloads;
          sl = 1337 in
      and_then (unwrap_ok (hex_str_to_bytes (json_hex_decode J) ''0x'')) (\<lambda>code.
      let account = account_default\<lparr>ac_balance := 100, ac_code := code\<rparr>;
          proof_db = set_accounts [address \<mapsto> account] proof_db in
      assert_err (SlotNotFoundError (vl_h256_from_uint V sl)) (storage V proof_db [] address sl))))))"

text \<open>It passes exactly where the mock server's account verifies without the slot (or the server gives this error itself).\<close>

lemma test_proof_db_iff:
  assumes "address_from_str ''14f9D4aF749609c1438528C0Cce1cC3f6D411c47'' = Some address"
    and "hex_str_to_bytes (json_hex_decode J) ''0xaa02f5db2ee75e3da400d10f3c30e894b6016ce8a2501680380a907b6674ce0d'' = Ok b"
    and "from_iter b = Some root" "hex_str_to_bytes (json_hex_decode J) ''0x'' = Ok code"
    and "fetched = get_account (vl_execution V) (execution_mock_rpc J read ''testdata/'') [] address
      (Some [vl_h256_from_uint V 1337]) (PayloadBellatrix (payload_bellatrix_default\<lparr>ep_state_root := root\<rparr>))"
  shows "test_proof_db V J read address_from_str from_iter = Ok () \<longleftrightarrow>
    (\<exists>acc. fetched = Ok acc \<and> ac_slots acc (vl_h256_from_uint V 1337) = None) \<or>
    fetched = Err (SlotNotFoundError (vl_h256_from_uint V 1337))"
proof -
  let ?sl = "vl_h256_from_uint V 1337"
  have "test_proof_db V J read address_from_str from_iter =
      assert_err (SlotNotFoundError ?sl) (and_then fetched (\<lambda>acc.
        ok_or (SlotNotFoundError ?sl) (ac_slots acc ?sl)))"
    using assms(1-4) unfolding assms(5)
    by (simp add: test_proof_db_def storage_def db_get_account_def set_accounts_def proof_db_new_def
        account_default_def Let_def)
  moreover have "assert_err e (ok_or e m) = (Ok () :: (report, unit) outcome) \<longleftrightarrow> m = None" for e and m :: "u256 option"
    by (cases m) auto
  ultimately show ?thesis by (cases fetched) auto
qed

end
