(* ===== verification/Consensus_Properties.thy ===== *)
theory Consensus_Properties
  imports Sample_Chain Light_Client_Quorum Unit_Tests
begin

text \<open>
  The properties of the consensus client: what a sync and an advance establish whatever the
  servers answer, what verification accepts, how application moves the store, and the slot clock.
\<close>

subsection \<open>Trust\<close>



text \<open>C2: Advancing a client that synced keeps this, whether the call succeeds, fails or panics half-way,
  and never moves the finalised or the optimistic header back. Only a panic can leave the optimistic
  header behind the finalised one.\<close>

theorem advance_keeps_trust:
  assumes "reachable L c" "advance L R clk c = (r, c')"
  shows "store_trusted L (client_config c) (initial_checkpoint c) (store c') \<and>
    slot (st_finalized_header (store c)) \<le> slot (st_finalized_header (store c')) \<and>
    slot (st_optimistic_header (store c)) \<le> slot (st_optimistic_header (store c')) \<and>
    (headers_ordered (store c) \<and> r \<noteq> Panic \<longrightarrow> headers_ordered (store c'))"
  using advance_reachable [OF assms] reachable_trusted [of L c'] advance_headers_ordered [OF assms(2)]
  by (auto simp: later_def)

theorem advance_keeps_trust_witness:
  "store_trusted sample_lib sample_config (root_of_slot 96)
     (store (snd (advance sample_lib sample_server sample_clock client_3)))"
  using advance_keeps_trust [OF sample_reachable, of sample_server sample_clock
      "fst (advance sample_lib sample_server sample_clock client_3)"
      "snd (advance sample_lib sample_server sample_clock client_3)"]
  by (simp add: client_3_def)

text \<open>C20: A client boots exactly where the server's header hashes to the checkpoint, the
  committee is proved by that header, and the checkpoint is recent enough where the strict age
  check is on; the store is then the one of the bootstrap.\<close>

theorem bootstrap_client_correct:
  "bootstrap_client L R now c = (Ok (), c') \<longleftrightarrow>
     (\<exists>bs root recent. rpc_get_bootstrap R (initial_checkpoint c) = Ok bs \<and>
        (is_valid_checkpoint (client_config c) now (slot (bs_header bs)) :: (report, bool) outcome) = Ok recent \<and>
        (recent \<or> \<not> strict_checkpoint_age (client_config c)) \<and>
        htr_header L (bs_header bs) = Some root \<and>
        node_to_string L root = ''0x'' @ hex_encode L (initial_checkpoint c) \<and>
        is_current_committee_proof_valid L (bs_header bs) (bs_current_sync_committee bs)
          (bs_current_sync_committee_branch bs) \<and>
        c' = c\<lparr>store :=
          \<lparr>st_finalized_header = bs_header bs, st_current_sync_committee = bs_current_sync_committee bs,
           st_next_sync_committee = None, st_optimistic_header = bs_header bs,
           previous_max_active_participants = 0, current_max_active_participants = 0\<rparr>\<rparr>)"
    (is "?run \<longleftrightarrow> ?spec")
proof
  assume ?run
  then show ?spec by (auto simp: bootstrap_client_def Let_def outcome_simps split: if_splits)
next
  assume ?spec
  then show ?run by (elim exE conjE) (simp add: bootstrap_client_def Let_def)
qed

theorem bootstrap_client_correct_witness:
  "\<exists>bs. rpc_get_bootstrap sample_server (root_of_slot 96) = Ok bs \<and>
     is_current_committee_proof_valid sample_lib (bs_header bs) (bs_current_sync_committee bs)
       (bs_current_sync_committee_branch bs) \<and> st_finalized_header (store client_1) = bs_header bs"
proof -
  have "initial_checkpoint client_0 = root_of_slot 96" by (simp add: client_0_def consensus_client_new_def)
  moreover obtain bs where "rpc_get_bootstrap sample_server (initial_checkpoint client_0) = Ok bs"
    and "is_current_committee_proof_valid sample_lib (bs_header bs) (bs_current_sync_committee bs)
       (bs_current_sync_committee_branch bs)" and client: "client_1 = client_0\<lparr>store :=
          \<lparr>st_finalized_header = bs_header bs, st_current_sync_committee = bs_current_sync_committee bs,
           st_next_sync_committee = None, st_optimistic_header = bs_header bs,
           previous_max_active_participants = 0, current_max_active_participants = 0\<rparr>\<rparr>"
    using bootstrap_client_correct [of sample_lib sample_server 12000 client_0 client_1] sample_bootstrap_run
    by blast
  moreover have "st_finalized_header (store client_1) = bs_header bs" unfolding client by simp
  ultimately show ?thesis by auto
qed

subsection \<open>Honest and accountable committees\<close>

text \<open>C4: Where fewer than two thirds of each real committee are dishonest, honest members only sign
  headers of the chain, and the proofs in such headers bind: a node that synced and advances,
  against any servers, only ever has a finalised header of the chain, and the real committees of
  its period and of the next.\<close>

theorem node_follows_chain:
  assumes "node_reachable L n" "honest_committees L (client_config (consensus n)) real honest canonical"
    and "binding_proofs L (initial_checkpoint (consensus n)) real canonical"
  shows "canonical (st_finalized_header (store (consensus n))) \<and>
    st_current_sync_committee (store (consensus n)) = real (sync_period (slot (st_finalized_header (store (consensus n))))) \<and>
    (\<forall>com. st_next_sync_committee (store (consensus n)) = Some com \<longrightarrow>
       com = real (sync_period (slot (st_finalized_header (store (consensus n)))) + 1))"
proof -
  have "reachable L (consensus n)" using node_reachable_inv [OF assms(1)] by (simp add: node_inv_def)
  from reachable_trusted [OF this] finalized_canonical [OF assms(2,3)] trusted_real(1) [OF assms(2,3)]
  show ?thesis unfolding store_trusted_def by blast
qed

theorem node_follows_chain_witness:
  "st_current_sync_committee (store (consensus node_3)) = sample_committee \<and>
   st_finalized_header (store (consensus node_3)) = header_at 160"
proof -
  let ?real = "\<lambda>_. sample_committee" and ?chain = "\<lambda>_. True"
  have bind: "com = sample_committee"
    if "is_proof_valid sample_lib h (htr_sync_committee sample_lib com) br 5 i" for h com br i
    using that by (auto simp: is_proof_valid_iff sample_lib_def split: if_splits)
  have "honest_committees sample_lib (client_config (consensus node_3)) ?real (\<lambda>_. {..< 512}) ?chain"
    by (simp add: honest_committees_def sample_committee_def)
  moreover have "binding_proofs sample_lib (initial_checkpoint (consensus node_3)) ?real ?chain"
    using bind by (simp add: binding_proofs_def is_current_committee_proof_valid_def is_next_committee_proof_valid_def)
  ultimately show ?thesis
    using node_follows_chain [OF sample_node_reachable] by (simp add: node_3_def client_3_def client_2_def)
qed

text \<open>C12: Two clients that finalise under the same committee, at any times and from any servers, blame
  at least 172 of its 512 members, a third, for both: these signed both attested headers.\<close>

theorem finality_accountable:
  assumes "finalizes L c u" "finalizes L c' u'" "signing_committee (store c) u = Some com"
    and "signing_committee (store c') u' = Some com" "length (pubkeys com) = 512"
  shows "172 \<le> card (signers u \<inter> signers u') \<and>
    committee_signed L (client_config c) com u \<and> committee_signed L (client_config c') com u'"
  using finalizes_quorum [OF assms(1,3,5)] finalizes_quorum [OF assms(2,4,5)] quorum_overlap by blast

theorem finality_accountable_witness:
  "172 \<le> card (signers (generic_from_finality_update sample_finality) \<inter>
     signers (generic_from_finality_update sample_finality))"
proof -
  let ?u = "generic_from_finality_update sample_finality"
  have "verify_generic_update sample_lib 12000 client_1 ?u = Ok ()"
    by (rule sample_verified)
      (simp_all add: generic_from_finality_update_def sample_finality_def client_1_def client_0_def
        consensus_client_new_def)
  moreover have "apply_generic_update sample_lib 12000 ?u client_1 = (Ok (), client_2)"
    using sample_accept_finality [of 0]
    by (cases rule: accept_cases [of sample_lib sample_clock 0 client_1 ?u]) (auto simp: sample_clock_def)
  moreover have "st_finalized_header (store client_2) \<noteq> st_finalized_header (store client_1)"
    by (auto simp: client_2_def client_1_def client_0_def dest: arg_cong [where f = slot])
  ultimately have fin: "finalizes sample_lib client_1 ?u" unfolding finalizes_def by blast
  have "signing_committee (store client_1) ?u = Some sample_committee"
    by (simp add: signing_committee_def client_1_def generic_from_finality_update_def sample_finality_def
        calc_sync_period_def)
  from finality_accountable [OF fin fin this this] show ?thesis by (simp add: sample_committee_def)
qed

subsection \<open>Verification and application\<close>

text \<open>C9: Verification accepts exactly the updates that satisfy the declarative specification:
  somebody signed, the slots are in order and not in the future, the signature period is the
  current one or the next with a known committee, the update is relevant, its proofs hold, and
  the selected keys of the right committee signed the attested header.\<close>

theorem verify_generic_update_correct:
  assumes "length (sync_committee_bits (sync_aggregate u)) = 512"
  shows "verify_generic_update L now c u = Ok () \<longleftrightarrow> valid_update L now c u"
  by (rule verify_generic_update_valid [OF assms])

theorem verify_generic_update_correct_witness:
  "valid_update sample_lib 12000 client_1 (generic_from_finality_update sample_finality)"
proof -
  have "verify_generic_update sample_lib 12000 client_1 (generic_from_finality_update sample_finality) = Ok ()"
    by (rule sample_verified)
      (simp_all add: generic_from_finality_update_def sample_finality_def client_1_def client_0_def
        consensus_client_new_def)
  then show ?thesis
    using verify_generic_update_correct
      [of "generic_from_finality_update sample_finality" sample_lib 12000 client_1]
    by (simp add: generic_from_finality_update_def sample_finality_def all_sign_def)
qed

text \<open>C10: A valid update is refused when its next committee or its finalised header is replaced by one
  with another root, and the error names the part; a header after the attested one is refused by
  its time. With another signature it is accepted exactly where the same committee signed with
  that, and otherwise refused as an invalid signature. (A Merkle branch proves at most one leaf.)\<close>

theorem tampered_update_refused:
  assumes "verify_update L now c u = Ok ()" "merkle_binding L"
  shows "(htr_sync_committee L com \<noteq> htr_sync_committee L (up_next_sync_committee u) \<longrightarrow>
      verify_update L now c (u\<lparr>up_next_sync_committee := com\<rparr>) = Err (ConsensusReport InvalidNextSyncCommitteeProof)) \<and>
    (htr_header L h \<noteq> htr_header L (up_finalized_header u) \<longrightarrow>
      verify_update L now c (u\<lparr>up_finalized_header := h\<rparr>) = Err (ConsensusReport
        (if slot (up_attested_header u) < slot h then InvalidTimestamp else InvalidFinalityProof))) \<and>
    (\<exists>com. signing_committee (store c) (generic_from_update u) = Some com \<and>
       (\<forall>sig. let u' = u\<lparr>up_sync_aggregate := (up_sync_aggregate u)\<lparr>sync_committee_signature := sig\<rparr>\<rparr> in
         verify_update L now c u' =
           (if committee_signed L (client_config c) com (generic_from_update u') then Ok ()
            else Err (ConsensusReport InvalidSignature))))"
proof -
  let ?g = "generic_from_update u"
  have ok: "verify_generic_update L now c ?g = Ok ()" using assms(1) by (simp add: verify_update_def)
  note fields = generic_from_update_def verify_update_def
  from replaced_signature_check [OF verified_relevant(4) [OF ok]] obtain com' where
    com': "signing_committee (store c) ?g = Some com'"
    "\<And>s u'. u' = ?g\<lparr>sync_aggregate := (sync_aggregate ?g)\<lparr>sync_committee_signature := s\<rparr>\<rparr> \<Longrightarrow>
       signature_check L c u' = (if committee_signed L (client_config c) com' u' then Ok ()
         else Err (ConsensusReport InvalidSignature))"
    unfolding signing_committee_def by blast
  have "verify_update L now c (u\<lparr>up_sync_aggregate := (up_sync_aggregate u)\<lparr>sync_committee_signature := sig\<rparr>\<rparr>) =
      (if committee_signed L (client_config c) com'
        (generic_from_update (u\<lparr>up_sync_aggregate := (up_sync_aggregate u)\<lparr>sync_committee_signature := sig\<rparr>\<rparr>))
       then Ok () else Err (ConsensusReport InvalidSignature))" for sig
    using com'(2) [OF refl, of sig] replaced_signature [OF ok, of sig] by (simp add: fields)
  with com'(1) show ?thesis
    using tampered_committee [OF ok, of "up_next_sync_committee u" "up_next_sync_committee_branch u" com]
      tampered_finality [OF ok, of "up_finalized_header u" "up_finality_branch u" h] late_finality [OF ok, of h] assms(2)
    by (auto simp: fields Let_def not_less)
qed

definition sample_update :: update where
  "sample_update = \<lparr>up_attested_header = header_at 200, up_next_sync_committee = sample_committee,
     up_next_sync_committee_branch = [replicate 32 7], up_finalized_header = header_at 160,
     up_finality_branch = [root_of_slot 160], up_sync_aggregate = all_sign, up_signature_slot = 201\<rparr>"

theorem tampered_update_refused_witness:
  "verify_update sample_lib 12000 client_1 (sample_update\<lparr>up_finalized_header := header_at 128\<rparr>) =
     Err (ConsensusReport InvalidFinalityProof) \<and>
   verify_update sample_lib 12000 client_1 (sample_update\<lparr>up_finalized_header := header_at 224\<rparr>) =
     Err (ConsensusReport InvalidTimestamp)"
proof -
  have "verify_update sample_lib 12000 client_1 sample_update = Ok ()"
    unfolding verify_update_def
    by (rule sample_verified)
      (simp_all add: generic_from_update_def sample_update_def client_1_def client_0_def consensus_client_new_def)
  moreover have "merkle_binding sample_lib" by (auto simp: merkle_binding_def sample_lib_def)
  ultimately show ?thesis
    using tampered_update_refused [of sample_lib 12000 client_1 sample_update sample_committee "header_at 128"]
      tampered_update_refused [of sample_lib 12000 client_1 sample_update sample_committee "header_at 224"]
    by (simp add: sample_update_def root_of_slot_def)
qed

text \<open>Applying an update moves the finalised header only with a two-thirds majority of the
  512 members, only forward, and only to the header of the update; the optimistic header only
  moves to the attested or the finalised header of the update, to a greater slot.\<close>

theorem apply_generic_update_moves:
  assumes "apply_generic_update L now u c = (Ok (), c')"
  shows "(st_finalized_header (store c') = st_finalized_header (store c) \<or>
      512 * 2 \<le> committee_bits u * 3 \<and> finalized_header u = Some (st_finalized_header (store c')) \<and>
      slot (st_finalized_header (store c)) < slot (st_finalized_header (store c'))) \<and>
    (st_optimistic_header (store c') = st_optimistic_header (store c) \<or>
      slot (st_optimistic_header (store c)) < slot (st_optimistic_header (store c')) \<and>
      (st_optimistic_header (store c') = attested_header u \<or>
       finalized_header u = Some (st_optimistic_header (store c'))))"
    (is "?fin \<and> ?opt")
proof -
  let ?s1 = "count_participants u (store c)"
  let ?s2 = "optimistic_step u ?s1"
  let ?s3 = "rotate_committees u ?s2"
  have eq: "store c' = (if should_apply_update u ?s2 then finalize_step u ?s3 else ?s2)"
    using apply_generic_update_store(4) [OF assms refl] by (simp add: next_store_def Let_def)
  have fin: "st_finalized_header (finalize_step u s) = st_finalized_header s \<or>
      finalized_header u = Some (st_finalized_header (finalize_step u s)) \<and>
      slot (st_finalized_header s) < slot (st_finalized_header (finalize_step u s))" for s
    by (auto simp: finalize_step_def split: option.split)
  then have ?fin
    using eq should_apply_majority [of u ?s2] fin [of ?s3] by auto
  have opt2: "st_optimistic_header ?s2 = st_optimistic_header (store c) \<or>
      st_optimistic_header ?s2 = attested_header u \<and>
      slot (st_optimistic_header (store c)) < slot (attested_header u)"
    by (auto simp: optimistic_step_def should_update_optimistic_def)
  have opt3: "st_optimistic_header (finalize_step u s) = st_optimistic_header s \<or>
      finalized_header u = Some (st_optimistic_header (finalize_step u s)) \<and>
      slot (st_optimistic_header s) < slot (st_optimistic_header (finalize_step u s))" for s
    by (auto simp: finalize_step_def split: option.split)
  have ?opt using eq opt2 opt3 [of ?s3] by (auto split: if_splits)
  with \<open>?fin\<close> show ?thesis ..
qed

theorem apply_generic_update_moves_witness:
  "apply_generic_update sample_lib 12000 (generic_from_finality_update sample_finality) client_1 = (Ok (), client_2)
   \<and> 512 * 2 \<le> committee_bits (generic_from_finality_update sample_finality) * 3"
proof -
  have run: "apply_generic_update sample_lib 12000 (generic_from_finality_update sample_finality) client_1
      = (Ok (), client_2)"
    using sample_accept_finality [of 0]
    by (cases rule: accept_cases [of sample_lib sample_clock 0 client_1
          "generic_from_finality_update sample_finality"]) (auto simp: sample_clock_def)
  have "st_finalized_header (store client_2) \<noteq> st_finalized_header (store client_1)"
    by (auto simp: client_2_def client_1_def client_0_def dest: arg_cong [where f = slot])
  with run apply_generic_update_moves [OF run] show ?thesis by simp
qed

text \<open>The participation counts never exceed the 512 members of a committee, in every client
  that advances from one where they do not, for servers whose updates carry 512 bits (which the
  type of the bit vector ensures).\<close>

theorem advance_participation_bounded:
  assumes "participation_bounded (store c)" "participation.server_ok R"
  shows "participation_bounded (store (snd (advance L R clk c)))"
  using participation.advance_good [where p = L and c = c and R = R and clk = clk] assms by (simp add: participation.good_def)

theorem advance_participation_bounded_witness:
  "participation_bounded (store (snd (advance sample_lib sample_server sample_clock client_3)))"
  by (rule advance_participation_bounded)
    (simp_all add: participation_bounded_def client_3_def client_2_def participation.server_ok_def
      sample_server_def bits_512_def generic_from_finality_update_def sample_finality_def
      generic_from_optimistic_update_def sample_optimistic_def all_sign_def)

subsection \<open>The protocol, saved checkpoints and progress\<close>

text \<open>C8: Applying a verified update is the state change of the consensus specification on unbounded
  numbers: the same committees, headers and participation counts, and no assertion of the
  specification fails.\<close>

theorem apply_update_refines_protocol:
  assumes "verify_generic_update L now c u = Ok ()" "paired u" "reachable L c"
    and "length (sync_committee_bits (sync_aggregate u)) = 512"
    and "apply_generic_update L now' u c = (Ok (), c')"
  shows "protocol_process u (abs_store (store c)) = Some (abs_store (store c'))"
  by (rule apply_refines [OF assms])

theorem apply_update_refines_protocol_witness:
  "protocol_process (generic_from_finality_update sample_finality) (abs_store (store client_1)) =
     Some (abs_store (store client_2))"
proof -
  let ?u = "generic_from_finality_update sample_finality"
  have run: "verify_generic_update sample_lib 12000 client_1 ?u = Ok ()"
    "apply_generic_update sample_lib 12000 ?u client_1 = (Ok (), client_2)"
    using sample_accept_finality [of 0]
    by (cases rule: accept_cases [of sample_lib sample_clock 0 client_1 ?u]; auto simp: sample_clock_def)+
  show ?thesis
    by (rule apply_update_refines_protocol [OF run(1) _ reachable.booted [OF sample_bootstrap_run] _ run(2)])
      (simp_all add: generic_from_finality_update_def sample_finality_def all_sign_def paired_def)
qed

text \<open>C13: The checkpoint that the client offers to save is at any time the root of a header at the
  start of an epoch that was finalised under the checkpoint the client started from.\<close>

theorem saved_checkpoint_trusted:
  assumes "session L ckpt cfg c" "last_checkpoint c = Some r"
  shows "checkpoint_trusted L cfg ckpt r"
  using session_saves_trusted [OF assms(1)] assms(2) by (simp add: saves_trusted_def)

theorem saved_checkpoint_trusted_witness:
  "checkpoint_trusted sample_lib sample_config (root_of_slot 96) (root_of_slot 160)"
  by (rule saved_checkpoint_trusted [OF session.synced [OF sample_sync_run [unfolded client_0_def]]])
    (simp add: client_3_def client_2_def)

text \<open>C11: Where the server brings a finality update that is valid and has a two-thirds majority, an
  advance leaves the client with a finalised header that is not behind the update's. Where the update's header is newer than the
  client's, it is that header, unless the update that brings the next committee
  moved it on to its own; whatever else the server answers. The clock must not run backwards
  between the two readings, and durations up to the current time must have a representation.\<close>

theorem advance_finalizes_update:
  assumes "reachable L c" "rpc_get_finality_update R = Ok fu"
    and "u = generic_from_finality_update fu" "valid_update L (clk 0) c u"
    and "length (sync_committee_bits (sync_aggregate u)) = 512" "2 * 512 \<le> 3 * participants u"
    and "clk 0 \<le> clk 1" "\<And>d. d \<le> clk 1 \<Longrightarrow> chrono_from_std L d \<noteq> None"
    and "fin = st_finalized_header (store (snd (advance L R clk c)))"
  shows "slot (fu_finalized_header fu) \<le> slot fin \<and>
    (slot (st_finalized_header (store c)) < slot (fu_finalized_header fu) \<longrightarrow>
       fin = fu_finalized_header fu \<or>
       (\<exists>per u'. rpc_get_updates R per 1 = Ok [u'] \<and> fin = up_finalized_header u'))"
  using advance_progress [OF assms(1-8)] advance_finalizes [OF assms(2-8)]
  unfolding assms(9) brings_committee_def by metis

theorem advance_finalizes_update_witness:
  "let fin = st_finalized_header (store (snd (advance sample_lib sample_server sample_clock client_1))) in
   fin = header_at 160 \<or> (\<exists>per u'. rpc_get_updates sample_server per 1 = Ok [u'] \<and> fin = up_finalized_header u')"
proof -
  let ?u = "generic_from_finality_update sample_finality"
  let ?fin = "st_finalized_header (store (snd (advance sample_lib sample_server sample_clock client_1)))"
  have bits: "length (sync_committee_bits (sync_aggregate ?u)) = 512" "participants ?u = 512"
    by (simp_all add: generic_from_finality_update_def sample_finality_def all_sign_def)
  have "verify_generic_update sample_lib 12000 client_1 ?u = Ok ()"
    using sample_accept_finality [of 0]
    by (cases rule: accept_cases [of sample_lib sample_clock 0 client_1 ?u]) (auto simp: sample_clock_def)
  then have valid: "valid_update sample_lib (sample_clock 0) client_1 ?u"
    by (simp add: verify_generic_update_valid [OF bits(1)] sample_clock_def)
  have "slot (fu_finalized_header sample_finality) \<le> slot ?fin \<and>
      (slot (st_finalized_header (store client_1)) < slot (fu_finalized_header sample_finality) \<longrightarrow>
       ?fin = fu_finalized_header sample_finality \<or>
       (\<exists>per u'. rpc_get_updates sample_server per 1 = Ok [u'] \<and> ?fin = up_finalized_header u'))"
    by (rule advance_finalizes_update [where clk = sample_clock and R = sample_server and L = sample_lib,
          OF reachable.booted [OF sample_bootstrap_run] _ refl valid _ _ _ _ refl])
      (simp_all add: bits sample_server_def sample_clock_def sample_lib_def)
  moreover have "slot (st_finalized_header (store client_1)) < slot (fu_finalized_header sample_finality)"
    by (simp add: client_1_def client_0_def sample_finality_def)
  ultimately show ?thesis by (simp add: Let_def sample_finality_def)
qed

subsection \<open>Execution payloads\<close>

text \<open>C21: The payload returned for a slot is that of a block whose root is the root of a header
  the client holds at that slot, and that header was signed or finalised by the committees
  linked to the checkpoint.\<close>

theorem get_execution_payload_correct:
  assumes "reachable L c" "get_execution_payload L R k c (Some s) = Ok p"
  shows "\<exists>h. slot h = s \<and> payload_of_header L h p \<and>
    (finalized_by_chain L (client_config c) (initial_checkpoint c) h \<or>
     (\<exists>n. n \<noteq> 0 \<and> signed_header L (client_config c) (initial_checkpoint c) h n))"
  using get_execution_payload_verified [OF assms(2)] reachable_trusted [OF assms(1)]
  unfolding store_trusted_def by blast

theorem get_execution_payload_correct_witness:
  "\<exists>h. slot h = 210 \<and> payload_of_header sample_lib h (payload_at 210)"
  using get_execution_payload_correct
    [OF sample_reachable sample_get_payload [of 210 0, OF disjI1 [OF refl]]] by auto

text \<open>The backfilled payloads are linked by their hashes, from the parent hash of the block the
  server returns for the last slot, and are no more than the slots asked for.\<close>

theorem get_payloads_linked:
  assumes "get_payloads R k start_slot end_slot = Ok ps"
  shows "\<exists>end_block. rpc_get_block R k end_slot = Ok end_block \<and>
    hash_chain (parent_hash (execution_payload_of (body end_block))) ps \<and>
    length ps \<le> unat end_slot - unat start_slot"
  by (rule get_payloads_chain [OF assms])

definition linked_server :: consensus_rpc_server where
  "linked_server = sample_server\<lparr>rpc_get_block := (\<lambda>k s. Ok (block_with s (PayloadBellatrix
     (payload_bellatrix_default\<lparr>ep_block_hash := root_of_slot s, ep_parent_hash := root_of_slot (s - 1)\<rparr>))))\<rparr>"

theorem get_payloads_linked_witness:
  "\<exists>p q. get_payloads linked_server 0 8 10 = Ok [p, q] \<and> block_hash q = parent_hash p"
proof -
  have "slot_range 8 10 = [8, 9]" by (simp add: slot_range_def upt_rec)
  then have "\<exists>p q. get_payloads linked_server 0 8 10 = Ok [p, q]"
    by (simp add: get_payloads_def linked_server_def block_with_def body_of_def block_hash_def
        parent_hash_def Let_def)
  then obtain p q where "get_payloads linked_server 0 8 10 = Ok [p, q]" by blast
  with get_payloads_linked [OF this] show ?thesis by auto
qed

subsection \<open>The slot clock\<close>



text \<open>C37: A checkpoint at a slot that is not in the future is valid exactly where the time since
  its slot is less than the configured maximal age, in seconds.\<close>

theorem is_valid_checkpoint_correct:
  assumes "genesis_time (chain cfg) \<le> now"
    and "unat s \<le> (unat now - unat (genesis_time (chain cfg))) div 12"
  shows "is_valid_checkpoint cfg now s = Ok
    (12 * ((unat now - unat (genesis_time (chain cfg))) div 12 - unat s) < unat (max_checkpoint_age cfg))"
proof -
  let ?cur = "(now - genesis_time (chain cfg)) div 12"
  have cur: "unat ?cur = (unat now - unat (genesis_time (chain cfg))) div 12"
    using assms(1) by (simp add: unat_div unat_sub)
  have "?cur * 12 + genesis_time (chain cfg) - (s * 12 + genesis_time (chain cfg)) = (?cur - s) * 12"
    by (simp add: algebra_simps)
  moreover have "unat ((?cur - s) * 12) = 12 * (unat ?cur - unat s)"
  proof -
    have sub: "unat (?cur - s) = unat ?cur - unat s"
      using assms(2) cur by (subst unat_sub) (auto simp: word_le_nat_alt)
    have "unat ?cur * 12 < 18446744073709551616"
      using cur unat_u64_bound [of now] by linarith
    then show ?thesis by (subst unat_mult_u64) (simp_all add: sub)
  qed
  ultimately show ?thesis
    using assms(1) cur
    by (simp add: is_valid_checkpoint_def expected_current_slot_def slot_timestamp_def Let_def word_less_nat_alt word_le_nat_alt not_less)
qed

theorem is_valid_checkpoint_correct_witness:
  "is_valid_checkpoint sample_config 12000 96 = (Ok True :: (report, bool) outcome)"
  using is_valid_checkpoint_correct [of sample_config 12000 96, where 'a = report]
  by (simp add: sample_config_def)

subsection \<open>Configuration and block tags\<close>

text \<open>The fork version of a slot is that of the last fork of the schedule that has
  activated by the slot's epoch.\<close>

theorem fork_version_correct:
  "fork_version cfg s = fork_bytes (last (genesis (forks cfg) #
     filter (\<lambda>k. fork_epoch k \<le> s div 32) [altair (forks cfg), bellatrix (forks cfg), capella (forks cfg)]))"
  using fork_version_active_fork [of cfg s] by (simp add: active_fork_def)




text \<open>What a block tag prints as is read back as the same tag, and a number is also read back
  from its hexadecimal form.\<close>

theorem block_tag_round_trip:
  "block_tag_deserialize (block_tag_fmt t) = Ok t \<and>
   block_tag_deserialize (u64_to_hex_string n) = Ok (Number n)"
proof -
  have "block_tag_deserialize ''latest'' = Ok Latest" "block_tag_deserialize ''finalized'' = Ok Finalized"
    by (simp_all add: block_tag_deserialize_def)
  then show ?thesis
    by (cases t) (simp_all add: block_tag_deserialize_decimal block_tag_deserialize_hex)
qed

end
