(* ===== verification/Sample_State.thy ===== *)
theory Sample_State
  imports Evm_Model
begin

text \<open>
  A concrete state trie and its libraries, on which the theorems about proofs and about the
  execution client are applied: one account below an extension and a branch, a codec that
  escapes the bytes of its items, and a hash that tells the three nodes of the trie apart and
  maps everything else to 32 zero bytes, which is then also the key of every address.
\<close>

subsection \<open>The codec\<close>

definition escape :: "bytes \<Rightarrow> bytes" where
  "escape b = concat (map (\<lambda>x. [1, x]) b) @ [0]"

definition code :: "bytes list \<Rightarrow> bytes" where
  "code xs = concat (map escape xs)"

fun decode_with :: "bytes \<Rightarrow> bytes \<Rightarrow> bytes list option" where
  "decode_with acc [] = (if acc = [] then Some [] else None)"
| "decode_with acc [x] = (if x = 0 then Some [acc] else None)"
| "decode_with acc (x # y # r) =
     (if x = 0 then map_option ((#) acc) (decode_with [] (y # r))
      else decode_with (acc @ [y]) r)"

lemma decode_escape: "decode_with acc (concat (map (\<lambda>x. [1, x]) b) @ 0 # r) =
    map_option ((#) (acc @ b)) (decode_with [] r)"
proof (induction b arbitrary: acc)
  case Nil
  then show ?case by (cases r) simp_all
qed simp

lemma decode_code: "decode_with [] (code xs) = Some xs"
  by (induction xs) (simp_all add: code_def escape_def decode_escape)

lemma code_inject [simp]: "code xs = code ys \<longleftrightarrow> xs = ys"
  by (metis decode_code option.inject)

fun item_bytes :: "rlp_item \<Rightarrow> bytes" where
  "item_bytes RlpEmptyData = []"
| "item_bytes (RlpBytes b) = b"
| "item_bytes (RlpU64 n) = [ucast n]"
| "item_bytes (RlpU256 n) = [ucast n]"
| "item_bytes (RlpH256 h) = h"
| "item_bytes (RlpRawList bs) = concat bs"

subsection \<open>The trie\<close>

definition sample_account_bytes :: bytes where
  "sample_account_bytes = code [[1], [5], replicate 32 0, replicate 32 0]"

definition sample_leaf :: trie where
  "sample_leaf = Leaf (replicate 62 0) sample_account_bytes"

definition sample_branch :: trie where
  "sample_branch = Branch (Some sample_leaf # replicate 15 None)"

definition sample_trie :: trie where
  "sample_trie = Ext [0] sample_branch"

definition node_codes :: "bytes list" where
  "node_codes = [code [compact True (replicate 62 0), sample_account_bytes],
     code (replicate 32 1 # replicate 16 []), code [compact False [0], replicate 32 2]]"

definition sample_keccak :: "bytes \<Rightarrow> bytes" where
  "sample_keccak b =
     (if b = node_codes ! 0 then replicate 32 1 else if b = node_codes ! 1 then replicate 32 2
      else if b = node_codes ! 2 then replicate 32 3 else replicate 32 0)"

definition sample_rlp :: rlp_lib where
  "sample_rlp = \<lparr>keccak256 = sample_keccak, rlp_decode_list = decode_with [],
     rlp_stream_list = (\<lambda>items. code (map item_bytes items)),
     rlp_hex_decode = (\<lambda>s. Some (map (\<lambda>c. of_nat (of_char c)) s))\<rparr>"

lemma item_bytes_RlpBytes [simp]: "item_bytes \<circ> RlpBytes = id"
  by (simp add: fun_eq_iff)

lemma sample_rlp_laws: "rlp_laws sample_rlp"
  by (simp add: rlp_laws_def sample_rlp_def decode_code sample_keccak_def)

lemma encode_node_sample: "encode_node sample_rlp t = code (node_items sample_rlp t)"
  by (simp add: encode_node_def sample_rlp_def)

lemma length_sample_account: "length sample_account_bytes \<noteq> 32"
  by (simp add: sample_account_bytes_def code_def escape_def numeral_eq_Suc)

lemma node_codes_distinct: "distinct node_codes"
proof -
  have "sample_account_bytes \<noteq> replicate 32 2" using length_sample_account by (metis length_replicate)
  moreover have "[b] \<noteq> replicate 16 []" "replicate 16 [] \<noteq> [b]" for b :: bytes
    by (metis length_replicate length_Cons list.size(3) One_nat_def num.distinct(1) numeral_eq_one_iff)+
  ultimately show ?thesis by (auto simp: node_codes_def)
qed

lemma sample_encodings:
  "encode_node sample_rlp sample_leaf = node_codes ! 0" "trie_root sample_rlp sample_leaf = replicate 32 1"
  "encode_node sample_rlp sample_branch = node_codes ! 1" "trie_root sample_rlp sample_branch = replicate 32 2"
  "encode_node sample_rlp sample_trie = node_codes ! 2" "trie_root sample_rlp sample_trie = replicate 32 3"
proof -
  note distinct = node_codes_distinct [unfolded distinct_conv_nth, rule_format]
  have root: "trie_root sample_rlp t = sample_keccak (encode_node sample_rlp t)" for t
    by (simp add: trie_root_def sample_rlp_def)
  have ne: "node_codes ! 1 \<noteq> node_codes ! 0" "node_codes ! 2 \<noteq> node_codes ! 0" "node_codes ! 2 \<noteq> node_codes ! 1"
    by (rule distinct; simp add: node_codes_def)+
  show l: "encode_node sample_rlp sample_leaf = node_codes ! 0"
    by (simp add: encode_node_sample sample_leaf_def node_codes_def)
  then show lr: "trie_root sample_rlp sample_leaf = replicate 32 1" by (simp add: root sample_keccak_def)
  show b: "encode_node sample_rlp sample_branch = node_codes ! 1"
    by (simp add: encode_node_sample sample_branch_def node_codes_def lr numeral_eq_Suc)
  then show br: "trie_root sample_rlp sample_branch = replicate 32 2"
    using ne by (simp add: root sample_keccak_def)
  show t: "encode_node sample_rlp sample_trie = node_codes ! 2"
    by (simp add: encode_node_sample sample_trie_def node_codes_def br)
  then show "trie_root sample_rlp sample_trie = replicate 32 3"
    using ne by (simp add: root sample_keccak_def)
qed

lemma sample_keccak_inject:
  "sample_keccak b = replicate 32 (1 :: u8) \<Longrightarrow> b = node_codes ! 0"
  "sample_keccak b = replicate 32 (2 :: u8) \<Longrightarrow> b = node_codes ! 1"
  "sample_keccak b = replicate 32 (3 :: u8) \<Longrightarrow> b = node_codes ! 2"
  by (auto simp: sample_keccak_def split: if_splits)

lemma sample_trie_ok: "trie_ok 64 sample_trie" "trie_ok 63 sample_branch"
  by (simp_all add: sample_trie_def sample_branch_def sample_leaf_def list_all_iff)

lemma sample_collision_free: "collision_free sample_rlp sample_trie"
proof -
  have "set (subtries sample_trie) = {sample_trie, sample_branch, sample_leaf}"
    by (auto simp: sample_trie_def sample_branch_def sample_leaf_def)
  moreover have "sample_keccak b \<noteq> sample_account_bytes" "sample_account_bytes \<noteq> sample_keccak b" for b
  proof -
    have "length (sample_keccak b) = 32" by (simp add: sample_keccak_def)
    with length_sample_account show "sample_keccak b \<noteq> sample_account_bytes"
      "sample_account_bytes \<noteq> sample_keccak b" by auto
  qed
  ultimately show ?thesis
    using sample_keccak_inject
    by (auto simp: collision_free_def sample_encodings)
       (force simp: sample_rlp_def sample_trie_def sample_branch_def sample_leaf_def)+
qed

lemma sample_mpt_ok: "mpt_ok sample_rlp sample_trie"
  by (simp add: mpt_ok_def sample_rlp_laws sample_collision_free sample_trie_ok)

lemma nibbles_zero: "nibbles (replicate n 0) = replicate (2 * n) 0"
  by (induction n) simp_all

lemma sample_find: "mpt_find sample_trie (replicate 32 0) = Some sample_account_bytes"
  by (simp add: mpt_find_def nibbles_zero sample_trie_def sample_branch_def sample_leaf_def numeral_eq_Suc)

lemma sample_not_empty: "\<not> empty_value sample_rlp sample_account_bytes"
proof -
  have "sample_account_bytes \<noteq> [0x80]"
    by (simp add: sample_account_bytes_def code_def escape_def)
  then show ?thesis
    by (simp add: empty_value_def sample_rlp_def sample_account_bytes_def)
qed

lemma sample_empty_value: "empty_value sample_rlp [0x80]"
  by (simp add: empty_value_def)

subsection \<open>The execution client on the trie\<close>

lemma code_first: "b \<noteq> [] \<Longrightarrow> \<exists>r. code (b # bs) = 1 # r"
  by (cases b) (simp_all add: code_def escape_def)

lemma node_codes_first: "i < 3 \<Longrightarrow> \<exists>r. node_codes ! i = 1 # r"
proof -
  have "compact True (replicate 62 0) \<noteq> []" "compact False [0] \<noteq> []"
    by (simp_all add: compact_def Let_def)
  then show "i < 3 \<Longrightarrow> \<exists>r. node_codes ! i = 1 # r"
    using code_first by (auto simp: node_codes_def less_Suc_eq numeral_3_eq_3)
qed

lemma sample_keccak_other: "b = [] \<or> hd b = 0 \<Longrightarrow> sample_keccak b = replicate 32 0"
  using node_codes_first [of 0] node_codes_first [of 1] node_codes_first [of 2]
  by (auto simp: sample_keccak_def)

definition sample_exec :: execution_lib where
  "sample_exec = \<lparr>xl_rlp = sample_rlp, xl_keccak_empty = replicate 32 0,
     xl_encode_u256 = (\<lambda>v. [ucast v]), xl_tx_rlp = tx_fields, xl_log_rlp = log_fields,
     xl_ordered_trie_root = (\<lambda>rs. replicate 31 0 @ [of_nat (length rs)]),
     xl_encode_hex = (\<lambda>k. ''0x'' @ map (\<lambda>x. char_of (unat x)) k),
     xl_h256_to_string = (\<lambda>_. []), xl_h256_from_str = (\<lambda>_. Some (replicate 32 0)),
     fl_of_u64 = (\<lambda>x. x), fl_to_u64 = (\<lambda>x. x), fl_times = (*), fl_divide = (div),
     fl_round = (\<lambda>x. x), fl_equal = (=), fl_powi = (\<lambda>_ _. 1), fl_1_10 = 1\<rparr>"

definition sample_address :: address where
  "sample_address = replicate 20 0"

definition sample_account :: account where
  "sample_account = \<lparr>ac_balance = 5, ac_nonce = 1, ac_code_hash = replicate 32 0, ac_code = [],
     ac_storage_hash = replicate 32 0, ac_slots = Map.empty\<rparr>"

definition sample_proof :: eip1186_proof_response where
  "sample_proof = \<lparr>pr_address = sample_address, pr_balance = 5, pr_code_hash = replicate 32 0,
     pr_nonce = 1, pr_storage_hash = replicate 32 0,
     pr_account_proof = mpt_prove sample_rlp sample_trie (replicate 32 0), pr_storage_proof = []\<rparr>"

definition sample_tx :: transaction where
  "sample_tx = \<lparr>tx_hash = [1], tx_block_number = Some 7, tx_fields = [4, 2]\<rparr>"

definition sample_log :: log where
  "sample_log = \<lparr>log_transaction_hash = Some [1], log_index = Some 0, log_fields = [6]\<rparr>"

definition sample_receipt :: transaction_receipt where
  "sample_receipt = \<lparr>rc_transaction_hash = [1], rc_block_number = Some 7, rc_status = Some 1,
     rc_cumulative_gas_used = 21000, rc_logs_bloom = [], rc_logs = [sample_log],
     rc_transaction_type = Some 2, rc_fields = []\<rparr>"

definition state_rpc :: execution_rpc where
  "state_rpc = \<lparr>er_get_proof = (\<lambda>_ _ _ _. Ok sample_proof),
     er_create_access_list = (\<lambda>_ _. Ok []), er_get_code = (\<lambda>_ _ _. Ok []),
     er_send_raw_transaction = (\<lambda>_. Ok []),
     er_get_transaction_receipt = (\<lambda>_ _. Ok (Some sample_receipt)),
     er_get_transaction = (\<lambda>_ _. Ok (Some sample_tx)), er_get_logs = (\<lambda>_. Ok [sample_log]),
     er_chain_id = Ok 1,
     er_get_fee_history = (\<lambda>_ _ _. Ok \<lparr>fh_oldest_block = 7, fh_base_fee_per_gas = [3],
        fh_gas_used_ratio = [0], fh_reward = []\<rparr>)\<rparr>"

definition state_payload :: execution_payload where
  "state_payload = PayloadBellatrix (payload_bellatrix_default\<lparr>ep_state_root := replicate 32 3,
     ep_block_number := 7, ep_transactions := [[4, 2]], ep_base_fee_per_gas := 3,
     ep_receipts_root := replicate 31 0 @ [1]\<rparr>)"

definition state_payloads :: "(u64, execution_payload) btree" where
  "state_payloads = [(7, state_payload)]"

lemma state_payload_fields [simp]:
  "payload_state_root state_payload = replicate 32 3" "block_number state_payload = 7"
  "transactions state_payload = [[4, 2]]" "receipts_root state_payload = replicate 31 0 @ [1]"
  "base_fee_per_gas state_payload = 3"
  by (simp_all add: state_payload_def payload_state_root_def block_number_def transactions_def
      receipts_root_def base_fee_per_gas_def)

lemma sample_exec_keccak: "keccak sample_exec b = sample_keccak b"
  by (simp add: keccak_def sample_exec_def sample_rlp_def)

lemma sample_execution_laws: "execution_laws sample_exec"
proof -
  have "of_nat (of_char (char_of (unat x) :: char)) = x" for x :: u8
  proof -
    have "unat x mod 256 = unat x" using unsigned_less [of x, where 'a = nat] by simp
    then show ?thesis by simp
  qed
  then show ?thesis
    unfolding execution_laws_def sample_exec_keccak
    using sample_rlp_laws
    by (simp add: sample_exec_def sample_keccak_other hex_str_to_bytes_def sample_rlp_def
        strip_prefix_def Let_def comp_def)
qed

lemma sample_encode_account: "encode_account sample_rlp sample_proof = sample_account_bytes"
  by (simp add: encode_account_def sample_proof_def sample_rlp_def sample_account_bytes_def)

lemma sample_account_accepted:
  "mpt_accepts sample_rlp (mpt_prove sample_rlp sample_trie (replicate 32 0)) (replicate 32 3)
     (replicate 32 0) sample_account_bytes"
  using mpt_prove_accepted [OF sample_rlp_laws sample_trie_ok(1), of "replicate 32 0" sample_account_bytes]
  by (simp add: sample_find sample_encodings)

lemma sample_get_account_at:
  assumes "payload_state_root payload = replicate 32 3"
  shows "get_account sample_exec state_rpc call sample_address slots payload = Ok sample_account"
proof -
  have "keccak sample_exec sample_address = replicate 32 0"
    by (simp add: sample_exec_keccak sample_keccak_other sample_address_def)
  moreover have "er_get_proof state_rpc call sample_address sl n = Ok sample_proof" for sl n
    by (simp add: state_rpc_def)
  moreover have "xl_rlp sample_exec = sample_rlp" by (simp add: sample_exec_def)
  moreover have "(verify_proof sample_rlp (pr_account_proof sample_proof) (replicate 32 3)
      (replicate 32 0) sample_account_bytes :: (report, bool) outcome) = Ok True"
    using sample_account_accepted by (simp add: mpt_accepts_def sample_proof_def)
  moreover have "storage_loop X a h [] m = Ok m" for X a h m by simp
  moreover have "pr_storage_proof sample_proof = []" "pr_code_hash sample_proof = xl_keccak_empty sample_exec"
    by (simp_all add: sample_proof_def sample_exec_def)
  ultimately have "get_account sample_exec state_rpc call sample_address slots payload =
      Ok \<lparr>ac_balance = pr_balance sample_proof, ac_nonce = pr_nonce sample_proof,
          ac_code_hash = pr_code_hash sample_proof, ac_code = [],
          ac_storage_hash = pr_storage_hash sample_proof, ac_slots = Map.empty\<rparr>"
    by (simp add: get_account_def Let_def sample_encode_account assms)
  then show ?thesis by (simp add: sample_account_def sample_proof_def)
qed

lemma sample_get_account:
  "get_account sample_exec state_rpc call sample_address slots state_payload = Ok sample_account"
  by (rule sample_get_account_at) simp

lemma sample_account_encoding: "account_encoding sample_exec sample_account = sample_account_bytes"
  by (simp add: account_encoding_def sample_exec_def sample_rlp_def sample_account_def
      sample_account_bytes_def)

end
