(* ===== verification/Execution_Properties.thy ===== *)
theory Execution_Properties
  imports Sample_State
begin

text \<open>
  The properties of the execution client: what an accepted Merkle-Patricia proof shows, what the
  answers of the untrusted RPC are checked against, and the database the EVM reads.
\<close>

subsection \<open>Merkle-Patricia proofs\<close>

text \<open>C14: Where \<open>verify_proof\<close> accepts a list of nodes for a trie's root, a 32-byte key and a
  value, the trie holds the value at the key; or the value stands for an absent one and the trie
  has no value at the key, or the list ends at an extension node, which the code reads as
  a leaf. The hash has no second preimage of a node of the trie, and is not a stored value.\<close>

theorem verify_proof_sound:
  assumes "mpt_ok L t" "length key = 32"
    and "verify_proof L nodes (trie_root L t) key val = (Ok True :: (report, bool) outcome)"
  shows "mpt_find t key = Some val \<or>
    empty_value L val \<and> (mpt_find t key = None \<or> ends_at_extension L t nodes)"
  using mpt_accepts_established [OF assms(1,2)] assms(3) by (simp add: mpt_accepts_def established_def)

theorem verify_proof_sound_witness:
  "mpt_find sample_trie (replicate 32 0) = Some sample_account_bytes"
proof -
  have "(verify_proof sample_rlp (mpt_prove sample_rlp sample_trie (replicate 32 0))
      (trie_root sample_rlp sample_trie) (replicate 32 0) sample_account_bytes :: (report, bool) outcome) = Ok True"
    using sample_account_accepted by (simp add: mpt_accepts_def sample_encodings)
  from verify_proof_sound [OF sample_mpt_ok _ this] sample_not_empty show ?thesis by simp
qed

text \<open>C22: \<open>verify_proof\<close> accepts the nodes on the path of every key, for the value stored there, and
  for an absent value where there is none; no hypothesis about collisions is needed.\<close>

theorem verify_proof_complete:
  assumes "rlp_laws L" "trie_ok 64 t" "length key = 32"
    and "case mpt_find t key of Some stored \<Rightarrow> val = stored | None \<Rightarrow> empty_value L val"
  shows "verify_proof L (mpt_prove L t key) (trie_root L t) key val = (Ok True :: (report, bool) outcome)"
  using mpt_prove_accepted [OF assms(1-3), of val] assms(4)
  by (auto simp: mpt_accepts_def split: option.splits)

theorem verify_proof_complete_witness:
  "verify_proof sample_rlp (mpt_prove sample_rlp sample_trie (replicate 32 0)) (replicate 32 3)
     (replicate 32 0) sample_account_bytes = (Ok True :: (report, bool) outcome) \<and>
   verify_proof sample_rlp (mpt_prove sample_rlp sample_trie (0xFF # replicate 31 0)) (replicate 32 3)
     (0xFF # replicate 31 0) [0x80] = (Ok True :: (report, bool) outcome)"
proof -
  have none: "mpt_find sample_trie (0xFF # replicate 31 0) = None"
    by (simp add: mpt_find_def sample_trie_def)
  show ?thesis
    using verify_proof_complete [OF sample_rlp_laws sample_trie_ok(1), of "replicate 32 0" sample_account_bytes]
      verify_proof_complete [OF sample_rlp_laws sample_trie_ok(1), of "0xFF # replicate 31 0" "[0x80]"]
    by (simp add: sample_find none sample_empty_value sample_encodings)
qed

text \<open>C31: A proof that stops at an extension node on the path of a key is accepted as a proof of
  absence, whatever the trie holds below it: the whole proof of absence is the root node of a
  trie that starts with an extension.\<close>

theorem extension_proves_absence:
  assumes "rlp_laws L" "trie_ok 64 (Ext p c)" "length key = 32" "empty_value L val"
  shows "verify_proof L [encode_node L (Ext p c)] (trie_root L (Ext p c)) key val =
    (Ok True :: (report, bool) outcome)"
proof -
  have "list_all (\<lambda>n. n < 16) p" "p \<noteq> drop 0 (nibbles key)"
    using assms(2,3) by auto
  then show ?thesis
    using loop_ext_last [OF assms(1) _ assms(1), of 0 key p val c, where 'e = report] assms(4)
    by (simp add: verify_proof_def)
qed

theorem extension_proves_absence_witness:
  "mpt_find sample_trie (replicate 32 0) = Some sample_account_bytes \<and>
   verify_proof sample_rlp [encode_node sample_rlp sample_trie] (trie_root sample_rlp sample_trie)
     (replicate 32 0) [0x80] = (Ok True :: (report, bool) outcome)"
  using extension_proves_absence [OF sample_rlp_laws sample_trie_ok(1) [unfolded sample_trie_def],
      of "replicate 32 0" "[0x80]"] sample_find sample_empty_value
  by (simp add: sample_trie_def)

text \<open>The comparison of two paths from given nibbles is the equality of the remaining nibbles,
  without a panic or a wrap-around, and the length of the shared prefix is the length of the
  longest common prefix of the remaining path and the path of the node.\<close>

theorem path_comparison_correct:
  assumes "s1 \<le> length p1 * 2" "s2 \<le> length p2 * 2"
  shows "paths_match p1 s1 p2 s2 =
      (Ok (drop s1 (nibbles p1) = drop s2 (nibbles p2)) :: (report, bool) outcome) \<and>
    (\<exists>k. shared_prefix_length p1 s1 p2 = (Ok k :: (report, nat) outcome) \<and>
       take k (drop s1 (nibbles p1)) = take k (drop (flag_length p2) (nibbles p2)) \<and>
       (\<forall>j > k. j \<le> length p1 * 2 - s1 \<and> j \<le> length p2 * 2 - flag_length p2 \<longrightarrow>
          take j (drop s1 (nibbles p1)) \<noteq> take j (drop (flag_length p2) (nibbles p2))))"
proof -
  let ?xs = "drop s1 (nibbles p1)" and ?ys = "drop (flag_length p2) (nibbles p2)"
  show ?thesis
    using assms common_prefix_take [of ?xs ?ys] common_prefix_longest [of _ ?xs ?ys]
    by (force simp: paths_match_eq shared_prefix_length_eq)
qed

theorem path_comparison_correct_witness:
  "paths_match [0x12, 0x34] 1 [0x02, 0x34] 1 = (Ok True :: (report, bool) outcome)"
  using path_comparison_correct [of 1 "[0x12, 0x34]" 1 "[0x02, 0x34]"] by simp

subsection \<open>Accounts\<close>

text \<open>C15: An account that \<open>get_account\<close> returns, from any server, is the one that the state trie of
  the payload holds at the address; its code hashes to its code hash; and each of its slots is
  the one that the account's storage trie holds. The one exception is a value that stands for
  absence: the trie holds nothing there, or the server's proof ends at an extension node.\<close>

theorem get_account_sound:
  assumes "get_account X rpc call address slots payload = Ok acc" "execution_laws X"
    and "mpt_ok (xl_rlp X) state" "trie_root (xl_rlp X) state = payload_state_root payload"
  shows "\<exists>p. er_get_proof rpc call address (case slots of Some s \<Rightarrow> s | None \<Rightarrow> []) (block_number payload) = Ok p \<and>
    (mpt_find state (keccak X address) = Some (account_encoding X acc) \<or>
       empty_value (xl_rlp X) (account_encoding X acc) \<and>
       (mpt_find state (keccak X address) = None \<or> ends_at_extension (xl_rlp X) state (pr_account_proof p))) \<and>
    keccak X (ac_code acc) = ac_code_hash acc \<and>
    (\<forall>storage k v. mpt_ok (xl_rlp X) storage \<and> trie_root (xl_rlp X) storage = ac_storage_hash acc \<and>
       ac_slots acc k = Some v \<longrightarrow>
       (\<exists>sp \<in> set (pr_storage_proof p). sp_key sp = k \<and> sp_value sp = v \<and>
          (mpt_find storage (keccak X k) = Some (xl_encode_u256 X v) \<or>
           empty_value (xl_rlp X) (xl_encode_u256 X v) \<and>
           (mpt_find storage (keccak X k) = None \<or> ends_at_extension (xl_rlp X) storage (sp_proof sp)))))"
proof (rule get_account_accepted [OF assms(1,2)])
  have len: "length (keccak X b) = 32" for b
    using assms(2) by (simp add: execution_laws_def keccak_def length_keccak)
  fix p
  assume p:
    "er_get_proof rpc call address (case slots of Some s \<Rightarrow> s | None \<Rightarrow> []) (block_number payload) = Ok p"
    "mpt_accepts (xl_rlp X) (pr_account_proof p) (payload_state_root payload) (keccak X address)
       (account_encoding X acc)"
    "keccak X (ac_code acc) = ac_code_hash acc"
    and slot: "\<And>k v. ac_slots acc k = Some v \<Longrightarrow>
       \<exists>sp \<in> set (pr_storage_proof p). sp_key sp = k \<and> sp_value sp = v \<and>
         mpt_accepts (xl_rlp X) (sp_proof sp) (ac_storage_hash acc) (keccak X k) (xl_encode_u256 X v)"
  have "established (xl_rlp X) state (pr_account_proof p) (mpt_find state (keccak X address)) (account_encoding X acc)"
    using mpt_accepts_established [OF assms(3) len] p(2) assms(4) by metis
  moreover have "\<exists>sp \<in> set (pr_storage_proof p). sp_key sp = k \<and> sp_value sp = v \<and>
      established (xl_rlp X) storage (sp_proof sp) (mpt_find storage (keccak X k)) (xl_encode_u256 X v)"
    if "mpt_ok (xl_rlp X) storage \<and> trie_root (xl_rlp X) storage = ac_storage_hash acc \<and> ac_slots acc k = Some v"
    for storage k v
    using mpt_accepts_established [of "xl_rlp X" storage, OF _ len] slot [of k v] that by metis
  ultimately show ?thesis using p(1,3) unfolding established_def by blast
qed

theorem get_account_sound_witness:
  "get_account sample_exec state_rpc [] sample_address None state_payload = Ok sample_account \<and>
   mpt_find sample_trie (keccak sample_exec sample_address) = Some (account_encoding sample_exec sample_account)"
proof -
  have rlp: "xl_rlp sample_exec = sample_rlp" by (simp add: sample_exec_def)
  have enc: "account_encoding sample_exec sample_account = sample_account_bytes"
    and root: "trie_root sample_rlp sample_trie = payload_state_root state_payload"
    by (simp_all add: sample_encodings sample_account_encoding)
  from get_account_sound [OF sample_get_account sample_execution_laws, of sample_trie, unfolded rlp enc,
      OF sample_mpt_ok root] sample_not_empty
  have "mpt_find sample_trie (keccak sample_exec sample_address) = Some sample_account_bytes" by blast
  then show ?thesis using sample_get_account enc by simp
qed

text \<open>Two servers cannot make the client see different non-empty accounts at one address of one
  payload: the encodings of what it accepts from them are equal.\<close>

theorem get_account_unique:
  assumes "get_account X rpc call address slots payload = Ok acc"
    and "get_account X rpc' call' address slots' payload = Ok acc'"
    and "execution_laws X" "mpt_ok (xl_rlp X) state" "trie_root (xl_rlp X) state = payload_state_root payload"
    and "\<not> empty_value (xl_rlp X) (account_encoding X acc)" "\<not> empty_value (xl_rlp X) (account_encoding X acc')"
  shows "account_encoding X acc = account_encoding X acc'"
  using account_proved_sound(1) [OF get_account_proved [OF assms(1,3)] assms(3-5)]
    account_proved_sound(1) [OF get_account_proved [OF assms(2,3)] assms(3-5)] assms(6,7) by simp

theorem get_account_unique_witness:
  "account_encoding sample_exec sample_account = sample_account_bytes \<and>
   account_encoding sample_exec sample_account = account_encoding sample_exec sample_account"
proof -
  have rlp: "xl_rlp sample_exec = sample_rlp" by (simp add: sample_exec_def)
  show ?thesis
    using get_account_unique [OF sample_get_account [of "[]" None] sample_get_account [of "[1]" "Some [[2]]"]
        sample_execution_laws, of sample_trie, unfolded rlp]
      sample_mpt_ok sample_not_empty
    by (simp add: sample_encodings sample_account_encoding)
qed

subsection \<open>Transactions, receipts and logs\<close>

text \<open>C29: A transaction is returned exactly where the server names a block whose payload is known and
  that payload contains the transaction's encoding.\<close>

theorem get_transaction_correct:
  "get_transaction X rpc call hash payloads = Ok (Some tx) \<longleftrightarrow>
     er_get_transaction rpc call hash = Ok (Some tx) \<and>
     (\<exists>n payload. tx_block_number tx = Some n \<and> bt_get payloads n = Some payload \<and>
        xl_tx_rlp X tx \<in> set (transactions payload))"
  by (rule get_transaction_Ok_Some)

text \<open>C30: A block is answered with the fields of the payload; the hashes of its transactions are those of
  the payload's; and with full transactions there are as many as in the payload, each of them
  one of the payload's (though not necessarily at its place).\<close>

theorem get_block_correct:
  assumes "get_block X rpc payload full_tx = Ok b"
  shows "eb_number b = block_number payload \<and> eb_hash b = block_hash payload \<and>
    eb_parent_hash b = parent_hash payload \<and> eb_state_root b = payload_state_root payload \<and>
    eb_receipts_root b = receipts_root payload \<and> eb_timestamp b = timestamp payload \<and>
    eb_miner b = fee_recipient payload \<and> eb_base_fee_per_gas b = base_fee_per_gas payload \<and>
    eb_gas_used b = gas_used payload \<and> eb_gas_limit b = gas_limit payload \<and>
    eb_logs_bloom b = logs_bloom payload \<and> eb_extra_data b = extra_data payload \<and>
    eb_mix_hash b = prev_randao payload \<and>
    (if full_tx
     then \<exists>txs. eb_transactions b = Full txs \<and> length txs = length (transactions payload) \<and>
       list_all (\<lambda>tx. xl_tx_rlp X tx \<in> set (transactions payload)) txs
     else eb_transactions b = Hashes (map (keccak X) (transactions payload)))"
  using get_block_Ok [OF assms] by blast

theorem get_block_correct_witness:
  "\<exists>b. get_block sample_exec state_rpc state_payload True = Ok b \<and> eb_number b = 7 \<and>
     (\<exists>tx. eb_transactions b = Full [tx] \<and> xl_tx_rlp sample_exec tx = [4, 2])"
proof -
  have "get_transaction sample_exec state_rpc [0] h (only_payload state_payload) = Ok (Some sample_tx)" for h
    unfolding get_transaction_Ok_Some
    by (simp add: only_payload_def bt_get_def bt_new_def state_rpc_def sample_tx_def sample_exec_def)
  then obtain b where b: "get_block sample_exec state_rpc state_payload True = Ok b"
    by (simp add: get_block_def tx_hashes_def join_all_def sample_exec_def)
  from get_block_correct [OF b] obtain txs where txs: "eb_number b = 7" "eb_transactions b = Full txs"
    "length txs = 1" "list_all (\<lambda>tx. xl_tx_rlp sample_exec tx \<in> {[4, 2]}) txs" by auto
  from txs(3) obtain tx where "txs = [tx]" by (auto simp: length_Suc_conv)
  with b txs show ?thesis by auto
qed

text \<open>C39: The hash that was asked for does not matter: a server that knows one transaction of a known
  payload can return it for every hash, and the client accepts it.\<close>

theorem get_transaction_any_hash:
  assumes "bt_get payloads n = Some payload" "xl_tx_rlp X tx \<in> set (transactions payload)"
    and "tx_block_number tx = Some n" "\<And>h. er_get_transaction rpc call h = Ok (Some tx)"
  shows "get_transaction X rpc call hash payloads = Ok (Some tx)"
  unfolding get_transaction_Ok_Some using assms by blast

theorem get_transaction_any_hash_witness:
  "keccak sample_exec (xl_tx_rlp sample_exec sample_tx) \<noteq> replicate 32 5 \<and>
   get_transaction sample_exec state_rpc [] (replicate 32 5) state_payloads = Ok (Some sample_tx)"
proof -
  have "xl_tx_rlp sample_exec sample_tx = [4, 2]" by (simp add: sample_exec_def sample_tx_def)
  moreover have "(replicate 32 x :: u8 list) \<noteq> replicate 32 5" if "x \<noteq> 5" for x
    using that by (auto simp: replicate_eq_replicate)
  moreover have "keccak sample_exec [4, 2] \<in> {replicate 32 0, replicate 32 1, replicate 32 2, replicate 32 3}"
    by (simp add: sample_exec_keccak sample_keccak_def)
  ultimately show ?thesis
    using get_transaction_any_hash [of state_payloads 7 state_payload sample_exec sample_tx state_rpc "[]"
        "replicate 32 5"]
    by (auto simp: state_payloads_def bt_get_def sample_tx_def state_rpc_def)
qed

text \<open>C17: A receipt that is returned is one of as many receipts as its block has transactions, whose
  encodings have the receipts root of the block's known payload as the root of their trie.\<close>

theorem get_transaction_receipt_correct:
  assumes "get_transaction_receipt X rpc call hash payloads = Ok (Some receipt)"
  shows "er_get_transaction_receipt rpc (call @ [0]) hash = Ok (Some receipt) \<and>
    (\<exists>n payload receipts encoded. rc_block_number receipt = Some n \<and> bt_get payloads n = Some payload \<and>
       length receipts = length (transactions payload) \<and> receipt \<in> set receipts \<and>
       map (encode_receipt X) receipts = map (Ok :: bytes \<Rightarrow> (report, bytes) outcome) encoded \<and>
       xl_ordered_trie_root X encoded = receipts_root payload)"
  using get_transaction_receipt_proved [OF assms] by (simp add: receipt_proved_def)

lemma sample_get_receipt:
  "get_transaction_receipt sample_exec state_rpc call hash state_payloads = Ok (Some sample_receipt)"
  by (simp add: get_transaction_receipt_def state_rpc_def sample_receipt_def bt_get_def
      state_payloads_def tx_hashes_def join_all_def encode_receipt_def sample_exec_def Let_def)

theorem get_transaction_receipt_correct_witness:
  "\<exists>encoded. map (encode_receipt sample_exec) [sample_receipt] =
       map (Ok :: bytes \<Rightarrow> (report, bytes) outcome) encoded \<and>
     xl_ordered_trie_root sample_exec encoded = receipts_root state_payload"
  using get_transaction_receipt_correct [OF sample_get_receipt, of "[]" "[]"]
  by (auto simp: sample_receipt_def state_payloads_def bt_get_def length_Suc_conv)

text \<open>C18: At most five logs are returned, and every one of them is, by its encoding, a log of a
  receipt that is proved in this way.\<close>

theorem get_logs_correct:
  assumes "get_logs X rpc ft payloads = Ok logs"
  shows "length logs \<le> 5 \<and> list_all (\<lambda>lg. log_transaction_hash lg \<noteq> None \<and>
    (\<exists>receipt. receipt_proved X payloads receipt \<and>
       xl_log_rlp X lg \<in> xl_log_rlp X ` set (rc_logs receipt))) logs"
  using get_logs_proved [OF assms]
  by (simp add: MAX_SUPPORTED_LOGS_NUMBER_def list_all_iff log_proved_def)

theorem get_logs_correct_witness:
  "get_logs sample_exec state_rpc \<lparr>ft_from_block = None, ft_to_block = None, ft_block_hash = None,
      ft_fields = []\<rparr> state_payloads = Ok [sample_log] \<and>
   (\<exists>receipt. receipt_proved sample_exec state_payloads receipt)"
proof -
  have run: "get_logs sample_exec state_rpc \<lparr>ft_from_block = None, ft_to_block = None,
      ft_block_hash = None, ft_fields = []\<rparr> state_payloads = Ok [sample_log]"
  proof -
    have "er_get_logs state_rpc ft = Ok [sample_log]" for ft by (simp add: state_rpc_def)
    moreover have "check_logs sample_exec state_rpc state_payloads 0 [sample_log] = Ok ()"
      by (simp add: sample_get_receipt) (simp add: sample_log_def sample_receipt_def)
    ultimately show ?thesis
      by (simp add: get_logs_def restrict_filter_def state_payloads_def bt_last_key_value_def
          MAX_SUPPORTED_LOGS_NUMBER_def)
  qed
  from get_logs_correct [OF run] run show ?thesis by auto
qed

subsection \<open>Fee history\<close>

text \<open>C28: Where the known payloads have no gap and the request does not end before the oldest, the
  fee history has one base fee and one ratio for every block from \<open>block_count\<close> before the last
  requested known block, or from the oldest known block, up to the last one, in order.\<close>

theorem get_fee_history_correct:
  assumes "contiguous payloads oldest latest" "oldest \<le> last_block"
    and "unat block_count \<le> unat (min last_block latest)"
  shows "\<exists>fh. get_fee_history X block_count last_block percentiles payloads = Ok (Some fh) \<and>
    fh_base_fee_per_gas fh = map (\<lambda>n. base_fee_per_gas (the (bt_get payloads (of_nat n))))
      [max (unat oldest) (unat (min last_block latest) - unat block_count) ..< Suc (unat (min last_block latest))] \<and>
    length (fh_gas_used_ratio fh) = length (fh_base_fee_per_gas fh)"
proof -
  let ?l = "min last_block latest"
  have "unat (?l - block_count) = unat ?l - unat block_count"
    using assms(3) by (intro unat_sub) (simp add: word_le_nat_alt)
  then have "unat (max oldest (?l - block_count)) = max (unat oldest) (unat ?l - unat block_count)"
    by (simp add: max_def word_le_nat_alt)
  then have w: "fee_window oldest latest block_count last_block =
      map of_nat [max (unat oldest) (unat ?l - unat block_count) ..< Suc (unat ?l)]"
    by (simp add: fee_window_def inclusive_range_def del: upt_Suc)
  show ?thesis
    using get_fee_history_window [OF assms(1,2), of X block_count percentiles]
    by (auto simp: w base_fee_at_def simp del: upt_Suc)
qed

lemma sample_contiguous: "contiguous state_payloads 7 7"
  by (auto simp: contiguous_def state_payloads_def bt_first_key_value_def bt_last_key_value_def bt_get_def)

theorem get_fee_history_correct_witness:
  "\<exists>fh. get_fee_history sample_exec 3 9 [] state_payloads = Ok (Some fh) \<and> fh_base_fee_per_gas fh = [3]"
  using get_fee_history_correct [OF sample_contiguous, of 9 3 sample_exec "[]"]
  by (auto simp: state_payloads_def bt_get_def min_def)

text \<open>A request for more blocks than the number of its last block wraps around, and the answer is
  an empty fee history, although payloads in the range are known.\<close>

theorem get_fee_history_wraps:
  assumes "contiguous payloads oldest latest" "oldest \<le> last_block"
    and "unat (min last_block latest) < unat block_count"
  shows "\<exists>fh. get_fee_history X block_count last_block percentiles payloads = Ok (Some fh) \<and>
    fh_base_fee_per_gas fh = [] \<and> fh_gas_used_ratio fh = []"
  using get_fee_history_window [OF assms(1,2), of X block_count percentiles]
  by (auto simp: fee_window_underflow [OF assms(3)])

theorem get_fee_history_wraps_witness:
  "bt_get state_payloads 7 = Some state_payload \<and>
   (\<exists>fh. get_fee_history sample_exec 8 7 [] state_payloads = Ok (Some fh) \<and> fh_base_fee_per_gas fh = [])"
  using get_fee_history_wraps [OF sample_contiguous, of 7 8 sample_exec "[]"]
  by (auto simp: state_payloads_def bt_get_def)

text \<open>A successful check of a fee history means that every base fee of the server's answer,
  except the one at position \<open>block_count\<close>, is the computed one, and every gas ratio rounds to
  the computed one.\<close>

theorem verify_fee_history_correct:
  assumes "verify_fee_history X rpc calculated block_count last_block percentiles = Ok ()"
    and "er_get_fee_history rpc block_count last_block percentiles = Ok fh"
    and "i < length (fh_base_fee_per_gas fh)" "i \<noteq> unat block_count"
  shows "i < length (fh_base_fee_per_gas calculated) \<and>
    fh_base_fee_per_gas calculated ! i = fh_base_fee_per_gas fh ! i \<and>
    fl_equal X (fh_gas_used_ratio calculated ! i)
      (fl_divide X (fl_round X (fl_times X (fh_gas_used_ratio fh ! i) (fl_powi X 10 12))) (fl_powi X 10 12))"
  using assms verify_fee_loop_Ok [of X calculated fh block_count 0 "fh_base_fee_per_gas fh" i]
  by (simp add: verify_fee_history_def)

theorem verify_fee_history_correct_witness:
  "verify_fee_history sample_exec state_rpc \<lparr>fh_oldest_block = 7, fh_base_fee_per_gas = [3],
     fh_gas_used_ratio = [0], fh_reward = []\<rparr> 1 7 [] = Ok () \<and> (0 :: nat) < length [3 :: u256]"
proof -
  let ?c = "\<lparr>fh_oldest_block = 7, fh_base_fee_per_gas = [3], fh_gas_used_ratio = [0], fh_reward = []\<rparr> :: fee_history"
  have run: "verify_fee_history sample_exec state_rpc ?c 1 7 [] = Ok ()"
    by (simp add: verify_fee_history_def state_rpc_def block_to_check_def sample_exec_def Let_def)
  have rpc: "er_get_fee_history state_rpc 1 7 [] = Ok ?c" by (simp add: state_rpc_def)
  show ?thesis using verify_fee_history_correct [OF run rpc, of 0] run by simp
qed

subsection \<open>The EVM\<close>

text \<open>C16: The output of a call is what the interpreter returns, ending normally, in the environment of
  the payload and of the call's options, on the database over the accounts fetched for the call. Whatever
  the server answers, the database reads every account and slot from an account whose proofs are
  accepted against the state root of the payload; the accounts of the addresses 1 to 9, the precompiles,
  are empty without a proof. A block hash is that of a known payload
  (which need not be a proved one).\<close>

theorem evm_call_on_proved_state:
  assumes "evm_call V cid (proof_db_new rpc payload payloads) opts = Ok output"
    and "execution_laws (vl_execution V)"
  shows "\<exists>m D env tx. batch_fetch_accounts V (proof_db_new rpc payload payloads) opts = Ok m \<and>
    D = database_of V (set_accounts m (proof_db_new rpc payload payloads)) \<and>
    get_env V cid payload opts = (Ok env :: (report evm_error, env) outcome) \<and>
    vl_transact V D env = Some tx \<and> exit_reason tx \<in> {RevmReturn, RevmStop} \<and> tx_out tx = OutCall output \<and>
    (\<forall>call a info. db_basic D call a = Ok info \<and> length a = 20 \<longrightarrow>
       (if \<exists>n. 1 \<le> n \<and> n \<le> 9 \<and> a = replicate 19 0 @ [n]
        then info = \<lparr>ai_balance = 0, ai_nonce = 0, ai_code = []\<rparr>
        else \<exists>acc. account_proved (vl_execution V) payload a acc \<and>
          info = \<lparr>ai_balance = ac_balance acc, ai_nonce = ac_nonce acc, ai_code = ac_code acc\<rparr>)) \<and>
    (\<forall>call a n v. db_storage D call a n = Ok v \<longrightarrow>
       (\<exists>acc. account_proved (vl_execution V) payload a acc \<and>
          ac_slots acc (vl_h256_from_uint V n) = Some v)) \<and>
    (\<forall>n h. db_block_hash D n = Ok h \<longrightarrow> unat n < 2 ^ 64 \<and>
       (\<exists>p. bt_get payloads (ucast n) = Some p \<and> h = block_hash p))"
proof -
  from assms(1) obtain db tx where run: "transact V cid (proof_db_new rpc payload payloads) opts = Ok (db, tx)"
    and tx: "exit_reason tx = RevmReturn \<or> exit_reason tx = RevmStop" "tx_out tx = OutCall output"
    by (auto simp: evm_call_def outcome_simps split: if_splits option.splits transact_out.splits)
  note facts = transact_Ok [OF run assms(2)]
  then obtain env where env: "get_env V cid payload opts = (Ok env :: (report evm_error, env) outcome)"
    "vl_transact V (database_of V db) env = Some tx" by blast
  let ?D = "database_of V db"
  have basics: "if \<exists>n. 1 \<le> n \<and> n \<le> 9 \<and> a = replicate 19 0 @ [n]
      then info = \<lparr>ai_balance = 0, ai_nonce = 0, ai_code = []\<rparr>
      else \<exists>acc. account_proved (vl_execution V) payload a acc \<and>
        info = \<lparr>ai_balance = ac_balance acc, ai_nonce = ac_nonce acc, ai_code = ac_code acc\<rparr>"
    if "db_basic ?D call a = Ok info" "length a = 20" for call a info
  proof (cases "is_precompile a")
    case True
    with that is_precompile_addresses [OF that(2)] show ?thesis by (auto simp: database_of_def basic_def)
  next
    case False
    then have "\<not> (\<exists>n. 1 \<le> n \<and> n \<le> 9 \<and> a = replicate 19 0 @ [n])"
      using is_precompile_addresses [OF that(2)] by blast
    moreover have "basic V db (0 # call) a = Ok info" using that(1) by (simp add: database_of_def)
    from basic_proved [OF facts(1) this False] facts(2)
    have "\<exists>acc. account_proved (vl_execution V) payload a acc \<and>
      info = \<lparr>ai_balance = ac_balance acc, ai_nonce = ac_nonce acc, ai_code = ac_code acc\<rparr>" by simp
    ultimately show ?thesis by (simp only: if_False)
  qed
  have slots: "\<exists>acc. account_proved (vl_execution V) payload a acc \<and>
      ac_slots acc (vl_h256_from_uint V n) = Some v"
    if "db_storage ?D call a n = Ok v" for call a n v
    using storage_proved [OF facts(1), of "1 # call" a n v] that facts(2) by (auto simp: database_of_def)
  have hashes: "unat n < 2 ^ 64 \<and> (\<exists>p. bt_get payloads (ucast n) = Some p \<and> h = block_hash p)"
    if "db_block_hash ?D n = Ok h" for n h
    using that facts(3)
    by (auto simp: database_of_def evm_block_hash_def u256_as_u64_def outcome_simps split: if_splits)
  from tx have ended: "exit_reason tx \<in> {RevmReturn, RevmStop}" by auto
  from transact_fetched [OF run] obtain m where "batch_fetch_accounts V (proof_db_new rpc payload payloads) opts = Ok m"
    "?D = database_of V (set_accounts m (proof_db_new rpc payload payloads))" by blast
  with ended tx(2) env basics slots hashes show ?thesis by blast
qed

definition sample_evm :: evm_lib where
  "sample_evm = \<lparr>vl_execution = sample_exec,
     vl_transact = (\<lambda>_ _. Some \<lparr>exit_reason = RevmReturn, tx_out = OutCall [1], tx_gas_used = 21000\<rparr>),
     vl_h256_from_uint = (\<lambda>n. replicate 31 0 @ [ucast n]), vl_u256_from_little_endian = (\<lambda>_. 0)\<rparr>"

definition no_opts :: call_opts where
  "no_opts = \<lparr>co_from = None, co_to = None, co_gas = None, co_gas_price = None, co_value = None,
     co_data = None\<rparr>"

lemma sample_call: "evm_call sample_evm 1 (proof_db_new state_rpc state_payload state_payloads) no_opts = Ok [1]"
proof -
  have "fee_recipient state_payload = sample_address"
    by (simp add: fee_recipient_def state_payload_def payload_bellatrix_default_def sample_address_def)
  moreover have "er_create_access_list state_rpc opts b = Ok []" for opts b by (simp add: state_rpc_def)
  ultimately have "\<exists>m. batch_fetch_accounts sample_evm (proof_db_new state_rpc state_payload state_payloads) no_opts = Ok m"
    by (simp add: batch_fetch_accounts_eq proof_db_new_def access_list_def no_opts_def
        fetch_chunk_def sample_evm_def sample_get_account Let_def flip: sample_address_def)
  then show ?thesis
    by (auto simp: evm_call_def transact_def get_env_def no_opts_def sample_evm_def set_accounts_def
        proof_db_new_def Let_def)
qed

theorem evm_call_on_proved_state_witness:
  "evm_call sample_evm 1 (proof_db_new state_rpc state_payload state_payloads) no_opts = Ok [1] \<and>
   (\<exists>D env tx. vl_transact sample_evm D env = Some tx \<and> tx_out tx = OutCall [1])"
  using evm_call_on_proved_state [OF sample_call] sample_execution_laws sample_call
  by (auto simp: sample_evm_def)

text \<open>Fetching the accounts of a call in batches of twenty gives what fetching them one after the
  other gives, panics included.\<close>

theorem batch_fetch_accounts_correct:
  "batch_fetch_accounts V db opts =
     and_then (map_err EvmRpcError (er_create_access_list (pd_rpc db) opts
                 (block_number (pd_current_payload db)))) (\<lambda>listed.
     fetch_chunk (vl_execution V) (pd_rpc db) (pd_current_payload db)
       (enumerate 0 (access_list opts (pd_current_payload db) listed)) Map.empty)"
  by (rule batch_fetch_accounts_eq)

end
