(* ===== verification/Client_Queries.thy ===== *)
theory Client_Queries
  imports Client_Lemmas
begin

text \<open>
  The queries of \<open>Client\<close> (\<open>client/src/client.rs\<close>): each takes the read lock of the node and asks it.
  The execution server, the libraries and the readings of the clock are one argument.
\<close>

record query_env =
  qe_evm :: evm_lib
  qe_rpc :: execution_rpc
  qe_now :: "nat \<Rightarrow> u64"

definition client_call ::
    "query_env \<Rightarrow> 'db client \<Rightarrow> call_opts \<Rightarrow> block_tag \<Rightarrow> (report, bytes) outcome" where
  "client_call Q c opts block =
     map_err NodeReport (node_call (qe_evm Q) (qe_rpc Q) (qe_now Q 0) (cl_node c) opts block)"

definition client_estimate_gas ::
    "query_env \<Rightarrow> 'db client \<Rightarrow> call_opts \<Rightarrow> (report, u64) outcome" where
  "client_estimate_gas Q c opts =
     map_err NodeReport (node_estimate_gas (qe_evm Q) (qe_rpc Q) (qe_now Q 0) (cl_node c) opts)"

definition client_get_balance ::
    "query_env \<Rightarrow> 'db client \<Rightarrow> address \<Rightarrow> block_tag \<Rightarrow> (report, u256) outcome" where
  "client_get_balance Q c addr block =
     get_balance (vl_execution (qe_evm Q)) (qe_rpc Q) (qe_now Q 0) (cl_node c) addr block"

definition client_get_nonce ::
    "query_env \<Rightarrow> 'db client \<Rightarrow> address \<Rightarrow> block_tag \<Rightarrow> (report, u64) outcome" where
  "client_get_nonce Q c addr block =
     get_nonce (vl_execution (qe_evm Q)) (qe_rpc Q) (qe_now Q 0) (cl_node c) addr block"

definition client_get_block_transaction_count_by_hash ::
    "query_env \<Rightarrow> 'db client \<Rightarrow> bytes \<Rightarrow> (report, u64) outcome" where
  "client_get_block_transaction_count_by_hash Q c hash =
     get_block_transaction_count_by_hash (cl_node c) hash"

definition client_get_block_transaction_count_by_number ::
    "query_env \<Rightarrow> 'db client \<Rightarrow> block_tag \<Rightarrow> (report, u64) outcome" where
  "client_get_block_transaction_count_by_number Q c block =
     get_block_transaction_count_by_number (cl_node c) block"

definition client_get_code ::
    "query_env \<Rightarrow> 'db client \<Rightarrow> address \<Rightarrow> block_tag \<Rightarrow> (report, bytes) outcome" where
  "client_get_code Q c addr block =
     get_code (vl_execution (qe_evm Q)) (qe_rpc Q) (qe_now Q 0) (cl_node c) addr block"

definition client_get_storage_at ::
    "query_env \<Rightarrow> 'db client \<Rightarrow> address \<Rightarrow> h256 \<Rightarrow> block_tag \<Rightarrow> (report, u256) outcome" where
  "client_get_storage_at Q c addr sl block =
     get_storage_at (vl_execution (qe_evm Q)) (qe_rpc Q) (qe_now Q 0) (cl_node c) addr sl block"

definition client_send_raw_transaction ::
    "query_env \<Rightarrow> 'db client \<Rightarrow> bytes \<Rightarrow> (report, h256) outcome" where
  "client_send_raw_transaction Q c tx =
     node_send_raw_transaction (qe_rpc Q) tx"

definition client_get_transaction_receipt ::
    "query_env \<Rightarrow> 'db client \<Rightarrow> h256 \<Rightarrow> (report, transaction_receipt option) outcome" where
  "client_get_transaction_receipt Q c hash =
     node_get_transaction_receipt (vl_execution (qe_evm Q)) (qe_rpc Q) (cl_node c) hash"

definition client_get_transaction_by_hash ::
    "query_env \<Rightarrow> 'db client \<Rightarrow> h256 \<Rightarrow> (report, transaction option) outcome" where
  "client_get_transaction_by_hash Q c hash =
     get_transaction_by_hash (vl_execution (qe_evm Q)) (qe_rpc Q) (cl_node c) hash"

definition client_get_logs ::
    "query_env \<Rightarrow> 'db client \<Rightarrow> filter_opts \<Rightarrow> (report, log list) outcome" where
  "client_get_logs Q c ft =
     node_get_logs (vl_execution (qe_evm Q)) (qe_rpc Q) (cl_node c) ft"

definition client_get_gas_price ::
    "query_env \<Rightarrow> 'db client \<Rightarrow> (report, u256) outcome" where
  "client_get_gas_price Q c =
     get_gas_price (qe_now Q 0) (cl_node c)"

definition client_get_priority_fee ::
    "query_env \<Rightarrow> 'db client \<Rightarrow> (report, u256) outcome" where
  "client_get_priority_fee Q c =
     get_priority_fee"

definition client_get_block_number ::
    "query_env \<Rightarrow> 'db client \<Rightarrow> (report, u64) outcome" where
  "client_get_block_number Q c =
     get_block_number (qe_now Q 0) (cl_node c)"

definition client_get_fee_history ::
    "query_env \<Rightarrow> 'db client \<Rightarrow> u64 \<Rightarrow> u64 \<Rightarrow> f64 list \<Rightarrow> (report, fee_history option) outcome" where
  "client_get_fee_history Q c block_count last_block percentiles =
     node_get_fee_history (vl_execution (qe_evm Q)) (cl_node c) block_count last_block percentiles"

definition client_get_block_by_number ::
    "query_env \<Rightarrow> 'db client \<Rightarrow> block_tag \<Rightarrow> bool \<Rightarrow> (report, execution_block option) outcome" where
  "client_get_block_by_number Q c block full_tx =
     get_block_by_number (vl_execution (qe_evm Q)) (qe_rpc Q) (qe_now Q 0) (cl_node c) block full_tx"

definition client_get_block_by_hash ::
    "query_env \<Rightarrow> 'db client \<Rightarrow> bytes \<Rightarrow> bool \<Rightarrow> (report, execution_block option) outcome" where
  "client_get_block_by_hash Q c hash full_tx =
     get_block_by_hash (vl_execution (qe_evm Q)) (qe_rpc Q) (cl_node c) hash full_tx"

definition client_get_transaction_by_block_hash_and_index ::
    "query_env \<Rightarrow> 'db client \<Rightarrow> bytes \<Rightarrow> nat \<Rightarrow> (report, transaction option) outcome" where
  "client_get_transaction_by_block_hash_and_index Q c hash i =
     node_get_transaction_by_block_hash_and_index (vl_execution (qe_evm Q)) (qe_rpc Q) (cl_node c) hash i"

definition client_chain_id ::
    "query_env \<Rightarrow> 'db client \<Rightarrow> u64" where
  "client_chain_id Q c =
     node_chain_id (cl_node c)"

definition client_syncing ::
    "query_env \<Rightarrow> 'db client \<Rightarrow> (report, syncing_status) outcome" where
  "client_syncing Q c =
     syncing (qe_now Q 0) (qe_now Q 1) (qe_now Q 2) (cl_node c)"

definition client_get_header ::
    "query_env \<Rightarrow> 'db client \<Rightarrow> (report, header) outcome" where
  "client_get_header Q c =
     node_get_header (qe_now Q 0) (cl_node c)"

definition client_get_coinbase ::
    "query_env \<Rightarrow> 'db client \<Rightarrow> (report, address) outcome" where
  "client_get_coinbase Q c =
     get_coinbase (qe_now Q 0) (cl_node c)"

subsection \<open>What a client answers\<close>

text \<open>
  The answers at the finalised block do not depend on the clock.
\<close>

lemma client_finalized_any_clock:
  "client_get_balance (Q\<lparr>qe_now := f\<rparr>) c addr Finalized = client_get_balance Q c addr Finalized"
  "client_get_code (Q\<lparr>qe_now := f\<rparr>) c addr Finalized = client_get_code Q c addr Finalized"
  "client_get_nonce (Q\<lparr>qe_now := f\<rparr>) c addr Finalized = client_get_nonce Q c addr Finalized"
  "client_call (Q\<lparr>qe_now := f\<rparr>) c opts Finalized = client_call Q c opts Finalized"
  by (simp_all add: client_get_balance_def client_get_code_def client_get_nonce_def client_call_def
      get_balance_def get_code_def get_nonce_def node_call_def check_blocktag_age_def)

end
