(* ===== verification/Wasm_Client.thy ===== *)
theory Wasm_Client
  imports Client_Queries
begin

text \<open>
  The bindings for JavaScript (\<open>helios-ts/src/lib.rs\<close>). The conversions between JavaScript values
  and Rust types are parameters; a failed conversion or query is a panic, since every result is
  unwrapped. There is no file system behind the database of the configuration.
\<close>

record 'js js_codec =
  js_to_address :: "'js \<Rightarrow> address option"
  js_to_block_tag :: "'js \<Rightarrow> block_tag option"
  js_to_h256 :: "'js \<Rightarrow> h256 option"
  js_to_call_opts :: "'js \<Rightarrow> call_opts option"
  js_to_filter :: "'js \<Rightarrow> filter_opts option"
  js_of_transaction :: "transaction option \<Rightarrow> 'js option"
  js_of_receipt :: "transaction_receipt option \<Rightarrow> 'js option"
  js_of_u256 :: "u256 \<Rightarrow> 'js option"
  js_of_h256 :: "h256 \<Rightarrow> 'js option"
  js_of_logs :: "log list \<Rightarrow> 'js option"
  h256_from_str :: "string \<Rightarrow> h256 option"
  js_hex_encode :: "bytes \<Rightarrow> string"
  js_hex_decode :: "string \<Rightarrow> bytes option"

record wasm_client =
  wc_inner :: "bytes client"
  wc_chain_id :: u64

definition no_files :: file_system where
  "no_files = \<lparr>fs_files = Map.empty, fs_create_dir = (\<lambda>_. False), fs_writable = (\<lambda>_. False),
     fs_readable = (\<lambda>_. False), fs_write_limit = None\<rparr>"

definition wasm_config ::
    "(string \<Rightarrow> bytes option) \<Rightarrow> string \<Rightarrow> string option \<Rightarrow> string \<Rightarrow> string option \<Rightarrow>
     (report, config) outcome" where
  "wasm_config hex_dec exec_rpc cons_rpc network ckpt =
     and_then (if network = ''mainnet'' then mainnet hex_dec
               else if network = ''goerli'' then goerli hex_dec else Panic) (\<lambda>base.
     and_then (case ckpt of
                 Some c \<Rightarrow> unwrap (hex_dec (case strip_prefix ''0x'' c of Some t \<Rightarrow> t | None \<Rightarrow> c))
               | None \<Rightarrow> Ok (bc_default_checkpoint base)) (\<lambda>ck.
     and_then (unwrap (bc_consensus_rpc base)) (\<lambda>default_rpc.
     Ok (config_default\<lparr>
       execution_rpc := exec_rpc,
       consensus_rpc := (case cons_rpc of Some r \<Rightarrow> r | None \<Rightarrow> default_rpc),
       checkpoint := Some ck,
       chain := bc_chain base,
       forks := bc_forks base\<rparr>))))"

definition wasm_new ::
    "('pk, 'sg, 'y) world \<Rightarrow> string \<Rightarrow> string option \<Rightarrow> string \<Rightarrow> string option \<Rightarrow>
     (report, wasm_client) outcome" where
  "wasm_new W exec_rpc cons_rpc network ckpt =
     and_then (wasm_config (hex_decode (w_lib W)) exec_rpc cons_rpc network ckpt) (\<lambda>cfg.
     and_then (unwrap_ok (client_build W config_db_ops no_files (set_config cfg client_builder_new))) (\<lambda>inner.
     Ok \<lparr>wc_inner = inner, wc_chain_id = chain_id (chain cfg)\<rparr>))"

definition wasm_sync ::
    "('pk, 'sg, 'y) world \<Rightarrow> wasm_client \<Rightarrow> (wasm_client, report, unit) ret" where
  "wasm_sync W c =
     (case client_start W config_db_ops (wc_inner c) of
        (r, inner) \<Rightarrow> (unwrap_ok r, c\<lparr>wc_inner := inner\<rparr>))"

text \<open>The timer that advances the client every 12 seconds, also after an error.\<close>

definition wasm_tick ::
    "('pk, 'sg) consensus_lib \<Rightarrow> consensus_rpc_server \<Rightarrow> (nat \<Rightarrow> u64) \<Rightarrow> wasm_client \<Rightarrow>
     (wasm_client, report, unit) ret" where
  "wasm_tick L R clk c =
     (case node_advance L R clk (cl_node (wc_inner c)) of
        (r, n) \<Rightarrow> (if is_panic r then Panic else Ok (),
                   c\<lparr>wc_inner := (wc_inner c)\<lparr>cl_node := n\<rparr>\<rparr>))"

subsection \<open>Queries\<close>

definition wasm_chain_id :: "wasm_client \<Rightarrow> u32" where
  "wasm_chain_id c = ucast (wc_chain_id c)"

definition wasm_get_block_number :: "query_env \<Rightarrow> wasm_client \<Rightarrow> (report, u32) outcome" where
  "wasm_get_block_number Q c =
     and_then (unwrap_ok (client_get_block_number Q (wc_inner c))) (\<lambda>n. Ok (ucast n))"

definition wasm_get_balance ::
    "'js js_codec \<Rightarrow> query_env \<Rightarrow> wasm_client \<Rightarrow> 'js \<Rightarrow> 'js \<Rightarrow> (report, string) outcome" where
  "wasm_get_balance J Q c addr block =
     and_then (unwrap (js_to_address J addr)) (\<lambda>addr.
     and_then (unwrap (js_to_block_tag J block)) (\<lambda>block.
     and_then (unwrap_ok (client_get_balance Q (wc_inner c) addr block)) (\<lambda>balance.
     Ok (show_radix 10 (unat balance)))))"

definition wasm_get_transaction_by_hash ::
    "'js js_codec \<Rightarrow> query_env \<Rightarrow> wasm_client \<Rightarrow> string \<Rightarrow> (report, 'js) outcome" where
  "wasm_get_transaction_by_hash J Q c hash =
     and_then (unwrap (h256_from_str J hash)) (\<lambda>hash.
     and_then (unwrap_ok (client_get_transaction_by_hash Q (wc_inner c) hash)) (\<lambda>tx.
     unwrap (js_of_transaction J tx)))"

definition wasm_get_transaction_count ::
    "'js js_codec \<Rightarrow> query_env \<Rightarrow> wasm_client \<Rightarrow> 'js \<Rightarrow> 'js \<Rightarrow> (report, u32) outcome" where
  "wasm_get_transaction_count J Q c addr block =
     and_then (unwrap (js_to_address J addr)) (\<lambda>addr.
     and_then (unwrap (js_to_block_tag J block)) (\<lambda>block.
     and_then (unwrap_ok (client_get_nonce Q (wc_inner c) addr block)) (\<lambda>nonce. Ok (ucast nonce))))"

definition wasm_get_block_transaction_count_by_hash ::
    "'js js_codec \<Rightarrow> query_env \<Rightarrow> wasm_client \<Rightarrow> 'js \<Rightarrow> (report, u32) outcome" where
  "wasm_get_block_transaction_count_by_hash J Q c hash =
     and_then (unwrap (js_to_h256 J hash)) (\<lambda>hash.
     and_then (unwrap_ok (client_get_block_transaction_count_by_hash Q (wc_inner c) hash)) (\<lambda>n. Ok (ucast n)))"

definition wasm_get_block_transaction_count_by_number ::
    "'js js_codec \<Rightarrow> query_env \<Rightarrow> wasm_client \<Rightarrow> 'js \<Rightarrow> (report, u32) outcome" where
  "wasm_get_block_transaction_count_by_number J Q c block =
     and_then (unwrap (js_to_block_tag J block)) (\<lambda>block.
     and_then (unwrap_ok (client_get_block_transaction_count_by_number Q (wc_inner c) block)) (\<lambda>n. Ok (ucast n)))"

definition wasm_get_code ::
    "'js js_codec \<Rightarrow> query_env \<Rightarrow> wasm_client \<Rightarrow> 'js \<Rightarrow> 'js \<Rightarrow> (report, string) outcome" where
  "wasm_get_code J Q c addr block =
     and_then (unwrap (js_to_address J addr)) (\<lambda>addr.
     and_then (unwrap (js_to_block_tag J block)) (\<lambda>block.
     and_then (unwrap_ok (client_get_code Q (wc_inner c) addr block)) (\<lambda>code.
     Ok (''0x'' @ js_hex_encode J code))))"

definition wasm_call ::
    "'js js_codec \<Rightarrow> query_env \<Rightarrow> wasm_client \<Rightarrow> 'js \<Rightarrow> 'js \<Rightarrow> (report, string) outcome" where
  "wasm_call J Q c opts block =
     and_then (unwrap (js_to_call_opts J opts)) (\<lambda>opts.
     and_then (unwrap (js_to_block_tag J block)) (\<lambda>block.
     and_then (unwrap_ok (client_call Q (wc_inner c) opts block)) (\<lambda>res.
     Ok (''0x'' @ js_hex_encode J res))))"

definition wasm_estimate_gas ::
    "'js js_codec \<Rightarrow> query_env \<Rightarrow> wasm_client \<Rightarrow> 'js \<Rightarrow> (report, u32) outcome" where
  "wasm_estimate_gas J Q c opts =
     and_then (unwrap (js_to_call_opts J opts)) (\<lambda>opts.
     and_then (unwrap_ok (client_estimate_gas Q (wc_inner c) opts)) (\<lambda>gas. Ok (ucast gas)))"

definition wasm_gas_price :: "'js js_codec \<Rightarrow> query_env \<Rightarrow> wasm_client \<Rightarrow> (report, 'js) outcome" where
  "wasm_gas_price J Q c =
     and_then (unwrap_ok (client_get_gas_price Q (wc_inner c))) (\<lambda>price. unwrap (js_of_u256 J price))"

definition wasm_max_priority_fee_per_gas ::
    "'js js_codec \<Rightarrow> query_env \<Rightarrow> wasm_client \<Rightarrow> (report, 'js) outcome" where
  "wasm_max_priority_fee_per_gas J Q c =
     and_then (unwrap_ok (client_get_priority_fee Q (wc_inner c))) (\<lambda>price. unwrap (js_of_u256 J price))"

text \<open>\<open>hex::decode\<close> does not take the prefix \<open>0x\<close>.\<close>

definition wasm_send_raw_transaction ::
    "'js js_codec \<Rightarrow> query_env \<Rightarrow> wasm_client \<Rightarrow> string \<Rightarrow> (report, 'js) outcome" where
  "wasm_send_raw_transaction J Q c tx =
     and_then (unwrap (js_hex_decode J tx)) (\<lambda>tx.
     and_then (unwrap_ok (client_send_raw_transaction Q (wc_inner c) tx)) (\<lambda>hash.
     unwrap (js_of_h256 J hash)))"

definition wasm_get_transaction_receipt ::
    "'js js_codec \<Rightarrow> query_env \<Rightarrow> wasm_client \<Rightarrow> 'js \<Rightarrow> (report, 'js) outcome" where
  "wasm_get_transaction_receipt J Q c tx =
     and_then (unwrap (js_to_h256 J tx)) (\<lambda>tx.
     and_then (unwrap_ok (client_get_transaction_receipt Q (wc_inner c) tx)) (\<lambda>receipt.
     unwrap (js_of_receipt J receipt)))"

definition wasm_get_logs ::
    "'js js_codec \<Rightarrow> query_env \<Rightarrow> wasm_client \<Rightarrow> 'js \<Rightarrow> (report, 'js) outcome" where
  "wasm_get_logs J Q c ft =
     and_then (unwrap (js_to_filter J ft)) (\<lambda>ft.
     and_then (unwrap_ok (client_get_logs Q (wc_inner c) ft)) (\<lambda>logs. unwrap (js_of_logs J logs)))"

subsection \<open>The age of the checkpoint\<close>

text \<open>
  The constructor takes the other settings from the default: the maximal age is zero, and the
  strict check is off.
\<close>

lemma wasm_config_age:
  assumes "wasm_config hex_dec exec_rpc cons_rpc network ckpt = Ok cfg"
  shows "max_checkpoint_age cfg = 0" "\<not> strict_checkpoint_age cfg" "checkpoint cfg \<noteq> None"
    "fallback cfg = None" "\<not> load_external_fallback cfg"
  using assms by (auto simp: wasm_config_def config_default_def outcome_simps split: if_splits)

lemma is_valid_checkpoint_zero_age:
  "max_checkpoint_age cfg = 0 \<Longrightarrow> is_valid_checkpoint cfg now s \<noteq> Ok True"
  by (auto simp: is_valid_checkpoint_def outcome_simps Let_def)

lemma is_valid_checkpoint_not_Err: "is_valid_checkpoint cfg now s \<noteq> Err e"
  by (auto simp: is_valid_checkpoint_def expected_current_slot_def outcome_simps Let_def)

lemma bootstrap_never_too_old:
  assumes "\<not> strict_checkpoint_age (client_config c)"
  shows "fst (bootstrap_client L R now c) \<noteq> Err (ConsensusReport CheckpointTooOld)"
proof -
  have "bootstrap_client L R now c \<noteq> (Err (ConsensusReport CheckpointTooOld), c')" for c'
    using assms by (auto simp: bootstrap_client_def Let_def outcome_simps is_valid_checkpoint_not_Err)
  then show ?thesis by (metis prod.collapse)
qed

lemma wasm_new_config:
  assumes "wasm_new W exec_rpc cons_rpc network ckpt = Ok c"
  obtains cfg ck where "wasm_config (hex_decode (w_lib W)) exec_rpc cons_rpc network ckpt = Ok cfg"
    "checkpoint cfg = Some ck" "consensus (cl_node (wc_inner c)) = consensus_client_new ck cfg"
    "no_payloads (cl_node (wc_inner c))" "wc_chain_id c = chain_id (chain cfg)"
proof -
  from assms obtain cfg inner where cfg: "wasm_config (hex_decode (w_lib W)) exec_rpc cons_rpc network ckpt = Ok cfg"
    and new: "client_new W config_db_ops no_files cfg = Ok inner"
    and c: "wc_inner c = inner" "wc_chain_id c = chain_id (chain cfg)"
    by (auto simp: wasm_new_def build_same_config outcome_simps)
  obtain ck where ck: "checkpoint cfg = Some ck" using wasm_config_age(3) [OF cfg] by blast
  with new have "consensus (cl_node inner) = consensus_client_new ck cfg"
    by (auto simp: client_new_def config_db_ops_def config_db_new_def node_new_def outcome_simps)
  with that [OF cfg ck] c client_new_Ok(1) [OF new] show ?thesis by simp
qed

end
