(* ===== verification/Client_Properties.thy ===== *)
theory Client_Properties
  imports Sample_Chain Wasm_Client
begin

text \<open>
  The properties of the client as a program: what it trusts over all its runs, and how the process
  ends.
\<close>

text \<open>C6: Over the whole life of an installation, through any restarts, kills, failed and interrupted
  saves and against any servers: the finalised payload of a running client is linked to a
  checkpoint that a chain of finalised checkpoints connects to the default one. (The
  checkpoint comes from the file, without fallbacks.)\<close>

theorem deployment_payload_trusted:
  assumes "deployment L Ws cfg dir (Running p)" "file_settings cfg dir" "roots_sized L"
    and "get_payload (cl_node (cp_client p)) Finalized = Ok payload"
  shows "\<exists>ck. checkpoint_chain L cfg ck \<and> payload_trusted L (cfg\<lparr>checkpoint := Some ck\<rparr>) ck payload"
  using running_payload_trusted [OF _ assms(4)] deployment_chained [OF assms(1-3)]
  by (simp add: run_chained_def)

theorem deployment_payload_trusted_witness:
  "\<exists>ck. checkpoint_chain sample_lib stored_config ck \<and>
     payload_trusted sample_lib (stored_config\<lparr>checkpoint := Some ck\<rparr>) ck (payload_at 160)"
proof (rule deployment_payload_trusted [OF sample_deployment])
  show "file_settings stored_config ''data''"
    by (simp add: file_settings_def stored_config_def sample_config_def config_default_def)
  show "roots_sized sample_lib" by (simp add: roots_sized_def root_of_slot_def)
qed (simp add: get_payload_def file_client_def node_3_def bt_last_key_value_def)

text \<open>C26: The process ends in three ways. It runs until the third press of ctrl-c, the end of the save that
  the first press starts, or a panic. The first two end it with the exit code 0, and no later than at the third press, also
  where the save never finishes; a save never ends it before a press. A panic is the abort of the release
  build, with the status 134: it is the last event, of a process in which the advance
  task or a request panics.\<close>

theorem cli_presses:
  assumes "cli_steps L es (Running p) s" "cp_counter p = 0" "\<not> cp_saving p"
  shows "((\<exists>q. s = Running q) \<longleftrightarrow>
      count_list es Pressed < 3 \<and> Saved \<notin> set es \<and> Crashed \<notin> set es) \<and>
    ((\<exists>fs. s = Exited 0 fs) \<longleftrightarrow>
      Crashed \<notin> set es \<and> (count_list es Pressed = 3 \<or> Saved \<in> set es)) \<and>
    ((\<exists>fs. s = Exited 134 fs) \<longleftrightarrow> Crashed \<in> set es) \<and>
    count_list es Pressed \<le> 3 \<and> (Saved \<in> set es \<longrightarrow> 0 < count_list es Pressed) \<and>
    (Crashed \<in> set es \<longrightarrow>
      (\<exists>es' q. es = es' @ [Crashed] \<and> cli_steps L es' (Running p) (Running q) \<and> task_panics L q))"
  using counts_steps [OF assms] crash_last [OF assms(1)]
  by (cases s) (auto simp: counts_def split: if_splits)

theorem cli_presses_witness:
  "\<exists>fs. cli_steps sample_lib [Pressed, Pressed, Pressed]
       (Running \<lparr>cp_client = file_client, cp_counter = 0, cp_saving = False\<rparr>) (Exited 0 fs)"
proof -
  let ?p = "\<lparr>cp_client = file_client, cp_counter = 0, cp_saving = False\<rparr>"
  let ?q = "?p\<lparr>cp_counter := 2, cp_saving := True\<rparr>"
  have "cli_steps sample_lib ([] @ [Pressed]) (Running ?p) (ctrl_c ?p)"
    by (rule cli_steps.more [OF cli_steps.none cli_step.press])
  then have "cli_steps sample_lib [Pressed] (Running ?p) (Running (?p\<lparr>cp_counter := 1, cp_saving := True\<rparr>))"
    by (simp add: ctrl_c_eq)
  from cli_steps.more [OF this cli_step.press]
  have "cli_steps sample_lib [Pressed, Pressed] (Running ?p) (Running ?q)"
    by (simp add: ctrl_c_eq)
  from cli_steps.more [OF this cli_step.press]
  have run: "cli_steps sample_lib [Pressed, Pressed, Pressed] (Running ?p) (ctrl_c ?q)" by simp
  from cli_presses [OF this] show ?thesis using run by (auto simp: ctrl_c_eq)
qed

text \<open>C27: Any request for \<open>eth_coinbase\<close> while the head is too old aborts the whole process: the handler
  unwraps the error of the node, and the release build does not unwind. The checkpoint is not saved.\<close>

theorem coinbase_aborts:
  assumes "cl_rpc (cp_client p) \<noteq> None" "check_head_age (cl_node (cp_client p)) (now 0) = Err e"
  shows "rpc_handle (request_inner V F E now (cl_node (cp_client p))) Coinbase = Panic \<and>
    cli_step L Crashed (Running p) (Exited 134 (cl_files (cp_client p)))"
proof
  show panic: "rpc_handle (request_inner V F E now (cl_node (cp_client p))) Coinbase = Panic" for V F E
    using assms(2) by (simp add: eth_coinbase_def request_inner_def out_of_sync_Err map_ok_def)
  have "left_files None p = cl_files (cp_client p)" by (simp add: left_files_def)
  with cli_step.handler_panics [OF assms(1) panic, of None L]
  show "cli_step L Crashed (Running p) (Exited 134 (cl_files (cp_client p)))" by simp
qed

theorem coinbase_aborts_witness:
  "\<exists>fs. cli_step sample_lib Crashed
     (Running \<lparr>cp_client = file_client\<lparr>cl_rpc := Some (LOCALHOST, 8545)\<rparr>, cp_counter = 0, cp_saving = False\<rparr>)
     (Exited 134 fs)"
proof -
  let ?p = "\<lparr>cp_client = file_client\<lparr>cl_rpc := Some (LOCALHOST, 8545)\<rparr>, cp_counter = 0, cp_saving = False\<rparr>"
  have "check_head_age (cl_node (cp_client ?p)) ((\<lambda>_. 12000) 0) = Err (OutOfSync 790)"
    by (simp add: check_head_age_def expected_current_slot_def file_client_def node_3_def client_3_def
        get_header_def sample_config_def stored_config_def)
  from coinbase_aborts [OF _ this, where L = sample_lib] show ?thesis by auto
qed

text \<open>The client for JavaScript never refuses a checkpoint as too old: the bindings set the maximal age
  to zero and leave the strict check off, so that any age only gives a warning, with any server
  and at any time.\<close>

theorem wasm_never_too_old:
  assumes "wasm_new W exec_rpc cons_rpc network ckpt = Ok c"
  shows "is_valid_checkpoint (client_config (consensus (cl_node (wc_inner c)))) now s \<noteq> Ok True \<and>
    fst (bootstrap_client (w_lib W) R now (consensus (cl_node (wc_inner c)))) \<noteq> Err (ConsensusReport CheckpointTooOld)"
proof -
  from assms obtain cfg ck where cfg: "wasm_config (hex_decode (w_lib W)) exec_rpc cons_rpc network ckpt = Ok cfg"
    and c: "consensus (cl_node (wc_inner c)) = consensus_client_new ck cfg"
    by (rule wasm_new_config)
  then have "client_config (consensus (cl_node (wc_inner c))) = cfg" by (simp add: consensus_client_new_def)
  with wasm_config_age(1,2) [OF cfg] is_valid_checkpoint_zero_age bootstrap_never_too_old show ?thesis by metis
qed

theorem wasm_never_too_old_witness:
  "\<exists>c. wasm_new sample_world ''rpc'' None ''mainnet'' None = Ok c \<and>
     fst (bootstrap_client sample_lib sample_server 12000 (consensus (cl_node (wc_inner c))))
       \<noteq> Err (ConsensusReport CheckpointTooOld)"
proof -
  have "\<exists>cfg ck. wasm_config (hex_decode sample_lib) ''rpc'' None ''mainnet'' None = Ok cfg \<and> checkpoint cfg = Some ck"
    by (simp add: wasm_config_def mainnet_def hex_const_def hex_str_to_bytes_def sample_lib_def outcome_simps)
  then obtain cfg ck where cfg: "wasm_config (hex_decode sample_lib) ''rpc'' None ''mainnet'' None = Ok cfg"
    "checkpoint cfg = Some ck" by blast
  then have "\<exists>inner. client_new sample_world config_db_ops no_files cfg = Ok inner"
    by (simp add: client_new_def config_db_ops_def config_db_new_def node_new_def sample_world_def)
  then obtain c where c: "wasm_new sample_world ''rpc'' None ''mainnet'' None = Ok c"
    using cfg(1) by (auto simp: wasm_new_def build_same_config sample_world_def)
  have "w_lib sample_world = sample_lib" by (simp add: sample_world_def)
  with c wasm_never_too_old [OF c, of 12000 0 sample_server, where 'd = report] show ?thesis by metis
qed

text \<open>C35: The constructor for JavaScript always panics for the network goerli, also where it is given a
  consensus RPC: it unwraps the default one of the network first, and goerli has none.\<close>

theorem wasm_goerli_panics:
  "wasm_new W exec_rpc cons_rpc ''goerli'' ckpt \<noteq> Ok c \<and>
   (cons_rpc = Some url \<longrightarrow> (\<exists>base. goerli (hex_decode (w_lib W)) = Ok base) \<longrightarrow> ckpt = None \<longrightarrow>
     wasm_new W exec_rpc cons_rpc ''goerli'' ckpt = Panic)"
proof -
  have none: "bc_consensus_rpc base = None" if "goerli hex_dec = Ok base" for hex_dec base
    using that by (auto simp: goerli_def outcome_simps)
  then have "wasm_config hex_dec exec_rpc cons_rpc ''goerli'' ckpt \<noteq> Ok cfg" for hex_dec cfg
    by (auto simp: wasm_config_def outcome_simps)
  with none show ?thesis by (auto simp: wasm_new_def wasm_config_def outcome_simps)
qed

theorem wasm_goerli_panics_witness:
  "wasm_new sample_world ''rpc'' (Some ''consensus'') ''goerli'' None = Panic"
proof -
  have "\<exists>base. goerli (hex_decode (w_lib sample_world)) = Ok base"
    by (simp add: goerli_def hex_const_def hex_str_to_bytes_def sample_lib_def sample_world_def outcome_simps)
  then show ?thesis using wasm_goerli_panics [of sample_world "''rpc''" "Some ''consensus''" None] by blast
qed

end
