(* ===== verification/Client_Service.thy ===== *)
theory Client_Service
  imports Rpc_Server
begin

text \<open>
  The tasks of a running client (\<open>client/src/client.rs\<close>, \<open>client/src/rpc.rs\<close>) and the lock on the node
  that they share. \<open>Client::start\<close> opens the RPC server before the first sync, so that requests are
  handled while the node syncs, boots again from a fallback, and advances. The lock is the
  \<open>RwLock\<close> of the runtime, whose documented contract is the guards of the steps: any number of
  readers, or one writer. Every handler takes it once, for reading, before its first use of the node.
  A section under the lock is not one step: while the writer works the node takes any intermediate
  values, and while a handler waits for the execution server the other tasks go on. In the release
  build a panic of any task aborts the process (\<open>Cargo.toml\<close>), and nothing follows it.
\<close>

subsection \<open>The client's own task\<close>

datatype attempt = Configured | Fallback | External

fun attempt_number :: "attempt \<Rightarrow> nat" where
  "attempt_number Configured = 0"
| "attempt_number Fallback = 1"
| "attempt_number External = 2"

text \<open>
  Where the task is: before a sync, before the consensus client is replaced, before the checkpoint
  is saved, in the advance loop before an advance or before it asks how long to sleep; after a start
  that failed with a result, or at a panic in the loop.
\<close>

datatype phase =
    Syncing attempt
  | Rebooting attempt bytes
  | Saving
  | Advancing
  | Resting
  | Failed "(report, unit) outcome"
  | Ended

text \<open>What \<open>start\<close> does next, from the result of the section that ended.\<close>

definition external_phase :: "('pk, 'sg, 'y) world \<Rightarrow> 'db client \<Rightarrow> phase" where
  "external_phase W c =
     (case and_then (map_err (\<lambda>_. Message ''Failed to construct external checkpoint sync fallbacks'')
                (build_fallback (w_fallback W) checkpoint_fallback_new)) (\<lambda>list.
             if chain_id (chain (node_config (cl_node c))) = 5
             then map_err (\<lambda>_. Message ''Failed to fetch latest goerli checkpoint from external fallbacks'')
                    (fetch_latest_checkpoint (w_fallback W) (w_order W) list GOERLI)
             else map_err (\<lambda>_. Message ''Failed to fetch latest mainnet checkpoint from external fallbacks'')
                    (fetch_latest_checkpoint (w_fallback W) (w_order W) list MAINNET)) of
        Ok ckpt \<Rightarrow> Rebooting External ckpt
      | Err e \<Rightarrow> Failed (Err e)
      | Panic \<Rightarrow> Failed Panic)"

definition fallback_failed :: "('pk, 'sg, 'y) world \<Rightarrow> 'db client \<Rightarrow> phase" where
  "fallback_failed W c =
     (if cl_load_external_fallback c then external_phase W c
      else Failed (Err (ConsensusReport CheckpointTooOld)))"

definition fallback_phase :: "('pk, 'sg, 'y) world \<Rightarrow> 'db client \<Rightarrow> phase" where
  "fallback_phase W c =
     (case cl_fallback c of
        Some url \<Rightarrow>
          (case fetch_checkpoint_from_api (w_fallback W) url of
             Ok ckpt \<Rightarrow> Rebooting Fallback ckpt
           | Err _ \<Rightarrow> fallback_failed W c
           | Panic \<Rightarrow> Failed Panic)
      | None \<Rightarrow> fallback_failed W c)"

fun after_sync ::
    "('pk, 'sg, 'y) world \<Rightarrow> attempt \<Rightarrow> (report node_error, unit) outcome \<Rightarrow> 'db client \<Rightarrow> phase" where
  "after_sync W a (Ok _) c = Saving"
| "after_sync W a Panic c = Failed Panic"
| "after_sync W Configured (Err err) c =
     (case err of
        ConsensusSyncError e \<Rightarrow>
          if e = ConsensusReport CheckpointTooOld then fallback_phase W c else Failed (Err e)
      | _ \<Rightarrow> Failed (Err (NodeReport err)))"
| "after_sync W Fallback (Err err) c = fallback_failed W c"
| "after_sync W External (Err err) c = Failed (Err (NodeReport err))"

text \<open>
  The sections under the write lock. An advance of the loop asks the server \<open>R\<close> at the clock \<open>clk\<close>; its error is
  logged.
\<close>

fun write_section ::
    "('pk, 'sg, 'y) world \<Rightarrow> consensus_rpc_server \<Rightarrow> (nat \<Rightarrow> u64) \<Rightarrow> phase \<Rightarrow> 'db client \<Rightarrow>
     phase \<times> 'db client" where
  "write_section W R clk (Syncing a) c =
     (case client_sync W (attempt_number a) c of (r, c) \<Rightarrow> (after_sync W a r c, c))"
| "write_section W R clk (Rebooting a ckpt) c =
     (Syncing a, c\<lparr>cl_node := (cl_node c)\<lparr>consensus := consensus_client_new ckpt (node_config (cl_node c))\<rparr>\<rparr>)"
| "write_section W R clk Advancing c =
     (case node_advance (w_lib W) R clk (cl_node c) of
        (r, n) \<Rightarrow> (if is_panic r then Ended else Resting, c\<lparr>cl_node := n\<rparr>))"
| "write_section W R clk ph c = (ph, c)"

text \<open>The sections of the task under the read lock: saving the checkpoint, and the time to sleep.\<close>

fun read_section :: "'db database_ops \<Rightarrow> u64 \<Rightarrow> phase \<Rightarrow> 'db client \<Rightarrow> phase \<times> 'db client" where
  "read_section D now Saving c = (Advancing, save_last_checkpoint D c)"
| "read_section D now Resting c =
     (if is_panic (node_duration_until_next_update (cl_node c) now :: (report, nat) outcome)
      then Ended else Advancing, c)"
| "read_section D now ph c = (ph, c)"

definition writes :: "phase \<Rightarrow> bool" where
  "writes ph = (case ph of Syncing _ \<Rightarrow> True | Rebooting _ _ \<Rightarrow> True | Advancing \<Rightarrow> True | _ \<Rightarrow> False)"

text \<open>The phases that a panic of the task leads to.\<close>

fun panicked :: "phase \<Rightarrow> bool" where
  "panicked (Failed r) = is_panic r"
| "panicked Ended = True"
| "panicked _ = False"

subsection \<open>The tasks together\<close>

record 'db service =
  sv_client :: "'db client"
  sv_phase :: phase
  sv_readers :: "nat \<rightharpoonup> rpc_request"
  sv_writing :: "'db client option"
  sv_aborted :: bool

text \<open>
  The handlers that hold the read lock are named by numbers; \<open>sv_writing\<close> is the client that a
  writer found, while it holds the lock. An aborted service has no next step.
\<close>

datatype service_event =
    Asked nat rpc_request
  | Answered nat rpc_request "(json_error, rpc_answer) outcome"
  | Locked
  | Mutated
  | Unlocked
  | Rested

inductive service_step ::
    "('pk, 'sg, 'y) world \<Rightarrow> 'db database_ops \<Rightarrow> evm_lib \<Rightarrow> rpc_format \<Rightarrow> service_event \<Rightarrow> 'db service \<Rightarrow>
     'db service \<Rightarrow> bool"
  for W :: "('pk, 'sg, 'y) world" and D :: "'db database_ops" and V :: evm_lib and F :: rpc_format
where
  ask: "\<not> sv_aborted s \<Longrightarrow> sv_writing s = None \<Longrightarrow> sv_readers s i = None \<Longrightarrow>
    service_step W D V F (Asked i req) s (s\<lparr>sv_readers := (sv_readers s)(i \<mapsto> req)\<rparr>)"
| answer: "\<not> sv_aborted s \<Longrightarrow> sv_readers s i = Some req \<Longrightarrow>
    rpc_handle (request_inner V F E now (cl_node (sv_client s))) req = ans \<Longrightarrow>
    service_step W D V F (Answered i req ans) s
      (s\<lparr>sv_readers := (sv_readers s)(i := None), sv_aborted := is_panic ans\<rparr>)"
| lock: "\<not> sv_aborted s \<Longrightarrow> sv_writing s = None \<Longrightarrow> sv_readers s = Map.empty \<Longrightarrow> writes (sv_phase s) \<Longrightarrow>
    service_step W D V F Locked s (s\<lparr>sv_writing := Some (sv_client s)\<rparr>)"
| mutate: "\<not> sv_aborted s \<Longrightarrow> sv_writing s = Some c \<Longrightarrow>
    service_step W D V F Mutated s (s\<lparr>sv_client := (sv_client s)\<lparr>cl_node := n\<rparr>\<rparr>)"
| unlock: "\<not> sv_aborted s \<Longrightarrow> sv_writing s = Some c \<Longrightarrow> write_section W R clk (sv_phase s) c = (ph, c') \<Longrightarrow>
    service_step W D V F Unlocked s
      (s\<lparr>sv_client := c', sv_phase := ph, sv_writing := None, sv_aborted := panicked ph\<rparr>)"
| rest: "\<not> sv_aborted s \<Longrightarrow> sv_writing s = None \<Longrightarrow> \<not> writes (sv_phase s) \<Longrightarrow>
    read_section D now (sv_phase s) (sv_client s) = (ph, c') \<Longrightarrow>
    service_step W D V F Rested s (s\<lparr>sv_client := c', sv_phase := ph, sv_aborted := panicked ph\<rparr>)"

inductive service_steps ::
    "('pk, 'sg, 'y) world \<Rightarrow> 'db database_ops \<Rightarrow> evm_lib \<Rightarrow> rpc_format \<Rightarrow> service_event list \<Rightarrow> 'db service \<Rightarrow>
     'db service \<Rightarrow> bool"
  for W :: "('pk, 'sg, 'y) world" and D :: "'db database_ops" and V :: evm_lib and F :: rpc_format
where
  none: "service_steps W D V F [] s s"
| more: "service_steps W D V F es s s' \<Longrightarrow> service_step W D V F e s' s'' \<Longrightarrow>
    service_steps W D V F (es @ [e]) s s''"

text \<open>A client after the RPC server was opened.\<close>

definition opened :: "'db client \<Rightarrow> 'db service" where
  "opened c = \<lparr>sv_client = c, sv_phase = Syncing Configured, sv_readers = Map.empty, sv_writing = None,
     sv_aborted = False\<rparr>"

subsection \<open>The lock\<close>

definition lock_inv :: "'db service \<Rightarrow> bool" where
  "lock_inv s \<longleftrightarrow> (sv_writing s \<noteq> None \<longrightarrow> sv_readers s = Map.empty \<and> writes (sv_phase s))"

text \<open>The client as every task outside a writing section knows it.\<close>

definition settled :: "'db service \<Rightarrow> 'db client" where
  "settled s = (case sv_writing s of Some c \<Rightarrow> c | None \<Rightarrow> sv_client s)"

lemma opened_simps [simp]:
  "lock_inv (opened c)" "settled (opened c) = c" "sv_phase (opened c) = Syncing Configured"
  by (simp_all add: opened_def lock_inv_def settled_def)

lemma lock_inv_step:
  assumes "service_step W D V F e s s'" "lock_inv s"
  shows "lock_inv s'"
  using assms by (induction rule: service_step.induct) (auto simp: lock_inv_def fun_upd_idem_iff)

lemma lock_inv_steps:
  "service_steps W D V F es s s' \<Longrightarrow> lock_inv s \<Longrightarrow> lock_inv s'"
  by (induction rule: service_steps.induct) (auto intro: lock_inv_step)

text \<open>A reader keeps the writer out, and sees the settled client.\<close>

lemma reader_settled: "lock_inv s \<Longrightarrow> sv_readers s i = Some req \<Longrightarrow> sv_writing s = None \<and> settled s = sv_client s"
  by (auto simp: lock_inv_def settled_def split: option.splits)

text \<open>
  The contract of the sections: a property of the phase and of the client, relative to the client that was
  opened, that every section keeps
  holds for whatever a task sees, and so for every client that a request is answered from.
\<close>

locale section_invariant =
  fixes P :: "('pk, 'sg, 'y) world \<Rightarrow> 'db database_ops \<Rightarrow> 'db client \<Rightarrow> phase \<Rightarrow> 'db client \<Rightarrow> bool"
  assumes written: "P W D c0 ph c \<Longrightarrow> write_section W R clk ph c = (ph', c') \<Longrightarrow> P W D c0 ph' c'"
    and read: "P W D c0 ph c \<Longrightarrow> read_section D now ph c = (ph', c') \<Longrightarrow> P W D c0 ph' c'"
begin

lemma step_settled:
  assumes "service_step W D V F e s s'" "lock_inv s" "P W D c0 (sv_phase s) (settled s)"
  shows "P W D c0 (sv_phase s') (settled s')"
  using assms
proof (induction rule: service_step.induct)
  case (unlock s c R clk ph c')
  then show ?case using written by (simp add: settled_def)
next
  case (rest s now ph c')
  then show ?case using read by (simp add: settled_def)
qed (simp_all add: settled_def split: option.splits)

lemma steps_settled:
  assumes "service_steps W D V F es s s'" "lock_inv s" "P W D c0 (sv_phase s) (settled s)"
  shows "P W D c0 (sv_phase s') (settled s')"
  using assms by (induction rule: service_steps.induct) (auto intro: step_settled lock_inv_steps)

lemma answered:
  assumes "service_steps W D V F es s s'" "lock_inv s" "P W D c0 (sv_phase s) (settled s)"
    and "Answered i req ans \<in> set es"
  shows "\<exists>E now ph c. P W D c0 ph c \<and> ans = rpc_handle (request_inner V F E now (cl_node c)) req"
  using assms
proof (induction rule: service_steps.induct)
  case (more es s s' e s'')
  show ?case
  proof (cases "e = Answered i req ans")
    case True
    with more.hyps(2) obtain E now where at: "sv_readers s' i = Some req"
      "ans = rpc_handle (request_inner V F E now (cl_node (sv_client s'))) req"
      by (auto elim: service_step.cases)
    have "settled s' = sv_client s'" using reader_settled lock_inv_steps [OF more.hyps(1)] more.prems(1) at(1) by blast
    with steps_settled [OF more.hyps(1) more.prems(1,2)] at(2) show ?thesis by auto
  qed (use more in auto)
qed simp

end

subsection \<open>The start, section by section\<close>

text \<open>The sections of a start one after the other, with nothing in between.\<close>

fun phase_rank :: "phase \<Rightarrow> nat" where
  "phase_rank (Syncing a) = (if a = Configured then 5 else if a = Fallback then 3 else 1)"
| "phase_rank (Rebooting a ckpt) = (if a = Configured then 6 else if a = Fallback then 4 else 2)"
| "phase_rank _ = 0"

lemma external_phase_rank: "phase_rank (external_phase W c) \<le> 2"
  by (auto simp: external_phase_def split: outcome.splits)

lemma fallback_failed_rank: "phase_rank (fallback_failed W c) \<le> 2"
  by (simp add: fallback_failed_def external_phase_rank)

lemma fallback_phase_rank: "phase_rank (fallback_phase W c) \<le> 4"
  using fallback_failed_rank [of W c]
  by (auto simp: fallback_phase_def split: outcome.splits option.splits)

lemma after_sync_rank: "phase_rank (after_sync W a r c) < phase_rank (Syncing a)"
  using fallback_phase_rank [of W c] fallback_failed_rank [of W c]
  by (cases "(W, a, r, c)" rule: after_sync.cases) (auto split: node_error.splits)

lemma reboot_rank: "phase_rank (Syncing a) < phase_rank (Rebooting a ckpt)"
  by (cases a) auto

function boot :: "('pk, 'sg, 'y) world \<Rightarrow> 'db database_ops \<Rightarrow> phase \<Rightarrow> 'db client \<Rightarrow> ('db client, report, unit) ret" where
  "boot W D (Syncing a) c =
     (case client_sync W (attempt_number a) c of (r, c) \<Rightarrow> boot W D (after_sync W a r c) c)"
| "boot W D (Rebooting a ckpt) c =
     boot W D (Syncing a) (c\<lparr>cl_node := (cl_node c)\<lparr>consensus := consensus_client_new ckpt (node_config (cl_node c))\<rparr>\<rparr>)"
| "boot W D Saving c = (Ok (), save_last_checkpoint D c)"
| "boot W D (Failed r) c = (r, c)"
| "boot W D Advancing c = (Ok (), c)"
| "boot W D Resting c = (Ok (), c)"
| "boot W D Ended c = (Ok (), c)"
  by pat_completeness auto
termination
  by (relation "measure (\<lambda>(W, D, ph, c). phase_rank ph)") 
    (simp_all add: after_sync_rank reboot_rank del: phase_rank.simps)

text \<open>The rest of a start after a sync under a fallback's checkpoint.\<close>

lemma boot_reboot:
  "boot W D (Rebooting External ckpt) c = then_op (reboot W 2 ckpt c) (\<lambda>_ c. (Ok (), save_last_checkpoint D c))"
  "boot W D (Rebooting Fallback ckpt) c =
     (case reboot W 1 ckpt c of
        (Ok _, c) \<Rightarrow> (Ok (), save_last_checkpoint D c)
      | (Panic, c) \<Rightarrow> (Panic, c)
      | (Err _, c) \<Rightarrow> boot W D (fallback_failed W c) c)"
proof -
  let ?c = "c\<lparr>cl_node := (cl_node c)\<lparr>consensus := consensus_client_new ckpt (node_config (cl_node c))\<rparr>\<rparr>"
  obtain r c2 where "client_sync W 2 ?c = (r, c2)" by fastforce
  then show "boot W D (Rebooting External ckpt) c =
      then_op (reboot W 2 ckpt c) (\<lambda>_ c. (Ok (), save_last_checkpoint D c))"
    by (cases r) (simp_all add: reboot_def Let_def)
  obtain r c1 where "client_sync W 1 ?c = (r, c1)" by fastforce
  then show "boot W D (Rebooting Fallback ckpt) c =
     (case reboot W 1 ckpt c of
        (Ok _, c) \<Rightarrow> (Ok (), save_last_checkpoint D c)
      | (Panic, c) \<Rightarrow> (Panic, c)
      | (Err _, c) \<Rightarrow> boot W D (fallback_failed W c) c)"
    by (cases r) (simp_all add: reboot_def Let_def)
qed

lemma boot_fallback_failed:
  "boot W D (fallback_failed W c) c =
     then_op (if cl_load_external_fallback c then boot_from_external_fallbacks W c
              else (Err (ConsensusReport CheckpointTooOld), c)) (\<lambda>_ c. (Ok (), save_last_checkpoint D c))"
proof -
  have "boot W D (external_phase W c) c =
      then_op (boot_from_external_fallbacks W c) (\<lambda>_ c. (Ok (), save_last_checkpoint D c))"
  proof (cases "build_fallback (w_fallback W) checkpoint_fallback_new")
    case (Ok list)
    let ?f = "fetch_latest_checkpoint (w_fallback W) (w_order W) list (fallback_network (node_config (cl_node c)))"
    show ?thesis using Ok
      by (cases ?f; cases "chain_id (chain (node_config (cl_node c))) = 5")
        (simp_all add: external_phase_def boot_from_external_fallbacks_def boot_reboot fallback_network_def
          del: boot.simps(1,2))
  qed (simp_all add: external_phase_def boot_from_external_fallbacks_def)
  then show ?thesis by (simp add: fallback_failed_def)
qed

lemma boot_fallback_phase:
  "boot W D (fallback_phase W c) c =
     then_op (case boot_from_fallback W c of
          (Ok _, c) \<Rightarrow> (Ok (), c)
        | (Panic, c) \<Rightarrow> (Panic, c)
        | (Err _, c) \<Rightarrow>
          if cl_load_external_fallback c then boot_from_external_fallbacks W c
          else (Err (ConsensusReport CheckpointTooOld), c)) (\<lambda>_ c. (Ok (), save_last_checkpoint D c))"
proof (cases "cl_fallback c")
  case (Some url)
  then show ?thesis
    by (cases "fetch_checkpoint_from_api (w_fallback W) url")
      (auto simp: fallback_phase_def boot_from_fallback_def boot_reboot boot_fallback_failed
        simp del: boot.simps(1,2) split: prod.splits outcome.splits)
qed (simp add: fallback_phase_def boot_from_fallback_def boot_fallback_failed)

text \<open>The sections of a start are those of \<open>Client::start\<close>.\<close>

lemma boot_client_start:
  assumes "cl_rpc c \<noteq> None \<Longrightarrow> w_rpc_start W = Ok ()"
  shows "boot W D (Syncing Configured) c = client_start W D c"
proof -
  obtain r c0 where sync: "client_sync W 0 c = (r, c0)" by fastforce
  have "(if cl_rpc c \<noteq> None then w_rpc_start W else Ok ()) = Ok ()" using assms by simp
  then show ?thesis
    using sync
    by (cases r)
      (auto simp: client_start_def boot_fallback_phase split: node_error.splits)
qed

subsection \<open>The start among requests\<close>

text \<open>One advance of the loop, whatever its result.\<close>

definition advanced :: "('pk, 'sg, 'y) world \<Rightarrow> 'db client \<Rightarrow> 'db client \<Rightarrow> bool" where
  "advanced W c c' \<longleftrightarrow> (\<exists>R clk r n. node_advance (w_lib W) R clk (cl_node c) = (r, n) \<and> c' = c\<lparr>cl_node := n\<rparr>)"

text \<open>
  How far the task is on the way of \<open>Client::start\<close>: what is left of the start gives its result, and in
  the loop the client is the one it ended with, advanced.
\<close>

definition in_loop :: "phase \<Rightarrow> bool" where
  "in_loop ph \<longleftrightarrow> ph \<in> {Advancing, Resting, Ended}"

definition start_stage ::
    "('pk, 'sg, 'y) world \<Rightarrow> 'db database_ops \<Rightarrow> 'db client \<Rightarrow> phase \<Rightarrow> 'db client \<Rightarrow> bool" where
  "start_stage W D c0 ph c \<longleftrightarrow>
     (if in_loop ph
      then \<exists>c1. boot W D (Syncing Configured) c0 = (Ok (), c1) \<and> (advanced W)\<^sup>*\<^sup>* c1 c
      else boot W D ph c = boot W D (Syncing Configured) c0)"

lemma not_in_loop [simp]: "\<not> in_loop (Syncing a)" "\<not> in_loop (Rebooting a ckpt)" "\<not> in_loop Saving"
  "\<not> in_loop (Failed r)"
  by (simp_all add: in_loop_def)

lemma in_loop [simp]: "in_loop Advancing" "in_loop Resting" "in_loop Ended"
  by (simp_all add: in_loop_def)

lemma external_phase_start: "\<not> in_loop (external_phase W c)"
  by (auto simp: external_phase_def split: outcome.splits)

lemma fallback_phase_start: "\<not> in_loop (fallback_phase W c)" "\<not> in_loop (fallback_failed W c)"
  using external_phase_start [of W c]
  by (auto simp: fallback_phase_def fallback_failed_def split: outcome.splits option.splits)

lemma after_sync_start: "\<not> in_loop (after_sync W a r c)"
  using fallback_phase_start [of W c]
  by (cases "(W, a, r, c)" rule: after_sync.cases) (auto split: node_error.splits)

interpretation staged: section_invariant start_stage
proof unfold_locales
  fix W :: "('a, 'b, 'c) world" and D :: "'d database_ops" and c0 ph c R clk ph' c'
  assume P: "start_stage W D c0 ph c" and run: "write_section W R clk ph c = (ph', c')"
  show "start_stage W D c0 ph' c'"
  proof (cases ph)
    case (Syncing a)
    with P run show ?thesis by (auto simp: start_stage_def after_sync_start split: prod.splits)
  next
    case Advancing
    then obtain r n where "node_advance (w_lib W) R clk (cl_node c) = (r, n)" "c' = c\<lparr>cl_node := n\<rparr>"
      "in_loop ph'" using run by (auto split: prod.splits if_splits)
    moreover from this have "advanced W c c'" unfolding advanced_def by blast
    ultimately show ?thesis using P Advancing by (auto simp: start_stage_def intro: rtranclp.rtrancl_into_rtrancl)
  qed (use P run in \<open>auto simp: start_stage_def\<close>)
next
  fix W :: "('a, 'b, 'c) world" and D :: "'d database_ops" and c0 ph c now ph' c'
  assume P: "start_stage W D c0 ph c" and run: "read_section D now ph c = (ph', c')"
  show "start_stage W D c0 ph' c'"
  proof (cases ph)
    case Saving
    with P have "boot W D (Syncing Configured) c0 = (Ok (), save_last_checkpoint D c)"
      by (simp add: start_stage_def del: boot.simps(1))
    with run Saving show ?thesis by (auto simp: start_stage_def simp del: boot.simps(1))
  qed (use P run in \<open>auto simp: start_stage_def split: if_splits\<close>)
qed

lemma service_start_stage:
  assumes "service_steps W D V F es (opened c) s"
  shows "start_stage W D c (sv_phase s) (settled s)"
  by (rule staged.steps_settled [OF assms]) (simp_all add: start_stage_def)

subsection \<open>What requests are answered from\<close>

text \<open>
  The checkpoints that the client may boot from: the one it was built with, and those of the
  fallbacks it is configured with.
\<close>

definition boot_checkpoints :: "('pk, 'sg, 'y) world \<Rightarrow> 'db client \<Rightarrow> bytes set" where
  "boot_checkpoints W c = insert (initial_checkpoint (consensus (cl_node c)))
     (fallback_checkpoints W (cl_fallback c) (cl_load_external_fallback c)
        (fallback_network (node_config (cl_node c))))"

definition payload_anchored :: "('pk, 'sg, 'y) world \<Rightarrow> 'db client \<Rightarrow> execution_payload \<Rightarrow> bool" where
  "payload_anchored W c p \<longleftrightarrow>
     (\<exists>ck \<in> boot_checkpoints W c. payload_trusted (w_lib W) (node_config (cl_node c)) ck p)"

text \<open>
  The node at any phase: its finalised payloads are linked to one of the checkpoints, and its
  consensus client starts from one of them and is synced where the node may advance.
\<close>

definition consensus_anchored :: "('pk, 'sg, 'y) world \<Rightarrow> 'db client \<Rightarrow> consensus_client \<Rightarrow> bool" where
  "consensus_anchored W c0 cc \<longleftrightarrow> client_config cc = node_config (cl_node c0) \<and>
     initial_checkpoint cc \<in> boot_checkpoints W c0"

definition phase_anchored :: "('pk, 'sg, 'y) world \<Rightarrow> 'db client \<Rightarrow> phase \<Rightarrow> consensus_client \<Rightarrow> bool" where
  "phase_anchored W c0 ph cc =
     (case ph of
        Syncing _ \<Rightarrow> consensus_anchored W c0 cc
      | Rebooting _ ckpt \<Rightarrow> ckpt \<in> boot_checkpoints W c0
      | Failed _ \<Rightarrow> True
      | _ \<Rightarrow> consensus_anchored W c0 cc \<and> reachable (w_lib W) cc)"

definition node_anchored ::
    "('pk, 'sg, 'y) world \<Rightarrow> 'db database_ops \<Rightarrow> 'db client \<Rightarrow> phase \<Rightarrow> 'db client \<Rightarrow> bool" where
  "node_anchored W D c0 ph c \<longleftrightarrow>
     node_config (cl_node c) = node_config (cl_node c0) \<and> cl_fallback c = cl_fallback c0 \<and>
     cl_load_external_fallback c = cl_load_external_fallback c0 \<and>
     all_payloads (payload_anchored W c0) (finalized_payloads (cl_node c)) \<and>
     phase_anchored W c0 ph (consensus (cl_node c))"

lemma update_payloads_anchored:
  assumes "update_payloads (w_lib W) R n = (r, n')" "reachable (w_lib W) (consensus n)"
    "consensus_anchored W c0 (consensus n)" "all_payloads (payload_anchored W c0) (finalized_payloads n)"
  shows "all_payloads (payload_anchored W c0) (finalized_payloads n')"
proof (rule update_payloads_all [OF assms(1,4)])
  fix k s p
  assume "get_execution_payload (w_lib W) R k (consensus n) (Some s) = Ok p"
  from get_execution_payload_trusted [OF assms(2) this] assms(3) show "payload_anchored W c0 p"
    by (auto simp: payload_anchored_def consensus_anchored_def)
qed

lemma node_sync_anchored:
  assumes "node_sync (w_lib W) R E clk n = (r, n')" "consensus_anchored W c0 (consensus n)"
    "all_payloads (payload_anchored W c0) (finalized_payloads n)"
  shows "node_config n' = node_config n" "all_payloads (payload_anchored W c0) (finalized_payloads n')"
    "is_ok r \<Longrightarrow> consensus_anchored W c0 (consensus n') \<and> reachable (w_lib W) (consensus n')"
proof -
  have "node_config n' = node_config n \<and> all_payloads (payload_anchored W c0) (finalized_payloads n') \<and>
    (is_ok r \<longrightarrow> consensus_anchored W c0 (consensus n') \<and> reachable (w_lib W) (consensus n'))"
    using assms(1)
  proof (cases rule: node_sync_cases)
    case (2 c)
    have "consensus_anchored W c0 c"
      using sync_started_from [OF 2(1)] assms(2) by (simp add: started_from_def consensus_anchored_def)
    moreover note sync_reachable [OF 2(1)] update_payloads_frames [OF 2(2)]
    ultimately show ?thesis using update_payloads_anchored [OF 2(2)] assms(3) by simp
  qed (use assms(3) in simp)
  then show "node_config n' = node_config n" "all_payloads (payload_anchored W c0) (finalized_payloads n')"
    "is_ok r \<Longrightarrow> consensus_anchored W c0 (consensus n') \<and> reachable (w_lib W) (consensus n')" by simp_all
qed

lemma node_advance_anchored:
  assumes "node_advance (w_lib W) R clk n = (r, n')" "consensus_anchored W c0 (consensus n)"
    "reachable (w_lib W) (consensus n)" "all_payloads (payload_anchored W c0) (finalized_payloads n)"
  shows "node_config n' = node_config n \<and> all_payloads (payload_anchored W c0) (finalized_payloads n') \<and>
    consensus_anchored W c0 (consensus n') \<and> reachable (w_lib W) (consensus n')"
proof -
  obtain q c where adv: "advance (w_lib W) R clk (consensus n) = (q, c)" by fastforce
  from advance_reachable [OF assms(3) adv] assms(2)
  have c: "reachable (w_lib W) c" "consensus_anchored W c0 c"
    by (simp_all add: later_def consensus_anchored_def)
  have "n' = n\<lparr>consensus := c\<rparr> \<or> update_payloads (w_lib W) R (n\<lparr>consensus := c\<rparr>) = (r, n')"
    using assms(1) adv by (cases q) (auto simp: node_advance_def on_consensus_def)
  then show ?thesis
  proof
    assume upd: "update_payloads (w_lib W) R (n\<lparr>consensus := c\<rparr>) = (r, n')"
    from update_payloads_anchored [OF upd] update_payloads_frames [OF upd] c assms(4) show ?thesis by simp
  qed (use c assms(4) in simp)
qed

text \<open>The checkpoint that a fallback answers is one of those the client may boot from.\<close>

lemma external_phase_anchored:
  assumes "cl_load_external_fallback c0" "node_config (cl_node c) = node_config (cl_node c0)"
  shows "phase_anchored W c0 (external_phase W c) cc"
proof -
  have "ckpt \<in> boot_checkpoints W c0"
    if "build_fallback (w_fallback W) checkpoint_fallback_new = Ok list"
      "fetch_latest_checkpoint (w_fallback W) (w_order W) list (fallback_network (node_config (cl_node c0))) = Ok ckpt"
    for list ckpt
    using that assms(1) by (auto simp: boot_checkpoints_def fallback_checkpoints_def)
  with assms(2) show ?thesis
    by (auto simp: external_phase_def phase_anchored_def fallback_network_def outcome_simps
        split: outcome.splits if_splits)
qed

lemma fallback_phase_anchored:
  assumes "cl_load_external_fallback c = cl_load_external_fallback c0"
    "node_config (cl_node c) = node_config (cl_node c0)" "cl_fallback c = cl_fallback c0"
  shows "phase_anchored W c0 (fallback_failed W c) cc" "phase_anchored W c0 (fallback_phase W c) cc"
proof -
  show failed: "phase_anchored W c0 (fallback_failed W c) cc"
    using external_phase_anchored [OF _ assms(2)] assms(1)
    by (auto simp: fallback_failed_def phase_anchored_def [of _ _ "Failed _"])
  have "ckpt \<in> boot_checkpoints W c0"
    if "cl_fallback c = Some url" "fetch_checkpoint_from_api (w_fallback W) url = Ok ckpt" for url ckpt
    using that assms(3) by (auto simp: boot_checkpoints_def fallback_checkpoints_def)
  with failed show "phase_anchored W c0 (fallback_phase W c) cc"
    by (auto simp: fallback_phase_def phase_anchored_def [of _ _ "Rebooting _ _"] phase_anchored_def [of _ _ "Failed _"]
        split: option.splits outcome.splits)
qed

lemma after_sync_anchored:
  assumes "cl_load_external_fallback c = cl_load_external_fallback c0"
    "node_config (cl_node c) = node_config (cl_node c0)" "cl_fallback c = cl_fallback c0"
    "is_ok r \<Longrightarrow> consensus_anchored W c0 cc \<and> reachable (w_lib W) cc"
  shows "phase_anchored W c0 (after_sync W a r c) cc"
  using assms fallback_phase_anchored [OF assms(1-3)]
  by (cases "(W, a, r, c)" rule: after_sync.cases)
    (auto simp: phase_anchored_def [of _ _ Saving] phase_anchored_def [of _ _ "Failed _"] split: node_error.splits)

interpretation anchored_service: section_invariant node_anchored
proof unfold_locales
  fix W :: "('a, 'b, 'c) world" and D :: "'d database_ops" and c0 ph c R clk ph' c'
  assume P: "node_anchored W D c0 ph c" and run: "write_section W R clk ph c = (ph', c')"
  show "node_anchored W D c0 ph' c'"
  proof (cases ph)
    case (Syncing a)
    let ?k = "attempt_number a"
    obtain r n where n: "node_sync (w_lib W) (w_consensus W ?k) (w_execution W ?k) (w_clock W ?k) (cl_node c) = (r, n)"
      by fastforce
    with run Syncing have c': "c' = c\<lparr>cl_node := n\<rparr>" "ph' = after_sync W a r c'"
      by (auto simp: client_sync_def)
    from P Syncing have "consensus_anchored W c0 (consensus (cl_node c))"
      "all_payloads (payload_anchored W c0) (finalized_payloads (cl_node c))"
      by (simp_all add: node_anchored_def phase_anchored_def)
    note sync = node_sync_anchored [OF n this]
    with P c'(1) have "phase_anchored W c0 (after_sync W a r c') (consensus n)"
      by (intro after_sync_anchored) (simp_all add: node_anchored_def)
    with P sync c' show ?thesis by (simp add: node_anchored_def)
  next
    case Advancing
    then obtain r n where n: "node_advance (w_lib W) R clk (cl_node c) = (r, n)" "c' = c\<lparr>cl_node := n\<rparr>"
      "ph' \<in> {Resting, Ended}" using run by (auto split: prod.splits if_splits)
    from P Advancing node_advance_anchored [OF n(1)] n(2,3) show ?thesis
      by (auto simp: node_anchored_def phase_anchored_def)
  qed (use P run in \<open>auto simp: node_anchored_def phase_anchored_def consensus_anchored_def consensus_client_new_def\<close>)
next
  fix W :: "('a, 'b, 'c) world" and D :: "'d database_ops" and c0 ph c now ph' c'
  assume P: "node_anchored W D c0 ph c" and run: "read_section D now ph c = (ph', c')"
  have "cl_fallback (save_last_checkpoint D c) = cl_fallback c"
    "cl_load_external_fallback (save_last_checkpoint D c) = cl_load_external_fallback c"
    by (simp_all add: save_last_checkpoint_def split: option.splits)
  with P run show "node_anchored W D c0 ph' c'"
    by (cases ph) (auto simp: node_anchored_def phase_anchored_def split: if_splits)
qed

lemma opened_anchored:
  assumes "client_new W D fs cfg = Ok c"
  shows "node_anchored W D c (Syncing Configured) c"
  using client_new_Ok [OF assms]
  by (simp add: node_anchored_def no_payloads_def phase_anchored_def consensus_anchored_def boot_checkpoints_def)

text \<open>Every answer is that of the handler on a node whose finalised payloads are anchored.\<close>

lemma service_answer:
  assumes "client_new W D fs cfg = Ok c" "service_steps W D V F es (opened c) s" "Answered i req ans \<in> set es"
  shows "\<exists>E now n. all_payloads (payload_anchored W c) (finalized_payloads n) \<and>
    ans = rpc_handle (request_inner V F E now n) req"
  using anchored_service.answered [OF assms(2) _ _ assms(3)] opened_anchored [OF assms(1)]
  by (fastforce simp: node_anchored_def)

subsection \<open>Requests for an account\<close>

text \<open>
  The address and the block of a request that reads one account, and the answer to it from the
  account.
\<close>

fun account_request :: "rpc_request \<Rightarrow> (string \<times> block_tag) option" where
  "account_request (GetBalance a b) = Some (a, b)"
| "account_request (GetTransactionCount a b) = Some (a, b)"
| "account_request (GetCode a b) = Some (a, b)"
| "account_request (GetStorageAt a _ b) = Some (a, b)"
| "account_request _ = None"

fun account_answer :: "rpc_format \<Rightarrow> account \<Rightarrow> rpc_request \<Rightarrow> (json_error, rpc_answer) outcome" where
  "account_answer F acc (GetBalance _ _) = map_ok AString (format_hex F (ac_balance acc))"
| "account_answer F acc (GetTransactionCount _ _) = Ok (AString (''0x'' @ show_radix 16 (unat (ac_nonce acc))))"
| "account_answer F acc (GetCode _ _) = Ok (AString (''0x'' @ rf_hex_encode F (ac_code acc)))"
| "account_answer F acc (GetStorageAt _ sl _) =
     (case ac_slots acc sl of
        Some v \<Rightarrow> map_ok AString (format_hex F v)
      | None \<Rightarrow> Err (CustomError (rf_report F (Message ''slot not found''))))"
| "account_answer F acc _ = Panic"

lemma node_account_Ok:
  assumes "node_account X E n check address slots block = Ok acc" "execution_laws X"
  shows "\<exists>payload. get_payload n block = Ok payload \<and> account_proved X payload address acc"
  using assms get_account_proved
  by (fastforce simp: node_account_def report_payload_def outcome_simps)

lemma account_request_answer:
  assumes "rpc_handle S req = Ok x" "account_request req = Some (a, block)" "execution_laws (in_lib S)"
  shows "\<exists>address payload acc. rf_address_from_str (in_format S) a = Ok address \<and>
    get_payload (in_node S) block = Ok payload \<and> account_proved (in_lib S) payload address acc \<and>
    account_answer (in_format S) acc req = Ok x"
proof -
  have "\<exists>address acc slots check. rf_address_from_str (in_format S) a = Ok address \<and>
      node_account (in_lib S) (in_rpc S) (in_node S) check address slots block = Ok acc \<and>
      account_answer (in_format S) acc req = Ok x"
    using assms(1,2)
    by (cases req)
      (auto simp: eth_get_balance_def eth_get_transaction_count_def eth_get_code_def eth_get_storage_at_def
        parse_address_def convert_err_def get_balance_def get_nonce_def get_code_def get_storage_at_def
        map_ok_def outcome_simps split: option.splits)
  with node_account_Ok [OF _ assms(3)] show ?thesis by blast
qed

lemma anchored_get_payload:
  assumes "all_payloads P (finalized_payloads n)" "get_payload n Finalized = Ok p"
  shows "P p"
proof -
  from assms(2) obtain k where "bt_last_key_value (finalized_payloads n) = Some (k, p)"
    by (auto simp: get_payload_def outcome_simps split: prod.splits)
  with bt.last_Some [of "finalized_payloads n" k p] assms(1) show ?thesis by (auto simp: all_payloads_def)
qed

end
