(* ===== verification/Service_Properties.thy ===== *)
theory Service_Properties
  imports Client_Service Sample_Chain Execution_Properties
begin

text \<open>
  The properties of the running service: its answers, whatever the other tasks do at the same
  time.
\<close>

definition sample_format :: rpc_format where
  "sample_format = \<lparr>rf_report = (\<lambda>_. ''report''), rf_node_error = (\<lambda>_. ''node''), rf_evm_error = (\<lambda>_. ''evm''),
     rf_abi_decode_string = (\<lambda>_. None), rf_hex_encode = chars, rf_hex_decode = (\<lambda>_. None),
     rf_address_from_str = (\<lambda>_. Ok sample_address),
     rf_encode_hex_u256 = (\<lambda>x. ''0x00'' @ show_radix 16 (unat x))\<rparr>"

text \<open>The sample client after its first sync, and a request to it for a balance.\<close>

definition sample_synced :: "bytes service" where
  "sample_synced = (opened new_client)\<lparr>sv_client := new_client\<lparr>cl_node := node_3\<rparr>, sv_phase := Saving\<rparr>"

abbreviation sample_request :: rpc_request where
  "sample_request \<equiv> GetBalance ''0x00'' Finalized"

lemma sample_service_synced:
  "service_steps sample_world config_db_ops sample_evm sample_format [Locked, Unlocked] (opened new_client) sample_synced"
proof -
  have sync: "client_sync sample_world 0 new_client = (Ok (), new_client\<lparr>cl_node := node_3\<rparr>)"
    by (simp add: client_sync_def sample_world_def new_client_def sample_node_sync)
  let ?s = "(opened new_client)\<lparr>sv_writing := Some new_client\<rparr>"
  have "service_step sample_world config_db_ops sample_evm sample_format Locked (opened new_client) ?s"
    using service_step.lock [of "opened new_client"] by (simp add: opened_def writes_def)
  from service_steps.more [OF service_steps.none this]
  have one: "service_steps sample_world config_db_ops sample_evm sample_format [Locked] (opened new_client) ?s" by simp
  have "service_step sample_world config_db_ops sample_evm sample_format Unlocked ?s sample_synced"
    using service_step.unlock [of ?s new_client sample_world undefined undefined Saving "new_client\<lparr>cl_node := node_3\<rparr>"] sync
    by (simp add: opened_def sample_synced_def)
  from service_steps.more [OF one this] show ?thesis by simp
qed

lemma sample_balance:
  "rpc_handle (request_inner sample_evm sample_format state_rpc (\<lambda>_. 12000) node_3) sample_request = Ok (AString ''0x5'')"
proof -
  have "payload_state_root (payload_at 160) = replicate 32 3"
    by (simp add: payload_at_def payload_state_root_def)
  then have "get_balance sample_exec state_rpc 12000 node_3 sample_address Finalized = Ok 5"
    by (simp add: get_balance_def node_account_def check_blocktag_age_def report_payload_def
        get_payload_def node_3_def bt_last_key_value_def sample_get_account_at sample_account_def)
  moreover have "format_hex sample_format 5 = Ok ''0x5''"
  proof -
    have "replicate 2 (CHR ''0'') = ''00''" by (simp add: numeral_2_eq_2)
    then have enc: "rf_encode_hex_u256 sample_format 5 = ''0x'' @ replicate 2 (CHR ''0'') @ show_radix 16 (unat (5 :: u256))"
      by (simp add: sample_format_def)
    have five: "unat (5 :: u256) = 5" "show_radix 16 5 = ''5''" by (simp, code_simp)
    show ?thesis using format_hex_eq [OF enc] unfolding five by simp
  qed
  ultimately show ?thesis
    by (simp add: eth_get_balance_def request_inner_def parse_address_def convert_err_def sample_format_def
        sample_evm_def map_ok_def)
qed

text \<open>The request is asked and answered after the first sync.\<close>

lemma sample_service_asked:
  "service_step sample_world config_db_ops sample_evm sample_format (Asked 0 sample_request) sample_synced
     (sample_synced\<lparr>sv_readers := [0 \<mapsto> sample_request]\<rparr>)"
  using service_step.ask [of sample_synced 0] by (simp add: sample_synced_def opened_def)

lemma sample_service_answers:
  "service_step sample_world config_db_ops sample_evm sample_format
     (Answered 0 sample_request (Ok (AString ''0x5'')))
     (sample_synced\<lparr>sv_readers := [0 \<mapsto> sample_request]\<rparr>) sample_synced"
  using service_step.answer [where s = "sample_synced\<lparr>sv_readers := [0 \<mapsto> sample_request]\<rparr>" and W = sample_world
      and D = config_db_ops and V = sample_evm and F = sample_format and E = state_rpc and now = "\<lambda>_. 12000"
      and req = sample_request and i = 0 and ans = "Ok (AString ''0x5'')"] sample_balance
  by (simp add: sample_synced_def opened_def)

lemma sample_service_answered:
  "service_steps sample_world config_db_ops sample_evm sample_format
     [Locked, Unlocked, Asked 0 sample_request, Answered 0 sample_request (Ok (AString ''0x5''))]
     (opened new_client) sample_synced"
  using service_steps.more [OF service_steps.more [OF sample_service_synced sample_service_asked]
      sample_service_answers] by simp

text \<open>C7: Among any requests, the sections that the client's task runs under the lock have the effect of
  \<open>Client::start\<close>: where the start failed, the result and the client are those of the sequential
  definition, and in the advance loop the client is the one it gives, advanced.\<close>

theorem start_among_requests:
  assumes "service_steps W D V F es (opened c) s" "cl_rpc c \<noteq> None \<Longrightarrow> w_rpc_start W = Ok ()"
  shows "(\<forall>r. sv_phase s = Failed r \<longrightarrow> client_start W D c = (r, settled s)) \<and>
    (in_loop (sv_phase s) \<longrightarrow>
       (\<exists>c1. client_start W D c = (Ok (), c1) \<and> (advanced W)\<^sup>*\<^sup>* c1 (settled s)))"
  using service_start_stage [OF assms(1)] boot_client_start [of c W D] assms(2)
  by (auto simp: start_stage_def simp del: boot.simps(1))

theorem start_among_requests_witness:
  "\<exists>s. service_steps sample_world config_db_ops sample_evm sample_format
     [Locked, Unlocked, Asked 0 sample_request, Answered 0 sample_request (Ok (AString ''0x5'')), Rested]
     (opened new_client) s \<and>
   (\<exists>c1. client_start sample_world config_db_ops new_client = (Ok (), c1) \<and> (advanced sample_world)\<^sup>*\<^sup>* c1 (settled s))"
proof -
  let ?s = "sample_synced\<lparr>sv_phase := Advancing\<rparr>"
  have save: "save_last_checkpoint config_db_ops c = c" for c
    by (simp add: save_last_checkpoint_def config_db_ops_def config_save_checkpoint_def split: option.split)
  have "service_step sample_world config_db_ops sample_evm sample_format Rested sample_synced ?s"
    using service_step.rest [of sample_synced config_db_ops 0 Advancing "new_client\<lparr>cl_node := node_3\<rparr>"]
    by (simp add: sample_synced_def opened_def writes_def save)
  from service_steps.more [OF sample_service_answered this]
  have run: "service_steps sample_world config_db_ops sample_evm sample_format
     [Locked, Unlocked, Asked 0 sample_request, Answered 0 sample_request (Ok (AString ''0x5'')), Rested]
     (opened new_client) ?s" by simp
  have "cl_rpc new_client = None" by (simp add: new_client_def)
  with start_among_requests [OF run] run show ?thesis by auto
qed

text \<open>C3: Whatever the servers answer and however the tasks interleave, from the moment the RPC server is
  open, also while the client syncs and boots from its fallbacks: an answer about an account at
  the finalised block is computed from an account that is proved against the state root of a
  payload linked to the client's checkpoint or to one of a fallback, and is the account that the
  state trie holds; or it is the empty account, where the trie holds none, or the proof ends at
  an extension node.\<close>

theorem served_account_proved:
  assumes "client_new W D fs cfg = Ok c" "service_steps W D V F es (opened c) s"
    and "Answered i req (Ok x) \<in> set es" "account_request req = Some (a, Finalized)"
    and "execution_laws (vl_execution V)"
  shows "\<exists>address payload acc. rf_address_from_str F a = Ok address \<and> account_answer F acc req = Ok x \<and>
    payload_anchored W c payload \<and> account_proved (vl_execution V) payload address acc \<and>
    (\<exists>nodes. mpt_accepts (xl_rlp (vl_execution V)) nodes (payload_state_root payload)
         (keccak (vl_execution V) address) (account_encoding (vl_execution V) acc) \<and>
       (\<forall>state. mpt_ok (xl_rlp (vl_execution V)) state \<and>
         trie_root (xl_rlp (vl_execution V)) state = payload_state_root payload \<longrightarrow>
         mpt_find state (keccak (vl_execution V) address) = Some (account_encoding (vl_execution V) acc) \<or>
         empty_value (xl_rlp (vl_execution V)) (account_encoding (vl_execution V) acc) \<and>
         (mpt_find state (keccak (vl_execution V) address) = None \<or>
          ends_at_extension (xl_rlp (vl_execution V)) state nodes)))"
proof -
  from service_answer [OF assms(1-3)] obtain E now n where
    n: "all_payloads (payload_anchored W c) (finalized_payloads n)"
    and x: "rpc_handle (request_inner V F E now n) req = Ok x" by auto
  from account_request_answer [OF x assms(4)] assms(5) obtain address payload acc where
    acc: "rf_address_from_str F a = Ok address" "get_payload n Finalized = Ok payload"
    "account_proved (vl_execution V) payload address acc" "account_answer F acc req = Ok x"
    by (auto simp: request_inner_def)
  let ?X = "vl_execution V"
  from acc(3) obtain nodes where
    nodes: "mpt_accepts (xl_rlp ?X) nodes (payload_state_root payload) (keccak ?X address) (account_encoding ?X acc)"
    by (auto simp: account_proved_def)
  have "length (keccak ?X address) = 32" using assms(5) by (simp add: execution_laws_def keccak_def length_keccak)
  then have "mpt_find state (keccak ?X address) = Some (account_encoding ?X acc) \<or>
      empty_value (xl_rlp ?X) (account_encoding ?X acc) \<and>
      (mpt_find state (keccak ?X address) = None \<or> ends_at_extension (xl_rlp ?X) state nodes)"
    if "mpt_ok (xl_rlp ?X) state \<and> trie_root (xl_rlp ?X) state = payload_state_root payload" for state
    using mpt_accepts_established [of "xl_rlp ?X" state] nodes that unfolding established_def by metis
  with nodes anchored_get_payload [OF n acc(2)] acc show ?thesis by blast
qed

theorem served_account_proved_witness:
  "\<exists>payload acc. account_answer sample_format acc sample_request = Ok (AString ''0x5'') \<and>
     payload_anchored sample_world new_client payload"
  using served_account_proved [OF sample_client_new sample_service_answered, of 0 sample_request "AString ''0x5''"]
    sample_execution_laws
  by (auto simp: sample_evm_def)

end
