(* ===== verification/Example_Programs.thy ===== *)
theory Example_Programs
  imports Client_Service Client_Queries
begin

text \<open>
  The programs of \<open>examples/\<close>: five small users of the library, as functions of the world, the file
  system and the external functions they call. Each returns the values it prints. Between two
  queries of a program the advance task of its client may run; \<open>drift k\<close> is what it does to the
  client before the \<open>k\<close>-th query.
\<close>

subsection \<open>\<open>client.rs\<close>: the builder\<close>

definition client_example_builder ::
    "(string \<Rightarrow> bytes option) \<Rightarrow> ('e, client_builder) outcome" where
  "client_example_builder hex_dec =
     (let builder = client_builder_new;
          builder = set_network MAINNET builder;
          builder = set_consensus_rpc ''https://www.lightclientdata.org'' builder;
          builder = set_execution_rpc ''https://eth-mainnet.g.alchemy.com/v2/XXXXX'' builder in
      and_then (set_checkpoint hex_dec
        ''85e6151a246e8fdba36db27a0c7678a575346272fe978c9281e13a8b26cdfa68'' builder) (\<lambda>builder.
      let builder = set_rpc_port 8545 builder;
          builder = set_data_dir ''/tmp/helios'' builder;
          builder = set_fallback ''https://sync-mainnet.beaconcha.in'' builder;
          builder = set_load_external_fallback builder in
      Ok builder))"

definition client_example ::
    "('pk, 'sg, 'y) world \<Rightarrow> file_system \<Rightarrow> (report, file_db client) outcome" where
  "client_example W fs =
     and_then (client_example_builder (hex_decode (w_lib W))) (\<lambda>builder.
     unwrap_ok (client_build W file_db_ops fs builder))"

subsection \<open>\<open>basic.rs\<close>: a balance\<close>

definition basic_builder :: client_builder where
  "basic_builder =
     set_data_dir ''/tmp/helios''
       (set_load_external_fallback
         (set_execution_rpc ''https://eth-mainnet.g.alchemy.com/v2/<YOUR_API_KEY>''
           (set_consensus_rpc ''https://www.lightclientdata.org''
             (set_network MAINNET client_builder_new))))"

text \<open>\<open>build()?\<close> and \<open>start().await?\<close>, as in the two examples that run a client.\<close>

definition build_and_start ::
    "('pk, 'sg, 'y) world \<Rightarrow> file_system \<Rightarrow> client_builder \<Rightarrow> (report, file_db client) outcome" where
  "build_and_start W fs builder =
     and_then (client_build W file_db_ops fs builder) (\<lambda>client.
     case client_start W file_db_ops client of (r, client) \<Rightarrow> and_then r (\<lambda>_. Ok client))"

definition basic_example ::
    "('pk, 'sg, 'y) world \<Rightarrow> file_system \<Rightarrow> (nat \<Rightarrow> file_db client \<Rightarrow> file_db client) \<Rightarrow>
     (string \<Rightarrow> (report, address) outcome) \<Rightarrow> (nat \<Rightarrow> query_env) \<Rightarrow> (report, u64 \<times> u256) outcome" where
  "basic_example W fs drift address_from_str Q =
     and_then (build_and_start W fs basic_builder) (\<lambda>client.
     let client = drift 0 client in
     and_then (client_get_block_number (Q 0) client) (\<lambda>head_block_num.
     and_then (address_from_str ''0x00000000219ab540356cBB839Cbe05303d7705Fa'') (\<lambda>addr.
     let client = drift 1 client in
     and_then (client_get_balance (Q 1) client addr Latest) (\<lambda>balance.
     Ok (head_block_num, balance)))))"

subsection \<open>\<open>call.rs\<close>: a call\<close>

text \<open>
  The bindings that the macro \<open>abigen\<close> generates for the contract, and the provider they use, are
  external: the two renderings through the provider, and the encoding of the first.
\<close>

record contract_lib =
  ct_provider_try_from :: "string \<Rightarrow> (report, unit) outcome"
  ct_render_broker_0 :: "address \<Rightarrow> u256 \<Rightarrow> (report, string) outcome"
  ct_render_broker_1 :: "address \<Rightarrow> u256 \<Rightarrow> u256 \<Rightarrow> (report, string) outcome"
  ct_calldata :: "address \<Rightarrow> u256 \<Rightarrow> bytes option"

definition call_builder :: "string \<Rightarrow> client_builder" where
  "call_builder eth_rpc_url =
     set_load_external_fallback
       (set_execution_rpc eth_rpc_url
         (set_consensus_rpc ''https://www.lightclientdata.org''
           (set_data_dir ''/tmp/helios''
             (set_network MAINNET client_builder_new))))"

definition call_example_opts :: "address \<Rightarrow> address \<Rightarrow> bytes \<Rightarrow> call_opts" where
  "call_example_opts from address encoded_call =
     \<lparr>co_from = Some from, co_to = Some address, co_gas = Some (ucast (- 1 :: u64)), co_gas_price = None,
      co_value = None, co_data = Some encoded_call\<rparr>"

text \<open>It prints the lengths of the three answers.\<close>

definition call_example ::
    "('pk, 'sg, 'y) world \<Rightarrow> file_system \<Rightarrow> (nat \<Rightarrow> file_db client \<Rightarrow> file_db client) \<Rightarrow>
     (string \<Rightarrow> (report, address) outcome) \<Rightarrow> (nat \<Rightarrow> query_env) \<Rightarrow> contract_lib \<Rightarrow>
     (report, string) outcome \<Rightarrow> (report, nat \<times> nat \<times> nat) outcome" where
  "call_example W fs drift address_from_str Q T env_var =
     and_then env_var (\<lambda>eth_rpc_url.
     and_then (build_and_start W fs (call_builder eth_rpc_url)) (\<lambda>client.
     let argument = 5; block = Latest in
     and_then (address_from_str ''0x8bb9a8baeec177ae55ac410c429cbbbbb9198cac'') (\<lambda>address.
     and_then (ct_provider_try_from T eth_rpc_url) (\<lambda>_.
     and_then (ct_render_broker_0 T address argument) (\<lambda>result0.
     and_then (ct_render_broker_1 T address argument 10) (\<lambda>result1.
     and_then (unwrap (ct_calldata T address argument)) (\<lambda>encoded_call.
     and_then (address_from_str ''0xBE0eB53F46cd790Cd13851d5EFf43D12404d33E8'') (\<lambda>from.
     let client = drift 0 client in
     and_then (client_call (Q 0) client (call_example_opts from address encoded_call) block) (\<lambda>result.
     Ok (length result0, length result1, length result))))))))))"

subsection \<open>\<open>checkpoints.rs\<close> and \<open>config.rs\<close>\<close>

definition checkpoints_example ::
    "'y fallback_io \<Rightarrow> (h256 list \<Rightarrow> h256 list) \<Rightarrow>
     (report, h256 \<times> h256 \<times> string list \<times> checkpoint_fallback_service list) outcome" where
  "checkpoints_example H order =
     and_then (unwrap_ok (build_fallback H checkpoint_fallback_new)) (\<lambda>cf.
     and_then (unwrap_ok (fetch_latest_checkpoint H order cf GOERLI)) (\<lambda>goerli_checkpoint.
     and_then (unwrap_ok (fetch_latest_checkpoint H order cf MAINNET)) (\<lambda>mainnet_checkpoint.
     and_then (get_all_fallback_endpoints cf MAINNET) (\<lambda>endpoints.
     and_then (get_fallback_services cf MAINNET) (\<lambda>ss.
     Ok (goerli_checkpoint, mainnet_checkpoint, endpoints, ss))))))"

text \<open>\<open>CliConfig::default()\<close>: no setting, and the empty path.\<close>

definition cli_config_default :: cli_config where
  "cli_config_default = \<lparr>cc_execution_rpc = None, cc_consensus_rpc = None, cc_checkpoint = None,
     cc_rpc_bind_ip = None, cc_rpc_port = None, cc_data_dir = '''', cc_fallback = None,
     cc_load_external_fallback = False, cc_strict_checkpoint_age = False\<rparr>"

definition config_example ::
    "(string \<Rightarrow> bytes option) \<Rightarrow> (bytes \<Rightarrow> string) \<Rightarrow> (ip_addr \<Rightarrow> string) \<Rightarrow>
     (base_config \<Rightarrow> string \<Rightarrow> (string \<rightharpoonup> cfg_value) \<Rightarrow> string \<Rightarrow> (report, config) outcome) \<Rightarrow>
     string option \<Rightarrow> (report, config) outcome" where
  "config_example hex_dec hex_enc ip_to_string extract home_dir =
     and_then (unwrap home_dir) (\<lambda>home.
     from_file hex_dec hex_enc ip_to_string extract (home @ ''/'' @ ''.helios/helios.toml'') ''mainnet''
       cli_config_default)"

subsection \<open>What the examples do\<close>

text \<open>The settings of the builder are those of the client: nothing else comes from a configuration.\<close>

lemma client_example_config:
  assumes "hex_dec ''85e6151a246e8fdba36db27a0c7678a575346272fe978c9281e13a8b26cdfa68'' = Some ckpt"
    and "mainnet hex_dec = Ok base"
  shows "and_then (client_example_builder hex_dec) (build_config hex_dec) =
    Ok \<lparr>consensus_rpc = ''https://www.lightclientdata.org'',
        execution_rpc = ''https://eth-mainnet.g.alchemy.com/v2/XXXXX'',
        rpc_bind_ip = None, rpc_port = Some 8545, default_checkpoint = bc_default_checkpoint base,
        checkpoint = Some ckpt, data_dir = Some ''/tmp/helios'', chain = bc_chain base, forks = bc_forks base,
        max_checkpoint_age = bc_max_checkpoint_age base, fallback = Some ''https://sync-mainnet.beaconcha.in'',
        load_external_fallback = True, strict_checkpoint_age = False\<rparr>"
  using assms
  by (simp add: client_example_builder_def set_checkpoint_def strip_prefix_def build_config_def explicit_or_def
      client_builder_new_def set_network_def set_consensus_rpc_def set_execution_rpc_def set_rpc_port_def
      set_data_dir_def set_fallback_def set_load_external_fallback_def Let_def)

text \<open>The balance that \<open>basic.rs\<close> prints is proved against the latest payload of its client.\<close>

lemma basic_example_proved:
  assumes "basic_example W fs drift address_from_str Q = Ok (head_block_num, balance)"
    and "execution_laws (vl_execution (qe_evm (Q 1)))"
  shows "\<exists>client addr payload acc. build_and_start W fs basic_builder = Ok client \<and>
    address_from_str ''0x00000000219ab540356cBB839Cbe05303d7705Fa'' = Ok addr \<and>
    get_payload (cl_node (drift 1 (drift 0 client))) Latest = Ok payload \<and>
    account_proved (vl_execution (qe_evm (Q 1))) payload addr acc \<and> balance = ac_balance acc"
proof -
  from assms(1) obtain client addr where client: "build_and_start W fs basic_builder = Ok client"
    "address_from_str ''0x00000000219ab540356cBB839Cbe05303d7705Fa'' = Ok addr"
    and run: "client_get_balance (Q 1) (drift 1 (drift 0 client)) addr Latest = Ok balance"
    by (auto simp: basic_example_def Let_def outcome_simps)
  from run obtain check acc where acc: "node_account (vl_execution (qe_evm (Q 1))) (qe_rpc (Q 1))
      (cl_node (drift 1 (drift 0 client))) check addr None Latest = Ok acc" "balance = ac_balance acc"
    by (auto simp: client_get_balance_def get_balance_def outcome_simps)
  from client node_account_Ok [OF acc(1) assms(2)] acc(2) show ?thesis by blast
qed

text \<open>\<open>config.rs\<close> reads the configuration as the command line does without arguments, but with the empty data directory.\<close>

lemma config_example_get_config:
  "config_example hex_dec hex_enc ip_to_string extract home_dir =
     get_config hex_dec hex_enc ip_to_string extract home_dir
       \<lparr>cli_network = ''mainnet'', cli_rpc_bind_ip = None, cli_rpc_port = None, cli_checkpoint = None,
        cli_execution_rpc = None, cli_consensus_rpc = None, cli_data_dir = Some '''', cli_fallback = None,
        cli_load_external_fallback = False, cli_strict_checkpoint_age = False\<rparr>"
  by (simp add: config_example_def get_config_def as_cli_config_def get_data_dir_def cli_config_default_def)

text \<open>\<open>checkpoints.rs\<close> either prints the two elected checkpoints or panics; it returns no error.\<close>

lemma checkpoints_example_outcome:
  "checkpoints_example H order \<noteq> Err e"
  "checkpoints_example H order = Ok (g, m, endpoints, ss) \<Longrightarrow>
     \<exists>cf. build_fallback H checkpoint_fallback_new = Ok cf \<and> fetch_latest_checkpoint H order cf GOERLI = Ok g \<and>
       fetch_latest_checkpoint H order cf MAINNET = Ok m \<and> endpoints = map sv_endpoint ss"
  by (auto simp: checkpoints_example_def get_all_fallback_endpoints_def get_fallback_services_def outcome_simps)

end
