(* ===== verification/Spec2Isabelle.thy ===== *)
theory Spec2Isabelle
  imports Consensus_Properties Execution_Properties Client_Properties Service_Properties Example_Programs
begin

text \<open>
  A model of helios, an Ethereum light client: it follows the beacon chain with the sync committee
  protocol, from a checkpoint the user trusts, and answers JSON-RPC requests about the execution
  layer from untrusted servers, whose answers it proves against the payloads it follows.

  \<^bold>\<open>The program and its theories.\<close> Each theory models the files it names; a Rust function \<open>f\<close> of a
  file is the definition \<open>f\<close> of its theory, with a prefix where two files use the same name
  (\<open>node_\<close>, \<open>evm_\<close>, \<open>eth_\<close>) or where HOL has the name already.

  \<^item> \<open>Helios_Prelude\<close>: results of fallible code. \<open>Ok\<close> and \<open>Err\<close> are the constructors of \<open>Result\<close>, and
    \<open>Panic\<close> is the outcome of \<open>unwrap\<close>, \<open>expect\<close>, an index out of range, a duration below zero. \<open>?\<close> is
    \<open>and_then\<close>; a method that mutates its object returns the object with the result (\<open>then_op\<close>), as
    the method left it, also where it fails. Machine integers are words and wrap, as in a release
    build. A release build also aborts on a panic (the release profile of \<open>Cargo.toml\<close> sets
    \<open>panic = "abort"\<close>): the step relations of the process and of the service end there. What a method
    leaves where it panics is modelled all the same, and is what a build that unwinds goes on with.
  \<^item> \<open>BTree_Map\<close>: \<open>std::collections::BTreeMap\<close> as an ordered association list, behind a locale
    \<open>ordered_map\<close>; and the truncation loop of \<open>Node::update_payloads\<close>.
  \<^item> \<open>Common_Types\<close>, \<open>Config_Model\<close>: the crates \<open>common\<close> (errors, block tags, hex) and \<open>config\<close>
    (\<open>base.rs\<close>, \<open>config.rs\<close>, \<open>networks.rs\<close>, \<open>types.rs\<close>, \<open>utils.rs\<close>, \<open>cli.rs\<close>) with the arguments of
    the command line (\<open>cli/src/main.rs\<close>). \<open>Checkpoint_Fallback\<close>: \<open>config/src/checkpoints.rs\<close>.
  \<^item> \<open>Beacon_Types\<close>, \<open>Consensus_Utils\<close>, \<open>Light_Client\<close>, \<open>Consensus_Client\<close>: the crate \<open>consensus\<close>.
    \<open>Light_Client\<close> holds the store, verification and application of updates and the slot clock;
    \<open>Consensus_Client\<close> the methods that ask the server: bootstrap, sync, advance, payloads.
    \<open>Light_Client_Lemmas\<close> gives the declarative specification \<open>valid_update\<close> of verification and the
    pure functions application refines; \<open>Light_Client_Trust\<close> defines, by induction over chains of
    two-thirds majorities, which committees and headers are linked to a checkpoint, and shows that
    every reachable client only holds such ones; and what vote made a header the optimistic one. \<open>Light_Client_Spec\<close> states the protocol of the
    consensus specification on unbounded numbers, which the application of updates refines, the
    trust in the checkpoints to save, and the progress of an advance. \<open>Light_Client_Quorum\<close> counts
    the members of a committee that signed: two majorities overlap in at least a third, and with
    fewer dishonest members than two thirds the client only holds headers of the real chain.
  \<^item> \<open>Mpt_Proof\<close>, \<open>Mpt_Trie\<close>: \<open>execution/src/proof.rs\<close>, and the Merkle-Patricia tries it verifies, with
    the node encoding, the honest prover, and soundness and completeness of the verifier.
  \<^item> \<open>Execution_Types\<close>, \<open>Execution_Client\<close>, \<open>Execution_Lemmas\<close>, \<open>Evm_Model\<close>: the crate \<open>execution\<close>
    (\<open>types.rs\<close>, \<open>rpc/mod.rs\<close>, \<open>execution.rs\<close>, \<open>evm.rs\<close>, \<open>constants.rs\<close>).
  \<^item> \<open>Node_Model\<close>, \<open>Node_Lemmas\<close>: \<open>client/src/node.rs\<close>, which joins the two layers. \<open>Checkpoint_Db\<close>:
    \<open>client/src/database.rs\<close>. \<open>Client_Model\<close>, \<open>Client_Lemmas\<close>: \<open>client/src/client.rs\<close> (builder, start with
    its two fallbacks, advance, shutdown), and \<open>Client_Queries\<close> its queries. \<open>Command_Line\<close>: the process of
    \<open>cli/src/main.rs\<close>, with the handler of ctrl-c and the panics that abort it, as a step relation.
    \<open>Client_Lifecycle\<close>: an installation over any number of runs, with restarts, kills, aborts and
    interrupted saves.
    \<open>Wasm_Client\<close>: \<open>helios-ts/src/lib.rs\<close>. \<open>Rpc_Clients\<close>: \<open>consensus/src/rpc/nimbus_rpc.rs\<close> and
    \<open>execution/src/rpc/http_rpc.rs\<close>. \<open>Rpc_Server\<close>: \<open>client/src/rpc.rs\<close> and \<open>client/src/errors.rs\<close>.
  \<^item> \<open>Client_Service\<close>: the tasks of a running client as a step relation. The RPC server is open from
    the beginning of \<open>Client::start\<close>; the client's task goes through its phases (first sync, boot from a
    fallback, save, advance, rest) and the handlers of requests read the node under the same lock,
    in any interleaving, until a panic aborts them. The contract of the lock (any number of readers or one
    writer) is that of the runtime's \<open>RwLock\<close>.
  \<^item> \<open>Mock_Servers\<close>: the two \<open>mock_rpc.rs\<close>. \<open>Unit_Tests\<close>: the unit tests of the modules as programs, with
    what they check shown for every input of their kind. \<open>Example_Programs\<close>: the programs of
    \<open>examples/\<close>.
  \<^item> \<open>Sample_Chain\<close>, \<open>Sample_State\<close>: one concrete chain, server, state trie and client, on which the
    theorems are applied. \<open>Consensus_Properties\<close>, \<open>Execution_Properties\<close>, \<open>Client_Properties\<close>,
    \<open>Service_Properties\<close> and this theory hold the properties, each with an instance on those values.

  \<^bold>\<open>State and interaction.\<close> The node owns the consensus client, whose state is the light client
  store and the last checkpoint, and two ordered maps from block numbers to payloads. An advance
  fetches updates, verifies and applies them, then fetches the payloads of the optimistic and the
  finalised header and the payloads between two heads, and truncates the maps. Queries pick a
  payload by block tag and ask the execution server for values with proofs. The client saves the
  last checkpoint to a database and boots from it. Servers are records of arbitrary answers: a
  request made more than once in an operation carries the number of the call, so that it may be
  answered differently each time. The clock is read through an argument, also more than once.

  \<^bold>\<open>External code\<close> is a field of a record and not defined: SSZ roots, Merkle branches, BLS and hex
  (\<open>consensus_lib\<close>), Keccak and RLP (\<open>rlp_lib\<close>), encodings, ordered tries and floating point
  (\<open>execution_lib\<close>), the EVM (\<open>evm_lib\<close>, a function of a database and an environment), HTTP, YAML and
  printing (\<open>fallback_io\<close>, \<open>consensus_http\<close>, \<open>provider\<close>, \<open>rpc_format\<close>), the conversions of the SSZ
  library (\<open>codec\<close>). The laws that some theorems
  assume of them are named: \<open>rlp_laws\<close> (RLP lists decode to what was encoded, a hash has 32 bytes),
  \<open>collision_free\<close> for the nodes of one trie, and \<open>execution_laws\<close> (the two account encodings agree
  with their decoding), \<open>merkle_binding\<close> (a branch proves at most one leaf at a position) and
  \<open>roots_sized\<close> (a root has 32 bytes). \<open>binding_proofs\<close> says that a header of the
  real chain proves only the committees and the finalised headers of the chain, \<open>honest_committees\<close> that
  more than a third of each real committee is honest, and that honest members only sign under headers
  of the chain. The sample theories show values that satisfy them.

  \<^bold>\<open>Locales.\<close> \<open>ordered_map\<close> (interpreted by the association lists), \<open>client_contract\<close> (a preorder and
  an invariant that one accepted update keeps, also where it panics half-way or only otherwise;
  interpreted for trust, for the order of the two headers, for the start point, for the vote that
  made the optimistic header, for the saved checkpoints and for the participation counts), \<open>authenticated_store\<close> (lookup, prove, verify; interpreted by the tries),
  \<open>checkpoint_database\<close> (the trait \<open>Database\<close>; interpreted by both implementations),
  \<open>section_invariant\<close> (what every section under the write lock keeps, every handler sees;
  interpreted for the stages of the start and for the payloads linked to a checkpoint).

  \<^bold>\<open>Bounds.\<close> No definition uses fuel: every loop of the code runs over a finite list or range,
  and the one \<open>while\<close> loop (truncation) terminates by the length of the map.

  \<^bold>\<open>Not modelled.\<close> Logging; the parsing of JSON, of the command line and of the configuration file
  beyond the fields' own deserialisers; the scheduler of the runtime (\<open>Client_Service\<close> allows every
  order of the tasks' steps that the lock allows; elsewhere an advance, a save and a query are one
  step each); the HTTP libraries; the re-exports of the facade crate (\<open>src/lib.rs\<close>), the integration
  tests, which run the mock servers on recorded data, and the benchmarks, which measure time.
\<close>

subsection \<open>The node\<close>

text \<open>C5: In every node that synced and then advances, against any servers and with any failures in
  between, each finalised payload belongs to a block whose root is the root of a header that
  the committees linked to the node's checkpoint finalised or signed.\<close>

theorem node_finalized_payload_trusted:
  assumes "node_reachable L n" "get_payload n Finalized = Ok p"
  shows "payload_trusted L (client_config (consensus n)) (initial_checkpoint (consensus n)) p"
  by (rule finalized_payload_trusted [OF assms])

theorem node_finalized_payload_trusted_witness:
  "payload_trusted sample_lib sample_config (root_of_slot 96) (payload_at 160)"
  using node_finalized_payload_trusted [OF sample_node_reachable, of "payload_at 160"]
  by (simp add: get_payload_def node_3_def bt_last_key_value_def client_3_def)

text \<open>A balance read at the finalised block, through an untrusted execution server and untrusted
  consensus servers, is that of the account that the state trie holds at the address, under the
  state root of a payload linked to the checkpoint (or that of an empty account).\<close>

theorem get_balance_finalized_proved:
  assumes "node_reachable L n" "execution_laws X"
    and "get_balance X E now n address Finalized = Ok balance"
  shows "\<exists>payload acc. payload_trusted L (client_config (consensus n)) (initial_checkpoint (consensus n)) payload \<and>
    balance = ac_balance acc \<and>
    (\<forall>state. mpt_ok (xl_rlp X) state \<and> trie_root (xl_rlp X) state = payload_state_root payload \<longrightarrow>
       mpt_find state (keccak X address) = Some (account_encoding X acc) \<or>
       empty_value (xl_rlp X) (account_encoding X acc))"
proof -
  from assms(3) obtain payload acc where p: "get_payload n Finalized = Ok payload"
    "get_account X E [] address None payload = Ok acc" "balance = ac_balance acc"
    by (auto simp: get_balance_def node_account_def report_payload_def outcome_simps)
  with account_proved_sound(1) [OF get_account_proved [OF p(2) assms(2)] assms(2)]
    finalized_payload_trusted [OF assms(1) p(1)] show ?thesis by blast
qed

theorem get_balance_finalized_proved_witness:
  "get_balance sample_exec state_rpc 12000 node_3 sample_address Finalized = Ok 5 \<and>
   (\<exists>payload. payload_trusted sample_lib sample_config (root_of_slot 96) payload)"
proof -
  have "payload_state_root (payload_at 160) = replicate 32 3"
    by (simp add: payload_at_def payload_state_root_def)
  then have run: "get_balance sample_exec state_rpc 12000 node_3 sample_address Finalized = Ok 5"
    by (simp add: get_balance_def node_account_def check_blocktag_age_def report_payload_def
        get_payload_def node_3_def bt_last_key_value_def sample_get_account_at sample_account_def)
  from get_balance_finalized_proved [OF sample_node_reachable sample_execution_laws run] run
  show ?thesis by (auto simp: node_3_def client_3_def)
qed

text \<open>C23: After an advance that succeeds the node holds at most \<open>history_size\<close> payloads and at most one
  finalised payload per 32 of them (at least one), both sorted by their block numbers.\<close>

theorem node_advance_bounded:
  assumes "node_reachable L n" "node_advance L R clk n = (Ok (), n')"
  shows "bt_len (payloads n') \<le> history_size n \<and>
    bt_len (finalized_payloads n') \<le> max (history_size n div 32) 1 \<and>
    keyed (payloads n') \<and> keyed (finalized_payloads n')"
proof -
  from assms(2) obtain c where "update_payloads L R (n\<lparr>consensus := c\<rparr>) = (Ok (), n')"
    by (auto simp: node_advance_def on_consensus_def outcome_simps split: prod.splits)
  from update_payloads_bounded [OF this] node_reachable.advanced [OF assms] show ?thesis
    by (auto dest: node_reachable_inv simp: node_inv_def)
qed

theorem node_advance_bounded_witness:
  "bt_len (payloads node_3) \<le> 64 \<and> bt_len (finalized_payloads node_3) \<le> 2"
  using node_advance_bounded [OF sample_node_reachable sample_node_advance] by (simp add: node_3_def)

text \<open>A server whose answers for the head's slot and for the slot before it are linked makes the
  backfilling return just the payload of the latter.\<close>

lemma get_payloads_forged:
  assumes "s < e" "rpc_get_block R k e = Ok tip" "rpc_get_block R (Suc k) (e - 1) = Ok b"
    and "\<And>sl. sl \<noteq> e - 1 \<Longrightarrow> rpc_get_block R (Suc k) sl = Err (Message [])"
    and "parent_hash (execution_payload_of (body tip)) = block_hash (execution_payload_of (body b))"
  shows "get_payloads R k s e = Ok [execution_payload_of (body b)]"
proof -
  let ?rest = "rev (slot_range s (e - 1))"
  have e: "unat e = Suc (unat (e - 1))" "unat s \<le> unat (e - 1)"
    using assms(1) by (simp_all add: word_less_nat_alt unat_sub_if_size split: if_splits)
  then have range: "rev (slot_range s e) = (e - 1) # ?rest" by (simp add: slot_range_def)
  have errs: "map (rpc_get_block R (Suc k)) ?rest = map (\<lambda>_. Err (Message [])) ?rest"
  proof (rule map_cong [OF refl])
    fix x assume "x \<in> set ?rest"
    then obtain i where "x = of_nat i" "i < unat (e - 1)" by (auto simp: slot_range_def)
    then have "unat x < unat (e - 1)"
      using unat_u64_bound [of "e - 1"] by (simp add: unat_u64_of_nat)
    then have "x \<noteq> e - 1" by blast
    then show "rpc_get_block R (Suc k) x = Err (Message [])" by (rule assms(4))
  qed
  have "link_payloads h (map (rpc_get_block R (Suc k)) ?rest) [p] = [p]" for h p
    unfolding errs by (rule link_payloads_errors)
  moreover have "\<not> list_ex is_panic (map (rpc_get_block R (Suc k)) ?rest)"
    unfolding errs by (simp add: list_ex_iff)
  ultimately show ?thesis using assms(2,3,5) by (simp add: get_payloads_def range Let_def)
qed

text \<open>C19: The payloads that the node fetches for the slots in between are not checked against the
  headers: a server that is honest about the two verified blocks can make any payload \<open>F\<close> of its
  choice, with a block number not below the known ones, the payload of the latest block.\<close>

theorem backfill_forges_latest:
  assumes "get_execution_payload L R 0 (consensus n) (Some (slot (get_header (consensus n)))) = Ok lp"
    and "get_execution_payload L R 1 (consensus n) (Some (slot (get_finalized_header (consensus n)))) = Ok fp"
    and "current_slot n = Some s" "s < slot (get_header (consensus n))" "0 < history_size n"
    and "keyed (payloads n)" "block_number lp \<le> block_number F" "block_number fp \<le> block_number F"
    and "\<And>k. k \<in> dom (bt_get (payloads n)) \<Longrightarrow> k \<le> block_number F"
  shows "\<exists>R'. (\<forall>sl. rpc_get_block R' 0 sl = rpc_get_block R 0 sl \<and> rpc_get_block R' 1 sl = rpc_get_block R 1 sl) \<and>
    (\<exists>n'. update_payloads L R' n = (Ok (), n') \<and> get_payload n' Latest = Ok F)"
proof -
  let ?e = "slot (get_header (consensus n))"
  define tip where "tip = block_with ?e (PayloadBellatrix (payload_bellatrix_default\<lparr>ep_parent_hash := block_hash F\<rparr>))"
  define R' where "R' = R\<lparr>rpc_get_block := (\<lambda>k sl. if k < 2 then rpc_get_block R k sl
      else if k = 2 then Ok tip else if sl = ?e - 1 then Ok (block_with sl F) else Err (Message []))\<rparr>"
  have same: "get_execution_payload L R' k c sl = get_execution_payload L R k c sl" if "k < 2" for k c sl
    using that by (simp add: get_execution_payload_def R'_def)
  have fill: "get_payloads R' 2 s ?e = Ok [F]"
    using get_payloads_forged [OF assms(4), of R' 2 tip "block_with (?e - 1) F"]
    by (simp add: R'_def tip_def block_with_def body_of_def parent_hash_def)
  let ?m = "insert_payload fp (insert_payload lp (payloads n))"
  have inv: "bt_inv ?m" using assms(6) by (simp add: keyed_def insert_payload_def bt.inv_insert)
  have "k \<le> block_number F" if "k \<in> dom (bt_get ?m)" for k
    using that assms(6-8) by (auto simp: keyed_def insert_payload_def bt.inv_insert bt.get_insert split: if_splits intro: assms(9) [OF domI])
  then have "bt_last_key_value (bt_truncate (history_size n) (insert_payload F ?m)) = Some (block_number F, F)"
    unfolding insert_payload_def [of F]
    using bt_truncate_last [OF bt.inv_insert [OF inv] assms(5)] bt.last_insert_max [OF inv] by metis
  then have "\<exists>n'. update_payloads L R' n = (Ok (), n') \<and> get_payload n' Latest = Ok F"
    by (simp add: update_payloads_def Let_def same assms(1,3) assms(2) [unfolded One_nat_def] fill get_payload_def)
  moreover have "\<forall>sl. rpc_get_block R' 0 sl = rpc_get_block R 0 sl \<and> rpc_get_block R' 1 sl = rpc_get_block R 1 sl"
    by (simp add: R'_def)
  ultimately show ?thesis by blast
qed

theorem backfill_forges_latest_witness:
  "\<exists>R' n'. update_payloads sample_lib R' (node_3\<lparr>current_slot := Some 208\<rparr>) = (Ok (), n') \<and>
     get_payload n' Latest = Ok (payload_at 211)"
proof -
  let ?n = "node_3\<lparr>current_slot := Some 208\<rparr>"
  have n: "consensus ?n = client_3" "payloads ?n = payloads node_3" "history_size ?n = 64"
    by (simp_all add: node_3_def)
  have h: "get_header client_3 = header_at 210" "get_finalized_header client_3 = header_at 160"
    by (simp_all add: get_header_def get_finalized_header_def client_3_def client_2_def)
  have "keyed (payloads ?n)"
    using node_reachable_inv [OF sample_node_reachable] by (simp add: node_inv_def)
  moreover have "k \<le> 211" if "k \<in> dom (bt_get (payloads ?n))" for k
    using that by (auto simp: node_3_def bt_get_def split: if_splits)
  ultimately show ?thesis
    using backfill_forges_latest [of sample_lib sample_server ?n "payload_at 210" "payload_at 160" 208 "payload_at 211"]
      sample_get_payload [of 210 0] sample_get_payload [of 160 1]
    by (auto simp: n h simp del: node.update_convs)
qed

text \<open>An answer at the latest block needs a head that is at most 10 slots behind the clock, and
  not ahead of it.\<close>

theorem check_head_age_correct:
  assumes "genesis_time (chain (client_config (consensus n))) \<le> now"
    and "unat (slot (get_header (consensus n))) < 2 ^ 63"
  shows "check_head_age n now = Ok () \<longleftrightarrow>
    (let current = (unat now - unat (genesis_time (chain (client_config (consensus n))))) div 12;
         synced = unat (slot (get_header (consensus n)))
     in synced \<le> current \<and> current \<le> synced + 10)"
proof -
  let ?g = "genesis_time (chain (client_config (consensus n)))"
  let ?cur = "(now - ?g) div 12" and ?s = "slot (get_header (consensus n))"
  have cur: "unat ?cur = (unat now - unat ?g) div 12"
    using assms(1) by (simp add: unat_div unat_sub)
  have run: "check_head_age n now = Ok () \<longleftrightarrow> unat (?cur - ?s) \<le> 10"
    using assms(1)
    by (simp add: check_head_age_def expected_current_slot_def Let_def word_less_nat_alt word_le_nat_alt not_less)
  have "unat ?cur < 2 ^ 61" using cur unat_u64_bound [of now] by simp
  then have "unat (?cur - ?s) \<le> 10 \<longleftrightarrow> unat ?s \<le> unat ?cur \<and> unat ?cur \<le> unat ?s + 10"
    using assms(2) by (auto simp: unat_sub_if_size word_size)
  with run cur show ?thesis by (simp add: Let_def)
qed

theorem check_head_age_correct_witness:
  "check_head_age node_3 2640 = Ok () \<and> check_head_age node_3 2652 \<noteq> Ok ()"
proof -
  have h: "get_header (consensus node_3) = header_at 210" "client_config (consensus node_3) = sample_config"
    by (simp_all add: node_3_def client_3_def get_header_def)
  show ?thesis
    using check_head_age_correct [of node_3 2640] check_head_age_correct [of node_3 2652]
    by (simp add: h sample_config_def)
qed

text \<open>C24: Selecting a payload in a reachable node: a number gives the payload of that block, and a tag
  the payload with the greatest number among those known, or among the finalised ones.\<close>

theorem get_payload_correct:
  assumes "node_reachable L n" "get_payload n tag = Ok p"
  shows "case tag of
      Number k \<Rightarrow> block_number p = k \<and> bt_get (payloads n) k = Some p
    | Latest \<Rightarrow> bt_get (payloads n) (block_number p) = Some p \<and>
        (\<forall>k \<in> dom (bt_get (payloads n)). k \<le> block_number p)
    | Finalized \<Rightarrow> bt_get (finalized_payloads n) (block_number p) = Some p \<and>
        (\<forall>k \<in> dom (bt_get (finalized_payloads n)). k \<le> block_number p)"
proof -
  have keyed: "keyed (payloads n)" "keyed (finalized_payloads n)"
    using node_reachable_inv [OF assms(1)] by (simp_all add: node_inv_def)
  have last: "bt_get m (block_number p) = Some p \<and> (\<forall>k \<in> dom (bt_get m). k \<le> block_number p)"
    if "keyed m" "bt_last_key_value m = Some (k, p)" for m k
    using bt.last_Some [OF _ that(2)] that(1) by (auto simp: keyed_def)
  show ?thesis
    using assms(2) keyed last
    by (cases tag) (auto simp: get_payload_def outcome_simps keyed_def split: prod.splits)
qed

theorem get_payload_correct_witness:
  "get_payload node_3 Latest = Ok (payload_at 210) \<and>
     dom (bt_get (payloads node_3)) \<subseteq> {..210}"
proof -
  have "get_payload node_3 Latest = Ok (payload_at 210)"
    by (simp add: get_payload_def node_3_def bt_last_key_value_def)
  with get_payload_correct [OF sample_node_reachable this] show ?thesis by auto
qed

text \<open>C25: The loop that evicts payloads ends, with the newest entries: an entry stays exactly where
  fewer than \<open>n\<close> keys are greater than its own.\<close>

theorem truncation_keeps_newest:
  assumes "bt_inv m"
  shows "bt_len (bt_truncate n m) = min n (bt_len m) \<and>
    (k \<in> dom (bt_get (bt_truncate n m)) \<longleftrightarrow>
       k \<in> dom (bt_get m) \<and> card {k' \<in> dom (bt_get m). k < k'} < n) \<and>
    (k \<in> dom (bt_get (bt_truncate n m)) \<longrightarrow> bt_get (bt_truncate n m) k = bt_get m k)"
proof -
  have "bt_get (bt_truncate n m) k = bt_get m k" if "k \<in> dom (bt_get (bt_truncate n m))"
  proof -
    from that obtain v where v: "bt_get (bt_truncate n m) k = Some v" by blast
    with bt_truncate_get [OF v assms] show ?thesis by simp
  qed
  with bt_truncate_newest [OF assms] show ?thesis by (simp add: bt_len_truncate)
qed

theorem truncation_keeps_newest_witness:
  "210 \<in> dom (bt_get (bt_truncate 1 (payloads node_3))) \<and> 160 \<notin> dom (bt_get (bt_truncate 1 (payloads node_3)))"
proof -
  have inv: "bt_inv (payloads node_3)" by (simp add: node_3_def bt_inv_def)
  have dom: "dom (bt_get (payloads node_3)) = {160, 210}" by (auto simp: bt_keys node_3_def)
  have "{k' \<in> {160, 210 :: u64}. 210 < k'} = {}" "{k' \<in> {160, 210 :: u64}. 160 < k'} = {210}" by auto
  then have card: "card {k' \<in> dom (bt_get (payloads node_3)). 210 < k'} = 0"
    "card {k' \<in> dom (bt_get (payloads node_3)). 160 < k'} = 1" unfolding dom by simp_all
  have "210 \<in> dom (bt_get (payloads node_3))" unfolding dom by simp
  with card show ?thesis
    using truncation_keeps_newest [OF inv, of 1 210] truncation_keeps_newest [OF inv, of 1 160] by linarith
qed

text \<open>C33: \<open>syncing\<close> never reports that the node is syncing as long as the clock does not move between its two
  checks of the head: a head that is too old gives an error instead of the progress.\<close>

theorem syncing_never_reports_progress:
  "syncing now now now'' n \<noteq> Ok (IsSyncing p)"
  by (cases "check_head_age n now") (simp_all add: syncing_def out_of_sync_Err)

subsection \<open>The client\<close>

text \<open>A client that starts has a finalised payload that is linked to the checkpoint it was
  built with, or to one that a fallback answered: the configured service, or the vote of the
  community services. (Not both kinds of fallback are configured.)\<close>

theorem client_start_trusted:
  assumes "client_new W D fs cfg = Ok c" "client_start W D c = (Ok (), c')"
    and "fallback cfg = None \<or> \<not> load_external_fallback cfg"
    and "get_payload (cl_node c') Finalized = Ok p"
  shows "\<exists>ck. (ck = initial_checkpoint (consensus (cl_node c)) \<or> ck \<in> fallback_checkpoints W (fallback cfg) (load_external_fallback cfg) (fallback_network cfg)) \<and>
    payload_trusted (w_lib W) (node_config (cl_node c)) ck p"
proof -
  note new = client_new_Ok [OF assms(1)]
  from client_start_Ok [OF assms(2) new(1,2)] assms(3) new(3-5) obtain c1 ck where
    ck: "ck = initial_checkpoint (consensus (cl_node c)) \<or> ck \<in> fallback_checkpoints W (fallback cfg) (load_external_fallback cfg) (fallback_network cfg)"
    and c1: "booted (w_lib W) (node_config (cl_node c)) ck c1" "c' = save_last_checkpoint D c1"
    by auto
  from c1 assms(4) have "payload_trusted (w_lib W) (node_config (cl_node c)) ck p"
    using finalized_payload_trusted [of "w_lib W" "cl_node c1" p] by (simp add: booted_def)
  with ck show ?thesis by blast
qed

theorem client_start_trusted_witness:
  "payload_trusted sample_lib sample_config (root_of_slot 96) (payload_at 160)"
proof -
  have "get_payload (cl_node (new_client\<lparr>cl_node := node_3\<rparr>)) Finalized = Ok (payload_at 160)"
    by (simp add: get_payload_def node_3_def bt_last_key_value_def)
  from client_start_trusted [OF sample_client_new sample_client_start _ this]
  show ?thesis
    by (auto simp: sample_config_def config_default_def new_client_def node_0_def client_0_def
        consensus_client_new_def fallback_checkpoints_def sample_world_def build_fallback_def sample_io_def)
qed

text \<open>C40: A client that was shut down with a checkpoint starts again from that checkpoint, where its
  configuration has none and names the same directory.\<close>

theorem restart_resumes:
  assumes "get_last_checkpoint (cl_node c) = Some ck" "length ck = 32"
    and "file_save_checkpoint (cl_db c) ck (cl_files c) = (Ok (), fs)"
    and "fs_readable (cl_files c) (checkpoint_path (cl_db c))"
    and "checkpoint cfg = None" "file_db_new cfg = Ok (cl_db c)"
    and "client_new W file_db_ops (cl_files (client_shutdown file_db_ops c)) cfg = Ok c'"
  shows "initial_checkpoint (consensus (cl_node c')) = ck \<and> no_payloads (cl_node c')"
proof -
  have load: "file_load_checkpoint (cl_db c) (cl_files (client_shutdown file_db_ops c)) = Ok ck"
    unfolding client_shutdown_def by (rule save_then_load [OF refl assms(1-4)])
  from assms(6) obtain dir where "data_dir cfg = Some dir"
    "cl_db c = \<lparr>db_data_dir = dir, db_default_checkpoint = default_checkpoint cfg\<rparr>"
    by (auto simp: file_db_new_def split: option.splits)
  with client_new_resumes [OF assms(5) _ assms(7)] load show ?thesis by simp
qed

theorem restart_resumes_witness:
  "\<exists>c'. client_new sample_world file_db_ops (cl_files (client_shutdown file_db_ops
      \<lparr>cl_node = node_3, cl_rpc = None, cl_db = sample_home, cl_fallback = None,
       cl_load_external_fallback = False, cl_files = empty_files\<rparr>)) stored_config = Ok c' \<and>
     initial_checkpoint (consensus (cl_node c')) = root_of_slot 160"
proof -
  let ?c = "\<lparr>cl_node = node_3, cl_rpc = None, cl_db = sample_home, cl_fallback = None,
       cl_load_external_fallback = False, cl_files = empty_files\<rparr>"
  have "\<exists>c'. client_new sample_world file_db_ops fs stored_config = Ok c'" for fs
    by (simp add: client_new_def stored_config_def sample_config_def file_db_ops_def file_db_new_def
        file_load_checkpoint_def node_new_def sample_world_def outcome_simps split: option.split)
  then obtain c' where new: "client_new sample_world file_db_ops (cl_files (client_shutdown file_db_ops ?c))
      stored_config = Ok c'" by blast
  have "initial_checkpoint (consensus (cl_node c')) = root_of_slot 160 \<and> no_payloads (cl_node c')"
  proof (rule restart_resumes [OF _ _ _ _ _ _ new])
    show "get_last_checkpoint (cl_node ?c) = Some (root_of_slot 160)"
      by (simp add: get_last_checkpoint_def node_3_def client_3_def client_2_def)
    show "file_save_checkpoint (cl_db ?c) (root_of_slot 160) (cl_files ?c) =
        (Ok (), empty_files\<lparr>fs_files := Map.empty(''data/checkpoint'' \<mapsto> root_of_slot 160)\<rparr>)"
      by (simp add: file_save_checkpoint_def empty_files_def sample_home_def checkpoint_path_def)
  qed (simp_all add: root_of_slot_def empty_files_def stored_config_def sample_config_def file_db_new_def sample_home_def)
  with new show ?thesis by blast
qed

text \<open>C32: The vote of the community services: among the first roots that the healthy services answer
  with, those of the greatest epoch are counted, and one with the most votes is elected; with no
  answer at all there is an error. \<open>order\<close> enumerates the distinct roots in any order.\<close>

theorem fetch_latest_checkpoint_elects:
  assumes "\<And>xs. set (order xs) = set xs" "services f network = Some ss"
  shows "if valid_slots H (filter sv_state ss) = []
    then \<exists>m. fetch_latest_checkpoint H order f network = Err (Message m)
    else \<exists>ck. fetch_latest_checkpoint H order f network = Ok ck \<and>
      ck \<in> set (max_epoch_roots H (filter sv_state ss)) \<and>
      (\<forall>r. count_list (max_epoch_roots H (filter sv_state ss)) r \<le>
           count_list (max_epoch_roots H (filter sv_state ss)) ck)"
proof -
  let ?roots = "max_epoch_roots H (filter sv_state ss)"
  have eq: "fetch_latest_checkpoint H order f network =
      fetch_latest_checkpoint_from_services H order (filter sv_state ss)"
    by (simp add: fetch_latest_checkpoint_def get_healthy_fallback_services_def assms(2))
  show ?thesis
  proof (cases "valid_slots H (filter sv_state ss) = []")
    case False
    then have "order (remdups ?roots) \<noteq> []"
      using assms(1) [of "remdups ?roots"] max_epoch_roots_nonempty [of H "filter sv_state ss"] by auto
    then obtain ck where ck: "max_by_key (count_list ?roots) (order (remdups ?roots)) = Some ck"
      by (cases "max_by_key (count_list ?roots) (order (remdups ?roots))") auto
    note max = max_by_key_Some [OF ck, unfolded assms(1), simplified]
    have "count_list ?roots r \<le> count_list ?roots ck" for r
      using max(2) [of r] by (cases "r \<in> set ?roots") (simp_all add: count_notin)
    with False ck max(1) show ?thesis
      by (simp add: eq fetch_latest_checkpoint_from_services_eq)
  qed (simp add: eq fetch_latest_checkpoint_from_services_eq)
qed

definition voting_slot :: "u64 \<Rightarrow> h256 \<Rightarrow> raw_slot_response" where
  "voting_slot epoch root = \<lparr>rs_data = \<lparr>rs_slots =
     [\<lparr>si_slot = 0, si_block_root = None, si_state_root = None, si_epoch = 9, si_time = \<lparr>start_time = [], end_time = []\<rparr>\<rparr>,
      \<lparr>si_slot = 0, si_block_root = Some root, si_state_root = None, si_epoch = epoch,
       si_time = \<lparr>start_time = [], end_time = []\<rparr>\<rparr>]\<rparr>\<rparr>"

definition voting_service :: "string \<Rightarrow> bool \<Rightarrow> checkpoint_fallback_service" where
  "voting_service url st = \<lparr>sv_endpoint = url, sv_name = [], sv_state = st, sv_verification = True,
     sv_contacts = None, sv_notes = None, sv_health = []\<rparr>"

definition voting_io :: "unit fallback_io" where
  "voting_io = sample_io\<lparr>io_get_json := (\<lambda>url.
     if url = construct_url ''a'' then Ok (voting_slot 5 [1])
     else if url = construct_url ''b'' \<or> url = construct_url ''c'' then Ok (voting_slot 5 [2])
     else if url = construct_url ''d'' then Ok (voting_slot 4 [3]) else Err (Message []))\<rparr>"

definition voters :: "checkpoint_fallback_service list" where
  "voters = [voting_service ''a'' True, voting_service ''b'' True, voting_service ''c'' True,
     voting_service ''d'' True, voting_service ''e'' True, voting_service ''f'' False]"

theorem fetch_latest_checkpoint_elects_witness:
  "fetch_latest_checkpoint voting_io rev
     \<lparr>services = Map.empty(GOERLI \<mapsto> voters), networks = [MAINNET, GOERLI]\<rparr> GOERLI = Ok [2]"
proof -
  have slots: "valid_slots voting_io (filter sv_state voters) =
      [rs_slots (rs_data (voting_slot 5 [1])) ! 1, rs_slots (rs_data (voting_slot 5 [2])) ! 1,
       rs_slots (rs_data (voting_slot 5 [2])) ! 1, rs_slots (rs_data (voting_slot 4 [3])) ! 1]"
    by (simp add: valid_slots_def voters_def voting_service_def service_slot_def query_service_def
        voting_io_def construct_url_def voting_slot_def map_filter_simps)
  then have roots: "max_epoch_roots voting_io (filter sv_state voters) = [[1], [2], [2]]"
    by (simp add: max_epoch_roots_def voting_slot_def map_filter_simps)
  let ?f = "\<lparr>services = Map.empty(GOERLI \<mapsto> voters), networks = [MAINNET, GOERLI]\<rparr>"
  let ?votes = "[[1], [2], [2]] :: h256 list"
  have "valid_slots voting_io (filter sv_state voters) \<noteq> []" by (simp add: slots)
  then obtain ck where ck: "fetch_latest_checkpoint voting_io rev ?f GOERLI = Ok ck" "ck = [1] \<or> ck = [2]"
    "\<And>r. count_list ?votes r \<le> count_list ?votes ck"
    using fetch_latest_checkpoint_elects [of rev ?f GOERLI voters voting_io] by (auto simp: roots)
  from ck(2) ck(3) [of "[2]"] have "ck = [2]" by auto
  with ck(1) show ?thesis by simp
qed

text \<open>The configuration a builder makes: that of a file as it is, where nothing else is set; an explicit
  setting replaces the one of the file; and a network replaces the chain, the forks and the
  maximal age of a checkpoint, but not the default checkpoint of the file.\<close>

theorem build_config_correct:
  assumes "network_to_base_config D network = Ok base"
  shows "build_config D (set_config cfg client_builder_new) = Ok cfg \<and>
    build_config D (set_execution_rpc url (set_config cfg client_builder_new)) = Ok (cfg\<lparr>execution_rpc := url\<rparr>) \<and>
    build_config D (set_network network (set_config cfg client_builder_new)) =
      Ok (cfg\<lparr>chain := bc_chain base, forks := bc_forks base, max_checkpoint_age := bc_max_checkpoint_age base\<rparr>)"
  using assms
  by (simp add: build_config_def set_config_def set_execution_rpc_def set_network_def
      client_builder_new_def explicit_or_def to_base_config_keeps)

theorem build_config_correct_witness:
  "\<exists>base. network_to_base_config (\<lambda>_. Some [1]) GOERLI = Ok base \<and>
     build_config (\<lambda>_. Some [1]) (set_network GOERLI (set_config sample_config client_builder_new)) =
       Ok (sample_config\<lparr>chain := bc_chain base, forks := bc_forks base,
         max_checkpoint_age := bc_max_checkpoint_age base\<rparr>)"
proof -
  have "\<exists>base. network_to_base_config (\<lambda>_. Some [1]) GOERLI = Ok base"
    by (simp add: goerli_def hex_const_def hex_str_to_bytes_def outcome_simps)
  with build_config_correct [of "\<lambda>_. Some [1]" GOERLI] show ?thesis by blast
qed

subsection \<open>The RPC server\<close>

text \<open>C34: Where the head is too old at every reading of the clock, these requests fail: the
  account, code, call and block requests for the latest block; a storage request for any block; the
  estimate, the block number, the gas price and the sync status; and \<open>eth_coinbase\<close>, which panics.
  Every other request is answered the same at any time. Two of those read the head and do not
  look at its age: the number of transactions of the latest block is answered from the stale
  head, and so are the logs.\<close>

theorem requests_and_clock:
  assumes "\<And>k. \<not> is_ok (check_head_age (in_node S) (in_now S k))"
  shows "(if case q of
         GetBalance _ b \<Rightarrow> b = Latest
       | GetTransactionCount _ b \<Rightarrow> b = Latest
       | GetCode _ b \<Rightarrow> b = Latest
       | Call _ b \<Rightarrow> b = Latest
       | GetBlockByNumber b _ \<Rightarrow> b = Latest
       | GetStorageAt _ _ _ \<Rightarrow> True | EstimateGas _ \<Rightarrow> True | BlockNumber \<Rightarrow> True
       | GasPrice \<Rightarrow> True | SyncStatus \<Rightarrow> True | Coinbase \<Rightarrow> True
       | _ \<Rightarrow> False
     then \<not> is_ok (rpc_handle S q)
     else \<forall>f. rpc_handle (S\<lparr>in_now := f\<rparr>) q = rpc_handle S q) \<and>
    rpc_handle S Coinbase = Panic \<and>
    (\<forall>p. get_payload (in_node S) Latest = Ok p \<longrightarrow>
       rpc_handle S (GetBlockTransactionCountByNumber Latest) =
         Ok (AString (u64_to_hex_string (of_nat (length (transactions p))))))"
proof (intro conjI)
  show "if case q of
         GetBalance _ b \<Rightarrow> b = Latest
       | GetTransactionCount _ b \<Rightarrow> b = Latest
       | GetCode _ b \<Rightarrow> b = Latest
       | Call _ b \<Rightarrow> b = Latest
       | GetBlockByNumber b _ \<Rightarrow> b = Latest
       | GetStorageAt _ _ _ \<Rightarrow> True | EstimateGas _ \<Rightarrow> True | BlockNumber \<Rightarrow> True
       | GasPrice \<Rightarrow> True | SyncStatus \<Rightarrow> True | Coinbase \<Rightarrow> True
       | _ \<Rightarrow> False
     then \<not> is_ok (rpc_handle S q)
     else \<forall>f. rpc_handle (S\<lparr>in_now := f\<rparr>) q = rpc_handle S q"
    by (cases q) (simp_all add: handle_stale_head [OF assms] handle_any_clock handle_any_clock_tag del: rpc_handle.simps)
  show "rpc_handle S Coinbase = Panic" by (rule handle_stale_head(11) [OF assms])
qed (use transaction_count_answer in blast)

theorem requests_and_clock_witness:
  "\<not> is_ok (rpc_handle \<lparr>in_node = node_3, in_rpc = state_rpc, in_evm = sample_evm, in_format = sample_format,
     in_now = (\<lambda>_. 12000)\<rparr> (GetBalance ''0x00'' Latest))"
proof -
  let ?S = "\<lparr>in_node = node_3, in_rpc = state_rpc, in_evm = sample_evm, in_format = sample_format,
     in_now = (\<lambda>_. 12000)\<rparr> :: rpc_inner"
  have "check_head_age (in_node ?S) (in_now ?S k) = Err (OutOfSync 790)" for k
    by (simp add: check_head_age_def expected_current_slot_def node_3_def client_3_def get_header_def
        sample_config_def)
  then have "\<not> is_ok (check_head_age (in_node ?S) (in_now ?S k))" for k by simp
  from requests_and_clock [OF this, of "GetBalance ''0x00'' Latest"] show ?thesis by simp
qed

text \<open>Where the head is too old, the handlers that need it answer with the error of the node, and
  \<open>eth_coinbase\<close>, which unwraps the answer, panics.\<close>

theorem stale_head_refused:
  assumes "check_head_age (in_node S) (in_now S 0) = Err e"
  shows "eth_block_number S = Err (CustomError (rf_report (in_format S) (NodeReport e))) \<and>
    eth_gas_price S = Err (CustomError (rf_report (in_format S) (NodeReport e))) \<and>
    eth_call S opts Latest = Err (to_json_rpsee_error (in_format S) e) \<and>
    eth_estimate_gas S opts = Err (to_json_rpsee_error (in_format S) e) \<and>
    eth_coinbase S = Panic"
  using assms
  by (simp add: eth_block_number_def eth_gas_price_def eth_call_def eth_estimate_gas_def eth_coinbase_def
      node_call_def node_estimate_gas_def check_blocktag_age_def convert_err_def out_of_sync_Err)

theorem stale_head_refused_witness:
  "eth_coinbase \<lparr>in_node = node_3, in_rpc = state_rpc, in_evm = sample_evm, in_format = sample_format,
     in_now = (\<lambda>_. 12000)\<rparr> = Panic"
proof -
  let ?S = "\<lparr>in_node = node_3, in_rpc = state_rpc, in_evm = sample_evm, in_format = sample_format,
     in_now = (\<lambda>_. 12000)\<rparr> :: rpc_inner"
  have "check_head_age (in_node ?S) (in_now ?S 0) = Err (OutOfSync 790)"
    by (simp add: check_head_age_def expected_current_slot_def node_3_def client_3_def get_header_def
        sample_config_def)
  from stale_head_refused [OF this] show ?thesis by simp
qed

text \<open>Numbers are answered in their shortest hexadecimal form with the prefix \<open>0x\<close>, for an
  encoder that pads the digits with zeros to any length.\<close>

theorem format_hex_correct:
  assumes "\<And>x. \<exists>k. rf_encode_hex_u256 F x = ''0x'' @ replicate k (CHR ''0'') @ show_radix 16 (unat x)"
  shows "format_hex F x = Ok (''0x'' @ show_radix 16 (unat x)) \<and>
    (show_radix 16 (unat x) = ''0'' \<or> hd (show_radix 16 (unat x)) \<noteq> CHR ''0'')"
proof -
  from assms obtain k where
    "rf_encode_hex_u256 F x = ''0x'' @ replicate k (CHR ''0'') @ show_radix 16 (unat x)" by blast
  then have "format_hex F x = Ok (''0x'' @ show_radix 16 (unat x))" by (rule format_hex_eq)
  moreover have "show_radix 16 (0 :: nat) = ''0''" by (simp add: show_radix.simps digit_char_def)
  ultimately show ?thesis using hd_show_radix [of "unat x"] by (cases "unat x = 0") simp_all
qed

theorem format_hex_correct_witness:
  "format_hex sample_format 255 = Ok ''0xff''"
proof -
  have "\<exists>k. rf_encode_hex_u256 sample_format x = ''0x'' @ replicate k (CHR ''0'') @ show_radix 16 (unat x)" for x
    by (rule exI [of _ 2]) (simp add: sample_format_def numeral_2_eq_2)
  from format_hex_correct [OF this, of 255] show ?thesis
    using char_of_char [of "CHR ''f''", where 'a = nat]
    by (simp add: show_radix.simps digit_char_def)
qed

end
